(* ===== verification/Prelude.thy ===== *)
theory Prelude
  imports
    Main
    "HOL-Library.Word"
    "HOL-Library.AList"
    "HOL-Library.Multiset"
    "HOL-Library.List_Lexorder"
    "HOL-Library.Char_ord"
begin

text \<open>
  What the components share: the result type of fallible code, the machine integers, the parts of
  Rust's standard library the client calls (integer parsing and printing, string splitting,
  durations), the loop of an actor over its mailbox, and two interfaces (a codec and an actor with
  an invariant) whose consequences are proved once.
\<close>

named_theorems rust_simps \<open>definitions of small helpers that component proofs always unfold\<close>
named_theorems outcome_splits \<open>case splits on results\<close>

section \<open>Results\<close>

text \<open>
  A Rust function returning \<open>Result\<close> gives \<open>Ok\<close> or \<open>Err\<close>; \<open>Panic\<close> is the outcome of
  \<open>unwrap\<close> or \<open>expect\<close> on the wrong variant and of \<open>unreachable!\<close>.
\<close>

datatype ('e, 'a) outcome = Ok 'a | Err 'e | Panic

fun bind_outcome :: "('e, 'a) outcome \<Rightarrow> ('a \<Rightarrow> ('e, 'b) outcome) \<Rightarrow> ('e, 'b) outcome" where
  "bind_outcome (Ok a) f = f a"
| "bind_outcome (Err e) f = Err e"
| "bind_outcome Panic f = Panic"

fun map_ok :: "('a \<Rightarrow> 'b) \<Rightarrow> ('e, 'a) outcome \<Rightarrow> ('e, 'b) outcome" where
  "map_ok f (Ok a) = Ok (f a)"
| "map_ok f (Err e) = Err e"
| "map_ok f Panic = Panic"

fun map_err :: "('e \<Rightarrow> 'f) \<Rightarrow> ('e, 'a) outcome \<Rightarrow> ('f, 'a) outcome" where
  "map_err f (Ok a) = Ok a"
| "map_err f (Err e) = Err (f e)"
| "map_err f Panic = Panic"

fun is_ok :: "('e, 'a) outcome \<Rightarrow> bool" where
  "is_ok (Ok a) = True"
| "is_ok _ = False"

text \<open>A loop pushing \<open>f(x)?\<close> for each \<open>x\<close>: it stops at the first failure.\<close>

fun collect :: "('a \<Rightarrow> ('e, 'b) outcome) \<Rightarrow> 'a list \<Rightarrow> ('e, 'b list) outcome" where
  "collect f [] = Ok []"
| "collect f (x # xs) =
     bind_outcome (f x) (\<lambda>y. bind_outcome (collect f xs) (\<lambda>ys. Ok (y # ys)))"

fun unwrap :: "'a option \<Rightarrow> ('e, 'a) outcome" where
  "unwrap (Some a) = Ok a"
| "unwrap None = Panic"

lemmas outcome_split_rules [outcome_splits] = outcome.split outcome.split_asm

lemma bind_outcome_Ok_iff [simp]:
  "bind_outcome r f = Ok b \<longleftrightarrow> (\<exists>a. r = Ok a \<and> f a = Ok b)"
  by (cases r) auto

lemma bind_outcome_Panic_iff:
  "bind_outcome r f = Panic \<longleftrightarrow> r = Panic \<or> (\<exists>a. r = Ok a \<and> f a = Panic)"
  by (cases r) auto

lemma bind_outcome_Err_iff:
  "bind_outcome r f = Err e \<longleftrightarrow> r = Err e \<or> (\<exists>a. r = Ok a \<and> f a = Err e)"
  by (cases r) auto

lemma map_ok_Err_iff: "map_ok f r = Err e \<longleftrightarrow> r = Err e"
  by (cases r) auto

lemma unwrap_not_Err [simp]: "unwrap x \<noteq> Err e"
  by (cases x) auto

lemma map_ok_Ok_iff [simp]: "map_ok f r = Ok b \<longleftrightarrow> (\<exists>a. r = Ok a \<and> f a = b)"
  by (cases r) auto

lemma map_err_Ok_iff [simp]: "map_err f r = Ok b \<longleftrightarrow> r = Ok b"
  by (cases r) auto

lemma unwrap_Ok_iff [simp]: "unwrap x = Ok a \<longleftrightarrow> x = Some a"
  by (cases x) auto

lemma collect_Ok_length: "collect f xs = Ok ys \<Longrightarrow> length ys = length xs"
  by (induction xs arbitrary: ys) auto

lemma collect_Ok_list_all2: "collect f xs = Ok ys \<longleftrightarrow> list_all2 (\<lambda>x y. f x = Ok y) xs ys"
  by (induction xs arbitrary: ys) (auto simp: list_all2_Cons1)

section \<open>Integers and durations\<close>

type_synonym u16 = "16 word"
type_synonym u32 = "32 word"
type_synonym u64 = "64 word"
type_synonym usize = "64 word"
type_synonym i32 = "32 word" \<comment> \<open>read with \<open>sint\<close>\<close>
type_synonym i64 = "64 word" \<comment> \<open>read with \<open>sint\<close>\<close>

text \<open>An \<open>i64\<close> and the \<open>u64\<close> of the same bits.\<close>

lemma sint_unat: "unat (w :: 64 word) < 2 ^ 63 \<Longrightarrow> sint w = int (unat w)"
proof -
  assume "unat w < 2 ^ 63"
  then have "int (unat w) < int (2 ^ 63)" by (simp only: of_nat_less_iff)
  moreover have u: "uint w = int (unat w)" by simp
  ultimately have "uint w < 2 ^ 63" by (simp only: u of_nat_power of_nat_numeral)
  moreover have "sint w = signed_take_bit 63 (uint w)" unfolding sint_uint by simp
  moreover have "- (2 ^ 63) \<le> uint w" by (rule order_trans [OF _ uint_ge_0]) simp
  ultimately show "sint w = int (unat w)"
    using signed_take_bit_int_eq_self [of 63 "uint w"] by (simp only: u)
qed

lemma sint_negative: "sint (w :: 64 word) < 0 \<Longrightarrow> 2 ^ 63 \<le> unat w"
  using sint_unat [of w] by (metis leI of_nat_0_le_iff not_le)

lemma unat_inc: "(a :: usize) < b \<Longrightarrow> unat (a + 1) = unat a + 1"
proof -
  assume "a < b"
  then have "unat a + 1 < 2 ^ 64"
    using unsigned_less [of b, where ?'a = nat] by (simp add: word_less_nat_alt)
  then show ?thesis by (simp add: unat_word_ariths)
qed

abbreviation u64_max :: nat where "u64_max \<equiv> 2 ^ 64 - 1"

text \<open>\<open>std::time::Duration\<close>, in nanoseconds.\<close>

type_synonym duration = nat

definition from_millis :: "u64 \<Rightarrow> duration" where
  "from_millis ms = unat ms * 1000000"

definition from_secs :: "u64 \<Rightarrow> duration" where
  "from_secs s = unat s * 1000000000"

definition as_millis :: "duration \<Rightarrow> nat" where
  "as_millis d = d div 1000000"

lemma as_millis_from_millis [simp]: "as_millis (from_millis ms) = unat ms"
  by (simp add: as_millis_def from_millis_def)

section \<open>Characters and strings\<close>

text \<open>
  A Rust \<open>String\<close> is its list of UTF-8 bytes. Lower-casing changes the ASCII letters and, of the
  other characters, the Kelvin sign (the one whose lower case is an ASCII letter); the client
  only compares the result with ASCII names.
\<close>

definition ascii_lower :: "char \<Rightarrow> char" where
  "ascii_lower c =
     (let n = (of_char c :: nat) in if 65 \<le> n \<and> n \<le> 90 then char_of (n + 32) else c)"

fun to_lowercase :: "string \<Rightarrow> string" where
  "to_lowercase (a # b # c # s) =
     (if a = char_of (226 :: nat) \<and> b = char_of (132 :: nat) \<and> c = char_of (170 :: nat)
      then CHR ''k'' # to_lowercase s
      else ascii_lower a # to_lowercase (b # c # s))"
| "to_lowercase s = map ascii_lower s"

definition eq_ignore_ascii_case :: "string \<Rightarrow> string \<Rightarrow> bool" where
  "eq_ignore_ascii_case s t \<longleftrightarrow> map ascii_lower s = map ascii_lower t"

fun split_on :: "char \<Rightarrow> string \<Rightarrow> string list" where
  "split_on c [] = [[]]"
| "split_on c (x # xs) =
     (if x = c then [] # split_on c xs
      else (case split_on c xs of [] \<Rightarrow> [[x]] | y # ys \<Rightarrow> (x # y) # ys))"

lemma split_on_nonempty [simp]: "split_on c s \<noteq> []"
  by (induction s) (auto split: list.splits)

lemma split_on_absent: "c \<notin> set s \<Longrightarrow> split_on c s = [s]"
  by (induction s) auto

lemma split_on_append: "c \<notin> set s \<Longrightarrow> split_on c (s @ c # t) = s # split_on c t"
  by (induction s) auto

lemma eq_ignore_ascii_case_refl [simp]: "eq_ignore_ascii_case s s"
  by (simp add: eq_ignore_ascii_case_def)

lemma eq_ignore_ascii_case_sym: "eq_ignore_ascii_case s t \<longleftrightarrow> eq_ignore_ascii_case t s"
  by (auto simp: eq_ignore_ascii_case_def)

lemma eq_ignore_ascii_case_trans:
  "eq_ignore_ascii_case s t \<Longrightarrow> eq_ignore_ascii_case t u \<Longrightarrow> eq_ignore_ascii_case s u"
  by (simp add: eq_ignore_ascii_case_def)

subsection \<open>Parsing and printing integers\<close>

text \<open>
  \<open>from_str\<close> of the integer types: a sign (a minus only for signed types), then digits from
  left to right; a character that is no digit and an overflow are reported where they are met.
\<close>

datatype int_error_kind = EmptyInput | InvalidDigit | PosOverflow | NegOverflow

definition to_digit :: "char \<Rightarrow> nat option" where
  "to_digit c = (let n = (of_char c :: nat) in if 48 \<le> n \<and> n \<le> 57 then Some (n - 48) else None)"

definition digit_char :: "nat \<Rightarrow> char" where
  "digit_char d = char_of (48 + d)"

fun parse_digits ::
  "int_error_kind \<Rightarrow> nat \<Rightarrow> nat \<Rightarrow> string \<Rightarrow> (int_error_kind, nat) outcome" where
  "parse_digits over limit acc [] = Ok acc"
| "parse_digits over limit acc (c # cs) =
     (case to_digit c of
        None \<Rightarrow> Err InvalidDigit
      | Some d \<Rightarrow>
          (let v = acc * 10 + d in
           if v > limit then Err over else parse_digits over limit v cs))"

definition parse_unsigned :: "nat \<Rightarrow> string \<Rightarrow> (int_error_kind, nat) outcome" where
  "parse_unsigned limit s =
     (if s = [] then Err EmptyInput
      else if s = ''+'' \<or> s = ''-'' then Err InvalidDigit
      else if hd s = CHR ''+'' then parse_digits PosOverflow limit 0 (tl s)
      else parse_digits PosOverflow limit 0 s)"

definition parse_u16 :: "string \<Rightarrow> (int_error_kind, u16) outcome" where
  "parse_u16 s = map_ok of_nat (parse_unsigned (2 ^ 16 - 1) s)"

definition parse_u64 :: "string \<Rightarrow> (int_error_kind, u64) outcome" where
  "parse_u64 s = map_ok of_nat (parse_unsigned u64_max s)"

definition parse_i64 :: "string \<Rightarrow> (int_error_kind, int) outcome" where
  "parse_i64 s =
     (if s = [] then Err EmptyInput
      else if s = ''+'' \<or> s = ''-'' then Err InvalidDigit
      else if hd s = CHR ''+'' then map_ok int (parse_digits PosOverflow (2 ^ 63 - 1) 0 (tl s))
      else if hd s = CHR ''-''
        then map_ok (\<lambda>n. - int n) (parse_digits NegOverflow (2 ^ 63) 0 (tl s))
      else map_ok int (parse_digits PosOverflow (2 ^ 63 - 1) 0 s))"

fun show_int_error :: "int_error_kind \<Rightarrow> string" where
  "show_int_error EmptyInput = ''cannot parse integer from empty string''"
| "show_int_error InvalidDigit = ''invalid digit found in string''"
| "show_int_error PosOverflow = ''number too large to fit in target type''"
| "show_int_error NegOverflow = ''number too small to fit in target type''"

text \<open>\<open>from_str\<close> of \<open>bool\<close>; the error is its message.\<close>

definition parse_bool :: "string \<Rightarrow> (string, bool) outcome" where
  "parse_bool s =
     (if s = ''true'' then Ok True
      else if s = ''false'' then Ok False
      else Err ''provided string was not `true` or `false`'')"

fun show_nat :: "nat \<Rightarrow> string" where
  "show_nat n =
     (if n < 10 then [digit_char n] else show_nat (n div 10) @ [digit_char (n mod 10)])"

declare show_nat.simps [simp del]

definition show_u64 :: "u64 \<Rightarrow> string" where
  "show_u64 w = show_nat (unat w)"

definition show_int :: "int \<Rightarrow> string" where
  "show_int i = (if i < 0 then CHR ''-'' # show_nat (nat (- i)) else show_nat (nat i))"

lemma digit_char_values [simp]:
  "digit_char 0 = CHR ''0''" "digit_char (Suc 0) = CHR ''1''" "digit_char 1 = CHR ''1''"
  "digit_char 2 = CHR ''2''" "digit_char 3 = CHR ''3''" "digit_char 4 = CHR ''4''"
  "digit_char 5 = CHR ''5''" "digit_char 6 = CHR ''6''" "digit_char 7 = CHR ''7''"
  "digit_char 8 = CHR ''8''" "digit_char 9 = CHR ''9''"
  by code_simp+

lemma to_digit_values [simp]:
  "to_digit (CHR ''0'') = Some 0" "to_digit (CHR ''1'') = Some 1" "to_digit (CHR ''2'') = Some 2"
  "to_digit (CHR ''3'') = Some 3" "to_digit (CHR ''4'') = Some 4" "to_digit (CHR ''5'') = Some 5"
  "to_digit (CHR ''6'') = Some 6" "to_digit (CHR ''7'') = Some 7" "to_digit (CHR ''8'') = Some 8"
  "to_digit (CHR ''9'') = Some 9"
  by code_simp+

lemma of_char_digit_char: "d < 10 \<Longrightarrow> (of_char (digit_char d) :: nat) = 48 + d"
  by (simp add: digit_char_def)

lemma to_digit_digit_char [simp]: "d < 10 \<Longrightarrow> to_digit (digit_char d) = Some d"
  by (simp add: to_digit_def of_char_digit_char)

lemma to_digit_bound: "to_digit c = Some d \<Longrightarrow> d < 10"
  by (auto simp: to_digit_def Let_def split: if_splits)

lemma show_nat_nonempty [simp]: "show_nat n \<noteq> []"
  by (subst show_nat.simps) simp

lemma show_nat_digits: "c \<in> set (show_nat n) \<Longrightarrow> \<exists>d < 10. c = digit_char d"
proof (induction n rule: show_nat.induct)
  case (1 n)
  show ?case
  proof (cases "n < 10")
    case True
    with 1(2) show ?thesis by (subst (asm) show_nat.simps) auto
  next
    case False
    with 1(2) have "c \<in> set (show_nat (n div 10)) \<or> c = digit_char (n mod 10)"
      by (subst (asm) show_nat.simps) auto
    with 1(1) False show ?thesis by (auto intro: exI [of _ "n mod 10"])
  qed
qed

lemma show_nat_no_sign:
  assumes "c \<in> set (show_nat n)"
  shows "c \<noteq> CHR ''+'' \<and> c \<noteq> CHR ''-'' \<and> c \<noteq> CHR '':'' \<and> c \<noteq> CHR ''/''"
proof -
  obtain d where d: "d < 10" "c = digit_char d" using show_nat_digits [OF assms] by blast
  then have "(of_char c :: nat) = 48 + d" by (simp add: of_char_digit_char)
  with d(1) show ?thesis by auto
qed

lemma parse_digits_append:
  "parse_digits over limit acc (s @ t) =
     bind_outcome (parse_digits over limit acc s) (\<lambda>v. parse_digits over limit v t)"
  by (induction s arbitrary: acc) (auto simp: Let_def split: option.splits)

lemma parse_digits_show_nat:
  "n \<le> limit \<Longrightarrow> parse_digits over limit 0 (show_nat n) = Ok n"
proof (induction n rule: show_nat.induct)
  case (1 n)
  show ?case
  proof (cases "n < 10")
    case True
    with 1 show ?thesis by (subst show_nat.simps) simp
  next
    case False
    with 1 have "parse_digits over limit 0 (show_nat (n div 10)) = Ok (n div 10)" by simp
    with False 1 show ?thesis
      by (subst show_nat.simps) (simp add: parse_digits_append)
  qed
qed

text \<open>Printing a number and parsing it again gives the number.\<close>

lemma parse_unsigned_show_nat: "n \<le> limit \<Longrightarrow> parse_unsigned limit (show_nat n) = Ok n"
proof -
  assume n: "n \<le> limit"
  have "hd (show_nat n) \<noteq> CHR ''+''" and "show_nat n \<noteq> ''+''" and "show_nat n \<noteq> ''-''"
    using show_nat_no_sign [of "hd (show_nat n)" n] show_nat_no_sign [of "CHR ''+''" n]
      show_nat_no_sign [of "CHR ''-''" n] hd_in_set [OF show_nat_nonempty]
    by auto
  with n show ?thesis by (simp add: parse_unsigned_def parse_digits_show_nat)
qed

lemma unat_u64_bound: "unat (w :: u64) \<le> u64_max"
  using unsigned_less [of w, where ?'a = nat] by simp

lemma parse_u64_show_u64 [simp]: "parse_u64 (show_u64 w) = Ok w"
  using unat_u64_bound [of w] by (simp add: parse_u64_def show_u64_def parse_unsigned_show_nat)

lemma parse_digits_bound: "parse_digits over limit acc s = Ok v \<Longrightarrow> acc \<le> limit \<Longrightarrow> v \<le> limit"
  by (induction s arbitrary: acc) (auto simp: Let_def split: option.splits if_splits)

lemma parse_unsigned_bound: "parse_unsigned limit s = Ok v \<Longrightarrow> v \<le> limit"
  by (auto simp: parse_unsigned_def split: if_splits dest: parse_digits_bound)

lemma parse_i64_range: "parse_i64 s = Ok v \<Longrightarrow> - (2 ^ 63) \<le> v \<and> v < 2 ^ 63"
  by (auto simp: parse_i64_def split: if_splits dest!: parse_digits_bound)

section \<open>Actors\<close>

text \<open>
  \<open>while let Some(msg) = receiver.recv().await { ... }\<close>: the messages are handled one at a
  time in the order they were sent, each step giving the new state and what it sends out.
\<close>

fun run_actor :: "('s \<Rightarrow> 'm \<Rightarrow> 's \<times> 'o list) \<Rightarrow> 's \<Rightarrow> 'm list \<Rightarrow> 's \<times> 'o list" where
  "run_actor step s [] = (s, [])"
| "run_actor step s (m # ms) =
     (let (s1, o1) = step s m; (s2, o2) = run_actor step s1 ms in (s2, o1 @ o2))"

lemma run_actor_append:
  "run_actor step s (ms @ ns) =
     (let (s1, o1) = run_actor step s ms; (s2, o2) = run_actor step s1 ns in (s2, o1 @ o2))"
  by (induction ms arbitrary: s) (auto simp: Let_def split: prod.splits)

lemma fst_run_actor_Cons: "fst (run_actor step s (m # ms)) = fst (run_actor step (fst (step s m)) ms)"
  by (auto simp: Let_def split: prod.splits)

lemma snd_run_actor_Cons:
  "snd (run_actor step s (m # ms)) = snd (step s m) @ snd (run_actor step (fst (step s m)) ms)"
  by (auto simp: Let_def split: prod.splits)

text \<open>An actor whose every step keeps an invariant and lets only allowed outputs out.\<close>

locale actor_invariant =
  fixes step :: "'s \<Rightarrow> 'm \<Rightarrow> 's \<times> 'o list"
    and inv :: "'s \<Rightarrow> bool"
    and allowed :: "'o \<Rightarrow> bool"
  assumes step_inv: "inv s \<Longrightarrow> inv (fst (step s m))"
    and step_allowed: "inv s \<Longrightarrow> x \<in> set (snd (step s m)) \<Longrightarrow> allowed x"
begin

lemma run_inv: "inv s \<Longrightarrow> inv (fst (run_actor step s ms))"
  by (induction ms arbitrary: s) (simp_all add: fst_run_actor_Cons step_inv del: run_actor.simps(2))

lemma run_allowed: "inv s \<Longrightarrow> x \<in> set (snd (run_actor step s ms)) \<Longrightarrow> allowed x"
proof (induction ms arbitrary: s)
  case Nil
  then show ?case by simp
next
  case (Cons m ms)
  from Cons.prems(2) have "x \<in> set (snd (step s m)) \<or> x \<in> set (snd (run_actor step (fst (step s m)) ms))"
    by (simp add: snd_run_actor_Cons del: run_actor.simps(2))
  with Cons.IH step_inv [OF Cons.prems(1)] step_allowed [OF Cons.prems(1)] show ?case by blast
qed

end

text \<open>
  An actor that owes answers: what a step takes in is either still held afterwards or given out,
  so over a run nothing is lost and nothing is given twice.
\<close>

locale actor_account =
  fixes step :: "'s \<Rightarrow> 'm \<Rightarrow> 's \<times> 'o list"
    and held :: "'s \<Rightarrow> 'c multiset"
    and taken :: "'m \<Rightarrow> 'c multiset"
    and given :: "'o \<Rightarrow> 'c multiset"
    and inv :: "'s \<Rightarrow> bool"
  assumes balance: "inv s \<Longrightarrow>
      held (fst (step s m)) + sum_list (map given (snd (step s m))) = held s + taken m"
    and keeps: "inv s \<Longrightarrow> inv (fst (step s m))"
begin

lemma run_keeps: "inv s \<Longrightarrow> inv (fst (run_actor step s ms))"
  by (induction ms arbitrary: s) (simp_all add: fst_run_actor_Cons keeps del: run_actor.simps(2))

lemma run_balance: "inv s \<Longrightarrow>
    held (fst (run_actor step s ms)) + sum_list (map given (snd (run_actor step s ms))) =
      held s + sum_list (map taken ms)"
proof (induction ms arbitrary: s)
  case (Cons m ms)
  have "held (fst (run_actor step (fst (step s m)) ms))
      + sum_list (map given (snd (run_actor step (fst (step s m)) ms)))
      = held (fst (step s m)) + sum_list (map taken ms)"
    by (rule Cons.IH [OF keeps [OF Cons.prems]])
  with balance [OF Cons.prems, of m] show ?case
    by (simp add: fst_run_actor_Cons snd_run_actor_Cons ac_simps del: run_actor.simps(2))
qed simp

end

text \<open>An actor that has stopped: it keeps its state, whatever is sent to it.\<close>

locale actor_stop =
  fixes step :: "'s \<Rightarrow> 'm \<Rightarrow> 's \<times> 'o list"
    and stopped :: "'s \<Rightarrow> bool"
  assumes stopped_step: "stopped s \<Longrightarrow> fst (step s m) = s"
begin

lemma stopped_run: "stopped s \<Longrightarrow> fst (run_actor step s ms) = s"
  by (induction ms) (simp_all add: fst_run_actor_Cons stopped_step del: run_actor.simps(2))

end

section \<open>Loops\<close>

text \<open>
  \<open>loop { ... }\<close> around a body that either returns a result or goes round again. A loop that goes
  round for ever is \<open>None\<close>.
\<close>

partial_function (option) repeat :: "('s \<Rightarrow> 'r option \<times> 's) \<Rightarrow> 's \<Rightarrow> ('r \<times> 's) option" where
  "repeat body s =
     (case body s of
        (Some r, s1) \<Rightarrow> Some (r, s1)
      | (None, s1) \<Rightarrow> repeat body s1)"

lemma repeat_return: "body s = (Some r, s1) \<Longrightarrow> repeat body s = Some (r, s1)"
  by (subst repeat.simps) simp

lemma repeat_again: "body s = (None, s1) \<Longrightarrow> repeat body s = repeat body s1"
  by (subst repeat.simps) simp

text \<open>A body that never returns from a set of states it never leaves makes the loop run for ever.\<close>

lemma repeat_diverges:
  assumes stays: "\<And>s. s \<in> D \<Longrightarrow> fst (body s) = None \<and> snd (body s) \<in> D"
    and "s \<in> D"
  shows "repeat body s = None"
proof -
  have "b = body \<longrightarrow> s \<notin> D" if "repeat b s = Some y" for b y
    using that
  proof (rule repeat.raw_induct [rotated], goal_cases)
    case (1 self b s y)
    then show ?case using stays [of s] by (cases "b s"; cases y) (auto split: option.splits)
  qed
  with assms(2) show ?thesis by (cases "repeat body s") auto
qed

text \<open>What every round keeps, and what the last round establishes, holds of the result.\<close>

lemma repeat_result:
  assumes again: "\<And>s s1. P s \<Longrightarrow> body s = (None, s1) \<Longrightarrow> P s1"
    and return: "\<And>s r s1. P s \<Longrightarrow> body s = (Some r, s1) \<Longrightarrow> Q r s1"
    and "P s" "repeat body s = Some (r, s1)"
  shows "Q r s1"
proof -
  have "b = body \<longrightarrow> P s \<longrightarrow> Q (fst y) (snd y)" if "repeat b s = Some y" for b y
    using that
  proof (rule repeat.raw_induct [rotated], goal_cases)
    case (1 self b s y)
    then show ?case
      using again [of s] return [of s] by (cases "b s"; cases y) (auto split: option.splits)
  qed
  with assms(3,4) show ?thesis by force
qed

section \<open>Codecs\<close>

text \<open>An encoder and the decoder that reads it back, on the values that have a wire form.\<close>

locale codec =
  fixes enc :: "'a \<Rightarrow> 'w"
    and dec :: "'w \<Rightarrow> ('e, 'a) outcome"
    and valid :: "'a \<Rightarrow> bool"
  assumes dec_enc: "valid x \<Longrightarrow> dec (enc x) = Ok x"
begin

lemma enc_inject: "valid x \<Longrightarrow> valid y \<Longrightarrow> enc x = enc y \<longleftrightarrow> x = y"
  using dec_enc by (metis outcome.inject(1))

lemma collect_dec_enc: "(\<And>x. x \<in> set xs \<Longrightarrow> valid x) \<Longrightarrow> collect dec (map enc xs) = Ok xs"
  by (induction xs) (auto simp: dec_enc)

end

end
