(* ===== verification/Types.thy ===== *)
theory Types
  imports Prelude Complex_Main
begin

text \<open>
  The public types of \<open>trogon-eventstore/src/types.rs\<close> (and \<open>VNodeState\<close> of
  \<open>operations/gossip.rs\<close>, which \<open>NodePreference\<close> matches on): credentials, stream states and
  positions, events, errors, persistent subscription settings and filters, with their small
  operations. A struct is a record whose fields carry a short prefix of the struct's name; an
  enum's constructors keep the source's names, prefixed where two enums share one.
\<close>

type_synonym bytes = string
type_synonym uuid = "128 word"

text \<open>A double: finite ones are rationals.\<close>

datatype f64 = Finite rat | PosInfinity | NegInfinity | NaN

text \<open>\<open>i32 as f64\<close> and \<open>i64 as f64\<close> of small values are exact.\<close>

definition f64_of_i32 :: "i32 \<Rightarrow> f64" where
  "f64_of_i32 w = Finite (of_int (sint w))"

text \<open>\<open>as usize\<close> of an \<open>i32\<close> or \<open>i64\<close> sign-extends; \<open>as i32\<close> of a wider integer truncates.\<close>

definition i32_as_usize :: "i32 \<Rightarrow> usize" where
  "i32_as_usize w = scast w"

definition u64_as_i32 :: "u64 \<Rightarrow> i32" where
  "u64_as_i32 w = ucast w"

lemma u64_as_i32_range: "- (2 ^ 31) \<le> sint (u64_as_i32 w)" "sint (u64_as_i32 w) < 2 ^ 31"
  using sint_ge [of "u64_as_i32 w"] sint_lt [of "u64_as_i32 w"] by simp_all

lemma u64_as_i32_exact: "sint (u64_as_i32 w) = uint w \<longleftrightarrow> w < 2 ^ 31"
proof -
  have "sint (u64_as_i32 w) = uint w" if "uint w < 2 ^ 31"
  proof -
    have "- (2 ^ 31) \<le> uint w" by (rule order_trans [OF _ uint_ge_0]) simp
    then have "signed_take_bit 31 (uint w) = uint w"
      using that by (rule signed_take_bit_int_eq_self)
    then show ?thesis using that by (simp add: u64_as_i32_def sint_uint unsigned_ucast_eq take_bit_int_eq_self)
  qed
  moreover have "w < 2 ^ 31 \<longleftrightarrow> uint w < 2 ^ 31" by (simp add: word_less_def)
  ultimately show ?thesis using u64_as_i32_range(2) [of w] by auto
qed

definition millis_as_i32 :: "duration \<Rightarrow> i32" where
  "millis_as_i32 d = of_nat (as_millis d)"

definition millis_as_u64 :: "duration \<Rightarrow> u64" where
  "millis_as_u64 d = of_nat (as_millis d)"

section \<open>Credentials\<close>

datatype retry = Indefinitely | Only usize

record credentials =
  cr_login :: bytes
  cr_password :: bytes

definition credentials_new :: "bytes \<Rightarrow> bytes \<Rightarrow> credentials" where
  "credentials_new l p = \<lparr>cr_login = l, cr_password = p\<rparr>"

datatype authentication = Basic credentials | Bearer bytes

definition authentication_basic :: "bytes \<Rightarrow> bytes \<Rightarrow> authentication" where
  "authentication_basic l p = Basic (credentials_new l p)"

definition authentication_bearer :: "bytes \<Rightarrow> authentication" where
  "authentication_bearer token = Bearer token"

fun authentication_kind :: "authentication \<Rightarrow> string" where
  "authentication_kind (Basic _) = ''basic''"
| "authentication_kind (Bearer _) = ''bearer''"

definition authentication_from :: "credentials \<Rightarrow> authentication" where
  "authentication_from c = Basic c"

section \<open>Stream states and positions\<close>

datatype stream_state = Any | StreamExists | NoStream | StreamRevision u64

datatype current_revision = Current u64 | CurrentNoStream

datatype Position = Position (pos_commit: u64) (pos_prepare: u64)

definition position_start :: Position where
  "position_start = Position 0 0"

definition position_end :: Position where
  "position_end = Position (- 1) (- 1)"

definition position_to_string :: "Position \<Rightarrow> string" where
  "position_to_string p = ''C:'' @ show_u64 (pos_commit p) @ ''/P:'' @ show_u64 (pos_prepare p)"

text \<open>\<open>Ord for Position\<close>: the commit positions first, then the prepare positions.\<close>

datatype ordering = Less | Equal | Greater

definition cmp_u64 :: "u64 \<Rightarrow> u64 \<Rightarrow> ordering" where
  "cmp_u64 a b = (if a < b then Less else if a = b then Equal else Greater)"

fun ordering_then :: "ordering \<Rightarrow> ordering \<Rightarrow> ordering" where
  "ordering_then Equal o2 = o2"
| "ordering_then o1 _ = o1"

definition position_cmp :: "Position \<Rightarrow> Position \<Rightarrow> ordering" where
  "position_cmp a b =
     ordering_then (cmp_u64 (pos_commit a) (pos_commit b)) (cmp_u64 (pos_prepare a) (pos_prepare b))"

lemma position_cmp_Less [simp]:
  "position_cmp a b = Less \<longleftrightarrow>
     pos_commit a < pos_commit b \<or> pos_commit a = pos_commit b \<and> pos_prepare a < pos_prepare b"
  by (auto simp: position_cmp_def cmp_u64_def)

lemma position_cmp_Equal [simp]: "position_cmp a b = Equal \<longleftrightarrow> a = b"
  by (cases a; cases b) (auto simp: position_cmp_def cmp_u64_def)

text \<open>Sorting and the order facts of the library apply to positions.\<close>

instantiation Position :: linorder
begin

definition less_eq_Position :: "Position \<Rightarrow> Position \<Rightarrow> bool" where
  "less_eq_Position a b \<longleftrightarrow> position_cmp a b \<noteq> Greater"

definition less_Position :: "Position \<Rightarrow> Position \<Rightarrow> bool" where
  "less_Position a b \<longleftrightarrow> position_cmp a b = Less"

instance
proof
  fix a b c :: Position
  have le: "x \<le> y \<longleftrightarrow> pos_commit x < pos_commit y
      \<or> pos_commit x = pos_commit y \<and> pos_prepare x \<le> pos_prepare y" for x y :: Position
    by (cases x; cases y) (auto simp: less_eq_Position_def position_cmp_def cmp_u64_def)
  have lt: "x < y \<longleftrightarrow> pos_commit x < pos_commit y
      \<or> pos_commit x = pos_commit y \<and> pos_prepare x < pos_prepare y" for x y :: Position
    by (simp add: less_Position_def)
  show "(a < b) = (a \<le> b \<and> \<not> b \<le> a)" by (auto simp: le lt)
  show "a \<le> a" by (simp add: le)
  show "a \<le> b \<Longrightarrow> b \<le> c \<Longrightarrow> a \<le> c" by (auto simp: le)
  show "a \<le> b \<Longrightarrow> b \<le> a \<Longrightarrow> a = b" by (cases a; cases b) (auto simp: le)
  show "a \<le> b \<or> b \<le> a" by (auto simp: le)
qed

end

datatype 'a stream_position = Start | End | At 'a

fun stream_position_map :: "('a \<Rightarrow> 'b) \<Rightarrow> 'a stream_position \<Rightarrow> 'b stream_position" where
  "stream_position_map f Start = Start"
| "stream_position_map f End = End"
| "stream_position_map f (At a) = At (f a)"

datatype revision_or_position = Revision u64 | InLog Position

record write_result =
  wr_next_expected_version :: u64
  wr_position :: Position

section \<open>Events\<close>

record recorded_event =
  re_stream_id_raw :: bytes
  re_id :: uuid
  re_revision :: u64
  re_event_type :: string
  re_data :: bytes
  re_metadata :: "(string \<times> string) list"
  re_custom_metadata :: bytes
  re_is_json :: bool
  re_position :: Position
  re_created :: duration \<comment> \<open>since the epoch\<close>

definition stream_id :: "recorded_event \<Rightarrow> string" where
  "stream_id e = re_stream_id_raw e"

record resolved_event =
  rs_event :: "recorded_event option"
  rs_link :: "recorded_event option"
  rs_commit_position :: "u64 option"

definition is_resolved :: "resolved_event \<Rightarrow> bool" where
  "is_resolved r \<longleftrightarrow> rs_event r \<noteq> None \<and> rs_link r \<noteq> None"

definition get_original_event :: "resolved_event \<Rightarrow> ('e, recorded_event) outcome" where
  "get_original_event r = (case rs_link r of Some l \<Rightarrow> Ok l | None \<Rightarrow> unwrap (rs_event r))"

definition get_original_stream_id :: "resolved_event \<Rightarrow> ('e, string) outcome" where
  "get_original_stream_id r = map_ok stream_id (get_original_event r)"

datatype read_direction = Forward | Backward

text \<open>The payload and metadata arguments of the \<open>EventData\<close> constructors are the serialized bytes.\<close>

record event_data =
  ed_payload :: bytes
  ed_id_opt :: "uuid option"
  ed_metadata :: "(string \<times> string) list"
  ed_custom_metadata :: "bytes option"

definition event_data_json :: "string \<Rightarrow> (string, bytes) outcome \<Rightarrow> (string, event_data) outcome" where
  "event_data_json event_type serialized =
     bind_outcome serialized (\<lambda>payload.
       Ok \<lparr>ed_payload = payload, ed_id_opt = None,
           ed_metadata = AList.update ''content-type'' ''application/json''
                           (AList.update ''type'' event_type []),
           ed_custom_metadata = None\<rparr>)"

definition event_data_binary :: "string \<Rightarrow> bytes \<Rightarrow> event_data" where
  "event_data_binary event_type payload =
     \<lparr>ed_payload = payload, ed_id_opt = None,
      ed_metadata = AList.update ''content-type'' ''application/octet-stream''
                      (AList.update ''type'' event_type []),
      ed_custom_metadata = None\<rparr>"

definition event_data_id :: "uuid \<Rightarrow> event_data \<Rightarrow> event_data" where
  "event_data_id v e = e\<lparr>ed_id_opt := Some v\<rparr>"

definition event_data_metadata_as_json ::
  "(string, bytes) outcome \<Rightarrow> event_data \<Rightarrow> (string, event_data) outcome" where
  "event_data_metadata_as_json serialized e =
     bind_outcome serialized (\<lambda>b. Ok (e\<lparr>ed_custom_metadata := Some b\<rparr>))"

definition event_data_metadata :: "bytes \<Rightarrow> event_data \<Rightarrow> event_data" where
  "event_data_metadata b e = e\<lparr>ed_custom_metadata := Some b\<rparr>"

record caught_up =
  cu_timestamp :: duration
  cu_stream_revision :: "u64 option"
  cu_position :: "Position option"

text \<open>\<open>FellBehind\<close> has the fields of \<open>CaughtUp\<close>.\<close>

record fell_behind =
  fb_timestamp :: duration
  fb_stream_revision :: "u64 option"
  fb_position :: "Position option"

datatype subscription_event =
    Confirmed string
  | EventAppeared resolved_event
  | Checkpoint Position
  | FirstStreamPosition u64
  | LastStreamPosition u64
  | LastAllPosition Position
  | CaughtUp "caught_up option"
  | FellBehind "fell_behind option"

datatype persistent_subscription_event =
    PsEventAppeared usize resolved_event
  | PsConfirmed string

datatype nak_action = NakUnknown | NakPark | NakRetry | NakSkip | NakStop

section \<open>Nodes\<close>

datatype vnode_state =
    Initializing | DiscoverLeader | UnknownState | PreReplica | CatchingUp | Clone | FollowerState
  | PreLeader | LeaderState | Manager | ShuttingDown | Shutdown | ReadOnlyLeaderLess
  | PreReadOnlyReplica | ReadOnlyReplicaState | ResigningLeader

datatype node_preference = Leader | Follower | Random | ReadOnlyReplica

fun show_node_preference :: "node_preference \<Rightarrow> string" where
  "show_node_preference Leader = ''Leader''"
| "show_node_preference Follower = ''Follower''"
| "show_node_preference Random = ''Random''"
| "show_node_preference ReadOnlyReplica = ''ReadOnlyReplica''"

fun match_preference :: "node_preference \<Rightarrow> vnode_state \<Rightarrow> bool" where
  "match_preference Leader LeaderState = True"
| "match_preference Follower FollowerState = True"
| "match_preference ReadOnlyReplica ReadOnlyReplicaState = True"
| "match_preference ReadOnlyReplica ReadOnlyLeaderLess = True"
| "match_preference ReadOnlyReplica PreReadOnlyReplica = True"
| "match_preference _ _ = False"

record endpoint =
  ep_host :: string
  ep_port :: u32

section \<open>Errors\<close>

datatype code =
    CodeOk | CodeCancelled | CodeUnknown | CodeInvalidArgument | CodeDeadlineExceeded | CodeNotFound
  | CodeAlreadyExists | CodePermissionDenied | CodeResourceExhausted | CodeFailedPrecondition
  | CodeAborted | CodeOutOfRange | CodeUnimplemented | CodeInternal | CodeUnavailable
  | CodeDataLoss | CodeUnauthenticated

text \<open>
  What the client reads of a gRPC status: the code, the message, the text of its \<open>Display\<close>, and
  for each metadata key whether it is present and then whether its value reads as a string
  (\<open>to_str().ok()\<close>).
\<close>

record status =
  st_code :: code
  st_message :: string
  st_display :: string
  st_metadata :: "string \<Rightarrow> string option option"

datatype grpc_connection_error = MaxDiscoveryAttemptReached usize | GrpcFailure string

datatype error =
    ServerError string
  | NotLeaderException endpoint
  | ConnectionClosed
  | Grpc code string
  | GrpcConnectionError grpc_connection_error
  | InternalParsingError string
  | AccessDenied
  | ResourceAlreadyExists
  | ResourceNotFound
  | ResourceDeleted
  | UnsupportedFeature
  | InternalClientError
  | DeadlineExceeded
  | InitializationError string
  | IllegalStateError string
  | WrongExpectedVersion stream_state current_revision

definition metadata_str :: "status \<Rightarrow> string \<Rightarrow> string option" where
  "metadata_str st key = Option.bind (st_metadata st key) (\<lambda>v. v)"

definition parse_port :: "string \<Rightarrow> u32 option" where
  "parse_port s =
     (case parse_unsigned (2 ^ 32 - 1) s of Ok n \<Rightarrow> Some (of_nat n) | _ \<Rightarrow> None)"

text \<open>The leader named by the status, when host and port are both there and readable.\<close>

definition leader_endpoint :: "status \<Rightarrow> endpoint option" where
  "leader_endpoint st =
     (case (st_metadata st ''leader-endpoint-host'', st_metadata st ''leader-endpoint-port'') of
        (Some (Some host), Some (Some port)) \<Rightarrow>
          (case parse_port port of
             Some p \<Rightarrow> Some \<lparr>ep_host = host, ep_port = p\<rparr>
           | None \<Rightarrow> None)
      | _ \<Rightarrow> None)"

definition from_grpc :: "status \<Rightarrow> error" where
  "from_grpc st =
     (let other =
        (if metadata_str st ''exception'' = Some ''stream-deleted'' then ResourceDeleted
         else if st_code st = CodeCancelled \<and> st_message st = ''Timeout expired''
           \<or> st_code st = CodeDeadlineExceeded then DeadlineExceeded
         else if st_code st = CodeDeadlineExceeded then DeadlineExceeded
         else if st_code st = CodeUnauthenticated \<or> st_code st = CodePermissionDenied
           then AccessDenied
         else if st_code st = CodeAlreadyExists then ResourceAlreadyExists
         else if st_code st = CodeNotFound then ResourceNotFound
         else if st_code st = CodeUnavailable \<or> st_code st = CodeInternal
           \<or> st_code st = CodeDataLoss \<or> st_code st = CodeUnknown
           then ServerError (st_display st)
         else if st_code st = CodeUnimplemented then UnsupportedFeature
         else Grpc (st_code st) (st_message st))
      in if metadata_str st ''exception'' = Some ''not-leader''
         then (case leader_endpoint st of Some leader \<Rightarrow> NotLeaderException leader | None \<Rightarrow> other)
         else other)"

fun is_access_denied :: "error \<Rightarrow> bool" where
  "is_access_denied AccessDenied = True"
| "is_access_denied _ = False"

fun is_unsupported_feature :: "error \<Rightarrow> bool" where
  "is_unsupported_feature UnsupportedFeature = True"
| "is_unsupported_feature _ = False"

text \<open>Which status gives which error, for the errors later stages branch on.\<close>

lemma from_grpc_not_leader_iff:
  "from_grpc st = NotLeaderException ep \<longleftrightarrow>
     metadata_str st ''exception'' = Some ''not-leader'' \<and> leader_endpoint st = Some ep"
  by (auto simp: from_grpc_def Let_def split: option.splits)

lemma from_grpc_server_error:
  "from_grpc st = ServerError m \<Longrightarrow>
     st_code st \<in> {CodeUnavailable, CodeInternal, CodeDataLoss, CodeUnknown} \<and> m = st_display st"
  by (auto simp: from_grpc_def Let_def split: option.splits if_splits)

lemma from_grpc_never_closed [simp]:
  "from_grpc st \<noteq> ConnectionClosed" "from_grpc st \<noteq> GrpcConnectionError e"
  "from_grpc st \<noteq> IllegalStateError m"
  by (auto simp: from_grpc_def Let_def split: option.splits if_splits)

end
