(* ===== verification/PersistentTypes.thy ===== *)
theory PersistentTypes
  imports Types
begin

text \<open>
  The types of \<open>types.rs\<close> around persistent subscriptions: consumer strategies, settings,
  statistics, the information records, results of persistent actions, measurements, subscription
  filters and stream names.
\<close>

section \<open>Consumer strategies\<close>

datatype consumer_strategy =
    DispatchToSingle
  | RoundRobin
  | Pinned
  | PinnedByCorrelation
  | Custom string

definition consumer_strategy_from_string :: "string \<Rightarrow> consumer_strategy" where
  "consumer_strategy_from_string s =
     (if s = ''DispatchToSingle'' then DispatchToSingle
      else if s = ''RoundRobin'' then RoundRobin
      else if s = ''Pinned'' then Pinned
      else if s = ''PinnedByCorrelation'' then PinnedByCorrelation
      else Custom s)"

fun show_consumer_strategy :: "consumer_strategy \<Rightarrow> string" where
  "show_consumer_strategy DispatchToSingle = ''DispatchToSingle''"
| "show_consumer_strategy RoundRobin = ''RoundRobin''"
| "show_consumer_strategy Pinned = ''Pinned''"
| "show_consumer_strategy PinnedByCorrelation = ''PinnedByCorrelation''"
| "show_consumer_strategy (Custom v) = v"

text \<open>A custom strategy that does not take the name of a system one.\<close>

fun proper_strategy :: "consumer_strategy \<Rightarrow> bool" where
  "proper_strategy (Custom v) \<longleftrightarrow>
     v \<notin> {''DispatchToSingle'', ''RoundRobin'', ''Pinned'', ''PinnedByCorrelation''}"
| "proper_strategy _ \<longleftrightarrow> True"

interpretation strategy_codec:
  codec show_consumer_strategy "\<lambda>s. Ok (consumer_strategy_from_string s)" proper_strategy
proof
  fix x
  assume "proper_strategy x"
  then show "Ok (consumer_strategy_from_string (show_consumer_strategy x)) = Ok x"
    by (cases x) (auto simp: consumer_strategy_from_string_def)
qed

text \<open>The other direction needs no condition: a parsed name prints as it was.\<close>

lemma show_consumer_strategy_from_string [simp]:
  "show_consumer_strategy (consumer_strategy_from_string s) = s"
  by (simp add: consumer_strategy_from_string_def)

section \<open>Settings\<close>

record 'a ps_settings =
  ps_resolve_link_tos :: bool
  ps_start_from :: "'a stream_position"
  ps_extra_statistics :: bool
  ps_message_timeout :: duration
  ps_max_retry_count :: i32
  ps_live_buffer_size :: i32
  ps_read_batch_size :: i32
  ps_history_buffer_size :: i32
  ps_checkpoint_after :: duration
  ps_checkpoint_lower_bound :: i32
  ps_checkpoint_upper_bound :: i32
  ps_max_subscriber_count :: i32
  ps_consumer_strategy_name :: consumer_strategy

definition named_consumer_strategy_as_i32 :: "'a ps_settings \<Rightarrow> (error, i32) outcome" where
  "named_consumer_strategy_as_i32 s =
     (case ps_consumer_strategy_name s of
        DispatchToSingle \<Rightarrow> Ok 0
      | RoundRobin \<Rightarrow> Ok 1
      | Pinned \<Rightarrow> Ok 2
      | Custom _ \<Rightarrow> Err UnsupportedFeature
      | PinnedByCorrelation \<Rightarrow> Err UnsupportedFeature)"

definition ps_settings_map :: "('a \<Rightarrow> 'b) \<Rightarrow> 'a ps_settings \<Rightarrow> 'b ps_settings" where
  "ps_settings_map f s =
     \<lparr>ps_resolve_link_tos = ps_resolve_link_tos s,
      ps_start_from = stream_position_map f (ps_start_from s),
      ps_extra_statistics = ps_extra_statistics s,
      ps_message_timeout = ps_message_timeout s,
      ps_max_retry_count = ps_max_retry_count s,
      ps_live_buffer_size = ps_live_buffer_size s,
      ps_read_batch_size = ps_read_batch_size s,
      ps_history_buffer_size = ps_history_buffer_size s,
      ps_checkpoint_after = ps_checkpoint_after s,
      ps_checkpoint_lower_bound = ps_checkpoint_lower_bound s,
      ps_checkpoint_upper_bound = ps_checkpoint_upper_bound s,
      ps_max_subscriber_count = ps_max_subscriber_count s,
      ps_consumer_strategy_name = ps_consumer_strategy_name s\<rparr>"

definition ps_settings_default :: "'a ps_settings" where
  "ps_settings_default =
     \<lparr>ps_resolve_link_tos = False,
      ps_start_from = End,
      ps_extra_statistics = False,
      ps_message_timeout = from_secs 30,
      ps_max_retry_count = 10,
      ps_live_buffer_size = 500,
      ps_read_batch_size = 20,
      ps_history_buffer_size = 500,
      ps_checkpoint_after = from_secs 2,
      ps_checkpoint_lower_bound = 10,
      ps_checkpoint_upper_bound = 1000,
      ps_max_subscriber_count = 0,
      ps_consumer_strategy_name = RoundRobin\<rparr>"

section \<open>Information and statistics\<close>

text \<open>The measurements map, as the list of its entries.\<close>

type_synonym measurements = "(string \<times> i64) list"

definition measurements_get :: "measurements \<Rightarrow> string \<Rightarrow> i64 option" where
  "measurements_get m key = map_of m key"

text \<open>The visitor of a sequence of key-value objects: a later entry replaces an earlier one.\<close>

fun visit_measurements :: "measurements \<Rightarrow> (string \<times> i64) list \<Rightarrow> measurements" where
  "visit_measurements acc [] = acc"
| "visit_measurements acc ((k, v) # kvs) = visit_measurements (AList.update k v acc) kvs"

lemma visit_measurements_last_wins:
  "measurements_get (visit_measurements acc kvs) k =
     (case map_of (rev kvs) k of Some v \<Rightarrow> Some v | None \<Rightarrow> measurements_get acc k)"
proof (induction acc kvs rule: visit_measurements.induct)
  case (1 acc)
  then show ?case by simp
next
  case (2 acc k' v' kvs)
  then show ?case
    by (auto simp: measurements_get_def update_conv' map_add_def split: option.splits)
qed

record connection_info =
  ci_from :: string
  ci_username :: string
  ci_average_items_per_second :: f64
  ci_total_items :: usize
  ci_count_since_last_measurement :: usize
  ci_available_slots :: usize
  ci_in_flight_messages :: usize
  ci_connection_name :: string
  ci_extra_statistics :: measurements

record ps_stats =
  pst_average_per_second :: f64
  pst_total_items :: usize
  pst_count_since_last_measurement :: usize
  pst_last_checkpointed_event_revision :: "u64 option"
  pst_last_known_event_revision :: "u64 option"
  pst_last_checkpointed_position :: "Position option"
  pst_last_known_position :: "Position option"
  pst_read_buffer_count :: usize
  pst_live_buffer_count :: usize
  pst_retry_buffer_count :: usize
  pst_total_in_flight_messages :: usize
  pst_outstanding_messages_count :: usize
  pst_parked_message_count :: usize

definition ps_stats_default :: ps_stats where
  "ps_stats_default =
     \<lparr>pst_average_per_second = Finite 0, pst_total_items = 0,
      pst_count_since_last_measurement = 0,
      pst_last_checkpointed_event_revision = None, pst_last_known_event_revision = None,
      pst_last_checkpointed_position = None, pst_last_known_position = None,
      pst_read_buffer_count = 0, pst_live_buffer_count = 0, pst_retry_buffer_count = 0,
      pst_total_in_flight_messages = 0, pst_outstanding_messages_count = 0,
      pst_parked_message_count = 0\<rparr>"

record 'a ps_info =
  pi_event_source :: string
  pi_group_name :: string
  pi_status :: string
  pi_connections :: "connection_info list"
  pi_settings :: "'a ps_settings option"
  pi_stats :: ps_stats

definition ps_info_map :: "('a \<Rightarrow> 'b) \<Rightarrow> 'a ps_info \<Rightarrow> 'b ps_info" where
  "ps_info_map f i =
     \<lparr>pi_event_source = pi_event_source i,
      pi_group_name = pi_group_name i,
      pi_status = pi_status i,
      pi_connections = pi_connections i,
      pi_settings = map_option (ps_settings_map f) (pi_settings i),
      pi_stats = pi_stats i\<rparr>"

text \<open>The configuration and the information as the HTTP endpoint of older servers gives them.\<close>

record ps_config =
  pc_resolve_linktos :: bool
  pc_start_from :: "revision_or_position stream_position"
  pc_start_position :: string
  pc_message_timeout_milliseconds :: i64
  pc_extra_statistics :: bool
  pc_max_retry_count :: i64
  pc_live_buffer_size :: i64
  pc_buffer_size :: i64
  pc_read_batch_size :: i64
  pc_prefer_round_robin :: bool
  pc_checkpoint_after_milliseconds :: i64
  pc_min_checkpoint_count :: i64
  pc_max_checkpoint_count :: i64
  pc_max_subscriber_count :: i64
  pc_named_consumer_strategy :: consumer_strategy

record ps_info_http_json =
  ph_event_stream_id :: string
  ph_group_name :: string
  ph_status :: string
  ph_average_items_per_second :: f64
  ph_total_items_processed :: usize
  ph_last_processed_event_number :: i64
  ph_last_checkpointed_event_position :: "string option"
  ph_last_known_event_position :: "string option"
  ph_last_known_event_number :: i64
  ph_connection_count :: usize
  ph_total_in_flight_messages :: usize
  ph_config :: "ps_config option"
  ph_read_buffer_count :: usize
  ph_live_buffer_count :: usize
  ph_retry_buffer_count :: usize
  ph_outstanding_messages_count :: usize
  ph_parked_message_count :: usize
  ph_count_since_last_measurement :: usize
  ph_connections :: "connection_info list"

section \<open>Results of persistent actions\<close>

datatype persist_action_error = Fail | AlreadyExists | DoesNotExist | PersistAccessDenied

datatype persist_action_result = Success | Failure persist_action_error

fun persist_action_is_success :: "persist_action_result \<Rightarrow> bool" where
  "persist_action_is_success Success = True"
| "persist_action_is_success (Failure _) = False"

definition persist_action_is_failure :: "persist_action_result \<Rightarrow> bool" where
  "persist_action_is_failure r \<longleftrightarrow> \<not> persist_action_is_success r"

section \<open>Filters\<close>

record subscription_filter =
  sf_based_on_stream :: bool
  sf_max :: "u32 option"
  sf_regex :: "string option"
  sf_prefixes :: "string list"

definition filter_on_stream_name :: subscription_filter where
  "filter_on_stream_name =
     \<lparr>sf_based_on_stream = True, sf_max = None, sf_regex = None, sf_prefixes = []\<rparr>"

definition filter_on_event_type :: subscription_filter where
  "filter_on_event_type = filter_on_stream_name\<lparr>sf_based_on_stream := False\<rparr>"

definition filter_exclude_system_events :: "subscription_filter \<Rightarrow> subscription_filter" where
  "filter_exclude_system_events f =
     f\<lparr>sf_regex := Some (''^[^'' @ [char_of (92 :: nat)] @ ''$].*'')\<rparr>"

definition filter_max :: "u32 \<Rightarrow> subscription_filter \<Rightarrow> subscription_filter" where
  "filter_max n f = f\<lparr>sf_max := Some n\<rparr>"

definition filter_regex :: "string \<Rightarrow> subscription_filter \<Rightarrow> subscription_filter" where
  "filter_regex r f = f\<lparr>sf_regex := Some r\<rparr>"

definition filter_add_prefix :: "string \<Rightarrow> subscription_filter \<Rightarrow> subscription_filter" where
  "filter_add_prefix p f = f\<lparr>sf_prefixes := sf_prefixes f @ [p]\<rparr>"

section \<open>Stream names\<close>

text \<open>
  \<open>StreamName\<close> keeps bytes and strings as they are; \<open>MetadataStreamName\<close> keeps bytes and
  prefixes strings.
\<close>

datatype name_source = NameBytes bytes | NameStr string

fun into_stream_name :: "name_source \<Rightarrow> bytes" where
  "into_stream_name (NameBytes b) = b"
| "into_stream_name (NameStr s) = s"

fun into_metadata_stream_name :: "name_source \<Rightarrow> bytes" where
  "into_metadata_stream_name (NameBytes b) = b"
| "into_metadata_stream_name (NameStr s) = ''$$'' @ s"

end
