(* ===== verification/Serde.thy ===== *)
theory Serde
  imports Types
begin

text \<open>
  The values a serde serializer is asked to write and those a deserializer shows its visitor, and
  the contract between the two: what a self-describing format may read back for what was written.
  The formats themselves (serde_json, toml) are not under \<open>src/\<close>; nothing else is assumed of them.
\<close>

datatype ser_value =
    SerUnit
  | SerNone
  | SerBool bool
  | SerI64 int
  | SerU64 u64
  | SerF64 f64
  | SerStr string
  | SerBytes bytes
  | SerSeq "ser_value list"
  | SerMap "(string \<times> ser_value) list"

text \<open>
  A written none reads as a unit (\<open>null\<close>); a non-negative \<open>i64\<close> may read as a \<open>u64\<close> (a number
  without a sign); bytes read as a sequence of numbers; everything else reads as it was written.
\<close>

inductive reads_as :: "ser_value \<Rightarrow> ser_value \<Rightarrow> bool" where
  unit: "reads_as SerUnit SerUnit"
| none: "reads_as SerNone SerUnit"
| bool: "reads_as (SerBool b) (SerBool b)"
| i64: "reads_as (SerI64 i) (SerI64 i)"
| i64_unsigned: "0 \<le> i \<Longrightarrow> i < 2 ^ 63 \<Longrightarrow> reads_as (SerI64 i) (SerU64 (of_int i))"
| u64: "reads_as (SerU64 w) (SerU64 w)"
| f64: "reads_as (SerF64 x) (SerF64 x)"
| str: "reads_as (SerStr s) (SerStr s)"
| bytes: "reads_as (SerBytes bs) (SerSeq (map (\<lambda>c. SerU64 (of_nat (of_char c))) bs))"
| seq: "list_all2 reads_as xs ys \<Longrightarrow> reads_as (SerSeq xs) (SerSeq ys)"
| map: "list_all2 (\<lambda>x y. fst x = fst y \<and> reads_as (snd x) (snd y)) kvs kvs' \<Longrightarrow>
     reads_as (SerMap kvs) (SerMap kvs')"

inductive_simps reads_as_simps [simp]:
  "reads_as SerUnit v"
  "reads_as SerNone v"
  "reads_as (SerI64 i) v"
  "reads_as (SerU64 w) v"
  "reads_as (SerStr s) v"
  "reads_as (SerBytes b) v"
  "reads_as (SerSeq xs) v"
  "reads_as (SerMap kvs) v"

lemma reads_as_strings [simp]:
  "list_all2 reads_as (map SerStr ss) ys \<longleftrightarrow> ys = map SerStr ss"
  by (induction ss arbitrary: ys) (auto simp: list_all2_Cons1)

section \<open>Credentials\<close>

text \<open>\<open>serialize_creds_bytes\<close> and the visitor of \<open>deserialize_creds_bytes\<close> (\<open>types.rs\<close>).\<close>

definition serialize_creds_bytes :: "bytes \<Rightarrow> ser_value" where
  "serialize_creds_bytes b = SerBytes b"

fun visit_creds :: "ser_value \<Rightarrow> (string, bytes) outcome" where
  "visit_creds (SerStr s) = Ok s"
| "visit_creds _ = Err ''invalid type''"

end
