(* ===== verification/Positions.thy ===== *)
theory Positions
  imports PersistentTypes Serde
begin

text \<open>
  Log positions and start points as text: the parsers of \<open>event_store/generated.rs\<close>
  (\<open>parse_position\<close>, \<open>parse_revision_or_position\<close>, \<open>parse_stream_position\<close>) and the serde
  implementations of \<open>types.rs\<close> for \<open>Position\<close>, \<open>RevisionOrPosition\<close> and
  \<open>StreamPosition<RevisionOrPosition>\<close>. The two parsers of the nom crate they use are a
  parameter, with their documented behaviour as a contract.
\<close>

section \<open>The nom parsers\<close>

text \<open>
  \<open>nom::bytes::complete::tag\<close> gives the input after the tag; \<open>nom::character::complete::u64\<close>
  gives the input after the leading digits, and their value.
\<close>

record nom_lib =
  nom_tag :: "string \<Rightarrow> string \<Rightarrow> string option"
  nom_u64 :: "string \<Rightarrow> (string \<times> u64) option"

definition starts_with_digit :: "string \<Rightarrow> bool" where
  "starts_with_digit s = (case s of [] \<Rightarrow> False | c # _ \<Rightarrow> to_digit c \<noteq> None)"

definition nom_documented :: "nom_lib \<Rightarrow> bool" where
  "nom_documented nl \<longleftrightarrow>
     (\<forall>t s. nom_tag nl t (t @ s) = Some s)
   \<and> (\<forall>t s s'. nom_tag nl t s = Some s' \<longrightarrow> s = t @ s')
   \<and> (\<forall>w s. \<not> starts_with_digit s \<longrightarrow> nom_u64 nl (show_u64 w @ s) = Some (s, w))
   \<and> (\<forall>s s' w. nom_u64 nl s = Some (s', w) \<longrightarrow>
        (\<exists>ds. s = ds @ s' \<and> parse_digits PosOverflow u64_max 0 ds = Ok (unat w) \<and> ds \<noteq> []))"

text \<open>Functions with that behaviour, for concrete runs.\<close>

fun tag_ref :: "string \<Rightarrow> string \<Rightarrow> string option" where
  "tag_ref [] s = Some s"
| "tag_ref (t # ts) [] = None"
| "tag_ref (t # ts) (c # cs) = (if t = c then tag_ref ts cs else None)"

definition u64_ref :: "string \<Rightarrow> (string \<times> u64) option" where
  "u64_ref s =
     (let ds = takeWhile (\<lambda>c. to_digit c \<noteq> None) s
      in if ds = [] then None
         else (case parse_digits PosOverflow u64_max 0 ds of
                 Ok n \<Rightarrow> Some (dropWhile (\<lambda>c. to_digit c \<noteq> None) s, of_nat n)
               | _ \<Rightarrow> None))"

definition nom_ref :: nom_lib where
  "nom_ref = \<lparr>nom_tag = tag_ref, nom_u64 = u64_ref\<rparr>"

lemma tag_ref_append: "tag_ref t (t @ s) = Some s"
  by (induction t) auto

lemma tag_ref_Some: "tag_ref t s = Some s' \<Longrightarrow> s = t @ s'"
  by (induction t s rule: tag_ref.induct) (auto split: if_splits)

lemma show_u64_digits: "c \<in> set (show_u64 w) \<Longrightarrow> to_digit c \<noteq> None"
  using show_nat_digits [of c "unat w"] by (auto simp: show_u64_def)

lemma u64_ref_show: "\<not> starts_with_digit s \<Longrightarrow> u64_ref (show_u64 w @ s) = Some (s, w)"
proof -
  assume s: "\<not> starts_with_digit s"
  then have "takeWhile (\<lambda>c. to_digit c \<noteq> None) (show_u64 w @ s) = show_u64 w"
    and "dropWhile (\<lambda>c. to_digit c \<noteq> None) (show_u64 w @ s) = s"
    using show_u64_digits [of _ w]
    by (auto simp: starts_with_digit_def takeWhile_append dropWhile_append split: list.splits)
  then show ?thesis
    using unat_u64_bound [of w]
    by (simp add: u64_ref_def Let_def show_u64_def parse_digits_show_nat)
qed

lemma u64_ref_Some:
  "u64_ref s = Some (s', w) \<Longrightarrow>
     \<exists>ds. s = ds @ s' \<and> parse_digits PosOverflow u64_max 0 ds = Ok (unat w) \<and> ds \<noteq> []"
proof -
  assume "u64_ref s = Some (s', w)"
  then obtain n where n: "parse_digits PosOverflow u64_max 0 (takeWhile (\<lambda>c. to_digit c \<noteq> None) s) = Ok n"
    and "takeWhile (\<lambda>c. to_digit c \<noteq> None) s \<noteq> []"
    and "s' = dropWhile (\<lambda>c. to_digit c \<noteq> None) s" and w: "w = of_nat n"
    by (auto simp: u64_ref_def Let_def split: if_splits outcome.splits)
  moreover have "unat w = n"
    using parse_digits_bound [OF n] w by (simp add: unat_of_nat)
  ultimately show ?thesis
    by (intro exI [of _ "takeWhile (\<lambda>c. to_digit c \<noteq> None) s"]) simp
qed

lemma nom_ref_documented: "nom_documented nom_ref"
  unfolding nom_documented_def nom_ref_def
  using tag_ref_append tag_ref_Some u64_ref_show u64_ref_Some by simp

section \<open>The parsers\<close>

definition parse_position_start_from :: "nom_lib \<Rightarrow> string \<Rightarrow> (string \<times> Position) option" where
  "parse_position_start_from nl input =
     (case nom_tag nl ''C:'' input of None \<Rightarrow> None | Some i1 \<Rightarrow>
     (case nom_u64 nl i1 of None \<Rightarrow> None | Some (i2, commit) \<Rightarrow>
     (case nom_tag nl ''/P:'' i2 of None \<Rightarrow> None | Some i3 \<Rightarrow>
     (case nom_u64 nl i3 of None \<Rightarrow> None | Some (i4, prepare) \<Rightarrow>
        Some (i4, Position commit prepare)))))"

text \<open>The rest of the input is dropped: \<open>complete\<close> does not ask for all of it to be consumed.\<close>

definition parse_position :: "nom_lib \<Rightarrow> string \<Rightarrow> (error, Position) outcome" where
  "parse_position nl input =
     (case parse_position_start_from nl input of
        Some (_, pos) \<Rightarrow> Ok pos
      | None \<Rightarrow> Err (InternalParsingError
          (''Failed to parse a transaction log position: '' @ [CHR 0x27] @ input @ [CHR 0x27])))"

definition parse_revision_or_position ::
  "nom_lib \<Rightarrow> string \<Rightarrow> (error, revision_or_position) outcome" where
  "parse_revision_or_position nl input =
     (case parse_u64 input of
        Ok v \<Rightarrow> Ok (Revision v)
      | _ \<Rightarrow>
        (case parse_position nl input of
           Ok pos \<Rightarrow> Ok (InLog pos)
         | _ \<Rightarrow> Err (InternalParsingError
             (''Failed to parse either a stream revision or a transaction log position: ''
              @ [CHR 0x27] @ input @ [CHR 0x27]))))"

definition parse_stream_position ::
  "nom_lib \<Rightarrow> string \<Rightarrow> (error, revision_or_position stream_position) outcome" where
  "parse_stream_position nl input =
     (if input = ''-1'' \<or> input = ''C:-1/P:-1'' then Ok End
      else if input = ''0'' \<or> input = ''C:0/P:0'' then Ok Start
      else map_ok At (parse_revision_or_position nl input))"

section \<open>Serde\<close>

definition serialize_position :: "Position \<Rightarrow> ser_value" where
  "serialize_position p = SerStr (position_to_string p)"

definition visit_position :: "nom_lib \<Rightarrow> ser_value \<Rightarrow> (string, Position) outcome" where
  "visit_position nl v =
     (case v of
        SerStr s \<Rightarrow>
          (case parse_position nl s of
             Ok p \<Rightarrow> Ok p
           | _ \<Rightarrow> Err (''can'' @ [CHR 0x27] @ ''t parse a transaction log position out of this: ''
                        @ [CHR 0x27] @ s @ [CHR 0x27]))
      | _ \<Rightarrow> Err ''invalid type'')"

fun serialize_revision_or_position :: "revision_or_position \<Rightarrow> ser_value" where
  "serialize_revision_or_position (Revision r) = SerU64 r"
| "serialize_revision_or_position (InLog p) =
     SerStr (''C:'' @ show_u64 (pos_commit p) @ ''/P:'' @ show_u64 (pos_prepare p))"

fun serialize_stream_position :: "revision_or_position stream_position \<Rightarrow> ser_value" where
  "serialize_stream_position Start = SerI64 0"
| "serialize_stream_position (At (Revision r)) = SerU64 r"
| "serialize_stream_position (At (InLog p)) = SerStr (position_to_string p)"
| "serialize_stream_position End = SerI64 (- 1)"

text \<open>\<open>StreamRevOrPosVisitor\<close>.\<close>

definition visit_stream_position ::
  "nom_lib \<Rightarrow> ser_value \<Rightarrow> (string, revision_or_position stream_position) outcome" where
  "visit_stream_position nl v =
     (case v of
        SerI64 i \<Rightarrow>
          (if i = - 1 then Ok End
           else if i = 0 then Ok Start
           else Ok (At (Revision (of_int i))))
      | SerU64 w \<Rightarrow> (if w = 0 then Ok Start else Ok (At (Revision w)))
      | SerStr s \<Rightarrow>
          (case parse_stream_position nl s of
             Ok p \<Rightarrow> Ok p
           | _ \<Rightarrow> Err (''can'' @ [CHR 0x27] @ ''t parse a revision or a position out of this: ''
                        @ [CHR 0x27] @ s @ [CHR 0x27]))
      | _ \<Rightarrow> Err ''invalid type'')"

section \<open>Facts\<close>

locale nom_contract =
  fixes nl :: nom_lib
  assumes documented: "nom_documented nl"
begin

lemma tag_append: "nom_tag nl t (t @ s) = Some s"
  using documented unfolding nom_documented_def by blast

lemma tag_Some: "nom_tag nl t s = Some s' \<Longrightarrow> s = t @ s'"
  using documented unfolding nom_documented_def by blast

lemma u64_show: "\<not> starts_with_digit s \<Longrightarrow> nom_u64 nl (show_u64 w @ s) = Some (s, w)"
  using documented unfolding nom_documented_def by blast

lemma u64_Some:
  "nom_u64 nl s = Some (s', w) \<Longrightarrow>
     \<exists>ds. s = ds @ s' \<and> parse_digits PosOverflow u64_max 0 ds = Ok (unat w) \<and> ds \<noteq> []"
  using documented unfolding nom_documented_def by blast

lemma start_from_to_string:
  "\<not> starts_with_digit rest \<Longrightarrow>
     parse_position_start_from nl (position_to_string p @ rest) = Some (rest, p)"
proof -
  assume rest: "\<not> starts_with_digit rest"
  have slash: "\<not> starts_with_digit (''/P:'' @ s)" for s
    by (simp add: starts_with_digit_def to_digit_def)
  show ?thesis
    using rest
    by (simp add: parse_position_start_from_def position_to_string_def tag_append
        u64_show [OF slash, simplified] u64_show tag_append [of "''C:''", simplified]
        tag_append [of "''/P:''", simplified])
qed

lemma parse_to_string: "parse_position nl (position_to_string p) = Ok p"
  using start_from_to_string [of "[]" p]
  by (simp add: parse_position_def starts_with_digit_def)

lemma parse_position_shape:
  assumes "parse_position nl s = Ok p"
  shows "\<exists>cs ps rest. s = ''C:'' @ cs @ ''/P:'' @ ps @ rest
    \<and> parse_digits PosOverflow u64_max 0 cs = Ok (unat (pos_commit p))
    \<and> parse_digits PosOverflow u64_max 0 ps = Ok (unat (pos_prepare p))"
proof -
  from assms obtain i1 i2 i3 i4 c q where steps:
    "nom_tag nl ''C:'' s = Some i1" "nom_u64 nl i1 = Some (i2, c)"
    "nom_tag nl ''/P:'' i2 = Some i3" "nom_u64 nl i3 = Some (i4, q)" "p = Position c q"
    by (auto simp: parse_position_def parse_position_start_from_def split: option.splits)
  from tag_Some [OF steps(1)] u64_Some [OF steps(2)] tag_Some [OF steps(3)] u64_Some [OF steps(4)]
    steps(5) show ?thesis by fastforce
qed

end

interpretation nom_ref: nom_contract nom_ref
  by unfold_locales (rule nom_ref_documented)

lemma parse_u64_position_fails: "parse_u64 (position_to_string p) \<noteq> Ok v"
  by (auto simp: position_to_string_def parse_u64_def parse_unsigned_def to_digit_def
      split: if_splits)

text \<open>Positions print differently, since what is printed can be parsed back.\<close>

interpretation position_codec: codec position_to_string "parse_position nom_ref" "\<lambda>_. True"
  by unfold_locales (simp add: nom_ref.parse_to_string)

lemma show_u64_0: "show_u64 0 = ''0''"
  by (simp add: show_u64_def show_nat.simps)

lemma position_to_string_start: "position_to_string p = ''C:0/P:0'' \<longleftrightarrow> p = Position 0 0"
proof -
  have "position_to_string (Position 0 0) = ''C:0/P:0''"
    by (simp add: position_to_string_def show_u64_0)
  then show ?thesis using position_codec.enc_inject [of p "Position 0 0"] by simp
qed

lemma position_to_string_not_minus:
  "position_to_string p \<noteq> ''-1''" "position_to_string p \<noteq> ''0''"
  "position_to_string p \<noteq> ''C:-1/P:-1''"
proof -
  have "hd (show_u64 (pos_commit p)) \<noteq> CHR ''-''"
    using show_nat_no_sign [OF hd_in_set [OF show_nat_nonempty]] by (simp add: show_u64_def)
  moreover obtain c cs where "show_u64 (pos_commit p) = c # cs"
    using show_nat_nonempty by (metis list.exhaust show_u64_def)
  ultimately show "position_to_string p \<noteq> ''-1''" "position_to_string p \<noteq> ''0''"
    "position_to_string p \<noteq> ''C:-1/P:-1''"
    by (auto simp: position_to_string_def)
qed

section \<open>Properties\<close>

text \<open>
  A log position printed as \<open>C:commit/P:prepare\<close> parses back to itself, for all positions up
  to the largest \<open>u64\<close>s, and the parser accepts it with any text after it that does not go on
  with a digit: what follows the position is ignored.
\<close>

theorem parse_position_roundtrip:
  assumes "nom_documented nl" and "\<not> starts_with_digit rest"
  shows "parse_position nl (position_to_string p @ rest) = Ok p"
  using nom_contract.start_from_to_string [OF nom_contract.intro [OF assms(1)] assms(2)]
  by (simp add: parse_position_def)

theorem parse_position_roundtrip_witness:
  "parse_position nom_ref (position_to_string position_end @ ''garbage'') = Ok position_end"
  by (rule parse_position_roundtrip [OF nom_ref_documented])
    (simp add: starts_with_digit_def to_digit_def)

text \<open>What a start point reads back as: the first revision and the first position are the start.\<close>

fun canonical_stream_position ::
  "revision_or_position stream_position \<Rightarrow> revision_or_position stream_position" where
  "canonical_stream_position (At (Revision r)) = (if r = 0 then Start else At (Revision r))"
| "canonical_stream_position (At (InLog p)) = (if p = position_start then Start else At (InLog p))"
| "canonical_stream_position p = p"

text \<open>
  A persistent subscription's start point written by serde and read back by any
  self-describing format is the same start point, up to the two spellings of the beginning:
  revision 0 and position 0/0 come back as \<open>Start\<close>.
\<close>

theorem stream_position_serde_roundtrip:
  assumes "nom_documented nl" and "reads_as (serialize_stream_position p) v"
  shows "visit_stream_position nl v = Ok (canonical_stream_position p)"
proof (cases p)
  case Start
  with assms(2) show ?thesis by (auto simp: visit_stream_position_def)
next
  case End
  with assms(2) show ?thesis by (auto simp: visit_stream_position_def)
next
  case (At a)
  show ?thesis
  proof (cases a)
    case (Revision r)
    with At assms(2) show ?thesis by (auto simp: visit_stream_position_def)
  next
    case (InLog q)
    have "parse_position nl (position_to_string q) = Ok q"
      using nom_contract.parse_to_string [OF nom_contract.intro [OF assms(1)]] .
    moreover have "parse_u64 (position_to_string q) \<noteq> Ok w" for w
      by (rule parse_u64_position_fails)
    ultimately have "parse_stream_position nl (position_to_string q)
      = Ok (canonical_stream_position (At (InLog q)))"
      by (auto simp: parse_stream_position_def parse_revision_or_position_def position_start_def
          position_to_string_start position_to_string_not_minus split: outcome.splits)
    with At InLog assms(2) show ?thesis by (simp add: visit_stream_position_def)
  qed
qed

theorem stream_position_serde_roundtrip_witness:
  "visit_stream_position nom_ref (SerStr (position_to_string (Position 7 5)))
     = Ok (At (InLog (Position 7 5)))"
proof -
  have "reads_as (serialize_stream_position (At (InLog (Position 7 5))))
      (SerStr (position_to_string (Position 7 5)))" by simp
  from stream_position_serde_roundtrip [OF nom_ref_documented this]
  show ?thesis by (simp add: position_start_def)
qed

text \<open>
  Credentials do not survive their own serde implementations: they are written as bytes and
  read as a string only, so whatever a self-describing format reads back for written credentials
  is refused.
\<close>

theorem credentials_never_read_back:
  "reads_as (serialize_creds_bytes b) v \<Longrightarrow> visit_creds v = Err ''invalid type''"
  by (auto simp: serialize_creds_bytes_def)

theorem credentials_never_read_back_witness:
  "reads_as (serialize_creds_bytes ''a'') (SerSeq [SerU64 97])
    \<and> visit_creds (SerSeq [SerU64 97]) = Err ''invalid type''"
proof -
  have "reads_as (serialize_creds_bytes ''a'') (SerSeq [SerU64 97])"
    by (simp add: serialize_creds_bytes_def)
  with credentials_never_read_back [OF this] show ?thesis by blast
qed

end
