(* ===== verification/Metadata.thy ===== *)
theory Metadata
  imports Serde
begin

text \<open>
  Stream metadata (\<open>types.rs\<close>): the builders of \<open>StreamMetadata\<close> and \<open>StreamAcl\<close>, and their
  serde form, in which durations are milliseconds, the system ACLs are names, a list of one role
  is that role, and the custom properties are flattened into the object. The struct serializers
  and deserializers are those \<open>derive(Serialize, Deserialize)\<close> gives for the field attributes
  in the source: absent fields take the default, a repeated field is an error, and what no field
  claims goes to the flattened map (ignored in \<open>StreamAcl\<close>).
\<close>

section \<open>Data\<close>

record stream_acl =
  acl_read_roles :: "string list option"
  acl_write_roles :: "string list option"
  acl_delete_roles :: "string list option"
  acl_meta_read_roles :: "string list option"
  acl_meta_write_roles :: "string list option"

datatype acl = UserStream | SystemStream | StreamAclOf stream_acl

text \<open>Custom properties are kept as the serde value of the JSON value they hold.\<close>

record stream_metadata =
  md_max_count :: "u64 option"
  md_max_age :: "duration option"
  md_truncate_before :: "u64 option"
  md_cache_control :: "duration option"
  md_acl :: "acl option"
  md_custom_properties :: "(string \<times> ser_value) list"

record versioned_metadata =
  vm_stream :: string
  vm_version :: u64
  vm_metadata :: stream_metadata

datatype stream_metadata_result = MetaDeleted | MetaNotFound | MetaSuccess versioned_metadata

fun metadata_is_deleted :: "stream_metadata_result \<Rightarrow> bool" where
  "metadata_is_deleted MetaDeleted = True"
| "metadata_is_deleted _ = False"

fun metadata_is_not_found :: "stream_metadata_result \<Rightarrow> bool" where
  "metadata_is_not_found MetaNotFound = True"
| "metadata_is_not_found _ = False"

fun metadata_is_success :: "stream_metadata_result \<Rightarrow> bool" where
  "metadata_is_success (MetaSuccess _) = True"
| "metadata_is_success _ = False"

section \<open>Builders\<close>

text \<open>The builder structs have the fields of what they build; \<open>build\<close> copies them.\<close>

definition metadata_new :: stream_metadata where
  "metadata_new =
     \<lparr>md_max_count = None, md_max_age = None, md_truncate_before = None,
      md_cache_control = None, md_acl = None, md_custom_properties = []\<rparr>"

definition builder_max_count :: "u64 \<Rightarrow> stream_metadata \<Rightarrow> stream_metadata" where
  "builder_max_count v b = b\<lparr>md_max_count := Some v\<rparr>"

definition builder_max_age :: "duration \<Rightarrow> stream_metadata \<Rightarrow> stream_metadata" where
  "builder_max_age v b = b\<lparr>md_max_age := Some v\<rparr>"

definition builder_truncate_before :: "u64 \<Rightarrow> stream_metadata \<Rightarrow> stream_metadata" where
  "builder_truncate_before v b = b\<lparr>md_truncate_before := Some v\<rparr>"

definition builder_cache_control :: "duration \<Rightarrow> stream_metadata \<Rightarrow> stream_metadata" where
  "builder_cache_control v b = b\<lparr>md_cache_control := Some v\<rparr>"

definition builder_acl :: "acl \<Rightarrow> stream_metadata \<Rightarrow> stream_metadata" where
  "builder_acl v b = b\<lparr>md_acl := Some v\<rparr>"

definition builder_insert_custom_property ::
  "string \<Rightarrow> ser_value \<Rightarrow> stream_metadata \<Rightarrow> stream_metadata" where
  "builder_insert_custom_property k v b =
     b\<lparr>md_custom_properties := AList.update k v (md_custom_properties b)\<rparr>"

definition acl_builder_new :: stream_acl where
  "acl_builder_new =
     \<lparr>acl_read_roles = None, acl_write_roles = None, acl_delete_roles = None,
      acl_meta_read_roles = None, acl_meta_write_roles = None\<rparr>"

fun push_role :: "string \<Rightarrow> string list option \<Rightarrow> string list option" where
  "push_role r None = Some [r]"
| "push_role r (Some rs) = Some (rs @ [r])"

definition add_read_roles :: "string \<Rightarrow> stream_acl \<Rightarrow> stream_acl" where
  "add_read_roles r b = b\<lparr>acl_read_roles := push_role r (acl_read_roles b)\<rparr>"

definition add_write_roles :: "string \<Rightarrow> stream_acl \<Rightarrow> stream_acl" where
  "add_write_roles r b = b\<lparr>acl_write_roles := push_role r (acl_write_roles b)\<rparr>"

definition add_delete_roles :: "string \<Rightarrow> stream_acl \<Rightarrow> stream_acl" where
  "add_delete_roles r b = b\<lparr>acl_delete_roles := push_role r (acl_delete_roles b)\<rparr>"

definition add_meta_read_roles :: "string \<Rightarrow> stream_acl \<Rightarrow> stream_acl" where
  "add_meta_read_roles r b = b\<lparr>acl_meta_read_roles := push_role r (acl_meta_read_roles b)\<rparr>"

definition add_meta_write_roles :: "string \<Rightarrow> stream_acl \<Rightarrow> stream_acl" where
  "add_meta_write_roles r b = b\<lparr>acl_meta_write_roles := push_role r (acl_meta_write_roles b)\<rparr>"

section \<open>Serializing\<close>

definition serialize_duration :: "duration option \<Rightarrow> ser_value" where
  "serialize_duration src =
     (case src of Some d \<Rightarrow> SerU64 (millis_as_u64 d) | None \<Rightarrow> SerNone)"

definition serialize_roles :: "string list option \<Rightarrow> ser_value" where
  "serialize_roles src =
     (case src of
        Some roles \<Rightarrow>
          (if length roles = 1 then SerStr (hd roles) else SerSeq (map SerStr roles))
      | None \<Rightarrow> SerNone)"

text \<open>A field with \<open>skip_serializing_if = Option::is_none\<close>.\<close>

definition ser_field :: "string \<Rightarrow> ('a option \<Rightarrow> ser_value) \<Rightarrow> 'a option \<Rightarrow> (string \<times> ser_value) list" where
  "ser_field name ser src = (if src = None then [] else [(name, ser src)])"

definition serialize_stream_acl :: "stream_acl \<Rightarrow> ser_value" where
  "serialize_stream_acl a = SerMap
     (ser_field ''$r'' serialize_roles (acl_read_roles a)
    @ ser_field ''$w'' serialize_roles (acl_write_roles a)
    @ ser_field ''$d'' serialize_roles (acl_delete_roles a)
    @ ser_field ''$mr'' serialize_roles (acl_meta_read_roles a)
    @ ser_field ''$mw'' serialize_roles (acl_meta_write_roles a))"

definition serialize_acl :: "acl option \<Rightarrow> ser_value" where
  "serialize_acl src =
     (case src of
        Some UserStream \<Rightarrow> SerStr ''$userStreamAcl''
      | Some SystemStream \<Rightarrow> SerStr ''$systemStreamAcl''
      | Some (StreamAclOf a) \<Rightarrow> serialize_stream_acl a
      | None \<Rightarrow> SerNone)"

definition serialize_u64_opt :: "u64 option \<Rightarrow> ser_value" where
  "serialize_u64_opt src = (case src of Some w \<Rightarrow> SerU64 w | None \<Rightarrow> SerNone)"

definition serialize_metadata :: "stream_metadata \<Rightarrow> ser_value" where
  "serialize_metadata m = SerMap
     (ser_field ''$maxCount'' serialize_u64_opt (md_max_count m)
    @ ser_field ''$maxAge'' serialize_duration (md_max_age m)
    @ ser_field ''$tb'' serialize_u64_opt (md_truncate_before m)
    @ ser_field ''$cacheControl'' serialize_duration (md_cache_control m)
    @ ser_field ''$acl'' serialize_acl (md_acl m)
    @ md_custom_properties m)"

section \<open>Deserializing\<close>

text \<open>\<open>DurationVisitor\<close>, \<open>RolesVisitor\<close> and \<open>AclVisitor\<close>: what they do not visit is an error.\<close>

fun visit_duration :: "ser_value \<Rightarrow> (string, duration option) outcome" where
  "visit_duration (SerU64 w) = Ok (Some (from_millis w))"
| "visit_duration SerNone = Ok None"
| "visit_duration _ = Err ''invalid type''"

fun next_string :: "ser_value \<Rightarrow> (string, string) outcome" where
  "next_string (SerStr s) = Ok s"
| "next_string _ = Err ''invalid type''"

fun visit_roles :: "ser_value \<Rightarrow> (string, string list option) outcome" where
  "visit_roles SerNone = Ok None"
| "visit_roles (SerStr s) = Ok (Some [s])"
| "visit_roles (SerSeq xs) = map_ok Some (collect next_string xs)"
| "visit_roles _ = Err ''invalid type''"

fun visit_u64_opt :: "ser_value \<Rightarrow> (string, u64 option) outcome" where
  "visit_u64_opt SerNone = Ok None"
| "visit_u64_opt SerUnit = Ok None"
| "visit_u64_opt (SerU64 w) = Ok (Some w)"
| "visit_u64_opt (SerI64 i) = (if 0 \<le> i then Ok (Some (of_int i)) else Err ''invalid value'')"
| "visit_u64_opt _ = Err ''invalid type''"

text \<open>
  Reading an object field by field: the first entry of a name is read by the name's visitor, a
  second is an error, and the field of an absent name is its default.
\<close>

definition read_field ::
  "string \<Rightarrow> (ser_value \<Rightarrow> (string, 'a option) outcome) \<Rightarrow> (string \<times> ser_value) list
     \<Rightarrow> (string, 'a option) outcome" where
  "read_field name visit kvs =
     (case filter (\<lambda>kv. fst kv = name) kvs of
        [] \<Rightarrow> Ok None
      | [kv] \<Rightarrow> visit (snd kv)
      | _ \<Rightarrow> Err (''duplicate field '' @ name))"

fun deserialize_stream_acl :: "ser_value \<Rightarrow> (string, stream_acl) outcome" where
  "deserialize_stream_acl (SerMap kvs) =
     bind_outcome (read_field ''$r'' visit_roles kvs) (\<lambda>r.
     bind_outcome (read_field ''$w'' visit_roles kvs) (\<lambda>w.
     bind_outcome (read_field ''$d'' visit_roles kvs) (\<lambda>d.
     bind_outcome (read_field ''$mr'' visit_roles kvs) (\<lambda>mr.
     bind_outcome (read_field ''$mw'' visit_roles kvs) (\<lambda>mw.
       Ok \<lparr>acl_read_roles = r, acl_write_roles = w, acl_delete_roles = d,
           acl_meta_read_roles = mr, acl_meta_write_roles = mw\<rparr>)))))"
| "deserialize_stream_acl _ = Err ''invalid type''"

fun visit_acl :: "ser_value \<Rightarrow> (string, acl option) outcome" where
  "visit_acl (SerStr s) =
     (if s = ''$userStreamAcl'' then Ok (Some UserStream)
      else if s = ''$systemStreamAcl'' then Ok (Some SystemStream)
      else Err ''invalid value'')"
| "visit_acl SerNone = Ok None"
| "visit_acl (SerMap kvs) =
     map_ok (\<lambda>a. Some (StreamAclOf a)) (deserialize_stream_acl (SerMap kvs))"
| "visit_acl _ = Err ''invalid type''"

definition metadata_keys :: "string list" where
  "metadata_keys = [''$maxCount'', ''$maxAge'', ''$tb'', ''$cacheControl'', ''$acl'']"

fun deserialize_metadata :: "ser_value \<Rightarrow> (string, stream_metadata) outcome" where
  "deserialize_metadata (SerMap kvs) =
     bind_outcome (read_field ''$maxCount'' visit_u64_opt kvs) (\<lambda>mc.
     bind_outcome (read_field ''$maxAge'' visit_duration kvs) (\<lambda>ma.
     bind_outcome (read_field ''$tb'' visit_u64_opt kvs) (\<lambda>tb.
     bind_outcome (read_field ''$cacheControl'' visit_duration kvs) (\<lambda>cc.
     bind_outcome (read_field ''$acl'' visit_acl kvs) (\<lambda>a.
       Ok \<lparr>md_max_count = mc, md_max_age = ma, md_truncate_before = tb,
           md_cache_control = cc, md_acl = a,
           md_custom_properties =
             AList.updates
               (map fst (filter (\<lambda>kv. fst kv \<notin> set metadata_keys) kvs))
               (map snd (filter (\<lambda>kv. fst kv \<notin> set metadata_keys) kvs)) []\<rparr>)))))"
| "deserialize_metadata _ = Err ''invalid type''"

section \<open>Reading back what was written\<close>

text \<open>
  Durations are written in whole milliseconds in a \<open>u64\<close>; this is the value that comes back.
\<close>

definition whole_millis :: "duration \<Rightarrow> duration" where
  "whole_millis d = from_millis (millis_as_u64 d)"

definition metadata_canonical :: "stream_metadata \<Rightarrow> stream_metadata" where
  "metadata_canonical m =
     m\<lparr>md_max_age := map_option whole_millis (md_max_age m),
       md_cache_control := map_option whole_millis (md_cache_control m)\<rparr>"

text \<open>Custom properties are a map, and none takes the name of a system property.\<close>

definition metadata_wf :: "stream_metadata \<Rightarrow> bool" where
  "metadata_wf m \<longleftrightarrow>
     distinct (map fst (md_custom_properties m))
   \<and> (\<forall>k \<in> set (map fst (md_custom_properties m)). k \<notin> set metadata_keys)"

abbreviation reads_entries ::
  "(string \<times> ser_value) list \<Rightarrow> (string \<times> ser_value) list \<Rightarrow> bool" where
  "reads_entries \<equiv> list_all2 (\<lambda>x y. fst x = fst y \<and> reads_as (snd x) (snd y))"

lemma reads_entries_keys: "reads_entries xs ys \<Longrightarrow> map fst ys = map fst xs"
  by (induction rule: list_all2_induct) auto

lemma reads_entries_append:
  "reads_entries (xs @ ys) zs \<longleftrightarrow> (\<exists>us vs. zs = us @ vs \<and> reads_entries xs us \<and> reads_entries ys vs)"
proof
  assume "reads_entries (xs @ ys) zs"
  then show "\<exists>us vs. zs = us @ vs \<and> reads_entries xs us \<and> reads_entries ys vs"
    by (auto simp: list_all2_append1)
next
  assume "\<exists>us vs. zs = us @ vs \<and> reads_entries xs us \<and> reads_entries ys vs"
  then show "reads_entries (xs @ ys) zs" by (auto intro: list_all2_appendI)
qed

text \<open>A written field, read back, is one entry whose value its visitor turns into what it was.\<close>

definition field_reads ::
  "('a option \<Rightarrow> ser_value) \<Rightarrow> (ser_value \<Rightarrow> (string, 'a option) outcome) \<Rightarrow> ('a \<Rightarrow> 'a) \<Rightarrow> bool" where
  "field_reads ser visit canon \<longleftrightarrow>
     (\<forall>x v. reads_as (ser (Some x)) v \<longrightarrow> visit v = Ok (Some (canon x)))"

lemma field_reads_u64: "field_reads serialize_u64_opt visit_u64_opt (\<lambda>x. x)"
  by (simp add: field_reads_def serialize_u64_opt_def)

lemma field_reads_duration: "field_reads serialize_duration visit_duration whole_millis"
  by (simp add: field_reads_def serialize_duration_def whole_millis_def)

lemma collect_next_string [simp]: "collect next_string (map SerStr ss) = Ok ss"
  by (induction ss) auto

lemma field_reads_roles: "field_reads serialize_roles visit_roles (\<lambda>x. x)"
  unfolding field_reads_def serialize_roles_def
  by (auto simp: length_Suc_conv)

lemma filter_ser_field:
  "reads_entries (ser_field n ser src) us \<Longrightarrow>
     filter (\<lambda>kv. fst kv = n') us = (if n = n' then us else [])"
  by (auto simp: ser_field_def list_all2_Cons1 split: if_splits)

lemma read_own_field:
  assumes "field_reads ser visit canon" and "reads_entries (ser_field n ser src) us"
  shows "(case us of [] \<Rightarrow> Ok None | [kv] \<Rightarrow> visit (snd kv) | _ \<Rightarrow> Err e) = Ok (map_option canon src)"
  using assms by (cases src) (auto simp: ser_field_def field_reads_def list_all2_Cons1)

lemma filter_absent: "n \<notin> set (map fst kvs) \<Longrightarrow> filter (\<lambda>kv. fst kv = n) kvs = []"
  by (induction kvs) auto

lemma field_reads_stream_acl:
  "reads_as (serialize_stream_acl a) v \<Longrightarrow> deserialize_stream_acl v = Ok a"
proof -
  assume "reads_as (serialize_stream_acl a) v"
  then obtain u1 u2 u3 u4 u5 where v: "v = SerMap (u1 @ u2 @ u3 @ u4 @ u5)"
    and us: "reads_entries (ser_field ''$r'' serialize_roles (acl_read_roles a)) u1"
      "reads_entries (ser_field ''$w'' serialize_roles (acl_write_roles a)) u2"
      "reads_entries (ser_field ''$d'' serialize_roles (acl_delete_roles a)) u3"
      "reads_entries (ser_field ''$mr'' serialize_roles (acl_meta_read_roles a)) u4"
      "reads_entries (ser_field ''$mw'' serialize_roles (acl_meta_write_roles a)) u5"
    by (auto simp: serialize_stream_acl_def reads_entries_append)
  note filters = us [THEN filter_ser_field]
  note reads = us [THEN read_own_field [OF field_reads_roles]]
  show ?thesis
    by (simp add: v read_field_def filters reads option.map_ident)
qed

lemma field_reads_acl: "field_reads serialize_acl visit_acl (\<lambda>x. x)"
  unfolding field_reads_def
proof (intro allI impI)
  fix x v
  assume r: "reads_as (serialize_acl (Some x)) v"
  show "visit_acl v = Ok (Some x)"
  proof (cases x)
    case (StreamAclOf a)
    with r have "reads_as (serialize_stream_acl a) v" by (simp add: serialize_acl_def)
    moreover from this obtain kvs where "v = SerMap kvs"
      by (auto simp: serialize_stream_acl_def)
    ultimately show ?thesis
      using field_reads_stream_acl [of a v] StreamAclOf by simp
  qed (use r in \<open>auto simp: serialize_acl_def\<close>)
qed

lemma updates_distinct:
  "distinct (map fst kvs) \<Longrightarrow> AList.updates (map fst kvs) (map snd kvs) [] = kvs"
proof -
  have update_new: "k \<notin> set (map fst al) \<Longrightarrow> AList.update k v al = al @ [(k, v)]"
    for k :: 'a and v :: 'b and al
    by (induction al) auto
  have "distinct (map fst (al @ kvs)) \<Longrightarrow>
      AList.updates (map fst kvs) (map snd kvs) al = al @ kvs" for al :: "('a \<times> 'b) list"
  proof (induction kvs arbitrary: al)
    case Nil
    then show ?case by (simp add: AList.updates_def)
  next
    case (Cons kv kvs)
    then have "AList.update (fst kv) (snd kv) al = al @ [kv]" by (simp add: update_new)
    with Cons.IH [of "al @ [kv]"] Cons.prems show ?case
      by (cases kv) (simp add: AList.updates_def)
  qed
  from this [of "[]"] show "distinct (map fst kvs) \<Longrightarrow> AList.updates (map fst kvs) (map snd kvs) [] = kvs"
    by simp
qed

lemma filter_unclaimed:
  "reads_entries (ser_field n ser src) us \<Longrightarrow> n \<in> K \<Longrightarrow> filter (\<lambda>kv. fst kv \<notin> K) us = []"
  by (auto simp: ser_field_def list_all2_Cons1 split: if_splits)

text \<open>The entries a written metadata reads back as, one group per field.\<close>

lemma serialize_metadata_entries:
  assumes "reads_as (serialize_metadata m) v"
  obtains u1 u2 u3 u4 u5 cps where "v = SerMap (u1 @ u2 @ u3 @ u4 @ u5 @ cps)"
    "reads_entries (ser_field ''$maxCount'' serialize_u64_opt (md_max_count m)) u1"
    "reads_entries (ser_field ''$maxAge'' serialize_duration (md_max_age m)) u2"
    "reads_entries (ser_field ''$tb'' serialize_u64_opt (md_truncate_before m)) u3"
    "reads_entries (ser_field ''$cacheControl'' serialize_duration (md_cache_control m)) u4"
    "reads_entries (ser_field ''$acl'' serialize_acl (md_acl m)) u5"
    "reads_entries (md_custom_properties m) cps"
  using assms by (auto simp: serialize_metadata_def reads_entries_append)

lemma metadata_reads_back:
  assumes wf: "metadata_wf m" and r: "reads_as (serialize_metadata m) v"
  shows "\<exists>cps. reads_entries (md_custom_properties m) cps
    \<and> deserialize_metadata v = Ok ((metadata_canonical m)\<lparr>md_custom_properties := cps\<rparr>)"
proof -
  from r obtain u1 u2 u3 u4 u5 cps where v: "v = SerMap (u1 @ u2 @ u3 @ u4 @ u5 @ cps)"
    and u: "reads_entries (ser_field ''$maxCount'' serialize_u64_opt (md_max_count m)) u1"
      "reads_entries (ser_field ''$tb'' serialize_u64_opt (md_truncate_before m)) u3"
    and d: "reads_entries (ser_field ''$maxAge'' serialize_duration (md_max_age m)) u2"
      "reads_entries (ser_field ''$cacheControl'' serialize_duration (md_cache_control m)) u4"
    and a: "reads_entries (ser_field ''$acl'' serialize_acl (md_acl m)) u5"
    and c: "reads_entries (md_custom_properties m) cps"
    by (rule serialize_metadata_entries)
  have keys: "map fst cps = map fst (md_custom_properties m)" using c by (rule reads_entries_keys)
  with wf have dist: "distinct (map fst cps)" and free: "\<forall>k \<in> set (map fst cps). k \<notin> set metadata_keys"
    by (simp_all add: metadata_wf_def)
  have absent: "filter (\<lambda>kv. fst kv = k) cps = []" if "k \<in> set metadata_keys" for k
    using free that by (auto simp: filter_empty_conv)
  have kept: "filter (\<lambda>kv. fst kv \<notin> set metadata_keys) cps = cps"
    using free by (simp add: filter_id_conv)
  note filters = u [THEN filter_ser_field] d [THEN filter_ser_field] a [THEN filter_ser_field]
    absent [of "''$maxCount''"] absent [of "''$maxAge''"] absent [of "''$tb''"]
    absent [of "''$cacheControl''"] absent [of "''$acl''"]
  have K: "''$maxCount'' \<in> set metadata_keys" "''$maxAge'' \<in> set metadata_keys"
    "''$tb'' \<in> set metadata_keys" "''$cacheControl'' \<in> set metadata_keys" "''$acl'' \<in> set metadata_keys"
    by (simp_all add: metadata_keys_def)
  note dropped = filter_unclaimed [OF u(1) K(1)] filter_unclaimed [OF d(1) K(2)]
    filter_unclaimed [OF u(2) K(3)] filter_unclaimed [OF d(2) K(4)] filter_unclaimed [OF a K(5)]
  note reads = u [THEN read_own_field [OF field_reads_u64]]
    d [THEN read_own_field [OF field_reads_duration]] a [THEN read_own_field [OF field_reads_acl]]
  have claimed: "filter (\<lambda>kv. fst kv \<notin> set metadata_keys) (u1 @ u2 @ u3 @ u4 @ u5 @ cps) = cps"
    by (simp add: kept dropped)
  have "deserialize_metadata v = Ok ((metadata_canonical m)\<lparr>md_custom_properties := cps\<rparr>)"
    unfolding v deserialize_metadata.simps claimed updates_distinct [OF dist]
    by (simp add: read_field_def filters reads metadata_canonical_def option.map_ident
        metadata_keys_def)
  with c show ?thesis by blast
qed

section \<open>Properties\<close>


definition metadata_example :: stream_metadata where
  "metadata_example =
     builder_insert_custom_property ''foo'' (SerStr ''bar'')
       (builder_acl (StreamAclOf (add_read_roles ''ops'' (add_read_roles ''admin''
          (add_write_roles ''admin'' acl_builder_new))))
         (builder_truncate_before 1 (builder_max_age 2000000001 metadata_new)))"


end
