(* ===== verification/Messages.thy ===== *)
theory Messages
  imports Types
begin

text \<open>
  The protobuf messages the client exchanges with the server, as \<open>event_store/generated/common.rs\<close>,
  \<open>streams.rs\<close>, \<open>persistent.rs\<close>, \<open>gossip.rs\<close> and \<open>server_features.rs\<close> declare them: a message
  is a record, a \<open>oneof\<close> a datatype, and a field of message type or a \<open>oneof\<close> is optional. A
  request or response that only wraps an optional field is that option.
\<close>

section \<open>Common messages\<close>

record structured =
  most_significant_bits :: i64
  least_significant_bits :: i64

datatype uuid_value = Structured structured | UuidString string

record common_uuid =
  uuid_val :: "uuid_value option"

record stream_identifier =
  stream_name :: bytes

text \<open>\<open>Position\<close> of the streams messages and \<open>AllStreamPosition\<close>.\<close>

record wire_position =
  wp_commit_position :: u64
  wp_prepare_position :: u64

text \<open>\<open>prost_types::Timestamp\<close> and \<open>prost_types::Duration\<close> both hold seconds and nanoseconds.\<close>

record timestamp =
  ts_seconds :: i64
  ts_nanos :: i32

section \<open>Reading\<close>

datatype revision_option = RevisionAt u64 | RevisionStart | RevisionEnd

record stream_options =
  so_stream_identifier :: "stream_identifier option"
  so_revision_option :: "revision_option option"

datatype all_option = AllPosition wire_position | AllStart | AllEnd

record all_options =
  ao_all_option :: "all_option option"

record filter_expression =
  fe_regex :: string
  fe_prefix :: "string list"

datatype filter_target = FilterStreamIdentifier filter_expression | FilterEventType filter_expression

datatype filter_window = WindowMax u32 | WindowCount

record filter_options =
  fo_checkpoint_interval_multiplier :: u32
  fo_filter :: "filter_target option"
  fo_window :: "filter_window option"

datatype uuid_content = ContentStructured | ContentString

datatype stream_option = ReadStreamOption stream_options | ReadAllOption all_options

datatype count_option = Count u64 | CountSubscription

datatype filter_option = FilterBy filter_options | NoFilter

record read_req_options =
  rro_read_direction :: i32
  rro_resolve_links :: bool
  rro_uuid_option :: "uuid_content option option"
  rro_control_option :: "u32 option"
  rro_stream_option :: "stream_option option"
  rro_count_option :: "count_option option"
  rro_filter_option :: "filter_option option"

text \<open>\<open>CaughtUp\<close> and \<open>FellBehind\<close> have the same fields.\<close>

record live_state =
  ls_timestamp :: "timestamp option"
  ls_stream_revision :: "i64 option"
  ls_position :: "wire_position option"

record wire_recorded_event =
  wre_id :: "common_uuid option"
  wre_stream_identifier :: "stream_identifier option"
  wre_stream_revision :: u64
  wre_prepare_position :: u64
  wre_commit_position :: u64
  wre_metadata :: "(string \<times> string) list"
  wre_custom_metadata :: bytes
  wre_data :: bytes

datatype event_position = CommitPosition u64 | NoCommitPosition

record wire_read_event =
  wv_event :: "wire_recorded_event option"
  wv_link :: "wire_recorded_event option"
  wv_position :: "event_position option"

record wire_checkpoint =
  wc_commit_position :: u64
  wc_prepare_position :: u64
  wc_timestamp :: "timestamp option"

datatype read_content =
    ContentEvent wire_read_event
  | ContentConfirmation string
  | ContentCheckpoint wire_checkpoint
  | ContentStreamNotFound "stream_identifier option"
  | ContentFirstStreamPosition u64
  | ContentLastStreamPosition u64
  | ContentLastAllStreamPosition wire_position
  | ContentCaughtUp live_state
  | ContentFellBehind live_state

text \<open>\<open>ReadResp\<close> is its content.\<close>

type_synonym read_resp = "read_content option"

section \<open>Appending and deleting\<close>

text \<open>The expected revision of append, delete and tombstone requests.\<close>

datatype expected_stream_revision =
    ExpectRevision u64 | ExpectNoStream | ExpectAny | ExpectStreamExists

record append_req_options =
  aro_stream_identifier :: "stream_identifier option"
  aro_expected_stream_revision :: "expected_stream_revision option"

text \<open>\<open>ProposedMessage\<close> of append and of batch append requests.\<close>

record proposed_message =
  pm_id :: "common_uuid option"
  pm_metadata :: "(string \<times> string) list"
  pm_custom_metadata :: bytes
  pm_data :: bytes

datatype append_content = AppendOptions append_req_options | AppendProposed proposed_message

type_synonym append_req = "append_content option"

datatype success_revision = SuccessCurrentRevision u64 | SuccessNoStream

datatype success_position = SuccessPosition wire_position | SuccessNoPosition

record append_success =
  as_current_revision_option :: "success_revision option"
  as_position_option :: "success_position option"

datatype wev_current = WevCurrentRevision u64 | WevCurrentNoStream

datatype wev_expected =
    WevExpectedRevision u64 | WevExpectedAny | WevExpectedStreamExists | WevExpectedNoStream

datatype wev_current_2060 = CurrentRevision2060 u64 | NoStream2060

datatype wev_expected_2060 = ExpectedRevision2060 u64 | Any2060 | StreamExists2060

record wrong_expected_version =
  wev_current_revision_option_20_6_0 :: "wev_current_2060 option"
  wev_expected_revision_option_20_6_0 :: "wev_expected_2060 option"
  wev_current_revision_option :: "wev_current option"
  wev_expected_revision_option :: "wev_expected option"

datatype append_result =
    AppendSuccess append_success
  | AppendWrongExpectedVersion wrong_expected_version

type_synonym append_resp = "append_result option"

record delete_req_options =
  dro_stream_identifier :: "stream_identifier option"
  dro_expected_stream_revision :: "expected_stream_revision option"

text \<open>The answer to a delete or a tombstone request.\<close>

datatype delete_position = DeletedAt wire_position | DeletedNoPosition

type_synonym delete_resp = "delete_position option"

section \<open>Batch append\<close>

datatype expected_stream_position =
    ExpectStreamPosition u64 | ExpectPosNoStream | ExpectPosAny | ExpectPosStreamExists

datatype deadline_option = Deadline21100 timestamp | Deadline timestamp

record batch_options =
  bo_stream_identifier :: "stream_identifier option"
  bo_expected_stream_position :: "expected_stream_position option"
  bo_deadline_option :: "deadline_option option"

record batch_append_req =
  bar_correlation_id :: "common_uuid option"
  bar_options :: "batch_options option"
  bar_proposed_messages :: "proposed_message list"
  bar_is_final :: bool

record rpc_status =
  rpc_code :: i32
  rpc_message :: string

datatype batch_result = BatchError rpc_status | BatchSuccess append_success

record batch_append_resp =
  bap_correlation_id :: "common_uuid option"
  bap_stream_identifier :: "stream_identifier option"
  bap_result :: "batch_result option"
  bap_expected_stream_position :: "expected_stream_position option"

section \<open>Persistent subscriptions\<close>

datatype ps_stream_option = PsStream stream_identifier | PsAll

record ps_read_options =
  pro_group_name :: string
  pro_buffer_size :: i32
  pro_uuid_option :: "uuid_content option option"
  pro_stream_option :: "ps_stream_option option"

record ps_ack =
  ack_id :: bytes
  ack_ids :: "common_uuid list"

record ps_nack =
  nack_id :: bytes
  nack_ids :: "common_uuid list"
  nack_act :: i32
  nack_reason :: string

datatype ps_read_content = PsOptions ps_read_options | PsAck ps_ack | PsNack ps_nack

type_synonym ps_read_req = "ps_read_content option"

text \<open>\<open>persistent::...::RecordedEvent\<close>: its own message, with the fields of the streams one.\<close>

record ps_recorded_event =
  pre_id :: "common_uuid option"
  pre_stream_identifier :: "stream_identifier option"
  pre_stream_revision :: u64
  pre_prepare_position :: u64
  pre_commit_position :: u64
  pre_metadata :: "(string \<times> string) list"
  pre_custom_metadata :: bytes
  pre_data :: bytes

datatype retry_count_option = RetryCount i32 | NoRetryCount

record ps_read_event =
  pve_event :: "ps_recorded_event option"
  pve_link :: "ps_recorded_event option"
  pve_position :: "event_position option"
  pve_count :: "retry_count_option option"

datatype ps_content = PsEvent ps_read_event | PsSubscriptionConfirmation string

type_synonym ps_read_resp = "ps_content option"

datatype message_timeout = MessageTimeoutTicks i64 | MessageTimeoutMs i32

datatype checkpoint_after = CheckpointAfterTicks i64 | CheckpointAfterMs i32

record create_settings =
  cs_resolve_links :: bool
  cs_revision :: u64
  cs_extra_statistics :: bool
  cs_max_retry_count :: i32
  cs_min_checkpoint_count :: i32
  cs_max_checkpoint_count :: i32
  cs_max_subscriber_count :: i32
  cs_live_buffer_size :: i32
  cs_read_batch_size :: i32
  cs_history_buffer_size :: i32
  cs_named_consumer_strategy :: i32
  cs_consumer_strategy :: string
  cs_message_timeout :: "message_timeout option"
  cs_checkpoint_after :: "checkpoint_after option"

record update_settings =
  us_resolve_links :: bool
  us_revision :: u64
  us_extra_statistics :: bool
  us_max_retry_count :: i32
  us_min_checkpoint_count :: i32
  us_max_checkpoint_count :: i32
  us_max_subscriber_count :: i32
  us_live_buffer_size :: i32
  us_read_batch_size :: i32
  us_history_buffer_size :: i32
  us_named_consumer_strategy :: i32
  us_message_timeout :: "message_timeout option"
  us_checkpoint_after :: "checkpoint_after option"

record create_all_options =
  cao_all_option :: "all_option option"
  cao_filter_option :: "filter_option option"

datatype create_stream_option = CreateStream stream_options | CreateAll create_all_options

record create_req_options =
  cro_stream_identifier :: "stream_identifier option"
  cro_group_name :: string
  cro_settings :: "create_settings option"
  cro_stream_option :: "create_stream_option option"

datatype update_stream_option = UpdateStream stream_options | UpdateAll all_options

record update_req_options =
  uro_stream_identifier :: "stream_identifier option"
  uro_group_name :: string
  uro_settings :: "update_settings option"
  uro_stream_option :: "update_stream_option option"

text \<open>The options of delete and of information requests.\<close>

record ps_group_options =
  pg_group_name :: string
  pg_stream_option :: "ps_stream_option option"

datatype stop_at_option = StopAt i64 | NoLimit

record replay_options =
  rp_group_name :: string
  rp_stream_option :: "ps_stream_option option"
  rp_stop_at_option :: "stop_at_option option"

datatype list_option = ListAllSubscriptions | ListForStream "ps_stream_option option"

record wire_connection_info =
  wci_from :: string
  wci_username :: string
  wci_average_items_per_second :: i32
  wci_total_items :: i64
  wci_count_since_last_measurement :: i64
  wci_observed_measurements :: "(string \<times> i64) list"
  wci_available_slots :: i32
  wci_in_flight_messages :: i32
  wci_connection_name :: string

record subscription_info =
  si_event_source :: string
  si_group_name :: string
  si_status :: string
  si_connections :: "wire_connection_info list"
  si_average_per_second :: i32
  si_total_items :: i64
  si_count_since_last_measurement :: i64
  si_last_checkpointed_event_position :: string
  si_last_known_event_position :: string
  si_resolve_link_tos :: bool
  si_start_from :: string
  si_message_timeout_milliseconds :: i32
  si_extra_statistics :: bool
  si_max_retry_count :: i32
  si_live_buffer_size :: i32
  si_buffer_size :: i32
  si_read_batch_size :: i32
  si_check_point_after_milliseconds :: i32
  si_min_check_point_count :: i32
  si_max_check_point_count :: i32
  si_read_buffer_count :: i32
  si_live_buffer_count :: i64
  si_retry_buffer_count :: i32
  si_total_in_flight_messages :: i32
  si_outstanding_messages_count :: i32
  si_named_consumer_strategy :: string
  si_max_subscriber_count :: i32
  si_parked_message_count :: i64

section \<open>Gossip and server features\<close>

record wire_endpoint =
  we_address :: string
  we_port :: u32

record wire_member_info =
  wm_instance_id :: "common_uuid option"
  wm_time_stamp :: i64
  wm_state :: i32
  wm_is_alive :: bool
  wm_http_end_point :: "wire_endpoint option"

record supported_method =
  sm_method_name :: string
  sm_service_name :: string
  sm_features :: "string list"

record supported_methods =
  sms_methods :: "supported_method list"
  sms_event_store_server_version :: string

end
