(* ===== verification/Features.thy ===== *)
theory Features
  imports Messages
begin

text \<open>
  What a node says it can do (\<open>server_features.rs\<close>): the feature flags as a 32-bit set, the server
  version with its comparisons against a major, a major-minor and a full version, and
  \<open>supported_methods\<close>, which reads both from the server's answer. The text tonic displays for a
  status the client builds itself is a parameter.
\<close>

section \<open>Flags\<close>

type_synonym features = u32

definition NOTHING :: features where "NOTHING = 0"
definition BATCH_APPEND :: features where "BATCH_APPEND = 1"
definition PERSISTENT_SUBSCRIPTION_LIST :: features where "PERSISTENT_SUBSCRIPTION_LIST = 2"
definition PERSISTENT_SUBSCRIPTION_REPLAY :: features where "PERSISTENT_SUBSCRIPTION_REPLAY = 4"
definition PERSISTENT_SUBSCRIPTION_RESTART_SUBSYSTEM :: features where
  "PERSISTENT_SUBSCRIPTION_RESTART_SUBSYSTEM = 8"
definition PERSISTENT_SUBSCRIPTION_GET_INFO :: features where
  "PERSISTENT_SUBSCRIPTION_GET_INFO = 16"
definition PERSISTENT_SUBSCRIPTION_MANAGEMENT :: features where
  "PERSISTENT_SUBSCRIPTION_MANAGEMENT =
     or (or (or PERSISTENT_SUBSCRIPTION_LIST PERSISTENT_SUBSCRIPTION_REPLAY)
           PERSISTENT_SUBSCRIPTION_RESTART_SUBSYSTEM)
        PERSISTENT_SUBSCRIPTION_GET_INFO"
definition PERSISTENT_SUBSCRIPITON_TO_ALL :: features where "PERSISTENT_SUBSCRIPITON_TO_ALL = 32"

lemmas feature_defs [rust_simps] = NOTHING_def BATCH_APPEND_def PERSISTENT_SUBSCRIPTION_LIST_def
  PERSISTENT_SUBSCRIPTION_REPLAY_def PERSISTENT_SUBSCRIPTION_RESTART_SUBSYSTEM_def
  PERSISTENT_SUBSCRIPTION_GET_INFO_def PERSISTENT_SUBSCRIPTION_MANAGEMENT_def
  PERSISTENT_SUBSCRIPITON_TO_ALL_def

text \<open>\<open>contains\<close> of bitflags.\<close>

definition flags_contain :: "features \<Rightarrow> features \<Rightarrow> bool" where
  "flags_contain fs f \<longleftrightarrow> and fs f = f"

section \<open>Versions\<close>

record server_version =
  sv_major :: usize
  sv_minor :: usize
  sv_patch :: usize

definition server_version_default :: server_version where
  "server_version_default = \<lparr>sv_major = 0, sv_minor = 0, sv_patch = 0\<rparr>"

definition show_server_version :: "server_version \<Rightarrow> string" where
  "show_server_version v =
     show_u64 (sv_major v) @ ''.'' @ show_u64 (sv_minor v) @ ''.'' @ show_u64 (sv_patch v)"

definition version_eq1 :: "server_version \<Rightarrow> usize \<Rightarrow> bool" where
  "version_eq1 v maj \<longleftrightarrow> sv_major v = maj"

definition version_eq2 :: "server_version \<Rightarrow> usize \<times> usize \<Rightarrow> bool" where
  "version_eq2 v other \<longleftrightarrow> (let (maj, min) = other in version_eq1 v maj \<and> sv_minor v = min)"

definition version_eq3 :: "server_version \<Rightarrow> usize \<times> usize \<times> usize \<Rightarrow> bool" where
  "version_eq3 v other \<longleftrightarrow>
     (let (maj, min, patch) = other in version_eq2 v (maj, min) \<and> sv_patch v = patch)"

definition version_cmp1 :: "server_version \<Rightarrow> usize \<Rightarrow> ordering option" where
  "version_cmp1 v maj = Some (cmp_u64 (sv_major v) maj)"

definition version_cmp2 :: "server_version \<Rightarrow> usize \<times> usize \<Rightarrow> ordering option" where
  "version_cmp2 v other =
     (let (maj, min) = other in
      case version_cmp1 v maj of
        None \<Rightarrow> None
      | Some Equal \<Rightarrow> Some (cmp_u64 (sv_minor v) min)
      | Some c \<Rightarrow> Some c)"

definition version_cmp3 :: "server_version \<Rightarrow> usize \<times> usize \<times> usize \<Rightarrow> ordering option" where
  "version_cmp3 v other =
     (let (maj, min, patch) = other in
      case version_cmp2 v (maj, min) of
        None \<Rightarrow> None
      | Some Equal \<Rightarrow> Some (cmp_u64 (sv_patch v) patch)
      | Some c \<Rightarrow> Some c)"

section \<open>Server information\<close>

record server_info =
  si_version :: server_version
  si_features :: features

definition server_info_default :: server_info where
  "server_info_default = \<lparr>si_version = server_version_default, si_features = NOTHING\<rparr>"

definition contains_features :: "server_info \<Rightarrow> features \<Rightarrow> bool" where
  "contains_features i f \<longleftrightarrow> flags_contain (si_features i) f"

text \<open>\<open>Status::new\<close>: a status the client builds carries no metadata.\<close>

definition status_new :: "(code \<Rightarrow> string \<Rightarrow> string) \<Rightarrow> code \<Rightarrow> string \<Rightarrow> status" where
  "status_new display c m =
     \<lparr>st_code = c, st_message = m, st_display = display c m, st_metadata = (\<lambda>_. None)\<rparr>"

definition semver_text :: "string \<Rightarrow> string" where
  "semver_text s = filter (\<lambda>c. to_digit c \<noteq> None \<or> c = CHR ''.'') s"

text \<open>The loop over the enumerated parts: the fourth part ends it.\<close>

fun parse_version_parts ::
  "(code \<Rightarrow> string \<Rightarrow> string) \<Rightarrow> nat \<Rightarrow> string list \<Rightarrow> server_version \<Rightarrow> (status, server_version) outcome"
where
  "parse_version_parts display idx [] version = Ok version"
| "parse_version_parts display idx (ver # vers) version =
     (if idx > 2 then Ok version
      else (case parse_u64 ver of
          Ok v \<Rightarrow>
            parse_version_parts display (Suc idx) vers
              (if idx = 0 then version\<lparr>sv_major := v\<rparr>
               else if idx = 1 then version\<lparr>sv_minor := v\<rparr>
               else version\<lparr>sv_patch := v\<rparr>)
        | _ \<Rightarrow> Err (status_new display CodeInvalidArgument ''invalid semver format'')))"

definition parse_server_version ::
  "(code \<Rightarrow> string \<Rightarrow> string) \<Rightarrow> string \<Rightarrow> (status, server_version) outcome" where
  "parse_server_version display s =
     parse_version_parts display 0 (split_on (CHR ''.'') (semver_text s)) server_version_default"

text \<open>The flags one listed method adds.\<close>

fun create_features :: "string list \<Rightarrow> features \<Rightarrow> features" where
  "create_features [] features = features"
| "create_features (feat # feats) features =
     create_features feats
       (if feat = ''all'' then or features PERSISTENT_SUBSCRIPITON_TO_ALL else features)"

definition method_features :: "supported_method \<Rightarrow> features \<Rightarrow> features" where
  "method_features method features =
     (if sm_method_name method = ''batchappend''
         \<and> sm_service_name method = ''event_store.client.streams.streams''
      then or features BATCH_APPEND
      else if sm_service_name method
          = ''event_store.client.persistent_subscriptions.persistentsubscriptions''
      then (if sm_method_name method = ''create'' then create_features (sm_features method) features
            else if sm_method_name method = ''getinfo''
              then or features PERSISTENT_SUBSCRIPTION_GET_INFO
            else if sm_method_name method = ''replayparked''
              then or features PERSISTENT_SUBSCRIPTION_REPLAY
            else if sm_method_name method = ''list'' then or features PERSISTENT_SUBSCRIPTION_LIST
            else if sm_method_name method = ''restartsubsystem''
              then or features PERSISTENT_SUBSCRIPTION_RESTART_SUBSYSTEM
            else features)
      else features)"

fun all_features :: "supported_method list \<Rightarrow> features \<Rightarrow> features" where
  "all_features [] features = features"
| "all_features (m # ms) features = all_features ms (method_features m features)"

text \<open>\<open>response\<close> is the answer to \<open>GetSupportedMethods\<close>.\<close>

definition supported_methods_info ::
  "(code \<Rightarrow> string \<Rightarrow> string) \<Rightarrow> (status, supported_methods) outcome \<Rightarrow> (status, server_info) outcome"
where
  "supported_methods_info display response =
     bind_outcome response (\<lambda>methods.
     bind_outcome (parse_server_version display (sms_event_store_server_version methods)) (\<lambda>version.
       Ok \<lparr>si_version = version, si_features = all_features (sms_methods methods) NOTHING\<rparr>))"

section \<open>Facts\<close>

text \<open>The method is one of the persistent subscription service.\<close>

definition is_ps_method :: "string \<Rightarrow> supported_method \<Rightarrow> bool" where
  "is_ps_method name m \<longleftrightarrow> sm_method_name m = name
     \<and> sm_service_name m = ''event_store.client.persistent_subscriptions.persistentsubscriptions''"

definition is_batch_append :: "supported_method \<Rightarrow> bool" where
  "is_batch_append m \<longleftrightarrow> sm_method_name m = ''batchappend''
     \<and> sm_service_name m = ''event_store.client.streams.streams''"

text \<open>Which bit each method sets: the bits of the feature set, one by one.\<close>

lemma bit_feature_numerals:
  "bit (1 :: u32) n \<longleftrightarrow> n = 0" "bit (2 :: u32) n \<longleftrightarrow> n = 1" "bit (4 :: u32) n \<longleftrightarrow> n = 2"
  "bit (8 :: u32) n \<longleftrightarrow> n = 3" "bit (16 :: u32) n \<longleftrightarrow> n = 4" "bit (32 :: u32) n \<longleftrightarrow> n = 5"
  using bit_exp_iff [of 0 n, where 'a = u32] bit_exp_iff [of 1 n, where 'a = u32]
    bit_exp_iff [of 2 n, where 'a = u32] bit_exp_iff [of 3 n, where 'a = u32]
    bit_exp_iff [of 4 n, where 'a = u32] bit_exp_iff [of 5 n, where 'a = u32]
  by (auto simp del: bit_numeral_word_iff)

declare bit_numeral_word_iff [simp del]

lemma bit_flag_sets:
  "bit BATCH_APPEND n \<longleftrightarrow> n = 0"
  "bit PERSISTENT_SUBSCRIPTION_LIST n \<longleftrightarrow> n = 1"
  "bit PERSISTENT_SUBSCRIPTION_REPLAY n \<longleftrightarrow> n = 2"
  "bit PERSISTENT_SUBSCRIPTION_RESTART_SUBSYSTEM n \<longleftrightarrow> n = 3"
  "bit PERSISTENT_SUBSCRIPTION_GET_INFO n \<longleftrightarrow> n = 4"
  "bit PERSISTENT_SUBSCRIPITON_TO_ALL n \<longleftrightarrow> n = 5"
  by (simp_all only: BATCH_APPEND_def PERSISTENT_SUBSCRIPTION_LIST_def
      PERSISTENT_SUBSCRIPTION_REPLAY_def PERSISTENT_SUBSCRIPTION_RESTART_SUBSYSTEM_def
      PERSISTENT_SUBSCRIPTION_GET_INFO_def PERSISTENT_SUBSCRIPITON_TO_ALL_def bit_feature_numerals)

lemma bit_management:
  "bit PERSISTENT_SUBSCRIPTION_MANAGEMENT n \<longleftrightarrow> n \<in> {1, 2, 3, 4}"
  by (auto simp only: PERSISTENT_SUBSCRIPTION_MANAGEMENT_def bit_or_iff bit_flag_sets
      insert_iff empty_iff)

lemma bit_create_features:
  "bit (create_features feats f) n \<longleftrightarrow> bit f n \<or> n = 5 \<and> ''all'' \<in> set feats"
  by (induction feats f rule: create_features.induct)
    (auto simp: bit_or_iff bit_flag_sets)

lemma bit_method_features:
  "bit (method_features m f) n \<longleftrightarrow> bit f n
     \<or> n = 0 \<and> is_batch_append m
     \<or> n = 1 \<and> is_ps_method ''list'' m
     \<or> n = 2 \<and> is_ps_method ''replayparked'' m
     \<or> n = 3 \<and> is_ps_method ''restartsubsystem'' m
     \<or> n = 4 \<and> is_ps_method ''getinfo'' m
     \<or> n = 5 \<and> is_ps_method ''create'' m \<and> ''all'' \<in> set (sm_features m)"
  by (auto simp: method_features_def is_ps_method_def is_batch_append_def bit_create_features
      bit_or_iff bit_flag_sets)

lemma bit_all_features:
  "bit (all_features ms f) n \<longleftrightarrow> bit f n \<or> (\<exists>m \<in> set ms.
       n = 0 \<and> is_batch_append m
     \<or> n = 1 \<and> is_ps_method ''list'' m
     \<or> n = 2 \<and> is_ps_method ''replayparked'' m
     \<or> n = 3 \<and> is_ps_method ''restartsubsystem'' m
     \<or> n = 4 \<and> is_ps_method ''getinfo'' m
     \<or> n = 5 \<and> is_ps_method ''create'' m \<and> ''all'' \<in> set (sm_features m))"
  by (induction ms f rule: all_features.induct) (auto simp: bit_method_features)

lemma flags_contain_iff: "flags_contain fs f \<longleftrightarrow> (\<forall>n. bit f n \<longrightarrow> bit fs n)"
proof
  assume "flags_contain fs f"
  then have "bit (and fs f) n \<longleftrightarrow> bit f n" for n by (simp add: flags_contain_def)
  then show "\<forall>n. bit f n \<longrightarrow> bit fs n" by (auto simp: bit_and_iff)
next
  assume "\<forall>n. bit f n \<longrightarrow> bit fs n"
  then show "flags_contain fs f" by (auto simp: flags_contain_def bit_eq_iff bit_and_iff)
qed

text \<open>
  C25. What the client concludes from the list of supported methods: batch append is available
  exactly when the streams service lists \<open>batchappend\<close>; subscriptions to \<open>$all\<close> exactly when the
  persistent subscription service lists a \<open>create\<close> with the feature \<open>all\<close>; and the management
  set exactly when that service lists all four of \<open>list\<close>, \<open>replayparked\<close>, \<open>restartsubsystem\<close> and
  \<open>getinfo\<close>, one missing being enough to fall back to the HTTP interface.
\<close>

theorem features_of_listed_methods:
  assumes "supported_methods_info display (Ok methods) = Ok info"
  shows "(contains_features info BATCH_APPEND \<longleftrightarrow>
            (\<exists>m \<in> set (sms_methods methods). is_batch_append m))
       \<and> (contains_features info PERSISTENT_SUBSCRIPITON_TO_ALL \<longleftrightarrow>
            (\<exists>m \<in> set (sms_methods methods).
               is_ps_method ''create'' m \<and> ''all'' \<in> set (sm_features m)))
       \<and> (contains_features info PERSISTENT_SUBSCRIPTION_MANAGEMENT \<longleftrightarrow>
            (\<forall>name \<in> {''list'', ''replayparked'', ''restartsubsystem'', ''getinfo''}.
               \<exists>m \<in> set (sms_methods methods). is_ps_method name m))"
proof -
  have "si_features info = all_features (sms_methods methods) NOTHING"
    using assms by (auto simp: supported_methods_info_def)
  then show ?thesis
    by (auto simp: contains_features_def flags_contain_iff bit_flag_sets bit_management
        bit_all_features NOTHING_def)
qed

lemma features_of_listed_methods_witness:
  "contains_features
     \<lparr>si_version = \<lparr>sv_major = 21, sv_minor = 10, sv_patch = 0\<rparr>, si_features = 1\<rparr> BATCH_APPEND"
proof -
  have "supported_methods_info (\<lambda>_ _. []) (Ok
      \<lparr>sms_methods = [\<lparr>sm_method_name = ''batchappend'',
         sm_service_name = ''event_store.client.streams.streams'', sm_features = []\<rparr>],
       sms_event_store_server_version = ''21.10.0''\<rparr>) =
     Ok \<lparr>si_version = \<lparr>sv_major = 21, sv_minor = 10, sv_patch = 0\<rparr>, si_features = 1\<rparr>"
  proof -
    have "parse_u64 ''21'' = Ok 21 \<and> parse_u64 ''10'' = Ok 10 \<and> parse_u64 ''0'' = Ok 0"
      by (simp add: parse_u64_def parse_unsigned_def)
    moreover have "split_on (CHR ''.'') (semver_text ''21.10.0'') = [''21'', ''10'', ''0'']"
      by code_simp
    ultimately show ?thesis
      by (simp add: supported_methods_info_def parse_server_version_def
          server_version_default_def method_features_def NOTHING_def BATCH_APPEND_def)
  qed
  from features_of_listed_methods [OF this] show ?thesis by (auto simp: is_batch_append_def)
qed

lemma semver_text_show [simp]: "semver_text (show_server_version v) = show_server_version v"
proof -
  have digits: "to_digit c \<noteq> None" if "c \<in> set (show_u64 w)" for c w
    using that show_nat_digits [of c "unat w"] by (auto simp: show_u64_def)
  then have "list_all (\<lambda>c. to_digit c \<noteq> None \<or> c = CHR ''.'') (show_server_version v)"
    by (auto simp: show_server_version_def list_all_iff)
  then show ?thesis by (simp add: semver_text_def list_all_iff)
qed

lemma dot_not_in_show_u64 [simp]: "CHR ''.'' \<notin> set (show_u64 w)"
proof
  assume "CHR ''.'' \<in> set (show_u64 w)"
  then obtain d where "d < 10" "CHR ''.'' = digit_char d"
    using show_nat_digits by (auto simp: show_u64_def)
  then have "to_digit (CHR ''.'') = Some d" by (metis to_digit_digit_char)
  then show False by (simp add: to_digit_def)
qed

text \<open>
  C36. The three comparisons of a server version are one order seen at three depths: they never
  fail, a comparison says equal exactly when the equality test does, and comparing with a full
  version is comparing the three numbers lexicographically.
\<close>

theorem version_comparisons:
  "(version_cmp1 v a = Some Equal \<longleftrightarrow> version_eq1 v a)
   \<and> (version_cmp2 v (a, b) = Some Equal \<longleftrightarrow> version_eq2 v (a, b))
   \<and> (version_cmp3 v (a, b, c) = Some Equal \<longleftrightarrow> version_eq3 v (a, b, c))
   \<and> (version_cmp3 v (a, b, c) = Some Less \<longleftrightarrow>
        sv_major v < a \<or> sv_major v = a \<and> sv_minor v < b
        \<or> sv_major v = a \<and> sv_minor v = b \<and> sv_patch v < c)
   \<and> (version_cmp3 v (a, b, c) = Some Greater \<longleftrightarrow>
        a < sv_major v \<or> sv_major v = a \<and> b < sv_minor v
        \<or> sv_major v = a \<and> sv_minor v = b \<and> c < sv_patch v)"
  by (auto simp: version_cmp1_def version_cmp2_def version_cmp3_def version_eq1_def
      version_eq2_def version_eq3_def cmp_u64_def split: if_splits)


end
