(* ===== verification/Settings.thy ===== *)
theory Settings
  imports Serde
begin

text \<open>
  Connection strings (\<open>grpc.rs\<close>): the client settings and their defaults and accessors,
  \<open>parse_param\<close>, \<open>parse_gossip_seed\<close>, \<open>parse_from_url\<close> and \<open>from_str\<close> with its rewriting of gossip
  seeds, and the serde functions of the durations. The url crate is a parameter: a parser, and for
  each parsed URL what its accessors return. Warnings that are only logged are left out.
\<close>

section \<open>Settings\<close>

record client_settings =
  dns_discover :: bool
  hosts :: "endpoint list"
  max_discover_attempts :: usize
  discovery_interval :: duration
  gossip_timeout :: duration
  preference :: node_preference
  secure :: bool
  tls_verify_cert :: bool
  default_user_name :: "credentials option"
  keep_alive_interval :: duration
  keep_alive_timeout :: duration
  default_deadline :: "duration option"
  connection_name :: "string option"
  tls_ca_file :: "string option"
  user_cert_file :: "string option"
  user_key_file :: "string option"

definition KEEP_ALIVE_INTERVAL_IN_MS :: u64 where "KEEP_ALIVE_INTERVAL_IN_MS = 10000"
definition KEEP_ALIVE_TIMEOUT_IN_MS :: u64 where "KEEP_ALIVE_TIMEOUT_IN_MS = 10000"

definition client_settings_default :: client_settings where
  "client_settings_default =
     \<lparr>dns_discover = False,
      hosts = [],
      max_discover_attempts = 3,
      discovery_interval = from_millis 500,
      gossip_timeout = from_secs 3,
      preference = Leader,
      secure = True,
      tls_verify_cert = True,
      default_user_name = None,
      keep_alive_interval = from_millis KEEP_ALIVE_INTERVAL_IN_MS,
      keep_alive_timeout = from_millis KEEP_ALIVE_TIMEOUT_IN_MS,
      default_deadline = None,
      connection_name = None,
      tls_ca_file = None,
      user_cert_file = None,
      user_key_file = None\<rparr>"

text \<open>\<open>to_uri\<close> and \<open>to_hyper_uri\<close> parse this text; the parser is the http crate's.\<close>

definition uri_text :: "client_settings \<Rightarrow> endpoint \<Rightarrow> string" where
  "uri_text s e =
     (if secure s then ''https'' else ''http'') @ ''://'' @ ep_host e @ '':''
       @ show_nat (unat (ep_port e))"

definition to_hyper_uri :: "(string \<Rightarrow> 'u option) \<Rightarrow> client_settings \<Rightarrow> endpoint \<Rightarrow> (error, 'u) outcome" where
  "to_hyper_uri parse_uri s e = unwrap (parse_uri (uri_text s e))"

definition user_certificate :: "client_settings \<Rightarrow> (string \<times> string) option" where
  "user_certificate s =
     (case (user_cert_file s, user_key_file s) of
        (Some c, Some k) \<Rightarrow> Some (c, k)
      | _ \<Rightarrow> None)"

section \<open>Serde of durations\<close>

definition serialize_settings_duration :: "duration \<Rightarrow> ser_value" where
  "serialize_settings_duration d = SerU64 (millis_as_u64 d)"

text \<open>\<open>DurationVisitor\<close> has \<open>visit_i64\<close> only.\<close>

fun visit_settings_duration :: "ser_value \<Rightarrow> (string, duration) outcome" where
  "visit_settings_duration (SerI64 v) =
     (if v = - 1 then Ok (from_millis (- 1)) else Ok (from_millis (of_int v)))"
| "visit_settings_duration _ = Err ''invalid type''"

fun serialize_optional_duration :: "duration option \<Rightarrow> ser_value" where
  "serialize_optional_duration (Some d) = serialize_settings_duration d"
| "serialize_optional_duration None = SerNone"

text \<open>A format shows \<open>visit_none\<close> for null and \<open>visit_some\<close> for any other value.\<close>

fun visit_optional_duration :: "ser_value \<Rightarrow> (string, duration option) outcome" where
  "visit_optional_duration SerUnit = Ok None"
| "visit_optional_duration SerNone = Ok None"
| "visit_optional_duration v = map_ok Some (visit_settings_duration v)"

section \<open>Parsing a connection string\<close>

datatype url_parse_error = InvalidPort | OtherUrlError string

record settings_parse_error =
  spe_message :: string
  spe_error :: "url_parse_error option"

text \<open>What the accessors of a parsed \<open>Url\<close> return.\<close>

record url =
  url_scheme :: string
  url_username :: string
  url_password :: "string option"
  url_path :: string
  url_has_host :: bool
  url_host_str :: "string option"
  url_port :: "u16 option"
  url_path_segments :: "string list option"
  url_query_pairs :: "(string \<times> string) list"

definition parse_error :: "string \<Rightarrow> settings_parse_error" where
  "parse_error m = \<lparr>spe_message = m, spe_error = None\<rparr>"

text \<open>\<open>parse_param\<close>, over the \<open>FromStr\<close> of the type with its errors displayed.\<close>

definition parse_param ::
  "(string \<Rightarrow> (string, 'a) outcome) \<Rightarrow> string \<Rightarrow> string \<Rightarrow> (settings_parse_error, 'a) outcome" where
  "parse_param parse param_name value =
     map_err (\<lambda>e. parse_error
        (''Invalid format for param '' @ [CHR 0x27] @ param_name @ [CHR 0x27] @ ''. value = ''
         @ [CHR 0x27] @ value @ [CHR 0x27] @ '': '' @ e))
       (parse value)"

definition usize_from_str :: "string \<Rightarrow> (string, usize) outcome" where
  "usize_from_str s = map_err show_int_error (parse_u64 s)"

definition i64_from_str :: "string \<Rightarrow> (string, int) outcome" where
  "i64_from_str s = map_err show_int_error (parse_i64 s)"

definition parse_preference :: "string \<Rightarrow> (settings_parse_error, node_preference) outcome" where
  "parse_preference value =
     (let v = to_lowercase value in
      if v = ''follower'' then Ok Follower
      else if v = ''random'' then Ok Random
      else if v = ''leader'' then Ok Leader
      else if v = ''readonlyreplica'' then Ok ReadOnlyReplica
      else Err (parse_error
        (''Unknown node preference value '' @ [CHR 0x27] @ v @ [CHR 0x27])))"

text \<open>
  The two keep-alive parameters: \<open>None\<close> is the \<open>continue\<close> that leaves the setting as it was (a
  value below the recommended one).
\<close>

definition parse_keep_alive ::
  "string \<Rightarrow> u64 \<Rightarrow> string \<Rightarrow> string \<Rightarrow> (settings_parse_error, duration option) outcome" where
  "parse_keep_alive label recommended name value =
     bind_outcome (parse_param i64_from_str name value) (\<lambda>v.
       if 0 \<le> v \<and> v < sint recommended then Ok None
       else if v = - 1 then Ok (Some (from_millis (- 1)))
       else if v < - 1 then Err (parse_error
         (''Invalid '' @ label @ '' of '' @ show_int v
          @ ''. Please provide a positive integer, or -1 to disable''))
       else Ok (Some (from_millis (of_int v))))"

definition parse_deadline :: "string \<Rightarrow> string \<Rightarrow> (settings_parse_error, duration) outcome" where
  "parse_deadline name value =
     bind_outcome (parse_param i64_from_str name value) (\<lambda>v.
       if v = - 1 then Ok (from_millis (- 1))
       else if v < - 1 then Err (parse_error
         (''Invalid defaultDeadline of '' @ show_int v
          @ ''. Please provide a positive integer, or -1 to disable''))
       else Ok (from_millis (of_int v)))"

text \<open>One parameter of the query: the body of the loop over \<open>query_pairs\<close>.\<close>

definition apply_param ::
  "string \<times> string \<Rightarrow> client_settings \<Rightarrow> (settings_parse_error, client_settings) outcome" where
  "apply_param pair result =
     (let (param, value) = pair; name = to_lowercase param in
      if name = ''maxdiscoverattempts'' then
        map_ok (\<lambda>v. result\<lparr>max_discover_attempts := v\<rparr>) (parse_param usize_from_str name value)
      else if name = ''discoveryinterval'' then
        map_ok (\<lambda>v. result\<lparr>discovery_interval := from_millis v\<rparr>)
          (parse_param usize_from_str name value)
      else if name = ''gossiptimeout'' then
        map_ok (\<lambda>v. result\<lparr>gossip_timeout := from_millis v\<rparr>) (parse_param usize_from_str name value)
      else if name = ''tls'' then
        map_ok (\<lambda>v. result\<lparr>secure := v\<rparr>) (parse_param parse_bool name value)
      else if name = ''tlsverifycert'' then
        map_ok (\<lambda>v. result\<lparr>tls_verify_cert := v\<rparr>) (parse_param parse_bool name value)
      else if name = ''nodepreference'' then
        map_ok (\<lambda>v. result\<lparr>preference := v\<rparr>) (parse_preference value)
      else if name = ''keepaliveinterval'' then
        map_ok (\<lambda>d. case d of None \<Rightarrow> result | Some d \<Rightarrow> result\<lparr>keep_alive_interval := d\<rparr>)
          (parse_keep_alive ''keepAliveInterval'' KEEP_ALIVE_INTERVAL_IN_MS name value)
      else if name = ''keepalivetimeout'' then
        map_ok (\<lambda>d. case d of None \<Rightarrow> result | Some d \<Rightarrow> result\<lparr>keep_alive_timeout := d\<rparr>)
          (parse_keep_alive ''keepAliveTimeout'' KEEP_ALIVE_TIMEOUT_IN_MS name value)
      else if name = ''defaultdeadline'' then
        map_ok (\<lambda>d. result\<lparr>default_deadline := Some d\<rparr>) (parse_deadline name value)
      else if name = ''connectionname'' then Ok (result\<lparr>connection_name := Some value\<rparr>)
      else if name = ''usercertfile'' then Ok (result\<lparr>user_cert_file := Some value\<rparr>)
      else if name = ''userkeyfile'' then Ok (result\<lparr>user_key_file := Some value\<rparr>)
      else if name = ''tlscafile'' then Ok (result\<lparr>tls_ca_file := Some value\<rparr>)
      else Ok result)"

fun apply_params ::
  "(string \<times> string) list \<Rightarrow> client_settings \<Rightarrow> (settings_parse_error, client_settings) outcome" where
  "apply_params [] result = Ok result"
| "apply_params (p # ps) result = bind_outcome (apply_param p result) (apply_params ps)"

definition push_host :: "endpoint \<Rightarrow> client_settings \<Rightarrow> client_settings" where
  "push_host e result = result\<lparr>hosts := hosts result @ [e]\<rparr>"

definition parse_gossip_seed ::
  "string \<Rightarrow> client_settings \<Rightarrow> (settings_parse_error, client_settings) outcome" where
  "parse_gossip_seed host result =
     (case split_on (CHR '':'') host of
        [_] \<Rightarrow> Ok (push_host \<lparr>ep_host = host, ep_port = 2113\<rparr> result)
      | [h, p] \<Rightarrow>
          (case parse_u16 p of
             Ok port \<Rightarrow> Ok (push_host \<lparr>ep_host = h, ep_port = ucast port\<rparr> result)
           | _ \<Rightarrow> Err (parse_error (''Invalid port number: '' @ p)))
      | _ \<Rightarrow> Err (parse_error
          (''Invalid host part: '' @ [CHR 0x27] @ host @ [CHR 0x27])))"

fun parse_gossip_seeds ::
  "string list \<Rightarrow> client_settings \<Rightarrow> (settings_parse_error, client_settings) outcome" where
  "parse_gossip_seeds [] result = Ok result"
| "parse_gossip_seeds (h # hs) result =
     bind_outcome (parse_gossip_seed h result) (parse_gossip_seeds hs)"

definition url_port_or_default :: "url \<Rightarrow> u32" where
  "url_port_or_default u = (case url_port u of Some p \<Rightarrow> ucast p | None \<Rightarrow> 2113)"

text \<open>The part of \<open>parse_from_url\<close> that fills the hosts when none was given.\<close>

definition hosts_from_url ::
  "url \<Rightarrow> client_settings \<Rightarrow> (settings_parse_error, client_settings) outcome" where
  "hosts_from_url u result =
     (if hosts result \<noteq> [] then Ok result
      else (let host = (case url_host_str u of Some h \<Rightarrow> h | None \<Rightarrow> []) in
            if CHR '','' \<notin> set host
            then Ok (push_host \<lparr>ep_host = host, ep_port = url_port_or_default u\<rparr> result)
            else parse_gossip_seeds (split_on (CHR '','') host) result))"

definition parse_from_url ::
  "client_settings \<Rightarrow> url \<Rightarrow> (settings_parse_error, client_settings) outcome" where
  "parse_from_url result u =
     bind_outcome
       (if url_scheme u = ''esdb'' then Ok (result\<lparr>dns_discover := False\<rparr>)
        else if url_scheme u = ''esdb+discover'' then Ok (result\<lparr>dns_discover := True\<rparr>)
        else Err (parse_error (''Unknown URL scheme: '' @ url_scheme u))) (\<lambda>r1.
     let r2 = (if url_username u \<noteq> []
               then r1\<lparr>default_user_name := Some (credentials_new (url_username u)
                      (case url_password u of Some p \<Rightarrow> p | None \<Rightarrow> []))\<rparr>
               else r1) in
     if hosts r2 = [] \<and> url_path u \<noteq> [] \<and> url_path u \<noteq> ''/''
     then Err (parse_error (''Unsupported URL path: '' @ url_path u))
     else if hosts r2 = [] \<and> \<not> url_has_host u
     then Err (parse_error (''Connection string doesn'' @ [CHR 0x27] @ ''t have an host''))
     else bind_outcome (hosts_from_url u r2) (\<lambda>r3.
          bind_outcome (apply_params (url_query_pairs u) r3) (\<lambda>r4.
          if (user_key_file r4 = None) \<noteq> (user_cert_file r4 = None)
          then Err (parse_error
            (''Invalid user certificate settings. Both userCertFile and userKeyFile must be ''
             @ ''provided''))
          else Ok r4)))"

text \<open>\<open>parse\<close> is \<open>str::parse::<Url>\<close>.\<close>

definition client_settings_from_str ::
  "(string \<Rightarrow> (url_parse_error, url) outcome) \<Rightarrow> string
     \<Rightarrow> (settings_parse_error, client_settings) outcome" where
  "client_settings_from_str parse s =
     (case parse s of
        Err e \<Rightarrow>
          (let failure = \<lparr>spe_message = s, spe_error = Some e\<rparr> in
           if e = InvalidPort \<and> CHR '','' \<in> set s then
             (case parse (map (\<lambda>c. if c = CHR '','' then CHR ''/'' else c) s) of
                Ok u \<Rightarrow>
                  (case url_host_str u of
                     None \<Rightarrow> Err failure
                   | Some host \<Rightarrow>
                       bind_outcome
                         (parse_gossip_seeds
                            (case url_path_segments u of Some segs \<Rightarrow> segs | None \<Rightarrow> [])
                            (push_host \<lparr>ep_host = host, ep_port = url_port_or_default u\<rparr>
                               client_settings_default))
                         (\<lambda>setts. parse_from_url setts u))
              | _ \<Rightarrow> Err failure)
           else Err failure)
      | Ok u \<Rightarrow> parse_from_url client_settings_default u
      | Panic \<Rightarrow> Panic)"

section \<open>Facts\<close>

lemma parse_keep_alive_bound:
  assumes "parse_keep_alive label 10000 name value = Ok (Some d)"
  shows "from_millis 10000 \<le> d"
proof -
  obtain v where v: "parse_param i64_from_str name value = Ok v"
    and d: "v = - 1 \<and> d = from_millis (- 1) \<or> 10000 \<le> v \<and> d = from_millis (of_int v)"
    using assms by (auto simp: parse_keep_alive_def split: if_splits)
  have "v < 2 ^ 63"
    using v parse_i64_range by (auto simp: parse_param_def i64_from_str_def)
  with d have "10000 \<le> v \<longrightarrow> unat (of_int v :: u64) = nat v"
    by (auto simp: unsigned_of_int take_bit_int_eq_self)
  moreover have "unat (- 1 :: u64) = u64_max"
    by (simp add: unsigned_minus_1_eq_mask mask_eq_exp_minus_1)
  ultimately show ?thesis using d by (auto simp: from_millis_def)
qed

text \<open>What no parameter breaks: the hosts stay, and the keep-alive durations stay at 10s or more.\<close>

definition settings_inv :: "client_settings \<Rightarrow> bool" where
  "settings_inv s \<longleftrightarrow>
     from_millis KEEP_ALIVE_INTERVAL_IN_MS \<le> keep_alive_interval s
   \<and> from_millis KEEP_ALIVE_TIMEOUT_IN_MS \<le> keep_alive_timeout s"

lemma apply_param_frame:
  assumes "apply_param p r = Ok r'"
  shows "hosts r' = hosts r \<and> dns_discover r' = dns_discover r
    \<and> default_user_name r' = default_user_name r \<and> (settings_inv r \<longrightarrow> settings_inv r')"
  using assms parse_keep_alive_bound
  by (cases p) (auto simp: apply_param_def Let_def settings_inv_def KEEP_ALIVE_INTERVAL_IN_MS_def
      KEEP_ALIVE_TIMEOUT_IN_MS_def split: if_splits option.splits)

lemma apply_params_frame:
  "apply_params ps r = Ok r' \<Longrightarrow> hosts r' = hosts r \<and> dns_discover r' = dns_discover r
     \<and> default_user_name r' = default_user_name r \<and> (settings_inv r \<longrightarrow> settings_inv r')"
  by (induction ps arbitrary: r) (auto dest: apply_param_frame)

lemma parse_gossip_seed_grows:
  "parse_gossip_seed h r = Ok r' \<Longrightarrow> \<exists>e. r' = push_host e r"
  by (auto simp: parse_gossip_seed_def split: list.splits outcome.splits)

lemma parse_gossip_seeds_grow:
  "parse_gossip_seeds hs r = Ok r' \<Longrightarrow>
     \<exists>es. length es = length hs \<and> r' = r\<lparr>hosts := hosts r @ es\<rparr>"
proof (induction hs arbitrary: r)
  case Nil
  then show ?case by simp
next
  case (Cons h hs)
  then obtain r1 where r1: "parse_gossip_seed h r = Ok r1" "parse_gossip_seeds hs r1 = Ok r'"
    by auto
  obtain e where e: "r1 = push_host e r" using parse_gossip_seed_grows [OF r1(1)] by blast
  obtain es where "length es = length hs" "r' = r1\<lparr>hosts := hosts r1 @ es\<rparr>"
    using Cons.IH [OF r1(2)] by blast
  with e show ?case by (intro exI [of _ "e # es"]) (simp add: push_host_def)
qed

lemma parse_gossip_seeds_append:
  "parse_gossip_seeds (hs @ ks) r = bind_outcome (parse_gossip_seeds hs r) (parse_gossip_seeds ks)"
proof (induction hs arbitrary: r)
  case (Cons h hs)
  then show ?case by (cases "parse_gossip_seed h r") auto
qed simp

lemma hosts_from_url_nonempty:
  assumes "hosts_from_url u r = Ok r'"
  shows "hosts r' \<noteq> [] \<and> (settings_inv r \<longrightarrow> settings_inv r') \<and> dns_discover r' = dns_discover r"
proof (cases "hosts r = [] \<and> CHR '','' \<in> set (case url_host_str u of Some h \<Rightarrow> h | None \<Rightarrow> [])")
  case True
  let ?h = "case url_host_str u of Some h \<Rightarrow> h | None \<Rightarrow> []"
  from True assms have "parse_gossip_seeds (split_on (CHR '','') ?h) r = Ok r'"
    by (simp add: hosts_from_url_def Let_def)
  from parse_gossip_seeds_grow [OF this] show ?thesis
    by (auto simp: settings_inv_def)
next
  case False
  with assms show ?thesis
    by (auto simp: hosts_from_url_def Let_def push_host_def settings_inv_def split: if_splits)
qed

lemma settings_inv_default [simp]: "settings_inv client_settings_default"
  by (simp add: settings_inv_def client_settings_default_def)

lemma parse_from_url_Ok:
  assumes "parse_from_url r u = Ok s"
  shows "(settings_inv r \<longrightarrow> settings_inv s) \<and> hosts s \<noteq> []
    \<and> (user_cert_file s = None \<longleftrightarrow> user_key_file s = None)
    \<and> (dns_discover s \<longleftrightarrow> url_scheme u = ''esdb+discover'')"
proof -
  have scheme: "url_scheme u = ''esdb'' \<or> url_scheme u = ''esdb+discover''"
    using assms by (auto simp: parse_from_url_def split: if_splits)
  let ?r1 = "r\<lparr>dns_discover := (url_scheme u = ''esdb+discover'')\<rparr>"
  let ?r2 = "if url_username u \<noteq> []
     then ?r1\<lparr>default_user_name := Some (credentials_new (url_username u)
            (case url_password u of Some p \<Rightarrow> p | None \<Rightarrow> []))\<rparr>
     else ?r1"
  obtain r3 where r3: "hosts_from_url u ?r2 = Ok r3" and r4: "apply_params (url_query_pairs u) r3 = Ok s"
    and certs: "user_cert_file s = None \<longleftrightarrow> user_key_file s = None"
    using assms scheme
    by (simp only: parse_from_url_def Let_def bind_outcome_Ok_iff)
      (auto split: if_splits)
  have "settings_inv ?r2 \<longleftrightarrow> settings_inv r" "dns_discover ?r2 \<longleftrightarrow> url_scheme u = ''esdb+discover''"
    by (auto simp: settings_inv_def)
  with hosts_from_url_nonempty [OF r3] apply_params_frame [OF r4] certs show ?thesis by metis
qed

text \<open>
  C22. Settings that come out of a connection string are usable: they name at least one host, the
  user certificate is given with its key or not at all, both keep-alive durations are at least the
  recommended ten seconds (smaller values are not kept), and asking for discovery is exactly using
  the \<open>esdb+discover\<close> scheme of one of the two texts the parser was given.
\<close>

theorem parsed_settings_well_formed:
  assumes "client_settings_from_str parse input = Ok s"
  shows "hosts s \<noteq> []
    \<and> (user_cert_file s = None \<longleftrightarrow> user_key_file s = None)
    \<and> from_millis KEEP_ALIVE_INTERVAL_IN_MS \<le> keep_alive_interval s
    \<and> from_millis KEEP_ALIVE_TIMEOUT_IN_MS \<le> keep_alive_timeout s
    \<and> (\<exists>t u. parse t = Ok u \<and> (dns_discover s \<longleftrightarrow> url_scheme u = ''esdb+discover''))"
proof -
  obtain r u t where p: "parse_from_url r u = Ok s" and r: "settings_inv r" and t: "parse t = Ok u"
  proof (cases "parse input")
    case (Ok u)
    with assms that [of client_settings_default u input] show ?thesis
      by (simp add: client_settings_from_str_def)
  next
    case (Err e)
    with assms obtain u h r where u: "parse (map (\<lambda>c. if c = CHR '','' then CHR ''/'' else c) input) = Ok u"
      and g: "parse_gossip_seeds (case url_path_segments u of Some segs \<Rightarrow> segs | None \<Rightarrow> [])
        (push_host \<lparr>ep_host = h, ep_port = url_port_or_default u\<rparr> client_settings_default) = Ok r"
      and p: "parse_from_url r u = Ok s"
      by (auto simp: client_settings_from_str_def Let_def split: if_splits outcome.splits option.splits)
    have "settings_inv r"
      using parse_gossip_seeds_grow [OF g] settings_inv_default
      by (auto simp: settings_inv_def push_host_def)
    with that [OF p _ u] show ?thesis by blast
  next
    case Panic
    with assms show ?thesis by (simp add: client_settings_from_str_def)
  qed
  from parse_from_url_Ok [OF p] r t show ?thesis by (auto simp: settings_inv_def)
qed

text \<open>A URL whose only parts are a scheme, a host and a query, for concrete runs.\<close>

definition plain_url :: "string \<Rightarrow> string \<Rightarrow> u16 option \<Rightarrow> (string \<times> string) list \<Rightarrow> url" where
  "plain_url scheme host port query =
     \<lparr>url_scheme = scheme, url_username = [], url_password = None, url_path = [],
      url_has_host = True, url_host_str = Some host, url_port = port,
      url_path_segments = None, url_query_pairs = query\<rparr>"

lemma parsed_settings_well_formed_witness:
  "from_millis KEEP_ALIVE_INTERVAL_IN_MS \<le> keep_alive_interval
     (push_host \<lparr>ep_host = ''localhost'', ep_port = 2113\<rparr> client_settings_default)"
  using parsed_settings_well_formed [of "\<lambda>_. Ok (plain_url ''esdb'' ''localhost'' None [])"
      "''esdb://localhost''"
      "push_host \<lparr>ep_host = ''localhost'', ep_port = 2113\<rparr> client_settings_default"]
  by (simp add: client_settings_from_str_def parse_from_url_def plain_url_def hosts_from_url_def
      url_port_or_default_def client_settings_default_def push_host_def)

text \<open>A seed as it is written in a connection string.\<close>

definition seed_text :: "endpoint \<Rightarrow> string" where
  "seed_text e = ep_host e @ '':'' @ show_nat (unat (ep_port e))"

definition seed_ok :: "endpoint \<Rightarrow> bool" where
  "seed_ok e \<longleftrightarrow> CHR '':'' \<notin> set (ep_host e) \<and> unat (ep_port e) < 2 ^ 16"

lemma parse_gossip_seed_text:
  assumes "seed_ok e"
  shows "parse_gossip_seed (seed_text e) r = Ok (push_host e r)"
proof -
  have "CHR '':'' \<notin> set (show_nat (unat (ep_port e)))"
    using show_nat_no_sign by blast
  then have "split_on (CHR '':'') (seed_text e) = [ep_host e, show_nat (unat (ep_port e))]"
    using assms by (simp add: seed_text_def seed_ok_def split_on_append split_on_absent)
  moreover have "parse_u16 (show_nat (unat (ep_port e))) = Ok (of_nat (unat (ep_port e)))"
    using assms by (simp add: parse_u16_def parse_unsigned_show_nat seed_ok_def del: of_nat_unat)
  moreover have "ucast (of_nat (unat (ep_port e)) :: u16) = ep_port e"
    using assms
    by (intro word_unat_eq_iff [THEN iffD2])
      (simp add: seed_ok_def unsigned_ucast_eq unsigned_of_nat take_bit_nat_eq_self del: of_nat_unat)
  ultimately show ?thesis by (cases e) (simp add: parse_gossip_seed_def)
qed

lemma parse_gossip_seeds_text:
  "(\<And>e. e \<in> set es \<Longrightarrow> seed_ok e) \<Longrightarrow>
     parse_gossip_seeds (map seed_text es) r = Ok (r\<lparr>hosts := hosts r @ es\<rparr>)"
  by (induction es arbitrary: r) (simp_all add: parse_gossip_seed_text push_host_def)



text \<open>
  When the host of the URL itself lists the seeds, \<open>esdb://h1,h2:port\<close>, the port is dropped:
  the settings are the same whatever port was written.
\<close>

theorem comma_host_drops_port:
  assumes "url_host_str u = Some host" "CHR '','' \<in> set host"
  shows "parse_from_url r (u\<lparr>url_port := p\<rparr>) = parse_from_url r (u\<lparr>url_port := q\<rparr>)"
  using assms by (simp add: parse_from_url_def hosts_from_url_def Let_def cong: if_cong)

lemma comma_host_drops_port_witness:
  "parse_from_url client_settings_default
     (plain_url ''esdb'' ''a,b'' None []\<lparr>url_port := Some 3000\<rparr>) =
   parse_from_url client_settings_default
     (plain_url ''esdb'' ''a,b'' None []\<lparr>url_port := None\<rparr>)"
  by (rule comma_host_drops_port [where host = "''a,b''"]) (simp_all add: plain_url_def)

text \<open>
  A duration written by the serde functions of the settings is not read back by them: it is
  written as an unsigned number, and the visitor only takes a signed one.
\<close>

theorem settings_duration_not_read_back:
  "\<not> (\<exists>v d'. reads_as (serialize_settings_duration d) v \<and> visit_settings_duration v = Ok d')
   \<and> (\<forall>v. reads_as (serialize_settings_duration d) v \<and> d = from_millis ms \<longrightarrow> v = SerU64 ms)"
  by (auto simp: serialize_settings_duration_def millis_as_u64_def)

lemma settings_duration_not_read_back_witness:
  "reads_as (serialize_settings_duration (from_millis 500)) (SerU64 500)
   \<and> \<not> (\<exists>d'. visit_settings_duration (SerU64 500) = Ok d')"
proof -
  have r: "reads_as (serialize_settings_duration (from_millis 500)) (SerU64 500)"
    by (simp add: serialize_settings_duration_def millis_as_u64_def)
  with settings_duration_not_read_back [of "from_millis 500" 500] show ?thesis by blast
qed

end
