(* ===== verification/Wire.thy ===== *)
theory Wire
  imports Messages Positions
begin

text \<open>
  The conversions of \<open>event_store/generated.rs\<close> between the protobuf messages and the client's
  types: identifiers, events in both directions, write results and version conflicts, persistent
  subscription settings and information. An \<open>unwrap\<close> on a missing field is \<open>Panic\<close>. Parsing an
  identifier given as text is the uuid crate's, a parameter.
\<close>

section \<open>Identifiers\<close>

text \<open>\<open>BigEndian::write_i64\<close> into eight bytes, and \<open>Uuid::from_bytes\<close> of sixteen.\<close>

definition be_bytes :: "64 word \<Rightarrow> 8 word list" where
  "be_bytes w = map (\<lambda>i. ucast (drop_bit i w)) [56, 48, 40, 32, 24, 16, 8, 0]"

definition uuid_from_bytes :: "8 word list \<Rightarrow> uuid" where
  "uuid_from_bytes bs = foldl (\<lambda>acc b. or (push_bit 8 acc) (ucast b)) 0 bs"

definition uuid_try_from :: "(string \<Rightarrow> uuid option) \<Rightarrow> common_uuid \<Rightarrow> (string, uuid) outcome" where
  "uuid_try_from uuid_parse value =
     (case uuid_val value of
        Some (Structured s) \<Rightarrow>
          Ok (uuid_from_bytes
                (be_bytes (most_significant_bits s) @ be_bytes (least_significant_bits s)))
      | Some (UuidString s) \<Rightarrow>
          (case uuid_parse s of Some u \<Rightarrow> Ok u | None \<Rightarrow> Err ''uuid::Error'')
      | None \<Rightarrow> Ok 0)"

definition uuid_into :: "uuid \<Rightarrow> common_uuid" where
  "uuid_into v =
     \<lparr>uuid_val = Some (Structured
        \<lparr>most_significant_bits = ucast (drop_bit 64 v), least_significant_bits = ucast v\<rparr>)\<rparr>"

lemma be_bytes_step:
  fixes acc :: uuid and w :: "64 word"
  shows "or (push_bit 8 (or (push_bit m acc) (ucast (drop_bit (i + 8) w))))
           (ucast (ucast (drop_bit i w) :: 8 word)) =
         or (push_bit (m + 8) acc) (ucast (drop_bit i w))"
proof (rule bit_word_eqI)
  fix n
  assume "n < LENGTH(128)"
  then show "bit (or (push_bit 8 (or (push_bit m acc) (ucast (drop_bit (i + 8) w))))
           (ucast (ucast (drop_bit i w) :: 8 word))) n =
         bit (or (push_bit (m + 8) acc) (ucast (drop_bit i w))) n"
    by (cases "n < 8") (auto simp: bit_simps algebra_simps)
qed

lemma foldl_be_bytes:
  "foldl (\<lambda>acc b. or (push_bit 8 acc) (ucast b)) acc (be_bytes w) =
     or (push_bit 64 acc) (ucast w :: uuid)"
proof -
  note steps = be_bytes_step [of 0 acc 56 w] be_bytes_step [of 8 acc 48 w]
    be_bytes_step [of 16 acc 40 w] be_bytes_step [of 24 acc 32 w] be_bytes_step [of 32 acc 24 w]
    be_bytes_step [of 40 acc 16 w] be_bytes_step [of 48 acc 8 w] be_bytes_step [of 56 acc 0 w]
  have "drop_bit 64 w = 0" by (rule bit_word_eqI) (simp add: bit_simps)
  with steps show ?thesis by (simp add: be_bytes_def)
qed

lemma uuid_from_bytes_be_bytes:
  "uuid_from_bytes (be_bytes h @ be_bytes l) = or (push_bit 64 (ucast h)) (ucast l)"
  by (simp add: uuid_from_bytes_def foldl_be_bytes)

lemma uuid_halves:
  "or (push_bit 64 (ucast (ucast (drop_bit 64 v) :: 64 word))) (ucast (ucast v :: 64 word)) =
     (v :: uuid)"
proof (rule bit_word_eqI)
  fix n
  assume "n < LENGTH(128)"
  then show "bit (or (push_bit 64 (ucast (ucast (drop_bit 64 v) :: 64 word)))
      (ucast (ucast v :: 64 word)) :: uuid) n = bit v n"
    by (cases "n < 64") (auto simp: bit_simps)
qed

lemma uuid_try_from_into [simp]: "uuid_try_from uuid_parse (uuid_into v) = Ok v"
  by (simp add: uuid_try_from_def uuid_into_def uuid_from_bytes_be_bytes uuid_halves)

interpretation uuid_codec: codec uuid_into "uuid_try_from uuid_parse" "\<lambda>_. True"
  for uuid_parse :: "string \<Rightarrow> uuid option"
  by unfold_locales simp

section \<open>Events\<close>

text \<open>\<open>fresh\<close> is what \<open>Uuid::new_v4\<close> gives when the event has no identifier.\<close>

definition proposed_message_from :: "uuid \<Rightarrow> event_data \<Rightarrow> proposed_message" where
  "proposed_message_from fresh value =
     \<lparr>pm_id = Some (uuid_into (case ed_id_opt value of Some i \<Rightarrow> i | None \<Rightarrow> fresh)),
      pm_metadata = ed_metadata value,
      pm_custom_metadata = (case ed_custom_metadata value of Some b \<Rightarrow> b | None \<Rightarrow> []),
      pm_data = ed_payload value\<rparr>"

definition append_req_from :: "uuid \<Rightarrow> event_data \<Rightarrow> append_req" where
  "append_req_from fresh value = Some (AppendProposed (proposed_message_from fresh value))"

definition created_from :: "(string \<times> string) list \<Rightarrow> duration" where
  "created_from metadata =
     (case map_of metadata ''created'' of
        Some ticks_text \<Rightarrow>
          (let ticks = (case parse_u64 ticks_text of Ok v \<Rightarrow> v | _ \<Rightarrow> 0);
               secs_since_epoch = ticks div 10000000
           in from_secs secs_since_epoch)
      | None \<Rightarrow> 0)"

definition recorded_event_from ::
  "(string \<Rightarrow> uuid option) \<Rightarrow> wire_recorded_event \<Rightarrow> (error, recorded_event) outcome" where
  "recorded_event_from uuid_parse value =
     bind_outcome (unwrap (wre_id value)) (\<lambda>wid.
     (case uuid_try_from uuid_parse wid of
        Ok i \<Rightarrow>
          (let event_type = (case map_of (wre_metadata value) ''type'' of Some t \<Rightarrow> t | None \<Rightarrow> []);
               metadata = AList.delete ''type'' (wre_metadata value)
           in bind_outcome (unwrap (wre_stream_identifier value)) (\<lambda>sid.
                Ok \<lparr>re_stream_id_raw = stream_name sid,
                    re_id = i,
                    re_revision = wre_stream_revision value,
                    re_event_type = event_type,
                    re_data = wre_data value,
                    re_metadata = metadata,
                    re_custom_metadata = wre_custom_metadata value,
                    re_is_json = (map_of metadata ''content-type'' = Some ''application/json''),
                    re_position = Position (wre_commit_position value) (wre_prepare_position value),
                    re_created = created_from metadata\<rparr>))
      | _ \<Rightarrow> Panic))"

definition streams_event_from :: "ps_recorded_event \<Rightarrow> wire_recorded_event" where
  "streams_event_from value =
     \<lparr>wre_id = pre_id value,
      wre_stream_identifier = pre_stream_identifier value,
      wre_stream_revision = pre_stream_revision value,
      wre_prepare_position = pre_prepare_position value,
      wre_commit_position = pre_commit_position value,
      wre_metadata = pre_metadata value,
      wre_custom_metadata = pre_custom_metadata value,
      wre_data = pre_data value\<rparr>"

definition recorded_event_from_ps ::
  "(string \<Rightarrow> uuid option) \<Rightarrow> ps_recorded_event \<Rightarrow> (error, recorded_event) outcome" where
  "recorded_event_from_ps uuid_parse value = recorded_event_from uuid_parse (streams_event_from value)"

fun map_optional :: "('a \<Rightarrow> ('e, 'b) outcome) \<Rightarrow> 'a option \<Rightarrow> ('e, 'b option) outcome" where
  "map_optional f None = Ok None"
| "map_optional f (Some x) = map_ok Some (f x)"

fun commit_position_from :: "event_position option \<Rightarrow> u64 option" where
  "commit_position_from (Some (CommitPosition p)) = Some p"
| "commit_position_from (Some NoCommitPosition) = None"
| "commit_position_from None = None"

definition resolved_event_from ::
  "(string \<Rightarrow> uuid option) \<Rightarrow> wire_read_event \<Rightarrow> (error, resolved_event) outcome" where
  "resolved_event_from uuid_parse value =
     bind_outcome (map_optional (recorded_event_from uuid_parse) (wv_event value)) (\<lambda>event.
     bind_outcome (map_optional (recorded_event_from uuid_parse) (wv_link value)) (\<lambda>link.
       Ok \<lparr>rs_event = event, rs_link = link,
           rs_commit_position = commit_position_from (wv_position value)\<rparr>))"

definition persistent_event_from ::
  "(string \<Rightarrow> uuid option) \<Rightarrow> ps_read_event \<Rightarrow> (error, persistent_subscription_event) outcome" where
  "persistent_event_from uuid_parse value =
     bind_outcome (map_optional (recorded_event_from_ps uuid_parse) (pve_event value)) (\<lambda>event.
     bind_outcome (map_optional (recorded_event_from_ps uuid_parse) (pve_link value)) (\<lambda>link.
       Ok (PsEventAppeared
             (case pve_count value of
                Some (RetryCount n) \<Rightarrow> i32_as_usize n
              | Some NoRetryCount \<Rightarrow> 0
              | None \<Rightarrow> 0)
             \<lparr>rs_event = event, rs_link = link,
              rs_commit_position = commit_position_from (pve_position value)\<rparr>)))"

fun persistent_content_from ::
  "(string \<Rightarrow> uuid option) \<Rightarrow> ps_content \<Rightarrow> (error, persistent_subscription_event) outcome" where
  "persistent_content_from uuid_parse (PsEvent e) = persistent_event_from uuid_parse e"
| "persistent_content_from uuid_parse (PsSubscriptionConfirmation s) = Ok (PsConfirmed s)"

section \<open>Write results and version conflicts\<close>

definition position_of_wire :: "wire_position \<Rightarrow> Position" where
  "position_of_wire p = Position (wp_commit_position p) (wp_prepare_position p)"

definition wire_of_position :: "Position \<Rightarrow> wire_position" where
  "wire_of_position p = \<lparr>wp_commit_position = pos_commit p, wp_prepare_position = pos_prepare p\<rparr>"

lemma position_of_wire_of_position [simp]: "position_of_wire (wire_of_position p) = p"
  by (simp add: position_of_wire_def wire_of_position_def)

definition write_result_from :: "append_success \<Rightarrow> (error, write_result) outcome" where
  "write_result_from value =
     bind_outcome (unwrap (as_current_revision_option value)) (\<lambda>rev.
     bind_outcome (unwrap (as_position_option value)) (\<lambda>pos.
       Ok \<lparr>wr_next_expected_version =
             (case rev of SuccessCurrentRevision r \<Rightarrow> r | SuccessNoStream \<Rightarrow> 0),
           wr_position =
             (case pos of SuccessPosition p \<Rightarrow> position_of_wire p
              | SuccessNoPosition \<Rightarrow> position_start)\<rparr>))"

definition error_from_wrong_version :: "wrong_expected_version \<Rightarrow> (error, error) outcome" where
  "error_from_wrong_version value =
     bind_outcome (unwrap (wev_current_revision_option value)) (\<lambda>cur.
     bind_outcome (unwrap (wev_expected_revision_option value)) (\<lambda>expd.
       Ok (WrongExpectedVersion
             (case expd of
                WevExpectedRevision r \<Rightarrow> StreamRevision r
              | WevExpectedAny \<Rightarrow> Any
              | WevExpectedStreamExists \<Rightarrow> StreamExists
              | WevExpectedNoStream \<Rightarrow> NoStream)
             (case cur of
                WevCurrentRevision r \<Rightarrow> Current r
              | WevCurrentNoStream \<Rightarrow> CurrentNoStream))))"

section \<open>Persistent subscription settings and information\<close>

definition create_settings_try_from :: "'a ps_settings \<Rightarrow> (error, create_settings) outcome" where
  "create_settings_try_from value =
     bind_outcome (named_consumer_strategy_as_i32 value) (\<lambda>named.
       Ok \<lparr>cs_resolve_links = ps_resolve_link_tos value,
           cs_revision = 0,
           cs_extra_statistics = ps_extra_statistics value,
           cs_max_retry_count = ps_max_retry_count value,
           cs_min_checkpoint_count = ps_checkpoint_lower_bound value,
           cs_max_checkpoint_count = ps_checkpoint_upper_bound value,
           cs_max_subscriber_count = ps_max_subscriber_count value,
           cs_live_buffer_size = ps_live_buffer_size value,
           cs_read_batch_size = ps_read_batch_size value,
           cs_history_buffer_size = ps_history_buffer_size value,
           cs_named_consumer_strategy = named,
           cs_consumer_strategy = show_consumer_strategy (ps_consumer_strategy_name value),
           cs_message_timeout = Some (MessageTimeoutMs (millis_as_i32 (ps_message_timeout value))),
           cs_checkpoint_after =
             Some (CheckpointAfterMs (millis_as_i32 (ps_checkpoint_after value)))\<rparr>)"

definition update_settings_try_from :: "'a ps_settings \<Rightarrow> (error, update_settings) outcome" where
  "update_settings_try_from value =
     bind_outcome (named_consumer_strategy_as_i32 value) (\<lambda>named.
       Ok \<lparr>us_resolve_links = ps_resolve_link_tos value,
           us_revision = 0,
           us_extra_statistics = ps_extra_statistics value,
           us_max_retry_count = ps_max_retry_count value,
           us_min_checkpoint_count = ps_checkpoint_lower_bound value,
           us_max_checkpoint_count = ps_checkpoint_upper_bound value,
           us_max_subscriber_count = ps_max_subscriber_count value,
           us_live_buffer_size = ps_live_buffer_size value,
           us_read_batch_size = ps_read_batch_size value,
           us_history_buffer_size = ps_history_buffer_size value,
           us_named_consumer_strategy = named,
           us_message_timeout = Some (MessageTimeoutMs (millis_as_i32 (ps_message_timeout value))),
           us_checkpoint_after =
             Some (CheckpointAfterMs (millis_as_i32 (ps_checkpoint_after value)))\<rparr>)"

definition connection_info_from :: "wire_connection_info \<Rightarrow> connection_info" where
  "connection_info_from value =
     \<lparr>ci_from = wci_from value,
      ci_username = wci_username value,
      ci_average_items_per_second = f64_of_i32 (wci_average_items_per_second value),
      ci_total_items = wci_total_items value,
      ci_count_since_last_measurement = wci_count_since_last_measurement value,
      ci_available_slots = i32_as_usize (wci_available_slots value),
      ci_in_flight_messages = i32_as_usize (wci_in_flight_messages value),
      ci_connection_name = wci_connection_name value,
      ci_extra_statistics = visit_measurements [] (wci_observed_measurements value)\<rparr>"

text \<open>A checkpoint text is a revision, a position, or (when it parses as neither) left out.\<close>

definition checkpoint_texts ::
  "nom_lib \<Rightarrow> string \<Rightarrow> Position option \<times> u64 option" where
  "checkpoint_texts nl s =
     (case parse_revision_or_position nl s of
        Ok (InLog p) \<Rightarrow> (Some p, None)
      | Ok (Revision r) \<Rightarrow> (None, Some r)
      | _ \<Rightarrow> (None, None))"

definition subscription_info_stats :: "nom_lib \<Rightarrow> subscription_info \<Rightarrow> ps_stats" where
  "subscription_info_stats nl value =
     (let (last_known_position, last_known_event_number) =
            checkpoint_texts nl (si_last_known_event_position value);
          (last_processed_position, last_processed_event_number) =
            checkpoint_texts nl (si_last_checkpointed_event_position value)
      in \<lparr>pst_average_per_second = f64_of_i32 (si_average_per_second value),
          pst_total_items = si_total_items value,
          pst_count_since_last_measurement = si_count_since_last_measurement value,
          pst_last_checkpointed_event_revision = last_processed_event_number,
          pst_last_known_event_revision = last_known_event_number,
          pst_last_checkpointed_position = last_processed_position,
          pst_last_known_position = last_known_position,
          pst_read_buffer_count = i32_as_usize (si_read_buffer_count value),
          pst_live_buffer_count = si_live_buffer_count value,
          pst_retry_buffer_count = i32_as_usize (si_retry_buffer_count value),
          pst_total_in_flight_messages = i32_as_usize (si_total_in_flight_messages value),
          pst_outstanding_messages_count = i32_as_usize (si_outstanding_messages_count value),
          pst_parked_message_count = si_parked_message_count value\<rparr>)"

definition subscription_info_try_from ::
  "nom_lib \<Rightarrow> subscription_info \<Rightarrow> (error, revision_or_position ps_info) outcome" where
  "subscription_info_try_from nl value =
     bind_outcome (parse_stream_position nl (si_start_from value)) (\<lambda>start_from.
       Ok \<lparr>pi_event_source = si_event_source value,
           pi_group_name = si_group_name value,
           pi_status = si_status value,
           pi_connections = map connection_info_from (si_connections value),
           pi_settings = Some
             \<lparr>ps_resolve_link_tos = si_resolve_link_tos value,
              ps_start_from = start_from,
              ps_extra_statistics = si_extra_statistics value,
              ps_message_timeout = from_millis (scast (si_message_timeout_milliseconds value)),
              ps_max_retry_count = si_max_retry_count value,
              ps_live_buffer_size = si_live_buffer_size value,
              ps_read_batch_size = si_read_batch_size value,
              ps_history_buffer_size = si_buffer_size value,
              ps_checkpoint_after = from_millis (scast (si_check_point_after_milliseconds value)),
              ps_checkpoint_lower_bound = si_min_check_point_count value,
              ps_checkpoint_upper_bound = si_max_check_point_count value,
              ps_max_subscriber_count = si_max_subscriber_count value,
              ps_consumer_strategy_name =
                consumer_strategy_from_string (si_named_consumer_strategy value)\<rparr>,
           pi_stats = subscription_info_stats nl value\<rparr>)"

section \<open>Facts\<close>

lemma millis_as_i32_exact: "sint (millis_as_i32 d) = int (as_millis d) \<longleftrightarrow> as_millis d < 2 ^ 31"
proof
  assume eq: "sint (millis_as_i32 d) = int (as_millis d)"
  have "sint (millis_as_i32 d) < 2 ^ 31"
    using sint_lt [of "millis_as_i32 d"] by simp
  with eq show "as_millis d < 2 ^ 31" by simp
next
  assume "as_millis d < 2 ^ 31"
  then show "sint (millis_as_i32 d) = int (as_millis d)"
    by (simp add: millis_as_i32_def signed_of_nat signed_take_bit_int_eq_self)
qed

lemma from_millis_i32:
  assumes "unat m < 2 ^ 31"
  shows "from_millis (scast (millis_as_i32 (from_millis m))) = from_millis m"
proof -
  have i: "sint (millis_as_i32 (from_millis m)) = int (unat m)"
    using assms millis_as_i32_exact [of "from_millis m"] by (simp only: as_millis_from_millis)
  have "(scast (millis_as_i32 (from_millis m)) :: u64) = of_int (sint (millis_as_i32 (from_millis m)))"
    by (rule scast_eq)
  also have "\<dots> = of_nat (unat m)" by (simp only: i of_int_of_nat_eq)
  also have "\<dots> = m" by simp
  finally show ?thesis by simp
qed

lemma created_from_delete_type [simp]: "created_from (AList.delete ''type'' m) = created_from m"
  by (simp add: created_from_def delete_conv')

lemma recorded_event_from_Ok:
  "recorded_event_from uuid_parse w = Ok r \<longleftrightarrow>
     (\<exists>wid i sid. wre_id w = Some wid \<and> uuid_try_from uuid_parse wid = Ok i
        \<and> wre_stream_identifier w = Some sid
        \<and> r = \<lparr>re_stream_id_raw = stream_name sid, re_id = i,
              re_revision = wre_stream_revision w,
              re_event_type =
                (case map_of (wre_metadata w) ''type'' of Some t \<Rightarrow> t | None \<Rightarrow> []),
              re_data = wre_data w,
              re_metadata = AList.delete ''type'' (wre_metadata w),
              re_custom_metadata = wre_custom_metadata w,
              re_is_json = (map_of (wre_metadata w) ''content-type'' = Some ''application/json''),
              re_position = Position (wre_commit_position w) (wre_prepare_position w),
              re_created = created_from (wre_metadata w)\<rparr>)"
  by (cases "wre_id w"; cases "wre_stream_identifier w";
      cases "uuid_try_from uuid_parse (the (wre_id w))")
    (auto simp: recorded_event_from_def Let_def delete_conv')

lemma named_strategy_Ok:
  "named_consumer_strategy_as_i32 s = Ok n \<Longrightarrow> proper_strategy (ps_consumer_strategy_name s)"
  by (auto simp: named_consumer_strategy_as_i32_def split: consumer_strategy.splits)

lemma consumer_strategy_from_show [simp]:
  "proper_strategy c \<Longrightarrow> consumer_strategy_from_string (show_consumer_strategy c) = c"
  using strategy_codec.dec_enc by simp

text \<open>
  A proposed event as the server records it in a stream: the same identifier, data and custom
  metadata, and its metadata entries among those of the recorded event.
\<close>

definition recorded_as :: "proposed_message \<Rightarrow> bytes \<Rightarrow> wire_recorded_event \<Rightarrow> bool" where
  "recorded_as m s w \<longleftrightarrow>
     wre_id w = pm_id m \<and> wre_stream_identifier w = Some \<lparr>stream_name = s\<rparr>
   \<and> wre_data w = pm_data m \<and> wre_custom_metadata w = pm_custom_metadata m
   \<and> list_all (\<lambda>(k, v). map_of (wre_metadata w) k = Some v) (pm_metadata m)"

text \<open>
  C19. Append then read: an event built by \<open>EventData::json\<close> or \<open>EventData::binary\<close>, proposed to
  the server and recorded by it, is read back with its identifier (the fresh one when none was
  given), type, payload, custom metadata and stream, and is flagged as JSON exactly when it was
  built as JSON.
\<close>

theorem append_then_read:
  assumes e: "e = (if json then the_event else event_data_binary ty payload)"
    and j: "event_data_json ty (Ok payload) = Ok the_event"
    and w: "recorded_as (proposed_message_from fresh (e\<lparr>ed_id_opt := i, ed_custom_metadata := c\<rparr>)) s w"
  shows "\<exists>r. recorded_event_from uuid_parse w = Ok r
    \<and> re_id r = (case i of Some u \<Rightarrow> u | None \<Rightarrow> fresh)
    \<and> re_event_type r = ty \<and> re_data r = payload
    \<and> re_custom_metadata r = (case c of Some b \<Rightarrow> b | None \<Rightarrow> [])
    \<and> stream_id r = s \<and> re_is_json r = json"
  using w e j
  by (auto simp: recorded_as_def proposed_message_from_def recorded_event_from_Ok stream_id_def
      event_data_json_def event_data_binary_def split: if_splits)

lemma append_then_read_witness:
  "\<exists>r. recorded_event_from (\<lambda>_. None)
      \<lparr>wre_id = Some (uuid_into 7), wre_stream_identifier = Some \<lparr>stream_name = ''s''\<rparr>,
       wre_stream_revision = 0, wre_prepare_position = 9, wre_commit_position = 9,
       wre_metadata = [(''created'', ''17''), (''type'', ''paid''),
                       (''content-type'', ''application/json'')],
       wre_custom_metadata = [], wre_data = ''{}''\<rparr> = Ok r
    \<and> re_id r = 7 \<and> re_event_type r = ''paid'' \<and> re_data r = ''{}''
    \<and> re_custom_metadata r = [] \<and> stream_id r = ''s'' \<and> re_is_json r = True"
  using append_then_read [of _ True
      "\<lparr>ed_payload = ''{}'', ed_id_opt = None,
        ed_metadata = [(''type'', ''paid''), (''content-type'', ''application/json'')],
        ed_custom_metadata = None\<rparr>" "''paid''" "''{}''" 7 None None "''s''"
      "\<lparr>wre_id = Some (uuid_into 7), wre_stream_identifier = Some \<lparr>stream_name = ''s''\<rparr>,
       wre_stream_revision = 0, wre_prepare_position = 9, wre_commit_position = 9,
       wre_metadata = [(''created'', ''17''), (''type'', ''paid''),
                       (''content-type'', ''application/json'')],
       wre_custom_metadata = [], wre_data = ''{}''\<rparr>" "\<lambda>_. None"]
  by (simp add: event_data_json_def recorded_as_def proposed_message_from_def)

text \<open>
  Converting a recorded event panics exactly when the message has no identifier, has an
  identifier given as text that does not parse, or names no stream; every other message,
  whatever its metadata, converts.
\<close>

theorem recorded_event_panics_iff:
  "recorded_event_from uuid_parse w = Panic \<longleftrightarrow>
     wre_id w = None \<or> wre_stream_identifier w = None
   \<or> (\<exists>s. wre_id w = Some \<lparr>uuid_val = Some (UuidString s)\<rparr> \<and> uuid_parse s = None)"
  by (cases "wre_id w"; cases "wre_stream_identifier w"; cases "the (wre_id w)")
    (auto simp: recorded_event_from_def uuid_try_from_def bind_outcome_Panic_iff Let_def
      split: outcome.splits option.splits uuid_value.splits)

text \<open>The information the server reports on a group created with the settings \<open>cs\<close>.\<close>

fun timeout_ms :: "message_timeout option \<Rightarrow> i32" where
  "timeout_ms (Some (MessageTimeoutMs ms)) = ms"
| "timeout_ms _ = 0"

fun checkpoint_ms :: "checkpoint_after option \<Rightarrow> i32" where
  "checkpoint_ms (Some (CheckpointAfterMs ms)) = ms"
| "checkpoint_ms _ = 0"

definition reports :: "create_settings \<Rightarrow> subscription_info \<Rightarrow> bool" where
  "reports cs i \<longleftrightarrow>
     si_resolve_link_tos i = cs_resolve_links cs
   \<and> si_extra_statistics i = cs_extra_statistics cs
   \<and> si_message_timeout_milliseconds i = timeout_ms (cs_message_timeout cs)
   \<and> si_max_retry_count i = cs_max_retry_count cs
   \<and> si_live_buffer_size i = cs_live_buffer_size cs
   \<and> si_buffer_size i = cs_history_buffer_size cs
   \<and> si_read_batch_size i = cs_read_batch_size cs
   \<and> si_check_point_after_milliseconds i = checkpoint_ms (cs_checkpoint_after cs)
   \<and> si_min_check_point_count i = cs_min_checkpoint_count cs
   \<and> si_max_check_point_count i = cs_max_checkpoint_count cs
   \<and> si_max_subscriber_count i = cs_max_subscriber_count cs
   \<and> si_named_consumer_strategy i = cs_consumer_strategy cs"


text \<open>Such a report, of a group nobody is connected to.\<close>

definition idle_info :: "create_settings \<Rightarrow> string \<Rightarrow> subscription_info" where
  "idle_info cs start =
     \<lparr>si_event_source = ''orders'', si_group_name = ''g'', si_status = ''Live'',
      si_connections = [], si_average_per_second = 0, si_total_items = 0,
      si_count_since_last_measurement = 0, si_last_checkpointed_event_position = [],
      si_last_known_event_position = [],
      si_resolve_link_tos = cs_resolve_links cs, si_start_from = start,
      si_message_timeout_milliseconds = timeout_ms (cs_message_timeout cs),
      si_extra_statistics = cs_extra_statistics cs,
      si_max_retry_count = cs_max_retry_count cs,
      si_live_buffer_size = cs_live_buffer_size cs,
      si_buffer_size = cs_history_buffer_size cs,
      si_read_batch_size = cs_read_batch_size cs,
      si_check_point_after_milliseconds = checkpoint_ms (cs_checkpoint_after cs),
      si_min_check_point_count = cs_min_checkpoint_count cs,
      si_max_check_point_count = cs_max_checkpoint_count cs,
      si_read_buffer_count = 0, si_live_buffer_count = 0, si_retry_buffer_count = 0,
      si_total_in_flight_messages = 0, si_outstanding_messages_count = 0,
      si_named_consumer_strategy = cs_consumer_strategy cs,
      si_max_subscriber_count = cs_max_subscriber_count cs, si_parked_message_count = 0\<rparr>"


end
