(* ===== verification/NodeSelection.thy ===== *)
theory NodeSelection
  imports Features Settings Wire "HOL-Library.Multiset"
begin

text \<open>
  How the client chooses a node of a cluster: reading a member list from the gossip endpoint
  (\<open>operations/gossip.rs\<close>), the candidate lists, the choice of the best member and
  \<open>node_selection\<close> (\<open>grpc.rs\<close>). What lies outside (the network, timers, random numbers, parsing
  of URIs and identifiers) is an environment record over a world that every call may change.
\<close>

section \<open>The environment\<close>

datatype 'a timed = InTime 'a | Elapsed

record 'w net_env =
  ne_display :: "code \<Rightarrow> string \<Rightarrow> string"
  ne_uuid_parse :: "string \<Rightarrow> uuid option"
  ne_parse_uri :: "string \<Rightarrow> string option"
  ne_next_u32 :: "'w \<Rightarrow> u32 \<times> 'w"
  ne_shuffle :: "nat \<Rightarrow> 'w \<Rightarrow> nat list \<times> 'w" \<comment> \<open>the order a slice of that length is put in\<close>
  ne_new_v4 :: "'w \<Rightarrow> uuid \<times> 'w"
  ne_supported_methods ::
    "string \<Rightarrow> 'w \<Rightarrow> (status, supported_methods) outcome timed \<times> 'w"
  ne_gossip :: "string \<Rightarrow> 'w \<Rightarrow> (status, wire_member_info list) outcome timed \<times> 'w"

text \<open>\<open>SliceRandom::shuffle\<close> puts the elements in some order.\<close>

definition shuffle_documented :: "'w net_env \<Rightarrow> bool" where
  "shuffle_documented env \<longleftrightarrow> (\<forall>n w. mset (fst (ne_shuffle env n w)) = mset [0..<n])"

definition shuffle :: "'w net_env \<Rightarrow> 'a list \<Rightarrow> 'w \<Rightarrow> 'a list \<times> 'w" where
  "shuffle env xs w = (let (ixs, w1) = ne_shuffle env (length xs) w in (map (\<lambda>i. xs ! i) ixs, w1))"

lemma mset_shuffle: "shuffle_documented env \<Longrightarrow> mset (fst (shuffle env xs w)) = mset xs"
proof -
  assume "shuffle_documented env"
  then have "mset (fst (ne_shuffle env (length xs) w)) = mset [0..<length xs]"
    by (simp add: shuffle_documented_def)
  then have "mset (map (\<lambda>i. xs ! i) (fst (ne_shuffle env (length xs) w))) =
      mset (map (\<lambda>i. xs ! i) [0..<length xs])"
    by (simp only: mset_map)
  then show ?thesis
    by (cases "ne_shuffle env (length xs) w") (simp add: shuffle_def map_nth flip: mset_map)
qed

lemma set_shuffle: "shuffle_documented env \<Longrightarrow> set (fst (shuffle env xs w)) = set xs"
  by (metis mset_shuffle set_mset_mset)

section \<open>Gossip\<close>

record member_info =
  mi_instance_id :: uuid
  mi_time_stamp :: i64
  mi_state :: vnode_state
  mi_is_alive :: bool
  mi_http_end_point :: endpoint
  mi_last_commit_position :: i64
  mi_writer_checkpoint :: i64
  mi_chaser_checkpoint :: i64
  mi_epoch_position :: i64
  mi_epoch_number :: i64
  mi_epoch_id :: uuid
  mi_node_priority :: i64

definition vnode_states :: "vnode_state list" where
  "vnode_states =
     [Initializing, DiscoverLeader, UnknownState, PreReplica, CatchingUp, Clone, FollowerState,
      PreLeader, LeaderState, Manager, ShuttingDown, Shutdown, ReadOnlyLeaderLess,
      PreReadOnlyReplica, ReadOnlyReplicaState, ResigningLeader]"

definition vnode_state_from_i32 :: "i32 \<Rightarrow> vnode_state option" where
  "vnode_state_from_i32 v =
     (let i = sint v in if 0 \<le> i \<and> i < 16 then Some (vnode_states ! nat i) else None)"

text \<open>The body of the loop of \<open>gossip::read\<close>.\<close>

definition member_from_wire :: "'w net_env \<Rightarrow> wire_member_info \<Rightarrow> (status, member_info) outcome" where
  "member_from_wire env m =
     (case vnode_state_from_i32 (wm_state m) of
        None \<Rightarrow> Err (status_new (ne_display env) CodeOutOfRange
                  (''Unknown VNodeState value: '' @ show_int (sint (wm_state m))))
      | Some state \<Rightarrow>
          bind_outcome
            (case wm_instance_id m of
               Some u \<Rightarrow> (case uuid_try_from (ne_uuid_parse env) u of Ok i \<Rightarrow> Ok i | _ \<Rightarrow> Panic)
             | None \<Rightarrow> Ok 0) (\<lambda>instance_id.
          (case wm_http_end_point m of
             None \<Rightarrow> Err (status_new (ne_display env) CodeFailedPrecondition
                       ''MemberInfo endpoint must be defined'')
           | Some e \<Rightarrow> Ok
               \<lparr>mi_instance_id = instance_id,
                mi_time_stamp = wm_time_stamp m,
                mi_state = state,
                mi_is_alive = wm_is_alive m,
                mi_http_end_point = \<lparr>ep_host = we_address e, ep_port = we_port e\<rparr>,
                mi_last_commit_position = 0,
                mi_writer_checkpoint = 0,
                mi_chaser_checkpoint = 0,
                mi_epoch_position = 0,
                mi_epoch_number = 0,
                mi_epoch_id = 0,
                mi_node_priority = 0\<rparr>)))"

definition gossip_read ::
  "'w net_env \<Rightarrow> (status, wire_member_info list) outcome \<Rightarrow> (status, member_info list) outcome" where
  "gossip_read env response = bind_outcome response (collect (member_from_wire env))"

section \<open>Candidates\<close>

record member =
  me_endpoint :: endpoint
  me_state :: vnode_state

record candidates =
  cd_nodes :: "member list"
  cd_managers :: "member list"

definition candidates_new :: candidates where
  "candidates_new = \<lparr>cd_nodes = [], cd_managers = []\<rparr>"

definition candidates_push :: "member \<Rightarrow> candidates \<Rightarrow> candidates" where
  "candidates_push m c =
     (if me_state m = Manager then c\<lparr>cd_managers := cd_managers c @ [m]\<rparr>
      else c\<lparr>cd_nodes := cd_nodes c @ [m]\<rparr>)"

definition candidates_shuffle :: "'w net_env \<Rightarrow> candidates \<Rightarrow> 'w \<Rightarrow> candidates \<times> 'w" where
  "candidates_shuffle env c w =
     (let (ns, w1) = shuffle env (cd_nodes c) w; (ms, w2) = shuffle env (cd_managers c) w1
      in (\<lparr>cd_nodes = ns, cd_managers = ms\<rparr>, w2))"

definition candidates_endpoints :: "candidates \<Rightarrow> endpoint list" where
  "candidates_endpoints c = map me_endpoint (cd_nodes c @ cd_managers c)"

definition arrange_gossip_candidates ::
  "'w net_env \<Rightarrow> member list \<Rightarrow> 'w \<Rightarrow> endpoint list \<times> 'w" where
  "arrange_gossip_candidates env ms w =
     (let (c, w1) = candidates_shuffle env (fold candidates_push ms candidates_new) w
      in (candidates_endpoints c, w1))"

definition candidates_from_old_gossip ::
  "'w net_env \<Rightarrow> endpoint option \<Rightarrow> member list \<Rightarrow> 'w \<Rightarrow> endpoint list \<times> 'w" where
  "candidates_from_old_gossip env failed old w =
     arrange_gossip_candidates env
       (case failed of Some e \<Rightarrow> filter (\<lambda>m. me_endpoint m \<noteq> e) old | None \<Rightarrow> old) w"

section \<open>The best node\<close>

definition allowed_state :: "vnode_state \<Rightarrow> bool" where
  "allowed_state s \<longleftrightarrow> s \<notin> {Manager, ShuttingDown, Shutdown}"

text \<open>The comparison given to \<open>min_by\<close>; ties are broken by the parity of a random number.\<close>

definition compare_members ::
  "'w net_env \<Rightarrow> node_preference \<Rightarrow> member_info \<Rightarrow> member_info \<Rightarrow> 'w \<Rightarrow> ordering \<times> 'w" where
  "compare_members env pref a b w =
     (if pref = Random then
        (let (n, w1) = ne_next_u32 env w in (if unat n mod 2 = 0 then Greater else Less, w1))
      else if match_preference pref (mi_state a) \<and> match_preference pref (mi_state b) then
        (let (n, w1) = ne_next_u32 env w in (if unat n mod 2 = 0 then Less else Greater, w1))
      else if match_preference pref (mi_state a) \<and> \<not> match_preference pref (mi_state b)
        then (Less, w)
      else if \<not> match_preference pref (mi_state a) \<and> match_preference pref (mi_state b)
        then (Greater, w)
      else (Greater, w))"

text \<open>\<open>Iterator::min_by\<close>: the element kept so far against the next one, replaced on \<open>Greater\<close>.\<close>

fun min_member ::
  "'w net_env \<Rightarrow> node_preference \<Rightarrow> member_info \<Rightarrow> member_info list \<Rightarrow> 'w \<Rightarrow> member_info \<times> 'w" where
  "min_member env pref x [] w = (x, w)"
| "min_member env pref x (y # ys) w =
     (let (c, w1) = compare_members env pref x y w
      in min_member env pref (if c = Greater then y else x) ys w1)"

definition determine_best_node ::
  "'w net_env \<Rightarrow> node_preference \<Rightarrow> member_info list \<Rightarrow> 'w \<Rightarrow> endpoint option \<times> 'w" where
  "determine_best_node env pref members w =
     (case filter (\<lambda>m. allowed_state (mi_state m)) (filter mi_is_alive members) of
        [] \<Rightarrow> (None, w)
      | m # ms \<Rightarrow>
          (let (best, w1) = min_member env pref m ms w in (Some (mi_http_end_point best), w1)))"

section \<open>Node selection\<close>

datatype cluster_mode = Dns endpoint | Seeds "endpoint list"

text \<open>The loop over the candidates.\<close>

fun try_candidates ::
  "'w net_env \<Rightarrow> client_settings \<Rightarrow> endpoint list \<Rightarrow> 'w \<Rightarrow> (error, endpoint option) outcome \<times> 'w" where
  "try_candidates env s [] w = (Ok None, w)"
| "try_candidates env s (c # cs) w =
     (case to_hyper_uri (ne_parse_uri env) s c of
        Ok uri \<Rightarrow>
          (case ne_gossip env uri w of
             (Elapsed, w1) \<Rightarrow> try_candidates env s cs w1
           | (InTime response, w1) \<Rightarrow>
               (case gossip_read env response of
                  Ok members \<Rightarrow>
                    (case determine_best_node env (preference s) members w1 of
                       (Some e, w2) \<Rightarrow> (Ok (Some e), w2)
                     | (None, w2) \<Rightarrow> try_candidates env s cs w2)
                | Err _ \<Rightarrow> try_candidates env s cs w1
                | Panic \<Rightarrow> (Panic, w1)))
      | _ \<Rightarrow> (Panic, w))"

text \<open>The result, and what is left in \<open>previous_candidates\<close> (it is taken, and never set).\<close>

definition node_selection ::
  "'w net_env \<Rightarrow> client_settings \<Rightarrow> cluster_mode \<Rightarrow> endpoint option \<Rightarrow> member list option \<Rightarrow> 'w
     \<Rightarrow> ((error, endpoint option) outcome \<times> member list option) \<times> 'w" where
  "node_selection env s mode failed previous w =
     (let (cs, w1) =
        (case previous of
           Some old \<Rightarrow>
             (let (new, w1) = candidates_from_old_gossip env failed old w
              in (if new = [] then hosts s else new, w1))
         | None \<Rightarrow>
             shuffle env (case mode of Seeds seeds \<Rightarrow> seeds | Dns e \<Rightarrow> [e]) w);
          (r, w2) = try_candidates env s cs w1
      in ((r, None), w2))"

section \<open>Facts\<close>

lemma compare_members_prefers:
  assumes "pref \<noteq> Random" "compare_members env pref a b w = (c, w1)"
    and "match_preference pref (mi_state a) \<or> match_preference pref (mi_state b)"
  shows "match_preference pref (mi_state (if c = Greater then b else a))"
  using assms by (auto simp: compare_members_def split: if_splits prod.splits)

lemma min_member_in: "fst (min_member env pref x ys w) \<in> set (x # ys)"
proof (induction env pref x ys w rule: min_member.induct)
  case (2 env pref x y ys w)
  then show ?case by (cases "compare_members env pref x y w") fastforce
qed simp

lemma min_member_prefers:
  "pref \<noteq> Random \<Longrightarrow> \<exists>m \<in> set (x # ys). match_preference pref (mi_state m) \<Longrightarrow>
     match_preference pref (mi_state (fst (min_member env pref x ys w)))"
proof (induction env pref x ys w rule: min_member.induct)
  case (2 env pref x y ys w)
  obtain c w1 where c: "compare_members env pref x y w = (c, w1)" by fastforce
  have "\<exists>m \<in> set ((if c = Greater then y else x) # ys). match_preference pref (mi_state m)"
    using compare_members_prefers [OF 2(2) c] 2(3) by auto
  with 2(1) [OF c [symmetric] refl 2(2)] c show ?case by simp
qed simp

definition usable :: "member_info \<Rightarrow> bool" where
  "usable m \<longleftrightarrow> mi_is_alive m \<and> allowed_state (mi_state m)"

text \<open>
  C7. The chosen member is alive and neither a manager nor shutting down; there is one exactly
  when such a member is in the list; and unless the preference is random, it matches the
  preference whenever any such member does, whatever the random numbers are.
\<close>

theorem best_node_respects_preference:
  "case fst (determine_best_node env pref members w) of
      None \<Rightarrow> \<not> (\<exists>m \<in> set members. usable m)
    | Some e \<Rightarrow> \<exists>m \<in> set members. usable m \<and> mi_http_end_point m = e
        \<and> (pref \<noteq> Random \<and> (\<exists>k \<in> set members. usable k \<and> match_preference pref (mi_state k))
             \<longrightarrow> match_preference pref (mi_state m))"
proof (cases "filter (\<lambda>m. allowed_state (mi_state m)) (filter mi_is_alive members)")
  case Nil
  then show ?thesis
    by (auto simp: determine_best_node_def usable_def filter_empty_conv)
next
  case (Cons x ys)
  obtain b w1 where b: "min_member env pref x ys w = (b, w1)" by fastforce
  have sub: "set (x # ys) = {m \<in> set members. usable m}"
    using arg_cong [OF Cons, of set] by (auto simp: usable_def)
  have "b \<in> set (x # ys)" using min_member_in [of env pref x ys w] b by simp
  moreover have "match_preference pref (mi_state b)"
    if "pref \<noteq> Random" "\<exists>k \<in> set (x # ys). match_preference pref (mi_state k)"
    using min_member_prefers [OF that, of env w] b by simp
  ultimately have "\<exists>m \<in> set members. usable m \<and> mi_http_end_point m = mi_http_end_point b
      \<and> (pref \<noteq> Random \<and> (\<exists>k \<in> set members. usable k \<and> match_preference pref (mi_state k))
           \<longrightarrow> match_preference pref (mi_state m))"
    unfolding sub by (intro bexI [of _ b]) auto
  moreover have "fst (determine_best_node env pref members w) = Some (mi_http_end_point b)"
    unfolding determine_best_node_def using Cons b by simp
  ultimately show ?thesis by simp
qed

text \<open>A live member in a state, for concrete runs.\<close>

definition live_member :: "string \<Rightarrow> vnode_state \<Rightarrow> member_info" where
  "live_member host state =
     \<lparr>mi_instance_id = 0, mi_time_stamp = 0, mi_state = state, mi_is_alive = True,
      mi_http_end_point = \<lparr>ep_host = host, ep_port = 2113\<rparr>, mi_last_commit_position = 0,
      mi_writer_checkpoint = 0, mi_chaser_checkpoint = 0, mi_epoch_position = 0,
      mi_epoch_number = 0, mi_epoch_id = 0, mi_node_priority = 0\<rparr>"

text \<open>A shuffle that leaves the order as it is, and no network, for concrete runs.\<close>

definition offline_env :: "unit net_env" where
  "offline_env =
     \<lparr>ne_display = (\<lambda>_ m. m), ne_uuid_parse = (\<lambda>_. None), ne_parse_uri = Some,
      ne_next_u32 = (\<lambda>w. (0, w)), ne_shuffle = (\<lambda>n w. ([0..<n], w)), ne_new_v4 = (\<lambda>w. (1, w)),
      ne_supported_methods = (\<lambda>_ w. (Elapsed, w)), ne_gossip = (\<lambda>_ w. (Elapsed, w))\<rparr>"

lemma shuffle_offline [simp]: "shuffle_documented offline_env"
  by (simp add: shuffle_documented_def offline_env_def)

lemma best_node_respects_preference_witness:
  "fst (determine_best_node offline_env Leader
      [live_member ''a'' FollowerState, live_member ''b'' LeaderState,
       live_member ''c'' Manager] ()) = Some \<lparr>ep_host = ''b'', ep_port = 2113\<rparr>"
  using best_node_respects_preference [where env = offline_env and pref = Leader and w = "()"
      and members = "[live_member ''a'' FollowerState, live_member ''b'' LeaderState,
        live_member ''c'' Manager]"]
  by (auto simp: live_member_def usable_def allowed_state_def split: option.splits)

lemma fold_candidates_push:
  "fold candidates_push ms c =
     \<lparr>cd_nodes = cd_nodes c @ filter (\<lambda>m. me_state m \<noteq> Manager) ms,
      cd_managers = cd_managers c @ filter (\<lambda>m. me_state m = Manager) ms\<rparr>"
  by (induction ms arbitrary: c) (auto simp: candidates_push_def)

text \<open>
  Candidates from an old gossip: the failed endpoint is left out, every other member appears
  as often as it was listed, and all managers come after all other nodes.
\<close>

theorem candidates_from_old_gossip_arranged:
  assumes "shuffle_documented env"
  shows "\<exists>nodes managers. fst (candidates_from_old_gossip env failed old w) = nodes @ managers
    \<and> mset nodes = image_mset me_endpoint
        {#m \<in># mset old. me_state m \<noteq> Manager \<and> Some (me_endpoint m) \<noteq> failed#}
    \<and> mset managers = image_mset me_endpoint
        {#m \<in># mset old. me_state m = Manager \<and> Some (me_endpoint m) \<noteq> failed#}"
proof -
  define ms where "ms = (case failed of Some e \<Rightarrow> filter (\<lambda>m. me_endpoint m \<noteq> e) old | None \<Rightarrow> old)"
  define nodes where "nodes = filter (\<lambda>m. me_state m \<noteq> Manager) ms"
  define managers where "managers = filter (\<lambda>m. me_state m = Manager) ms"
  obtain ns w1 where ns: "shuffle env nodes w = (ns, w1)" by fastforce
  obtain gs w2 where gs: "shuffle env managers w1 = (gs, w2)" by fastforce
  have "fst (candidates_from_old_gossip env failed old w) = map me_endpoint ns @ map me_endpoint gs"
    using ns gs
    by (simp add: candidates_from_old_gossip_def arrange_gossip_candidates_def candidates_new_def
        fold_candidates_push candidates_shuffle_def candidates_endpoints_def
        flip: ms_def nodes_def managers_def)
  moreover have "mset ns = mset nodes" "mset gs = mset managers"
    using mset_shuffle [OF assms, of nodes w] mset_shuffle [OF assms, of managers w1] ns gs by auto
  moreover have "mset ms = {#m \<in># mset old. Some (me_endpoint m) \<noteq> failed#}"
    by (cases failed) (simp_all add: ms_def)
  ultimately show ?thesis
    by (intro exI [of _ "map me_endpoint ns"] exI [of _ "map me_endpoint gs"])
      (simp add: nodes_def managers_def filter_filter_mset conj_commute)
qed

lemma candidates_from_old_gossip_arranged_witness:
  "\<exists>nodes managers. fst (candidates_from_old_gossip offline_env
        (Some \<lparr>ep_host = ''a'', ep_port = 1\<rparr>)
        [\<lparr>me_endpoint = \<lparr>ep_host = ''a'', ep_port = 1\<rparr>, me_state = LeaderState\<rparr>,
         \<lparr>me_endpoint = \<lparr>ep_host = ''b'', ep_port = 2\<rparr>, me_state = FollowerState\<rparr>] ()) =
      nodes @ managers
    \<and> mset nodes = {#\<lparr>ep_host = ''b'', ep_port = 2\<rparr>#} \<and> mset managers = {#}"
  using candidates_from_old_gossip_arranged [of offline_env "Some \<lparr>ep_host = ''a'', ep_port = 1\<rparr>"
      "[\<lparr>me_endpoint = \<lparr>ep_host = ''a'', ep_port = 1\<rparr>, me_state = LeaderState\<rparr>,
         \<lparr>me_endpoint = \<lparr>ep_host = ''b'', ep_port = 2\<rparr>, me_state = FollowerState\<rparr>]" "()"]
  by simp

end
