(* ===== verification/Connection.thy ===== *)
theory Connection
  imports NodeSelection
begin

text \<open>
  The connection to a node (\<open>grpc.rs\<close>): \<open>NodeConnection\<close> with its two nested loops in \<open>next\<close>, the
  actor \<open>connection_state_machine\<close> that owns it and answers channel requests, and what commands do
  with it (\<open>current_selected_node\<close>, \<open>execute\<close>, \<open>handle_error\<close>, \<open>report_error\<close>). Building the TLS
  configuration is a parameter of \<open>node_connection_new\<close>; the HTTP client, the same for every
  handle, and the sleep between attempts are left out.
\<close>

section \<open>State\<close>

record handle_info =
  hi_id :: uuid
  hi_uri :: string
  hi_endpoint :: endpoint
  hi_secure :: bool
  hi_server_info :: server_info

record node_connection =
  nc_id :: uuid
  nc_handle :: "handle_info option"
  nc_settings :: client_settings
  nc_cluster_mode :: "cluster_mode option"
  nc_previous_candidates :: "member list option"

record node_request =
  nr_correlation :: uuid
  nr_endpoint :: endpoint

definition node_connection_new ::
  "(string, unit) outcome \<Rightarrow> client_settings \<Rightarrow> (string, node_connection) outcome" where
  "node_connection_new tls s =
     bind_outcome tls (\<lambda>_.
     bind_outcome
       (if dns_discover s \<or> length (hosts s) > 1 then
          (if dns_discover s
           then (case hosts s of [] \<Rightarrow> Panic | e # _ \<Rightarrow> Ok (Some (Dns e)))
           else Ok (Some (Seeds (hosts s))))
        else Ok None) (\<lambda>mode.
       Ok \<lparr>nc_id = 0, nc_handle = None, nc_settings = s, nc_cluster_mode = mode,
           nc_previous_candidates = None\<rparr>))"

section \<open>The connection loops\<close>

text \<open>The node answered (or does not know the features endpoint): it becomes the current one.\<close>

definition connected ::
  "'w net_env \<Rightarrow> endpoint \<Rightarrow> string \<Rightarrow> server_info \<Rightarrow> node_connection \<Rightarrow> 'w
     \<Rightarrow> ((grpc_connection_error, handle_info) outcome \<times> node_connection) \<times> 'w" where
  "connected env node uri info conn w =
     (let (i, w1) = ne_new_v4 env w;
          h = \<lparr>hi_id = i, hi_uri = uri, hi_endpoint = node, hi_secure = secure (nc_settings conn),
               hi_server_info = info\<rparr>
      in ((Ok h, conn\<lparr>nc_id := i, nc_handle := Some h\<rparr>), w1))"

text \<open>The choice of a node when none is selected: from the cluster, or the first host.\<close>

definition select_node ::
  "'w net_env \<Rightarrow> endpoint option \<Rightarrow> node_connection \<Rightarrow> 'w
     \<Rightarrow> ((error, endpoint option) outcome \<times> node_connection) \<times> 'w" where
  "select_node env failed conn w =
     (case nc_cluster_mode conn of
        Some mode \<Rightarrow>
          (let ((r, previous), w1) =
             node_selection env (nc_settings conn) mode failed (nc_previous_candidates conn) w
           in ((r, conn\<lparr>nc_previous_candidates := previous\<rparr>), w1))
      | None \<Rightarrow>
          ((Ok (case hosts (nc_settings conn) of [] \<Rightarrow> None | e # _ \<Rightarrow> Some e), conn), w))"

lemma select_node_settings [simp]:
  "select_node env failed conn w = ((r, conn1), w1) \<Longrightarrow> nc_settings conn1 = nc_settings conn"
  by (auto simp: select_node_def split: option.splits prod.splits)

text \<open>
  The inner loop of \<open>next\<close>: with a selected node it asks for the node's features, and a timeout
  only drops the selection; without one it selects, and counts an attempt.
\<close>

function connect_loop ::
  "'w net_env \<Rightarrow> endpoint option \<Rightarrow> endpoint option \<Rightarrow> nat \<Rightarrow> node_connection \<Rightarrow> 'w
     \<Rightarrow> ((grpc_connection_error, handle_info) outcome \<times> node_connection) \<times> 'w" where
  "connect_loop env failed (Some node) attempts conn w =
     (case to_hyper_uri (ne_parse_uri env) (nc_settings conn) node of
        Ok uri \<Rightarrow>
          (case ne_supported_methods env uri w of
             (Elapsed, w1) \<Rightarrow> connect_loop env failed None attempts conn w1
           | (InTime response, w1) \<Rightarrow>
               (case supported_methods_info (ne_display env) response of
                  Ok info \<Rightarrow> connected env node uri info conn w1
                | Err st \<Rightarrow>
                    (if st_code st = CodeNotFound \<or> st_code st = CodeUnimplemented
                     then connected env node uri server_info_default conn w1
                     else ((Err (GrpcFailure (st_display st)), conn), w1))
                | Panic \<Rightarrow> ((Panic, conn), w1)))
      | _ \<Rightarrow> ((Panic, conn), w))"
| "connect_loop env failed None attempts conn w =
     (case select_node env failed conn w of
        ((Ok node, conn1), w1) \<Rightarrow>
          (if attempts + 1 \<le> unat (max_discover_attempts (nc_settings conn))
           then connect_loop env failed node (attempts + 1) conn1 w1
           else ((Err (MaxDiscoveryAttemptReached (max_discover_attempts (nc_settings conn))), conn1),
                 w1))
      | ((_, conn1), w1) \<Rightarrow> ((Panic, conn1), w1))"
  by pat_completeness auto

termination
  by (relation "measure (\<lambda>(env, failed, selected, attempts, conn, w).
        (unat (max_discover_attempts (nc_settings conn)) + 1 - attempts) * 2
        + (if selected = None then 0 else 1))") (auto dest!: select_node_settings [OF sym])

text \<open>The outer loop takes the request once; its second round has none.\<close>

definition connection_next ::
  "'w net_env \<Rightarrow> node_request option \<Rightarrow> node_connection \<Rightarrow> 'w
     \<Rightarrow> ((grpc_connection_error, handle_info) outcome \<times> node_connection) \<times> 'w" where
  "connection_next env request conn w =
     (case (request, nc_handle conn) of
        (Some r, Some h) \<Rightarrow>
          (if nc_id conn \<noteq> nr_correlation r then ((Ok h, conn), w)
           else connect_loop env (Some (hi_endpoint h)) (Some (nr_endpoint r)) 1
                  (conn\<lparr>nc_handle := None\<rparr>) w)
      | (Some r, None) \<Rightarrow> connect_loop env None (Some (nr_endpoint r)) 1 conn w
      | (None, Some h) \<Rightarrow> ((Ok h, conn), w)
      | (None, None) \<Rightarrow> connect_loop env None None 1 conn w)"

section \<open>The actor\<close>

record handle =
  h_id :: uuid
  h_uri :: string
  h_endpoint :: endpoint
  h_secure :: bool
  h_server_info :: server_info

definition handle_of :: "handle_info \<Rightarrow> handle" where
  "handle_of info =
     \<lparr>h_id = hi_id info, h_uri = hi_uri info, h_endpoint = hi_endpoint info,
      h_secure = hi_secure info, h_server_info = hi_server_info info\<rparr>"

text \<open>A channel request carries its reply channel, here a number.\<close>

datatype msg = GetChannel nat | CreateChannel uuid "endpoint option"

text \<open>What becomes of a reply channel: an answer on it, or its sender dropped.\<close>

datatype reply = Reply nat "(grpc_connection_error, handle) outcome" | Dropped nat

record 'w machine =
  mc_connection :: node_connection
  mc_handle :: "handle option"
  mc_running :: bool
  mc_world :: 'w

definition machine_new :: "node_connection \<Rightarrow> 'w \<Rightarrow> 'w machine" where
  "machine_new conn w =
     \<lparr>mc_connection = conn, mc_handle = None, mc_running = True, mc_world = w\<rparr>"

text \<open>
  One message. An error of \<open>next\<close> leaves the loop and a panic ends the task: from then on the
  receiver is gone, and so are the reply channels of the messages it would have received.
\<close>

fun connection_step :: "'w net_env \<Rightarrow> 'w machine \<Rightarrow> msg \<Rightarrow> 'w machine \<times> reply list" where
  "connection_step env m (GetChannel resp) =
     (if \<not> mc_running m then (m, [Dropped resp])
      else (case mc_handle m of
          Some h \<Rightarrow> (m, [Reply resp (Ok h)])
        | None \<Rightarrow>
            (case connection_next env None (mc_connection m) (mc_world m) of
               ((Ok info, conn), w) \<Rightarrow>
                 (m\<lparr>mc_connection := conn, mc_handle := Some (handle_of info), mc_world := w\<rparr>,
                  [Reply resp (Ok (handle_of info))])
             | ((Err e, conn), w) \<Rightarrow>
                 (m\<lparr>mc_connection := conn, mc_running := False, mc_world := w\<rparr>,
                  [Reply resp (Err e)])
             | ((Panic, conn), w) \<Rightarrow>
                 (m\<lparr>mc_connection := conn, mc_running := False, mc_world := w\<rparr>,
                  [Dropped resp]))))"
| "connection_step env m (CreateChannel i seed) =
     (if \<not> mc_running m then (m, [])
      else (case connection_next env
               (map_option (\<lambda>e. \<lparr>nr_correlation = i, nr_endpoint = e\<rparr>) seed)
               (mc_connection m) (mc_world m) of
          ((Ok info, conn), w) \<Rightarrow>
            (m\<lparr>mc_connection := conn, mc_handle := Some (handle_of info), mc_world := w\<rparr>, [])
        | ((_, conn), w) \<Rightarrow>
            (m\<lparr>mc_connection := conn, mc_running := False, mc_world := w\<rparr>, [])))"

section \<open>The client's side\<close>

definition report_error :: "handle \<Rightarrow> msg list" where
  "report_error h = [CreateChannel (h_id h) None]"

definition handle_url :: "handle \<Rightarrow> string" where
  "handle_url h =
     (if h_secure h then ''https'' else ''http'') @ ''://'' @ ep_host (h_endpoint h) @ '':''
       @ show_nat (unat (ep_port (h_endpoint h)))"

definition supports_feature :: "handle \<Rightarrow> features \<Rightarrow> bool" where
  "supports_feature h f \<longleftrightarrow> contains_features (h_server_info h) f"

text \<open>What \<open>current_selected_node\<close> makes of the reply.\<close>

fun selected_node :: "reply \<Rightarrow> (error, handle) outcome" where
  "selected_node (Reply _ r) = map_err GrpcConnectionError r"
| "selected_node (Dropped _) = Err ConnectionClosed"

text \<open>The messages \<open>handle_error\<close> sends to the actor.\<close>

fun handle_error :: "uuid \<Rightarrow> error \<Rightarrow> msg list" where
  "handle_error connection_id (ServerError _) = [CreateChannel connection_id None]"
| "handle_error connection_id (NotLeaderException leader) =
     [CreateChannel connection_id (Some leader)]"
| "handle_error connection_id _ = []"

text \<open>\<open>node\<close> is what \<open>current_selected_node\<close> gives; the result, and the messages sent.\<close>

definition execute ::
  "(error, handle) outcome \<Rightarrow> (handle \<Rightarrow> (status, 'a) outcome) \<Rightarrow> (error, 'a) outcome \<times> msg list" where
  "execute node action =
     (case node of
        Ok h \<Rightarrow>
          (case action h of
             Ok a \<Rightarrow> (Ok a, [])
           | Err st \<Rightarrow> (let e = from_grpc st in (Err e, handle_error (h_id h) e))
           | Panic \<Rightarrow> (Panic, []))
      | Err e \<Rightarrow> (Err e, [])
      | Panic \<Rightarrow> (Panic, []))"

section \<open>One connection\<close>

lemma connected_Ok:
  "connected env node uri info conn w = ((r, conn'), w') \<Longrightarrow>
     \<exists>h. r = Ok h \<and> nc_handle conn' = Some h \<and> nc_id conn' = hi_id h \<and> hi_endpoint h = node
       \<and> hi_uri h = uri \<and> hi_secure h = secure (nc_settings conn)
       \<and> nc_settings conn' = nc_settings conn
       \<and> nc_cluster_mode conn' = nc_cluster_mode conn
       \<and> nc_previous_candidates conn' = nc_previous_candidates conn"
  by (cases "ne_new_v4 env w") (auto simp: connected_def Let_def)

lemma node_selection_previous:
  "node_selection env s mode failed previous w = ((r, previous'), w') \<Longrightarrow> previous' = None"
  by (simp add: node_selection_def Let_def case_prod_beta)

lemma select_node_frame:
  assumes "select_node env failed conn w = ((r, conn1), w1)"
  shows "nc_handle conn1 = nc_handle conn \<and> nc_id conn1 = nc_id conn
     \<and> nc_cluster_mode conn1 = nc_cluster_mode conn
     \<and> (nc_previous_candidates conn = None \<longrightarrow> nc_previous_candidates conn1 = None)"
proof (cases "nc_cluster_mode conn")
  case None
  with assms show ?thesis by (auto simp: select_node_def)
next
  case (Some mode)
  obtain r1 p w2 where n: "node_selection env (nc_settings conn) mode failed
      (nc_previous_candidates conn) w = ((r1, p), w2)" by (metis prod.exhaust)
  with assms Some node_selection_previous [OF n] show ?thesis by (auto simp: select_node_def)
qed

text \<open>
  What a handle given by the loop says, and what the loop leaves: either the connection holds the
  handle it returned, or it holds none still.
\<close>

definition loop_post ::
  "'w net_env \<Rightarrow> node_connection \<Rightarrow> (grpc_connection_error, handle_info) outcome
     \<Rightarrow> node_connection \<Rightarrow> bool" where
  "loop_post env conn r conn' \<longleftrightarrow>
     nc_settings conn' = nc_settings conn
   \<and> nc_cluster_mode conn' = nc_cluster_mode conn
   \<and> (nc_previous_candidates conn = None \<longrightarrow> nc_previous_candidates conn' = None)
   \<and> (case r of
        Ok h \<Rightarrow> nc_handle conn' = Some h \<and> nc_id conn' = hi_id h
          \<and> hi_secure h = secure (nc_settings conn)
          \<and> ne_parse_uri env (uri_text (nc_settings conn) (hi_endpoint h)) = Some (hi_uri h)
      | _ \<Rightarrow> nc_handle conn' = nc_handle conn)"

lemma connect_loop_post:
  "connect_loop env failed selected attempts conn w = ((r, conn'), w') \<Longrightarrow>
     loop_post env conn r conn'"
proof (induction env failed selected attempts conn w arbitrary: r conn' w'
    rule: connect_loop.induct)
  case (1 env failed node attempts conn w)
  show ?case
  proof (cases "to_hyper_uri (ne_parse_uri env) (nc_settings conn) node")
    case (Ok uri)
    obtain answer w1 where a: "ne_supported_methods env uri w = (answer, w1)" by fastforce
    show ?thesis
    proof (cases answer)
      case Elapsed
      with 1 Ok a show ?thesis by simp
    next
      case (InTime response)
      with 1(2) Ok a show ?thesis
        by (auto simp: loop_post_def to_hyper_uri_def split: outcome.splits if_splits
            dest!: connected_Ok)
    qed
  qed (use 1(2) in \<open>auto simp: loop_post_def\<close>)
next
  case (2 env failed attempts conn w)
  obtain found conn1 w1 where s: "select_node env failed conn w = ((found, conn1), w1)"
    by (metis prod.exhaust)
  note frame = select_node_frame [OF s] select_node_settings [OF s]
  show ?case
  proof (cases found)
    case (Ok node)
    show ?thesis
    proof (cases "attempts + 1 \<le> unat (max_discover_attempts (nc_settings conn))")
      case True
      have "loop_post env conn1 r conn'"
      proof (rule 2(1) [OF s [symmetric] refl Ok True])
        show "connect_loop env failed node (attempts + 1) conn1 w1 = ((r, conn'), w')"
          using 2(2) s Ok True by simp
      qed
      with frame show ?thesis by (auto simp: loop_post_def split: outcome.splits)
    next
      case False
      with 2(2) s Ok frame show ?thesis by (auto simp: loop_post_def)
    qed
  qed (use 2(2) s frame in \<open>auto simp: loop_post_def\<close>)
qed

section \<open>How often it tries\<close>

text \<open>
  For a count of the feature requests kept in the world, one request adds one and nothing else
  the loop does adds any.
\<close>

definition counts_requests :: "'w net_env \<Rightarrow> ('w \<Rightarrow> nat) \<Rightarrow> bool" where
  "counts_requests env calls \<longleftrightarrow>
     (\<forall>uri w. calls (snd (ne_supported_methods env uri w)) = calls w + 1)
   \<and> (\<forall>uri w. calls (snd (ne_gossip env uri w)) = calls w)
   \<and> (\<forall>w. calls (snd (ne_next_u32 env w)) = calls w)
   \<and> (\<forall>w. calls (snd (ne_new_v4 env w)) = calls w)
   \<and> (\<forall>n w. calls (snd (ne_shuffle env n w)) = calls w)"

lemma counts_requestsD:
  assumes "counts_requests env calls"
  shows "ne_supported_methods env uri w = (a, w1) \<Longrightarrow> calls w1 = calls w + 1"
    and "ne_gossip env uri w = (g, w2) \<Longrightarrow> calls w2 = calls w"
    and "ne_next_u32 env w = (n, w3) \<Longrightarrow> calls w3 = calls w"
    and "ne_new_v4 env w = (i, w4) \<Longrightarrow> calls w4 = calls w"
    and "ne_shuffle env k w = (ixs, w5) \<Longrightarrow> calls w5 = calls w"
  using assms by (metis counts_requests_def snd_conv)+

lemma min_member_calls:
  assumes "counts_requests env calls"
  shows "min_member env pref x ys w = (m, w1) \<Longrightarrow> calls w1 = calls w"
proof (induction ys arbitrary: x w)
  case (Cons y ys)
  obtain c w2 where c: "compare_members env pref x y w = (c, w2)" by fastforce
  have "calls w2 = calls w"
    using c counts_requestsD(3) [OF assms]
    by (fastforce simp: compare_members_def split: if_splits prod.splits)
  with Cons c show ?case by simp
qed simp

lemma determine_best_node_calls:
  assumes "counts_requests env calls" "determine_best_node env pref ms w = (e, w1)"
  shows "calls w1 = calls w"
proof (cases "filter (\<lambda>m. allowed_state (mi_state m)) (filter mi_is_alive ms)")
  case Nil
  with assms(2) show ?thesis by (simp add: determine_best_node_def)
next
  case (Cons x xs)
  obtain b w2 where b: "min_member env pref x xs w = (b, w2)" by fastforce
  with assms(2) Cons have "w1 = w2" by (simp add: determine_best_node_def)
  with min_member_calls [OF assms(1) b] show ?thesis by simp
qed

lemma try_candidates_calls:
  assumes "counts_requests env calls"
  shows "try_candidates env s cs w = (r, w1) \<Longrightarrow> calls w1 = calls w"
proof (induction cs arbitrary: w)
  case (Cons c cs)
  show ?case
  proof (cases "to_hyper_uri (ne_parse_uri env) s c")
    case (Ok uri)
    obtain g w2 where g: "ne_gossip env uri w = (g, w2)" by fastforce
    have w2: "calls w2 = calls w" using counts_requestsD(2) [OF assms g] .
    show ?thesis
    proof (cases g)
      case Elapsed
      with Cons Ok g w2 show ?thesis by simp
    next
      case (InTime response)
      show ?thesis
      proof (cases "gossip_read env response")
        case (Ok ms)
        obtain e w3 where e: "determine_best_node env (preference s) ms w2 = (e, w3)" by fastforce
        have "calls w3 = calls w2" by (rule determine_best_node_calls [OF assms e])
        with Cons \<open>to_hyper_uri (ne_parse_uri env) s c = Ok uri\<close> g w2 InTime Ok e show ?thesis
          by (cases e) auto
      qed (use Cons Ok g w2 InTime in auto)
    qed
  qed (use Cons in auto)
qed simp

lemma shuffle_calls:
  "counts_requests env calls \<Longrightarrow> shuffle env xs w = (ys, w1) \<Longrightarrow> calls w1 = calls w"
  by (auto simp: shuffle_def split: prod.splits dest: counts_requestsD(5))

lemma old_gossip_calls:
  assumes "counts_requests env calls" "candidates_from_old_gossip env failed old w = (es, w1)"
  shows "calls w1 = calls w"
  using assms(2)
  by (auto simp: candidates_from_old_gossip_def arrange_gossip_candidates_def
      candidates_shuffle_def Let_def split: prod.splits dest!: shuffle_calls [OF assms(1)])

lemma node_selection_calls:
  assumes "counts_requests env calls" "node_selection env s mode failed previous w = (x, w1)"
  shows "calls w1 = calls w"
proof -
  define start where "start =
     (case previous of
           Some old \<Rightarrow>
             (let (new, w1) = candidates_from_old_gossip env failed old w
              in (if new = [] then hosts s else new, w1))
         | None \<Rightarrow>
             shuffle env (case mode of Seeds seeds \<Rightarrow> seeds | Dns e \<Rightarrow> [e]) w)"
  obtain cs w2 where cs: "start = (cs, w2)" by fastforce
  obtain r w3 where r: "try_candidates env s cs w2 = (r, w3)" by fastforce
  have "calls w2 = calls w"
    using cs shuffle_calls [OF assms(1)] old_gossip_calls [OF assms(1)]
    by (auto simp: start_def split: option.splits prod.splits)
  moreover have "calls w3 = calls w2" by (rule try_candidates_calls [OF assms(1) r])
  moreover have "w1 = w3"
    using assms(2) cs r by (simp add: node_selection_def flip: start_def)
  ultimately show ?thesis by simp
qed

lemma select_node_calls:
  assumes "counts_requests env calls" "select_node env failed conn w = (x, w1)"
  shows "calls w1 = calls w"
proof (cases "nc_cluster_mode conn")
  case None
  with assms show ?thesis by (simp add: select_node_def)
next
  case (Some mode)
  obtain r p w2 where n: "node_selection env (nc_settings conn) mode failed
      (nc_previous_candidates conn) w = ((r, p), w2)" by (metis prod.exhaust)
  with assms Some node_selection_calls [OF assms(1) n] show ?thesis
    by (auto simp: select_node_def)
qed

lemma connect_loop_calls:
  assumes "counts_requests env calls"
  shows "connect_loop env failed selected attempts conn w = (x, w') \<Longrightarrow>
     calls w' \<le> calls w + (if selected = None then 0 else 1)
       + (unat (max_discover_attempts (nc_settings conn)) - attempts)"
  using assms
proof (induction env failed selected attempts conn w rule: connect_loop.induct)
  case (1 env failed node attempts conn w)
  show ?case
  proof (cases "to_hyper_uri (ne_parse_uri env) (nc_settings conn) node")
    case (Ok uri)
    obtain answer w1 where a: "ne_supported_methods env uri w = (answer, w1)" by fastforce
    note w1 = counts_requestsD(1) [OF 1(3) a] and v4 = counts_requestsD(4) [OF 1(3)]
    show ?thesis
    proof (cases answer)
      case Elapsed
      have "calls w' \<le> calls w1 + (unat (max_discover_attempts (nc_settings conn)) - attempts)"
        using 1(1) [OF Ok a [symmetric] Elapsed _ 1(3)] 1(2) Ok a Elapsed by simp
      with w1 show ?thesis by simp
    next
      case (InTime response)
      have same: "calls w2 = calls w1" if "connected env node uri info conn w1 = (x, w2)" for info w2
        using that v4 by (auto simp: connected_def Let_def split: prod.splits)
      have "calls w' = calls w1"
        using 1(2) Ok a InTime by (auto split: outcome.splits if_splits dest: same)
      with w1 show ?thesis by simp
    qed
  qed (use 1(2) in auto)
next
  case (2 env failed attempts conn w)
  obtain found conn1 w1 where s: "select_node env failed conn w = ((found, conn1), w1)"
    by (metis prod.exhaust)
  note frame = select_node_settings [OF s] select_node_calls [OF 2(3) s]
  show ?case
  proof (cases found)
    case (Ok node)
    show ?thesis
    proof (cases "attempts + 1 \<le> unat (max_discover_attempts (nc_settings conn))")
      case True
      have "calls w' \<le> calls w1 + (if node = None then 0 else 1)
          + (unat (max_discover_attempts (nc_settings conn1)) - (attempts + 1))"
        by (rule 2(1) [OF s [symmetric] refl Ok True _ 2(3)]) (use 2(2) s Ok True in simp)
      with frame True show ?thesis by (auto split: if_splits)
    next
      case False
      with 2(2) s Ok frame show ?thesis by auto
    qed
  qed (use 2(2) s frame in auto)
qed


text \<open>A node that answers with its features, and one that never answers, counting requests.\<close>

definition counting_env :: "(status, supported_methods) outcome timed \<Rightarrow> nat net_env" where
  "counting_env answer =
     \<lparr>ne_display = (\<lambda>_ m. m), ne_uuid_parse = (\<lambda>_. None), ne_parse_uri = Some,
      ne_next_u32 = (\<lambda>w. (0, w)), ne_shuffle = (\<lambda>n w. ([0..<n], w)), ne_new_v4 = (\<lambda>w. (1, w)),
      ne_supported_methods = (\<lambda>_ w. (answer, w + 1)), ne_gossip = (\<lambda>_ w. (Elapsed, w))\<rparr>"

definition single_node :: "usize \<Rightarrow> node_connection" where
  "single_node attempts =
     \<lparr>nc_id = 0, nc_handle = None,
      nc_settings = client_settings_default
        \<lparr>hosts := [\<lparr>ep_host = ''localhost'', ep_port = 2113\<rparr>], max_discover_attempts := attempts\<rparr>,
      nc_cluster_mode = None, nc_previous_candidates = None\<rparr>"


section \<open>The actor\<close>

definition machine_inv :: "'w net_env \<Rightarrow> client_settings \<Rightarrow> 'w machine \<Rightarrow> bool" where
  "machine_inv env s m \<longleftrightarrow>
     nc_settings (mc_connection m) = s
   \<and> nc_previous_candidates (mc_connection m) = None
   \<and> (mc_running m \<longrightarrow> mc_handle m = map_option handle_of (nc_handle (mc_connection m)))
   \<and> (\<forall>h. nc_handle (mc_connection m) = Some h \<longrightarrow>
        nc_id (mc_connection m) = hi_id h \<and> hi_secure h = secure s
        \<and> ne_parse_uri env (uri_text s (hi_endpoint h)) = Some (hi_uri h))"

text \<open>A reply with a handle gives one that the settings explain.\<close>

fun reply_ok :: "'w net_env \<Rightarrow> client_settings \<Rightarrow> reply \<Rightarrow> bool" where
  "reply_ok env s (Reply _ (Ok h)) \<longleftrightarrow>
     h_secure h = secure s \<and> ne_parse_uri env (uri_text s (h_endpoint h)) = Some (h_uri h)"
| "reply_ok env s (Reply _ (Err e)) \<longleftrightarrow> True"
| "reply_ok env s (Reply _ Panic) \<longleftrightarrow> False"
| "reply_ok env s (Dropped _) \<longleftrightarrow> True"

lemma connection_next_post:
  assumes nxt: "connection_next env request conn w = ((r, conn'), w')"
    and inv: "nc_settings conn = s" "nc_previous_candidates conn = None"
      "\<forall>h. nc_handle conn = Some h \<longrightarrow> nc_id conn = hi_id h \<and> hi_secure h = secure s
        \<and> ne_parse_uri env (uri_text s (hi_endpoint h)) = Some (hi_uri h)"
  shows "nc_settings conn' = s \<and> nc_previous_candidates conn' = None
    \<and> (case r of
         Ok h \<Rightarrow> nc_handle conn' = Some h \<and> nc_id conn' = hi_id h \<and> hi_secure h = secure s
           \<and> ne_parse_uri env (uri_text s (hi_endpoint h)) = Some (hi_uri h)
       | _ \<Rightarrow> nc_handle conn' = None)"
proof -
  have "nc_handle conn \<noteq> None \<and> r = Ok (the (nc_handle conn)) \<and> conn' = conn
      \<or> (\<exists>failed selected conn1. connect_loop env failed selected 1 conn1 w = ((r, conn'), w')
           \<and> conn1 = conn\<lparr>nc_handle := None\<rparr>)"
  proof (cases request)
    case None
    with nxt show ?thesis
      by (cases "nc_handle conn"; cases conn)
        (auto simp: connection_next_def simp del: connect_loop.simps)
  next
    case (Some q)
    with nxt show ?thesis
      by (cases "nc_handle conn"; cases conn)
        (auto simp: connection_next_def simp del: connect_loop.simps split: if_splits)
  qed
  then show ?thesis
  proof
    assume "nc_handle conn \<noteq> None \<and> r = Ok (the (nc_handle conn)) \<and> conn' = conn"
    with inv show ?thesis by auto
  next
    assume "\<exists>failed selected conn1. connect_loop env failed selected 1 conn1 w = ((r, conn'), w')
           \<and> conn1 = conn\<lparr>nc_handle := None\<rparr>"
    then have "loop_post env (conn\<lparr>nc_handle := None\<rparr>) r conn'"
      by (auto dest: connect_loop_post)
    with inv show ?thesis by (auto simp: loop_post_def split: outcome.splits)
  qed
qed

lemma machine_next_post:
  assumes "machine_inv env s m"
    and "connection_next env request (mc_connection m) (mc_world m) = ((r, conn), w)"
  shows "nc_settings conn = s \<and> nc_previous_candidates conn = None
    \<and> (case r of
         Ok h \<Rightarrow> nc_handle conn = Some h \<and> nc_id conn = hi_id h \<and> hi_secure h = secure s
           \<and> ne_parse_uri env (uri_text s (hi_endpoint h)) = Some (hi_uri h)
       | _ \<Rightarrow> nc_handle conn = None)"
  using assms by (intro connection_next_post [OF assms(2)]) (auto simp: machine_inv_def)

lemma machine_handle_ok:
  "machine_inv env s m \<Longrightarrow> mc_running m \<Longrightarrow> mc_handle m = Some h \<Longrightarrow>
     h_secure h = secure s \<and> ne_parse_uri env (uri_text s (h_endpoint h)) = Some (h_uri h)"
  by (cases "nc_handle (mc_connection m)") (auto simp: machine_inv_def handle_of_def)

lemma connection_step_inv:
  assumes inv: "machine_inv env s m"
  shows "machine_inv env s (fst (connection_step env m x))
    \<and> (\<forall>r \<in> set (snd (connection_step env m x)). reply_ok env s r)"
proof (cases x)
  case (GetChannel resp)
  obtain r conn w where n: "connection_next env None (mc_connection m) (mc_world m) = ((r, conn), w)"
    by (metis prod.exhaust)
  show ?thesis
  proof (cases "mc_running m \<and> mc_handle m = None")
    case True
    with GetChannel n machine_next_post [OF inv n] show ?thesis
      by (cases r) (auto simp: machine_inv_def handle_of_def)
  next
    case False
    with GetChannel inv machine_handle_ok [OF inv] show ?thesis by (cases "mc_handle m") auto
  qed
next
  case (CreateChannel i seed)
  obtain r conn w where n: "connection_next env
      (map_option (\<lambda>e. \<lparr>nr_correlation = i, nr_endpoint = e\<rparr>) seed)
      (mc_connection m) (mc_world m) = ((r, conn), w)"
    by (metis prod.exhaust)
  show ?thesis
    using CreateChannel n inv machine_next_post [OF inv n]
    by (cases r) (auto simp: machine_inv_def handle_of_def)
qed

interpretation connection_actor:
  actor_invariant "connection_step env" "machine_inv env s" "reply_ok env s"
  for env :: "'w net_env" and s :: client_settings
  by unfold_locales (use connection_step_inv in blast)+

lemma connection_step_stopped:
  "\<not> mc_running m \<Longrightarrow>
     connection_step env m x = (m, case x of GetChannel n \<Rightarrow> [Dropped n] | _ \<Rightarrow> [])"
  by (cases x) auto

interpretation connection_stop:
  actor_stop "connection_step env" "\<lambda>m. \<not> mc_running m" for env :: "'w net_env"
  by unfold_locales (simp add: connection_step_stopped)

lemma machine_inv_new:
  "node_connection_new tls s = Ok conn \<Longrightarrow> machine_inv env s (machine_new conn w)"
  by (auto simp: node_connection_new_def machine_inv_def machine_new_def)



text \<open>
  C2. The actor never comes back from an error: after any message whose connection attempt fails,
  every later request for a channel, whatever comes between, finds its reply dropped, which the
  client reads as a closed connection.
\<close>

theorem failed_connection_is_final:
  assumes "connection_step env m x = (m1, replies)"
    and "case x of
        GetChannel _ \<Rightarrow> mc_handle m = None
          \<and> \<not> is_ok (fst (fst (connection_next env None (mc_connection m) (mc_world m))))
      | CreateChannel i seed \<Rightarrow>
          \<not> is_ok (fst (fst (connection_next env
              (map_option (\<lambda>e. \<lparr>nr_correlation = i, nr_endpoint = e\<rparr>) seed)
              (mc_connection m) (mc_world m))))"
  shows "fst (run_actor (connection_step env) m1 later) = m1
    \<and> snd (run_actor (connection_step env) m1 later) =
        map Dropped (concat (map (\<lambda>x. case x of GetChannel n \<Rightarrow> [n] | _ \<Rightarrow> []) later))
    \<and> (\<forall>r \<in> set (snd (run_actor (connection_step env) m1 later)).
         selected_node r = Err ConnectionClosed)"
proof -
  have stopped: "\<not> mc_running m1"
    using assms by (cases x) (auto split: if_splits outcome.splits prod.splits)
  have "snd (run_actor (connection_step env) m1 later) =
      map Dropped (concat (map (\<lambda>x. case x of GetChannel n \<Rightarrow> [n] | _ \<Rightarrow> []) later))"
    using stopped
    by (induction later)
      (auto simp: connection_step_stopped snd_run_actor_Cons simp del: run_actor.simps(2)
        split: msg.splits)
  moreover have "fst (run_actor (connection_step env) m1 later) = m1"
    by (rule connection_stop.stopped_run [OF stopped])
  ultimately show ?thesis by auto
qed

lemma unreachable_single_node:
  "fst (connection_step (counting_env Elapsed) (machine_new (single_node 1) 0) (GetChannel 7)) =
     \<lparr>mc_connection = single_node 1, mc_handle = None, mc_running = False, mc_world = 0\<rparr>"
  by (simp add: machine_new_def single_node_def connection_next_def select_node_def
      client_settings_default_def)

lemma failed_connection_is_final_witness:
  "snd (run_actor (connection_step (counting_env Elapsed))
      \<lparr>mc_connection = single_node 1, mc_handle = None, mc_running = False, mc_world = 0\<rparr>
      [CreateChannel 0 None, GetChannel 8]) = [Dropped 8]"
  using failed_connection_is_final [OF prod.collapse [symmetric],
      where env = "counting_env Elapsed" and m = "machine_new (single_node 1) 0"
        and x = "GetChannel 7" and later = "[CreateChannel 0 None, GetChannel 8]"]
  by (simp add: unreachable_single_node machine_new_def single_node_def connection_next_def
      select_node_def client_settings_default_def)



text \<open>What a connected actor does with every message but a leader named for its handle.\<close>

lemma connected_run:
  assumes inv: "machine_inv env s m" "mc_running m" "mc_handle m = Some h"
    and msgs: "\<forall>x \<in> set msgs. \<forall>e. x \<noteq> CreateChannel (h_id h) (Some e)"
  shows "run_actor (connection_step env) m msgs =
    (m, map (\<lambda>n. Reply n (Ok h)) (concat (map (\<lambda>x. case x of GetChannel n \<Rightarrow> [n] | _ \<Rightarrow> []) msgs)))"
proof -
  obtain i where i: "nc_handle (mc_connection m) = Some i" "h = handle_of i"
      "nc_id (mc_connection m) = h_id h"
    using inv by (cases "nc_handle (mc_connection m)") (auto simp: machine_inv_def handle_of_def)
  have step: "connection_step env m x =
      (m, case x of GetChannel n \<Rightarrow> [Reply n (Ok h)] | _ \<Rightarrow> [])"
    if "\<forall>e. x \<noteq> CreateChannel (h_id h) (Some e)" for x
  proof (cases x)
    case (GetChannel n)
    with inv show ?thesis by simp
  next
    case (CreateChannel j seed)
    have "connection_next env (map_option (\<lambda>e. \<lparr>nr_correlation = j, nr_endpoint = e\<rparr>) seed)
        (mc_connection m) (mc_world m) = ((Ok i, mc_connection m), mc_world m)"
      using that CreateChannel i by (cases seed) (auto simp: connection_next_def)
    with CreateChannel inv i show ?thesis by simp
  qed
  from msgs show ?thesis
    by (induction msgs) (auto simp: step split: msg.splits)
qed

text \<open>
  C1. While the actor holds a handle, nothing but a leader named for that very handle makes it
  connect again: reports that the node became unavailable, channel requests and messages about
  older handles leave it as it is, and each request is answered with the same handle.
\<close>

theorem unavailable_node_is_kept:
  assumes inv: "machine_inv env s m" "mc_running m" "mc_handle m = Some h"
    and msgs: "\<forall>x \<in> set msgs. \<forall>e. x \<noteq> CreateChannel (h_id h) (Some e)"
  shows "run_actor (connection_step env) m msgs =
    (m, map (\<lambda>n. Reply n (Ok h)) (concat (map (\<lambda>x. case x of GetChannel n \<Rightarrow> [n] | _ \<Rightarrow> []) msgs)))"
  by (rule connected_run [OF assms])

text \<open>A connected machine, for concrete runs.\<close>

definition connected_machine :: "nat machine" where
  "connected_machine =
     (let i = \<lparr>hi_id = 1, hi_uri = ''https://localhost:2113'',
               hi_endpoint = \<lparr>ep_host = ''localhost'', ep_port = 2113\<rparr>, hi_secure = True,
               hi_server_info = server_info_default\<rparr>
      in \<lparr>mc_connection = (single_node 3)\<lparr>nc_id := 1, nc_handle := Some i\<rparr>,
          mc_handle = Some (handle_of i), mc_running = True, mc_world = 0\<rparr>)"

lemma show_port_2113: "show_nat 2113 = ''2113''"
  by (simp add: show_nat.simps)

lemma connected_machine_inv:
  "machine_inv (counting_env answer) (nc_settings (single_node 3)) connected_machine"
  by (simp add: machine_inv_def connected_machine_def single_node_def counting_env_def uri_text_def
      client_settings_default_def show_port_2113 Let_def)

lemma unavailable_node_is_kept_witness:
  "\<exists>h. run_actor (connection_step (counting_env Elapsed)) connected_machine
      [CreateChannel 1 None, CreateChannel 9 (Some \<lparr>ep_host = ''b'', ep_port = 1\<rparr>), GetChannel 4] =
     (connected_machine, [Reply 4 (Ok h)])"
  using unavailable_node_is_kept [OF connected_machine_inv, where msgs =
      "[CreateChannel 1 None, CreateChannel 9 (Some \<lparr>ep_host = ''b'', ep_port = 1\<rparr>), GetChannel 4]"]
  by (simp add: connected_machine_def handle_of_def Let_def)

lemma named_leader_step:
  assumes inv: "machine_inv env s m" "mc_running m" "mc_handle m = Some h"
    and uri: "ne_parse_uri env (uri_text s leader) = Some uri"
    and answer: "ne_supported_methods env uri (mc_world m) = (InTime response, w1)"
    and step: "connection_step env m (CreateChannel (h_id h) (Some leader)) = (m1, replies)"
  shows "case supported_methods_info (ne_display env) response of
      Ok info \<Rightarrow> mc_running m1 \<and> (\<exists>h1. mc_handle m1 = Some h1 \<and> h_endpoint h1 = leader
        \<and> h_server_info h1 = info \<and> h_id h1 = fst (ne_new_v4 env w1))
    | Err st \<Rightarrow> if st_code st = CodeNotFound \<or> st_code st = CodeUnimplemented
        then mc_running m1 \<and> (\<exists>h1. mc_handle m1 = Some h1 \<and> h_endpoint h1 = leader
          \<and> h_server_info h1 = server_info_default)
        else \<not> mc_running m1
    | Panic \<Rightarrow> \<not> mc_running m1"
proof -
  obtain i where i: "nc_handle (mc_connection m) = Some i" "nc_id (mc_connection m) = h_id h"
    using inv by (cases "nc_handle (mc_connection m)") (auto simp: machine_inv_def handle_of_def)
  have set: "nc_settings (mc_connection m) = s" using inv by (simp add: machine_inv_def)
  have "connection_next env (Some \<lparr>nr_correlation = h_id h, nr_endpoint = leader\<rparr>)
      (mc_connection m) (mc_world m) =
    connect_loop env (Some (hi_endpoint i)) (Some leader) 1 ((mc_connection m)\<lparr>nc_handle := None\<rparr>)
      (mc_world m)"
    using i by (simp add: connection_next_def del: connect_loop.simps)
  with step inv set uri answer show ?thesis
    by (cases "supported_methods_info (ne_display env) response"; cases "ne_new_v4 env w1")
      (auto simp: to_hyper_uri_def connected_def handle_of_def Let_def)
qed

text \<open>
  C4. A leader named by a \<open>NotLeaderException\<close> on the current handle is asked first: if it answers
  with its features (or does not know that endpoint) it becomes the current node with a new
  identifier, and every later request gets it; any other error status ends the actor.
\<close>

theorem named_leader_becomes_current:
  assumes inv: "machine_inv env s m" "mc_running m" "mc_handle m = Some h"
    and uri: "ne_parse_uri env (uri_text s leader) = Some uri"
    and answer: "ne_supported_methods env uri (mc_world m) = (InTime response, w1)"
    and step: "connection_step env m (CreateChannel (h_id h) (Some leader)) = (m1, replies)"
  shows "case supported_methods_info (ne_display env) response of
      Ok info \<Rightarrow> mc_running m1 \<and> (\<exists>h1. mc_handle m1 = Some h1 \<and> h_endpoint h1 = leader
        \<and> h_server_info h1 = info \<and> h_id h1 = fst (ne_new_v4 env w1))
    | Err st \<Rightarrow> if st_code st = CodeNotFound \<or> st_code st = CodeUnimplemented
        then mc_running m1 \<and> (\<exists>h1. mc_handle m1 = Some h1 \<and> h_endpoint h1 = leader
          \<and> h_server_info h1 = server_info_default)
        else \<not> mc_running m1
    | Panic \<Rightarrow> \<not> mc_running m1"
  by (rule named_leader_step [OF assms])

lemma named_leader_becomes_current_witness:
  "\<exists>h1. mc_handle (fst (connection_step
        (counting_env (InTime (Err (status_new (\<lambda>_ m. m) CodeUnimplemented ''no''))))
        connected_machine (CreateChannel 1 (Some \<lparr>ep_host = ''b'', ep_port = 2113\<rparr>)))) = Some h1
    \<and> h_endpoint h1 = \<lparr>ep_host = ''b'', ep_port = 2113\<rparr>"
proof -
  let ?answer = "InTime (Err (status_new (\<lambda>_ m. m) CodeUnimplemented ''no''))"
  let ?env = "counting_env ?answer"
  obtain h where h: "mc_handle connected_machine = Some h" "mc_running connected_machine" "h_id h = 1"
    by (simp add: connected_machine_def handle_of_def Let_def)
  have uri: "ne_parse_uri ?env (uri_text (nc_settings (single_node 3))
      \<lparr>ep_host = ''b'', ep_port = 2113\<rparr>) = Some (uri_text (nc_settings (single_node 3))
      \<lparr>ep_host = ''b'', ep_port = 2113\<rparr>)"
    by (simp add: counting_env_def)
  have answer: "ne_supported_methods ?env (uri_text (nc_settings (single_node 3))
      \<lparr>ep_host = ''b'', ep_port = 2113\<rparr>) (mc_world connected_machine) = (?answer, 1)"
    by (simp add: counting_env_def connected_machine_def Let_def)
  from named_leader_becomes_current [OF connected_machine_inv h(2,1) uri answer prod.collapse [symmetric]]
  show ?thesis
    by (auto simp: h(3) supported_methods_info_def status_new_def)
qed

end
