(* ===== verification/Options.thy ===== *)
theory Options
  imports Messages PersistentTypes
begin

text \<open>
  The options of every command (\<open>options/*.rs\<close>) with their defaults and builder methods. The
  \<open>options!\<close> macro (\<open>trogon-eventstore-macros\<close>) adds to each struct a field with the common options
  and three methods setting them; here each record extends the record \<open>options\<close> of that field, so
  that the three methods are defined once for all. The kind of operation the macro derives from the
  \<open>#[streaming]\<close> attribute is the constant \<open>..._kind\<close> beside each record.
\<close>

section \<open>Common options\<close>

record common_options =
  co_authentication :: "authentication option"
  co_requires_leader :: bool
  co_deadline :: "duration option"

definition common_options_default :: common_options where
  "common_options_default =
     \<lparr>co_authentication = None, co_requires_leader = False, co_deadline = None\<rparr>"

datatype operation_kind = Regular | Streaming

record options =
  common_operation_options :: common_options

definition authenticated :: "authentication \<Rightarrow> 'm options_scheme \<Rightarrow> 'm options_scheme" where
  "authenticated a o1 =
     o1\<lparr>common_operation_options := (common_operation_options o1)\<lparr>co_authentication := Some a\<rparr>\<rparr>"

definition requires_leader :: "bool \<Rightarrow> 'm options_scheme \<Rightarrow> 'm options_scheme" where
  "requires_leader b o1 =
     o1\<lparr>common_operation_options := (common_operation_options o1)\<lparr>co_requires_leader := b\<rparr>\<rparr>"

definition deadline :: "duration \<Rightarrow> 'm options_scheme \<Rightarrow> 'm options_scheme" where
  "deadline d o1 =
     o1\<lparr>common_operation_options := (common_operation_options o1)\<lparr>co_deadline := Some d\<rparr>\<rparr>"

record retry_options =
  ry_limit :: usize
  ry_delay :: duration

definition retry_options_default :: retry_options where
  "retry_options_default = \<lparr>ry_limit = 3, ry_delay = from_millis 500\<rparr>"

definition retry_limit :: "usize \<Rightarrow> retry_options \<Rightarrow> retry_options" where
  "retry_limit n r = r\<lparr>ry_limit := n\<rparr>"

definition retry_forever :: "retry_options \<Rightarrow> retry_options" where
  "retry_forever r = retry_limit (- 1) r"

definition retry_delay :: "duration \<Rightarrow> retry_options \<Rightarrow> retry_options" where
  "retry_delay d r = r\<lparr>ry_delay := d\<rparr>"

section \<open>Streams\<close>

record append_options = options +
  apo_version :: expected_stream_revision

definition append_options_default :: append_options where
  "append_options_default =
     \<lparr>common_operation_options = common_options_default, apo_version = ExpectAny\<rparr>"

definition append_kind :: operation_kind where "append_kind = Regular"

fun expected_revision_of :: "stream_state \<Rightarrow> expected_stream_revision" where
  "expected_revision_of Any = ExpectAny"
| "expected_revision_of StreamExists = ExpectStreamExists"
| "expected_revision_of NoStream = ExpectNoStream"
| "expected_revision_of (StreamRevision v) = ExpectRevision v"

definition append_stream_state :: "stream_state \<Rightarrow> append_options \<Rightarrow> append_options" where
  "append_stream_state v o1 = o1\<lparr>apo_version := expected_revision_of v\<rparr>"

type_synonym batch_append_options = options

definition batch_append_kind :: operation_kind where "batch_append_kind = Streaming"

record read_stream_options = options +
  ro_direction :: read_direction
  ro_position :: "u64 stream_position"
  ro_resolve_link_tos :: bool
  ro_max_count :: usize

definition read_stream_options_default :: read_stream_options where
  "read_stream_options_default =
     \<lparr>common_operation_options = common_options_default, ro_direction = Forward,
      ro_position = Start, ro_resolve_link_tos = False, ro_max_count = - 1\<rparr>"

definition read_stream_kind :: operation_kind where "read_stream_kind = Streaming"

definition read_stream_forwards :: "read_stream_options \<Rightarrow> read_stream_options" where
  "read_stream_forwards o1 = o1\<lparr>ro_direction := Forward\<rparr>"

definition read_stream_backwards :: "read_stream_options \<Rightarrow> read_stream_options" where
  "read_stream_backwards o1 = o1\<lparr>ro_direction := Backward\<rparr>"

definition read_stream_position ::
  "u64 stream_position \<Rightarrow> read_stream_options \<Rightarrow> read_stream_options" where
  "read_stream_position p o1 =
     (case p of
        Start \<Rightarrow> o1\<lparr>ro_position := p, ro_direction := Forward\<rparr>
      | End \<Rightarrow> o1\<lparr>ro_position := p, ro_direction := Backward\<rparr>
      | At _ \<Rightarrow> o1\<lparr>ro_position := p\<rparr>)"

definition read_stream_resolve_link_tos :: "read_stream_options \<Rightarrow> read_stream_options" where
  "read_stream_resolve_link_tos o1 = o1\<lparr>ro_resolve_link_tos := True\<rparr>"

definition read_stream_max_count :: "usize \<Rightarrow> read_stream_options \<Rightarrow> read_stream_options" where
  "read_stream_max_count n o1 = o1\<lparr>ro_max_count := n\<rparr>"

record read_all_options = options +
  ra_direction :: read_direction
  ra_position :: "Position stream_position"
  ra_resolve_link_tos :: bool
  ra_filter :: "subscription_filter option"
  ra_max_count :: usize

definition read_all_options_default :: read_all_options where
  "read_all_options_default =
     \<lparr>common_operation_options = common_options_default, ra_direction = Forward,
      ra_position = Start, ra_resolve_link_tos = False, ra_filter = None, ra_max_count = - 1\<rparr>"

definition read_all_kind :: operation_kind where "read_all_kind = Streaming"

definition read_all_forwards :: "read_all_options \<Rightarrow> read_all_options" where
  "read_all_forwards o1 = o1\<lparr>ra_direction := Forward\<rparr>"

definition read_all_backwards :: "read_all_options \<Rightarrow> read_all_options" where
  "read_all_backwards o1 = o1\<lparr>ra_direction := Backward\<rparr>"

definition read_all_position ::
  "Position stream_position \<Rightarrow> read_all_options \<Rightarrow> read_all_options" where
  "read_all_position p o1 =
     (case p of
        Start \<Rightarrow> o1\<lparr>ra_position := p, ra_direction := Forward\<rparr>
      | End \<Rightarrow> o1\<lparr>ra_position := p, ra_direction := Backward\<rparr>
      | At _ \<Rightarrow> o1\<lparr>ra_position := p\<rparr>)"

definition read_all_resolve_link_tos :: "read_all_options \<Rightarrow> read_all_options" where
  "read_all_resolve_link_tos o1 = o1\<lparr>ra_resolve_link_tos := True\<rparr>"

definition read_all_filter :: "subscription_filter \<Rightarrow> read_all_options \<Rightarrow> read_all_options" where
  "read_all_filter f o1 = o1\<lparr>ra_filter := Some f\<rparr>"

definition read_all_max_count :: "usize \<Rightarrow> read_all_options \<Rightarrow> read_all_options" where
  "read_all_max_count n o1 = o1\<lparr>ra_max_count := n\<rparr>"

record delete_stream_options = options +
  dso_version :: stream_state

definition delete_stream_options_default :: delete_stream_options where
  "delete_stream_options_default =
     \<lparr>common_operation_options = common_options_default, dso_version = Any\<rparr>"

definition delete_stream_kind :: operation_kind where "delete_stream_kind = Regular"

definition delete_stream_state :: "stream_state \<Rightarrow> delete_stream_options \<Rightarrow> delete_stream_options" where
  "delete_stream_state v o1 = o1\<lparr>dso_version := v\<rparr>"

record tombstone_stream_options = options +
  tso_stream_state :: stream_state

definition tombstone_stream_options_default :: tombstone_stream_options where
  "tombstone_stream_options_default =
     \<lparr>common_operation_options = common_options_default, tso_stream_state = Any\<rparr>"

definition tombstone_stream_kind :: operation_kind where "tombstone_stream_kind = Regular"

definition tombstone_stream_state ::
  "stream_state \<Rightarrow> tombstone_stream_options \<Rightarrow> tombstone_stream_options" where
  "tombstone_stream_state v o1 = o1\<lparr>tso_stream_state := v\<rparr>"

section \<open>Subscriptions\<close>

record subscribe_to_stream_options = options +
  ss_position :: "u64 stream_position"
  ss_resolve_link_tos :: bool
  ss_retry :: "retry_options option"

definition subscribe_to_stream_options_default :: subscribe_to_stream_options where
  "subscribe_to_stream_options_default =
     \<lparr>common_operation_options = common_options_default, ss_position = End,
      ss_resolve_link_tos = False, ss_retry = None\<rparr>"

definition subscribe_to_stream_kind :: operation_kind where "subscribe_to_stream_kind = Streaming"

definition subscribe_start_from ::
  "u64 stream_position \<Rightarrow> subscribe_to_stream_options \<Rightarrow> subscribe_to_stream_options" where
  "subscribe_start_from p o1 = o1\<lparr>ss_position := p\<rparr>"

definition subscribe_resolve_link_tos ::
  "subscribe_to_stream_options \<Rightarrow> subscribe_to_stream_options" where
  "subscribe_resolve_link_tos o1 = o1\<lparr>ss_resolve_link_tos := True\<rparr>"

definition subscribe_retry_options ::
  "retry_options \<Rightarrow> subscribe_to_stream_options \<Rightarrow> subscribe_to_stream_options" where
  "subscribe_retry_options r o1 = o1\<lparr>ss_retry := Some r\<rparr>"

record subscribe_to_all_options = options +
  sa_position :: "Position stream_position"
  sa_resolve_link_tos :: bool
  sa_filter :: "subscription_filter option"
  sa_retry :: "retry_options option"

definition subscribe_to_all_options_default :: subscribe_to_all_options where
  "subscribe_to_all_options_default =
     \<lparr>common_operation_options = common_options_default, sa_position = Start,
      sa_resolve_link_tos = False, sa_filter = None, sa_retry = None\<rparr>"

definition subscribe_to_all_kind :: operation_kind where "subscribe_to_all_kind = Streaming"

definition subscribe_all_position ::
  "Position stream_position \<Rightarrow> subscribe_to_all_options \<Rightarrow> subscribe_to_all_options" where
  "subscribe_all_position p o1 = o1\<lparr>sa_position := p\<rparr>"

definition subscribe_all_filter ::
  "subscription_filter \<Rightarrow> subscribe_to_all_options \<Rightarrow> subscribe_to_all_options" where
  "subscribe_all_filter f o1 = o1\<lparr>sa_filter := Some f\<rparr>"

definition subscribe_all_resolve_link_tos ::
  "subscribe_to_all_options \<Rightarrow> subscribe_to_all_options" where
  "subscribe_all_resolve_link_tos o1 = o1\<lparr>sa_resolve_link_tos := True\<rparr>"

definition subscribe_all_retry_options ::
  "retry_options \<Rightarrow> subscribe_to_all_options \<Rightarrow> subscribe_to_all_options" where
  "subscribe_all_retry_options r o1 = o1\<lparr>sa_retry := Some r\<rparr>"

section \<open>Persistent subscriptions\<close>

text \<open>
  \<open>PersistentSubscriptionOptions\<close> at \<open>u64\<close>; the options of a group on \<open>$all\<close> add a filter, and
  their methods setting one setting each read the same.
\<close>

record 'a ps_options = options +
  setts :: "'a ps_settings"

type_synonym persistent_subscription_options = "u64 ps_options"

record ps_to_all_options = "Position ps_options" +
  poa_filter :: "subscription_filter option"

definition ps_options_default :: persistent_subscription_options where
  "ps_options_default =
     \<lparr>common_operation_options = common_options_default, setts = ps_settings_default\<rparr>"

definition ps_to_all_options_default :: ps_to_all_options where
  "ps_to_all_options_default =
     \<lparr>common_operation_options = common_options_default, setts = ps_settings_default,
      poa_filter = None\<rparr>"

definition ps_kind :: operation_kind where "ps_kind = Regular"

definition ps_options_settings ::
  "'a ps_settings \<Rightarrow> ('a, 'm) ps_options_scheme \<Rightarrow> ('a, 'm) ps_options_scheme" where
  "ps_options_settings s o1 = o1\<lparr>setts := s\<rparr>"

definition ps_to_all_filter :: "subscription_filter \<Rightarrow> ps_to_all_options \<Rightarrow> ps_to_all_options" where
  "ps_to_all_filter f o1 = o1\<lparr>poa_filter := Some f\<rparr>"

definition set_resolve_link_tos ::
  "bool \<Rightarrow> ('a, 'm) ps_options_scheme \<Rightarrow> ('a, 'm) ps_options_scheme" where
  "set_resolve_link_tos v o1 = o1\<lparr>setts := (setts o1)\<lparr>ps_resolve_link_tos := v\<rparr>\<rparr>"

definition set_start_from ::
  "'a stream_position \<Rightarrow> ('a, 'm) ps_options_scheme \<Rightarrow> ('a, 'm) ps_options_scheme" where
  "set_start_from v o1 = o1\<lparr>setts := (setts o1)\<lparr>ps_start_from := v\<rparr>\<rparr>"

definition set_extra_statistics ::
  "bool \<Rightarrow> ('a, 'm) ps_options_scheme \<Rightarrow> ('a, 'm) ps_options_scheme" where
  "set_extra_statistics v o1 = o1\<lparr>setts := (setts o1)\<lparr>ps_extra_statistics := v\<rparr>\<rparr>"

definition set_message_timeout ::
  "duration \<Rightarrow> ('a, 'm) ps_options_scheme \<Rightarrow> ('a, 'm) ps_options_scheme" where
  "set_message_timeout v o1 = o1\<lparr>setts := (setts o1)\<lparr>ps_message_timeout := v\<rparr>\<rparr>"

definition set_max_retry_count ::
  "i32 \<Rightarrow> ('a, 'm) ps_options_scheme \<Rightarrow> ('a, 'm) ps_options_scheme" where
  "set_max_retry_count v o1 = o1\<lparr>setts := (setts o1)\<lparr>ps_max_retry_count := v\<rparr>\<rparr>"

definition set_live_buffer_size ::
  "i32 \<Rightarrow> ('a, 'm) ps_options_scheme \<Rightarrow> ('a, 'm) ps_options_scheme" where
  "set_live_buffer_size v o1 = o1\<lparr>setts := (setts o1)\<lparr>ps_live_buffer_size := v\<rparr>\<rparr>"

definition set_read_batch_size ::
  "i32 \<Rightarrow> ('a, 'm) ps_options_scheme \<Rightarrow> ('a, 'm) ps_options_scheme" where
  "set_read_batch_size v o1 = o1\<lparr>setts := (setts o1)\<lparr>ps_read_batch_size := v\<rparr>\<rparr>"

definition set_history_buffer_size ::
  "i32 \<Rightarrow> ('a, 'm) ps_options_scheme \<Rightarrow> ('a, 'm) ps_options_scheme" where
  "set_history_buffer_size v o1 = o1\<lparr>setts := (setts o1)\<lparr>ps_history_buffer_size := v\<rparr>\<rparr>"

definition set_checkpoint_after ::
  "duration \<Rightarrow> ('a, 'm) ps_options_scheme \<Rightarrow> ('a, 'm) ps_options_scheme" where
  "set_checkpoint_after v o1 = o1\<lparr>setts := (setts o1)\<lparr>ps_checkpoint_after := v\<rparr>\<rparr>"

definition set_checkpoint_lower_bound ::
  "i32 \<Rightarrow> ('a, 'm) ps_options_scheme \<Rightarrow> ('a, 'm) ps_options_scheme" where
  "set_checkpoint_lower_bound v o1 = o1\<lparr>setts := (setts o1)\<lparr>ps_checkpoint_lower_bound := v\<rparr>\<rparr>"

definition set_checkpoint_upper_bound ::
  "i32 \<Rightarrow> ('a, 'm) ps_options_scheme \<Rightarrow> ('a, 'm) ps_options_scheme" where
  "set_checkpoint_upper_bound v o1 = o1\<lparr>setts := (setts o1)\<lparr>ps_checkpoint_upper_bound := v\<rparr>\<rparr>"

definition set_max_subscriber_count ::
  "i32 \<Rightarrow> ('a, 'm) ps_options_scheme \<Rightarrow> ('a, 'm) ps_options_scheme" where
  "set_max_subscriber_count v o1 = o1\<lparr>setts := (setts o1)\<lparr>ps_max_subscriber_count := v\<rparr>\<rparr>"

definition set_consumer_strategy_name ::
  "consumer_strategy \<Rightarrow> ('a, 'm) ps_options_scheme \<Rightarrow> ('a, 'm) ps_options_scheme" where
  "set_consumer_strategy_name v o1 = o1\<lparr>setts := (setts o1)\<lparr>ps_consumer_strategy_name := v\<rparr>\<rparr>"

record subscribe_to_ps_options = options +
  sp_buffer_size :: usize

definition subscribe_to_ps_options_default :: subscribe_to_ps_options where
  "subscribe_to_ps_options_default =
     \<lparr>common_operation_options = common_options_default, sp_buffer_size = 10\<rparr>"

definition subscribe_to_ps_kind :: operation_kind where "subscribe_to_ps_kind = Streaming"

definition subscribe_to_ps_buffer_size ::
  "usize \<Rightarrow> subscribe_to_ps_options \<Rightarrow> subscribe_to_ps_options" where
  "subscribe_to_ps_buffer_size n o1 = o1\<lparr>sp_buffer_size := n\<rparr>"

record replay_parked_options = options +
  rpo_stop_at :: "usize option"

definition replay_parked_stop_at :: "usize \<Rightarrow> replay_parked_options \<Rightarrow> replay_parked_options" where
  "replay_parked_stop_at n o1 = o1\<lparr>rpo_stop_at := Some n\<rparr>"

section \<open>Projections\<close>

datatype engine_version = V1 | V2

fun engine_version_as_i32 :: "engine_version \<Rightarrow> i32" where
  "engine_version_as_i32 V1 = 1"
| "engine_version_as_i32 V2 = 2"

record create_projection_options = options +
  cpo_track_emitted_streams :: bool
  cpo_emit :: bool
  cpo_engine_version :: engine_version

definition create_projection_options_default :: create_projection_options where
  "create_projection_options_default =
     \<lparr>common_operation_options = common_options_default, cpo_track_emitted_streams = False,
      cpo_emit = False, cpo_engine_version = V1\<rparr>"

definition create_projection_track_emitted_streams ::
  "bool \<Rightarrow> create_projection_options \<Rightarrow> create_projection_options" where
  "create_projection_track_emitted_streams b o1 = o1\<lparr>cpo_track_emitted_streams := b\<rparr>"

definition create_projection_emit ::
  "bool \<Rightarrow> create_projection_options \<Rightarrow> create_projection_options" where
  "create_projection_emit b o1 = o1\<lparr>cpo_emit := b\<rparr>"

definition create_projection_engine_version ::
  "engine_version \<Rightarrow> create_projection_options \<Rightarrow> create_projection_options" where
  "create_projection_engine_version v o1 = o1\<lparr>cpo_engine_version := v\<rparr>"

record update_projection_options = options +
  upo_emit :: "bool option"

definition update_projection_options_default :: update_projection_options where
  "update_projection_options_default =
     \<lparr>common_operation_options = common_options_default, upo_emit = None\<rparr>"

definition update_projection_emit ::
  "bool \<Rightarrow> update_projection_options \<Rightarrow> update_projection_options" where
  "update_projection_emit b o1 = o1\<lparr>upo_emit := Some b\<rparr>"

record delete_projection_options = options +
  dpo_delete_emitted_streams :: bool
  dpo_delete_state_stream :: bool
  dpo_delete_checkpoint_stream :: bool

definition delete_projection_options_default :: delete_projection_options where
  "delete_projection_options_default =
     \<lparr>common_operation_options = common_options_default, dpo_delete_emitted_streams = False,
      dpo_delete_state_stream = False, dpo_delete_checkpoint_stream = False\<rparr>"

definition delete_projection_emitted_streams ::
  "bool \<Rightarrow> delete_projection_options \<Rightarrow> delete_projection_options" where
  "delete_projection_emitted_streams b o1 = o1\<lparr>dpo_delete_emitted_streams := b\<rparr>"

definition delete_projection_state_stream ::
  "bool \<Rightarrow> delete_projection_options \<Rightarrow> delete_projection_options" where
  "delete_projection_state_stream b o1 = o1\<lparr>dpo_delete_state_stream := b\<rparr>"

definition delete_projection_checkpoint_stream ::
  "bool \<Rightarrow> delete_projection_options \<Rightarrow> delete_projection_options" where
  "delete_projection_checkpoint_stream b o1 = o1\<lparr>dpo_delete_checkpoint_stream := b\<rparr>"

text \<open>\<open>GetStateProjectionOptions\<close> and \<open>GetResultProjectionOptions\<close>.\<close>

record partition_options = options +
  po_partition :: string

definition get_partition :: "string \<Rightarrow> partition_options \<Rightarrow> partition_options" where
  "get_partition value o1 = o1\<lparr>po_partition := value\<rparr>"

section \<open>Facts\<close>

lemma common_after_builders [simp]:
  "common_operation_options (authenticated a o1) =
     (common_operation_options o1)\<lparr>co_authentication := Some a\<rparr>"
  "common_operation_options (requires_leader b o1) =
     (common_operation_options o1)\<lparr>co_requires_leader := b\<rparr>"
  "common_operation_options (deadline d o1) =
     (common_operation_options o1)\<lparr>co_deadline := Some d\<rparr>"
  by (simp_all add: authenticated_def requires_leader_def deadline_def)

text \<open>
  Choosing where a read starts also turns it the way that reads something: from the start
  forwards, from the end backwards; a given revision or position keeps the direction chosen
  before, and choosing the direction last overrides it.
\<close>

theorem read_position_sets_direction:
  "ro_direction (read_stream_position Start o1) = Forward
   \<and> ro_direction (read_stream_position End o1) = Backward
   \<and> ro_direction (read_stream_position (At r) o1) = ro_direction o1
   \<and> ra_direction (read_all_position Start o2) = Forward
   \<and> ra_direction (read_all_position End o2) = Backward
   \<and> ra_direction (read_all_position (At p) o2) = ra_direction o2
   \<and> read_stream_forwards (read_stream_position End o1) = o1\<lparr>ro_position := End, ro_direction := Forward\<rparr>"
  by (simp add: read_stream_position_def read_all_position_def read_stream_forwards_def)

end
