(* ===== verification/Request.thy ===== *)
theory Request
  imports Options Settings
begin

text \<open>
  The metadata and timeout every call carries: \<open>request.rs\<close> and \<open>new_request\<close> of \<open>commands.rs\<close>.
  Base64, UTF-8 replacement, what tonic accepts as a metadata key or value, and what the installed
  trace propagator injects are an environment record. A metadata map is an association list whose
  keys are set in place.
\<close>

record request_env =
  rq_base64 :: "bytes \<Rightarrow> string"
  rq_utf8_lossy :: "bytes \<Rightarrow> string"
  rq_valid_key :: "string \<Rightarrow> string option" \<comment> \<open>the key as it is stored\<close>
  rq_valid_value :: "string \<Rightarrow> bool"
  rq_propagated :: "(string \<times> string) list"

type_synonym metadata = "(string \<times> string) list"

text \<open>\<open>MetadataInjector\<close>: what is not valid in gRPC metadata is left out.\<close>

fun inject_metadata :: "request_env \<Rightarrow> (string \<times> string) list \<Rightarrow> metadata \<Rightarrow> metadata" where
  "inject_metadata env [] md = md"
| "inject_metadata env ((k, v) # kvs) md =
     inject_metadata env kvs
       (case rq_valid_key env k of
          None \<Rightarrow> md
        | Some key \<Rightarrow> if rq_valid_value env v then AList.update key v md else md)"

definition build_authorization_header :: "request_env \<Rightarrow> authentication \<Rightarrow> string option" where
  "build_authorization_header env auth =
     (let header =
        (case auth of
           Basic c \<Rightarrow> ''Basic '' @ rq_base64 env
             (rq_utf8_lossy env (cr_login c) @ '':'' @ rq_utf8_lossy env (cr_password c))
         | Bearer token \<Rightarrow> ''Bearer '' @ rq_utf8_lossy env token)
      in if rq_valid_value env header then Some header else None)"

definition resolve_authentication ::
  "client_settings \<Rightarrow> common_options \<Rightarrow> authentication option" where
  "resolve_authentication s co =
     (case co_authentication co of
        Some a \<Rightarrow> Some a
      | None \<Rightarrow> map_option Basic (default_user_name s))"

definition build_request_metadata ::
  "request_env \<Rightarrow> client_settings \<Rightarrow> common_options \<Rightarrow> (error, metadata) outcome" where
  "build_request_metadata env s co =
     (let md0 = inject_metadata env (rq_propagated env) [];
          md1 = (case Option.bind (resolve_authentication s co) (build_authorization_header env) of
                   Some header \<Rightarrow> AList.update ''authorization'' header md0
                 | None \<Rightarrow> md0)
      in bind_outcome
           (if co_requires_leader co \<or> preference s = Leader
            then (if rq_valid_value env ''true''
                  then Ok (AList.update ''requires-leader'' ''true'' md1) else Panic)
            else Ok md1) (\<lambda>md2.
         (case connection_name s of
            Some name \<Rightarrow>
              (if rq_valid_value env name then Ok (AList.update ''connection-name'' name md2)
               else Panic)
          | None \<Rightarrow> Ok md2)))"

record 'm request =
  req_message :: 'm
  req_metadata :: metadata
  req_timeout :: "duration option"

definition new_request ::
  "request_env \<Rightarrow> client_settings \<Rightarrow> operation_kind \<Rightarrow> 'o options_scheme \<Rightarrow> 'm
     \<Rightarrow> (error, 'm request) outcome" where
  "new_request env s kind opts message =
     (let co = common_operation_options opts in
      map_ok (\<lambda>md.
        \<lparr>req_message = message, req_metadata = md,
         req_timeout =
           (case co_deadline co of
              Some d \<Rightarrow> Some d
            | None \<Rightarrow>
                (case default_deadline s of
                   Some d \<Rightarrow> if kind \<noteq> Streaming then Some d else None
                 | None \<Rightarrow> if kind = Regular then Some (from_secs 10) else None))\<rparr>)
        (build_request_metadata env s co))"

section \<open>Facts\<close>

text \<open>tonic accepts \<open>true\<close>, and what the propagator injects does not use the client's own keys.\<close>

definition request_env_ok :: "request_env \<Rightarrow> bool" where
  "request_env_ok env \<longleftrightarrow> rq_valid_value env ''true''
     \<and> (\<forall>k \<in> {''authorization'', ''requires-leader'', ''connection-name''}.
          k \<notin> set (map fst (inject_metadata env (rq_propagated env) [])))"

lemma request_env_ok_none:
  assumes "request_env_ok env"
  shows "map_of (inject_metadata env (rq_propagated env) []) ''authorization'' = None"
    "map_of (inject_metadata env (rq_propagated env) []) ''requires-leader'' = None"
    "map_of (inject_metadata env (rq_propagated env) []) ''connection-name'' = None"
  using assms by (simp_all add: request_env_ok_def map_of_eq_None_iff)

lemma build_request_metadata_lookup:
  assumes "request_env_ok env" "build_request_metadata env s co = Ok md"
  shows "map_of md ''authorization'' =
      Option.bind (resolve_authentication s co) (build_authorization_header env)"
    and "map_of md ''requires-leader'' =
      (if co_requires_leader co \<or> preference s = Leader then Some ''true'' else None)"
    and "map_of md ''connection-name'' = connection_name s"
  using assms(2) request_env_ok_none [OF assms(1)]
  by (auto simp: build_request_metadata_def Let_def update_conv' split: if_splits option.splits)

lemma new_request_OkD:
  assumes "new_request env s kind opts message = Ok r"
  shows "build_request_metadata env s (common_operation_options opts) = Ok (req_metadata r)"
    and "req_message r = message"
  using assms by (auto simp: new_request_def Let_def)

text \<open>
  C24. The headers of every request: the authorization of the call if it has one, and only
  otherwise the user of the connection string, left out altogether when it is no valid header
  value; \<open>requires-leader\<close> exactly when the call or the node preference asks for a leader; and the
  connection name of the settings.
\<close>

theorem request_headers:
  assumes "request_env_ok env" "new_request env s kind opts message = Ok r"
  shows "map_of (req_metadata r) ''authorization'' =
      (case co_authentication (common_operation_options opts) of
         Some a \<Rightarrow> build_authorization_header env a
       | None \<Rightarrow> Option.bind (default_user_name s) (\<lambda>c. build_authorization_header env (Basic c)))
    \<and> (map_of (req_metadata r) ''requires-leader'' = Some ''true'' \<longleftrightarrow>
         co_requires_leader (common_operation_options opts) \<or> preference s = Leader)
    \<and> map_of (req_metadata r) ''connection-name'' = connection_name s"
proof -
  from build_request_metadata_lookup [OF assms(1) new_request_OkD(1) [OF assms(2)]] show ?thesis
    by (cases "default_user_name s") (auto simp: resolve_authentication_def split: option.splits)
qed

text \<open>An environment with printable values and no propagator, for concrete runs.\<close>

definition plain_request_env :: request_env where
  "plain_request_env =
     \<lparr>rq_base64 = (\<lambda>b. b), rq_utf8_lossy = (\<lambda>b. b), rq_valid_key = Some,
      rq_valid_value = (\<lambda>v. list_all (\<lambda>c. 32 \<le> (of_char c :: nat) \<and> (of_char c :: nat) < 127) v),
      rq_propagated = []\<rparr>"

lemma plain_request_env_values:
  "rq_valid_value plain_request_env ''true''"
  "rq_valid_value plain_request_env ''Bearer t''"
  "\<not> rq_valid_value plain_request_env [CHR 0xE9]"
  by code_simp+

lemma plain_request_env_ok: "request_env_ok plain_request_env"
  using plain_request_env_values
  by (simp add: request_env_ok_def) (simp add: plain_request_env_def)

lemma request_headers_witness:
  "\<exists>r. new_request plain_request_env client_settings_default Regular
        (authenticated (Bearer ''t'') append_options_default) () = Ok r
     \<and> map_of (req_metadata r) ''authorization'' = Some ''Bearer t''"
proof -
  let ?opts = "authenticated (Bearer ''t'') append_options_default"
  obtain r where r: "new_request plain_request_env client_settings_default Regular ?opts () = Ok r"
    using plain_request_env_values(1)
    by (auto simp: new_request_def build_request_metadata_def Let_def client_settings_default_def)
  have "rq_utf8_lossy plain_request_env ''t'' = ''t''" by (simp add: plain_request_env_def)
  with request_headers [OF plain_request_env_ok r] r plain_request_env_values(2) show ?thesis
    by (auto simp: build_authorization_header_def)
qed

text \<open>
  The timeout of a request: the deadline of the call if it has one; otherwise streaming calls
  have none, and the others have the default deadline of the settings or ten seconds.
\<close>

theorem request_timeout:
  assumes "new_request env s kind opts message = Ok r"
  shows "req_timeout r =
    (case (co_deadline (common_operation_options opts), kind) of
       (Some d, _) \<Rightarrow> Some d
     | (None, Streaming) \<Rightarrow> None
     | (None, Regular) \<Rightarrow> Some (case default_deadline s of Some d \<Rightarrow> d | None \<Rightarrow> from_secs 10))
    \<and> req_message r = message"
  using assms
  by (auto simp: new_request_def Let_def split: option.splits operation_kind.splits)

lemma request_timeout_witness:
  "\<exists>r. new_request plain_request_env client_settings_default Regular append_options_default () = Ok r
     \<and> req_timeout r = Some (from_secs 10)"
proof -
  obtain r where r: "new_request plain_request_env client_settings_default Regular
      append_options_default () = Ok r"
    using plain_request_env_values(1)
    by (auto simp: new_request_def build_request_metadata_def Let_def client_settings_default_def
        append_options_default_def common_options_default_def)
  with request_timeout [OF r] show ?thesis
    by (auto simp: append_options_default_def common_options_default_def
        client_settings_default_def)
qed

text \<open>
  A connection name that is no valid header value (a non-ASCII letter is enough) makes every
  request panic, while invalid credentials only lose their header; with a valid name, or none, no
  request panics.
\<close>

lemma new_request_Panic_iff:
  assumes "rq_valid_value env ''true''"
  shows "new_request env s kind opts message = Panic \<longleftrightarrow>
    (\<exists>name. connection_name s = Some name \<and> \<not> rq_valid_value env name)"
proof -
  have "build_request_metadata env s (common_operation_options opts) = Panic \<longleftrightarrow>
      (\<exists>name. connection_name s = Some name \<and> \<not> rq_valid_value env name)"
    using assms
    by (auto simp: build_request_metadata_def Let_def bind_outcome_Panic_iff split: option.splits)
  then show ?thesis
    by (cases "build_request_metadata env s (common_operation_options opts)")
      (auto simp: new_request_def Let_def)
qed

end
