(* ===== verification/Json.thy ===== *)
theory Json
  imports Serde
begin

text \<open>
  JSON values as \<open>serde_json::Value\<close> holds them. An object is a \<open>BTreeMap\<close> from strings, here an
  association list in ascending byte order of its keys without repetition; the operations on it
  keep that order and obey the laws of a map, stated as an interface whose consequences the
  components use. Reading and printing JSON text is not part of this repository.
\<close>

section \<open>Values\<close>

datatype json_number = PosInt u64 | NegInt int | Float rat

datatype json =
    JNull
  | JBool bool
  | JNumber json_number
  | JString string
  | JArray "json list"
  | JObject "(string \<times> json) list"

fun as_str :: "json \<Rightarrow> string option" where
  "as_str (JString s) = Some s"
| "as_str _ = None"

text \<open>\<open>Number::from_f64\<close>: there is no JSON number for an infinity or a NaN.\<close>

fun number_from_f64 :: "f64 \<Rightarrow> json_number option" where
  "number_from_f64 (Finite r) = Some (Float r)"
| "number_from_f64 _ = None"

section \<open>Ordered maps\<close>

fun btree_insert :: "'k::linorder \<Rightarrow> 'v \<Rightarrow> ('k \<times> 'v) list \<Rightarrow> ('k \<times> 'v) list" where
  "btree_insert k v [] = [(k, v)]"
| "btree_insert k v ((k1, v1) # kvs) =
     (if k < k1 then (k, v) # (k1, v1) # kvs
      else if k = k1 then (k, v) # kvs
      else (k1, v1) # btree_insert k v kvs)"

definition btree_retain :: "('k \<Rightarrow> bool) \<Rightarrow> ('k \<times> 'v) list \<Rightarrow> ('k \<times> 'v) list" where
  "btree_retain P kvs = filter (\<lambda>(k, _). P k) kvs"

definition btree :: "('k::linorder \<times> 'v) list \<Rightarrow> bool" where
  "btree kvs \<longleftrightarrow> sorted_wrt (<) (map fst kvs)"

lemma btree_Nil [simp]: "btree []"
  by (simp add: btree_def)

lemma btree_Cons [simp]: "btree ((k, v) # kvs) \<longleftrightarrow> (\<forall>k1 \<in> fst ` set kvs. k < k1) \<and> btree kvs"
  by (auto simp: btree_def)

lemma btree_distinct: "btree kvs \<Longrightarrow> distinct (map fst kvs)"
  by (simp add: btree_def strict_sorted_iff)

lemma keys_btree_insert [simp]: "fst ` set (btree_insert k v kvs) = insert k (fst ` set kvs)"
  by (induction k v kvs rule: btree_insert.induct) auto

lemma btree_btree_insert: "btree kvs \<Longrightarrow> btree (btree_insert k v kvs)"
  by (induction k v kvs rule: btree_insert.induct) (auto simp: not_less dest: le_neq_trans)

lemma map_of_btree_insert: "btree kvs \<Longrightarrow> map_of (btree_insert k v kvs) = (map_of kvs)(k \<mapsto> v)"
proof (induction k v kvs rule: btree_insert.induct)
  case (2 k v k1 v1 kvs)
  then show ?case by (cases k k1 rule: linorder_cases) (auto simp: fun_eq_iff)
qed auto

lemma btree_btree_retain: "btree kvs \<Longrightarrow> btree (btree_retain P kvs)"
  by (induction kvs) (auto simp: btree_retain_def)

lemma map_of_btree_retain: "map_of (btree_retain P kvs) k = (if P k then map_of kvs k else None)"
  by (induction kvs) (auto simp: btree_retain_def)

section \<open>The laws of a map\<close>

text \<open>
  What a client of a map relies on. From the laws of one insertion and of \<open>retain\<close> follow those of
  replacing every key of a class by one entry and of inserting many entries in a row.
\<close>

locale retaining_map =
  fixes lookup :: "'m \<Rightarrow> 'k \<Rightarrow> 'v option"
    and insert_at :: "'k \<Rightarrow> 'v \<Rightarrow> 'm \<Rightarrow> 'm"
    and retain :: "('k \<Rightarrow> bool) \<Rightarrow> 'm \<Rightarrow> 'm"
    and invar :: "'m \<Rightarrow> bool"
  assumes lookup_insert: "invar m \<Longrightarrow> lookup (insert_at k v m) = (lookup m)(k \<mapsto> v)"
    and lookup_retain: "invar m \<Longrightarrow> lookup (retain P m) k = (if P k then lookup m k else None)"
    and invar_insert: "invar m \<Longrightarrow> invar (insert_at k v m)"
    and invar_retain: "invar m \<Longrightarrow> invar (retain P m)"
begin

lemma lookup_replace_class:
  "invar m \<Longrightarrow> lookup (insert_at k v (retain (\<lambda>k1. \<not> R k1) m)) k1 =
     (if k1 = k then Some v else if R k1 then None else lookup m k1)"
  by (simp add: lookup_insert lookup_retain invar_retain)

lemma invar_fold_insert: "invar m \<Longrightarrow> invar (fold (\<lambda>(k, v). insert_at k v) kvs m)"
  by (induction kvs arbitrary: m) (auto simp: invar_insert)

lemma lookup_fold_insert:
  "invar m \<Longrightarrow> lookup (fold (\<lambda>(k, v). insert_at k v) kvs m) = lookup m ++ map_of (rev kvs)"
proof (induction kvs arbitrary: m)
  case (Cons kv kvs)
  then show ?case by (cases kv) (auto simp: invar_insert lookup_insert map_add_def fun_eq_iff split: option.splits)
qed simp

end

interpretation btree_map: retaining_map map_of btree_insert btree_retain btree
  by unfold_locales
    (simp_all add: map_of_btree_insert map_of_btree_retain btree_btree_insert btree_btree_retain)

end
