(* ===== verification/Observability.thy ===== *)
theory Observability
  imports Json
begin

text \<open>
  \<open>observability.rs\<close> and \<open>observability/generated.rs\<close>: the spans of client operations and of
  received events, and the trace context persisted in and read from the metadata of an event. The
  OpenTelemetry API, the installed propagator, JSON text and the clock are an environment record.
\<close>

section \<open>Environment\<close>

text \<open>
  \<open>'c\<close> is a context. \<open>te_inject\<close> lists the fields the propagator sets, in order; \<open>te_extract\<close> reads
  them back through the two methods of an \<open>Extractor\<close>, starting from the current context.
\<close>

record 'c trace_env =
  te_valid :: "'c \<Rightarrow> bool" \<comment> \<open>its span context is valid\<close>
  te_inject :: "'c \<Rightarrow> (string \<times> string) list"
  te_extract :: "'c \<Rightarrow> (string \<Rightarrow> string option) \<Rightarrow> string list \<Rightarrow> 'c"
  te_new :: 'c
  te_json_parse :: "bytes \<Rightarrow> json option"
  te_json_print :: "json \<Rightarrow> bytes option"
  te_utf8_lossy :: "bytes \<Rightarrow> string"
  te_show_uuid :: "uuid \<Rightarrow> string"

section \<open>Spans\<close>

definition DB_COLLECTION_NAME :: string where "DB_COLLECTION_NAME = ''db.collection.name''"
definition DB_OPERATION_NAME :: string where "DB_OPERATION_NAME = ''db.operation.name''"
definition DB_SYSTEM_NAME :: string where "DB_SYSTEM_NAME = ''db.system.name''"
definition ERROR_TYPE :: string where "ERROR_TYPE = ''error.type''"
definition MESSAGING_CONSUMER_GROUP_NAME :: string where
  "MESSAGING_CONSUMER_GROUP_NAME = ''messaging.consumer.group.name''"
definition MESSAGING_DESTINATION_NAME :: string where
  "MESSAGING_DESTINATION_NAME = ''messaging.destination.name''"
definition MESSAGING_MESSAGE_ID :: string where "MESSAGING_MESSAGE_ID = ''messaging.message.id''"
definition MESSAGING_OPERATION_NAME :: string where
  "MESSAGING_OPERATION_NAME = ''messaging.operation.name''"
definition MESSAGING_OPERATION_TYPE :: string where
  "MESSAGING_OPERATION_TYPE = ''messaging.operation.type''"
definition MESSAGING_SYSTEM :: string where "MESSAGING_SYSTEM = ''messaging.system''"
definition TROGON_EVENTSTORE_BATCH_CORRELATION_ID :: string where
  "TROGON_EVENTSTORE_BATCH_CORRELATION_ID = ''trogon.eventstore.batch.correlation_id''"
definition TROGON_EVENTSTORE_EVENT_TYPE :: string where
  "TROGON_EVENTSTORE_EVENT_TYPE = ''trogon.eventstore.event.type''"

datatype client_op = ClientOperation (operation_name: string)

record client_span =
  cs_operation :: client_op
  cs_collection_name :: "string option"

definition on_collection :: "client_op \<Rightarrow> string \<Rightarrow> client_span" where
  "on_collection oper collection = \<lparr>cs_operation = oper, cs_collection_name = Some collection\<rparr>"

definition on_stream :: "'c trace_env \<Rightarrow> client_op \<Rightarrow> bytes \<Rightarrow> client_span" where
  "on_stream env oper name = on_collection oper (te_utf8_lossy env name)"

definition plain_span :: "client_op \<Rightarrow> client_span" where
  "plain_span oper = \<lparr>cs_operation = oper, cs_collection_name = None\<rparr>"

definition span_name :: "client_span \<Rightarrow> string" where
  "span_name s =
     (case cs_collection_name s of
        Some collection \<Rightarrow> operation_name (cs_operation s) @ '' '' @ collection
      | None \<Rightarrow> operation_name (cs_operation s))"

text \<open>What is exported of a span once it has ended; both kinds of span are client spans.\<close>

record 'c span =
  sp_name :: string
  sp_attributes :: "(string \<times> string) list"
  sp_status :: "string option" \<comment> \<open>the text of an error status\<close>
  sp_link :: "'c option"

definition start_client_operation :: "client_span \<Rightarrow> 'c span" where
  "start_client_operation s =
     \<lparr>sp_name = span_name s,
      sp_attributes =
        [(DB_SYSTEM_NAME, ''trogoneventstore''),
         (DB_OPERATION_NAME, operation_name (cs_operation s))]
        @ (case cs_collection_name s of
             Some collection \<Rightarrow> [(DB_COLLECTION_NAME, collection)]
           | None \<Rightarrow> []),
      sp_status = None, sp_link = None\<rparr>"

fun error_type :: "error \<Rightarrow> string" where
  "error_type (ServerError _) = ''server_error''"
| "error_type (NotLeaderException _) = ''not_leader''"
| "error_type ConnectionClosed = ''connection_closed''"
| "error_type (Grpc _ _) = ''grpc''"
| "error_type (GrpcConnectionError _) = ''grpc_connection''"
| "error_type (InternalParsingError _) = ''internal_parsing''"
| "error_type AccessDenied = ''access_denied''"
| "error_type ResourceAlreadyExists = ''resource_already_exists''"
| "error_type ResourceNotFound = ''resource_not_found''"
| "error_type ResourceDeleted = ''resource_deleted''"
| "error_type UnsupportedFeature = ''unsupported_feature''"
| "error_type InternalClientError = ''internal_client''"
| "error_type DeadlineExceeded = ''deadline_exceeded''"
| "error_type (InitializationError _) = ''initialization''"
| "error_type (IllegalStateError _) = ''illegal_state''"
| "error_type (WrongExpectedVersion _ _) = ''wrong_expected_version''"

text \<open>
  An operation in its span: the result unchanged, and the span as it is exported. A panic unwinds
  past \<open>end\<close>; the span then ends when it is dropped, without a status.
\<close>

definition client_operation ::
  "client_span \<Rightarrow> (error, 'a) outcome \<Rightarrow> (error, 'a) outcome \<times> 'c span" where
  "client_operation s result =
     (let started = start_client_operation s
      in (result,
          (case result of
             Err e \<Rightarrow>
               started\<lparr>sp_attributes := sp_attributes started @ [(ERROR_TYPE, error_type e)],
                       sp_status := Some (error_type e)\<rparr>
           | _ \<Rightarrow> started)))"

definition infallible_client_operation :: "client_span \<Rightarrow> 'a \<Rightarrow> 'a \<times> 'c span" where
  "infallible_client_operation s output = (output, start_client_operation s)"

section \<open>The trace context of an event\<close>

definition TRACE_PARENT :: string where "TRACE_PARENT = ''traceparent''"
definition TRACE_STATE :: string where "TRACE_STATE = ''tracestate''"
definition RECEIVE_OPERATION :: string where "RECEIVE_OPERATION = ''receive''"

definition is_persisted_trace_field :: "string \<Rightarrow> bool" where
  "is_persisted_trace_field key \<longleftrightarrow>
     eq_ignore_ascii_case key TRACE_PARENT \<or> eq_ignore_ascii_case key TRACE_STATE"

text \<open>\<open>EventMetadataCarrier\<close> as an \<open>Injector\<close> and as an \<open>Extractor\<close>.\<close>

type_synonym carrier = "(string \<times> json) list"

definition carrier_set :: "string \<Rightarrow> string \<Rightarrow> carrier \<Rightarrow> carrier" where
  "carrier_set key value m =
     (if \<not> is_persisted_trace_field key then m
      else btree_insert key (JString value)
             (btree_retain (\<lambda>existing. \<not> eq_ignore_ascii_case existing key) m))"

fun carrier_get :: "carrier \<Rightarrow> string \<Rightarrow> string option" where
  "carrier_get [] key = None"
| "carrier_get ((existing, value) # m) key =
     (case (if eq_ignore_ascii_case existing key then as_str value else None) of
        Some v \<Rightarrow> Some v
      | None \<Rightarrow> carrier_get m key)"

definition carrier_keys :: "carrier \<Rightarrow> string list" where
  "carrier_keys m = map fst m"

definition propagation_fields :: "'c trace_env \<Rightarrow> 'c \<Rightarrow> carrier" where
  "propagation_fields env context =
     fold (\<lambda>(key, value). carrier_set key value) (te_inject env context) []"

fun inject_field :: "string \<times> json \<Rightarrow> carrier \<Rightarrow> carrier" where
  "inject_field (key, JString value) m = carrier_set key value m"
| "inject_field (key, _) m = m"

text \<open>The metadata the fields go into: none yet, or a JSON object.\<close>

definition existing_metadata :: "'c trace_env \<Rightarrow> event_data \<Rightarrow> carrier option" where
  "existing_metadata env event =
     (case ed_custom_metadata event of
        None \<Rightarrow> Some []
      | Some [] \<Rightarrow> Some []
      | Some bs \<Rightarrow>
          (case te_json_parse env bs of
             Some (JObject m) \<Rightarrow> Some m
           | _ \<Rightarrow> None))"

definition inject_event_context :: "'c trace_env \<Rightarrow> event_data \<Rightarrow> 'c \<Rightarrow> event_data" where
  "inject_event_context env event context =
     (if \<not> te_valid env context then event
      else if propagation_fields env context = [] then event
      else (case existing_metadata env event of
          None \<Rightarrow> event
        | Some m \<Rightarrow>
            (case te_json_print env
                (JObject (fold inject_field (propagation_fields env context) m)) of
               Some bs \<Rightarrow> event\<lparr>ed_custom_metadata := Some bs\<rparr>
             | None \<Rightarrow> event)))"

definition extract_event_context :: "'c trace_env \<Rightarrow> 'c \<Rightarrow> bytes \<Rightarrow> 'c" where
  "extract_event_context env current bs =
     (if bs = [] then te_new env
      else (case te_json_parse env bs of
          Some (JObject m) \<Rightarrow> te_extract env current (carrier_get m) (carrier_keys m)
        | _ \<Rightarrow> te_new env))"

text \<open>
  \<open>SubscriptionReceive::complete\<close>: the span of a received event, if there is an event; \<open>current\<close> is
  the context when it is delivered.
\<close>

definition receive_complete ::
  "'c trace_env \<Rightarrow> 'c \<Rightarrow> string option \<Rightarrow> resolved_event \<Rightarrow> (error, 'c span option) outcome" where
  "receive_complete env current consumer_group resolved =
     (case (case rs_event resolved of Some e \<Rightarrow> Some e | None \<Rightarrow> rs_link resolved) of
        None \<Rightarrow> Ok None
      | Some delivered \<Rightarrow>
          bind_outcome (get_original_event resolved) (\<lambda>original.
            (let message_context = extract_event_context env current (re_custom_metadata delivered)
             in Ok (Some
               \<lparr>sp_name = ''receive '' @ stream_id original,
                sp_attributes =
                  [(MESSAGING_SYSTEM, ''trogoneventstore''),
                   (MESSAGING_OPERATION_NAME, RECEIVE_OPERATION),
                   (MESSAGING_OPERATION_TYPE, RECEIVE_OPERATION),
                   (MESSAGING_DESTINATION_NAME, stream_id original),
                   (MESSAGING_MESSAGE_ID, te_show_uuid env (re_id original)),
                   (TROGON_EVENTSTORE_EVENT_TYPE, re_event_type delivered)]
                  @ (case consumer_group of
                       Some g \<Rightarrow> [(MESSAGING_CONSUMER_GROUP_NAME, g)]
                     | None \<Rightarrow> []),
                sp_status = None,
                sp_link = (if te_valid env message_context then Some message_context
                           else None)\<rparr>))))"

section \<open>Facts\<close>

text \<open>The two names as they are written, and that they are not spellings of one another.\<close>

lemma trace_field_names [simp]:
  "is_persisted_trace_field ''traceparent''"
  "is_persisted_trace_field ''tracestate''"
  "\<not> eq_ignore_ascii_case ''traceparent'' ''tracestate''"
  "\<not> eq_ignore_ascii_case ''tracestate'' ''traceparent''"
  "\<not> (''tracestate'' :: string) < ''traceparent''"
  by code_simp+

lemma is_persisted_trace_field_iff:
  "is_persisted_trace_field k \<longleftrightarrow>
     eq_ignore_ascii_case k ''traceparent'' \<or> eq_ignore_ascii_case k ''tracestate''"
  by (simp add: is_persisted_trace_field_def TRACE_PARENT_def TRACE_STATE_def)

lemma map_of_carrier_set:
  "btree m \<Longrightarrow> is_persisted_trace_field key \<Longrightarrow>
     map_of (carrier_set key v m) k =
       (if k = key then Some (JString v)
        else if eq_ignore_ascii_case k key then None else map_of m k)"
  unfolding carrier_set_def by (simp add: btree_map.lookup_replace_class)

lemma btree_carrier_set: "btree m \<Longrightarrow> btree (carrier_set key v m)"
  by (simp add: carrier_set_def btree_btree_insert btree_btree_retain)

lemma fold_carrier_set_persisted:
  "fold (\<lambda>(key, value). carrier_set key value) kvs m =
     fold (\<lambda>(key, value). carrier_set key value) (filter (is_persisted_trace_field \<circ> fst) kvs) m"
  by (induction kvs arbitrary: m) (auto simp: carrier_set_def)

lemma carrier_get_only_entry:
  assumes "\<And>k x. (k, x) \<in> set m \<Longrightarrow> eq_ignore_ascii_case k key \<Longrightarrow> x = JString v"
    and "(k0, x0) \<in> set m" "eq_ignore_ascii_case k0 key"
  shows "carrier_get m key = Some v"
  using assms
proof (induction m)
  case (Cons e m)
  obtain k x where e: "e = (k, x)" by fastforce
  show ?case
  proof (cases "eq_ignore_ascii_case k key")
    case True
    with Cons.prems(1) [of k x] e show ?thesis by simp
  next
    case False
    with Cons.prems(2,3) e have "(k0, x0) \<in> set m" by auto
    then have "carrier_get m key = Some v"
      using Cons.IH Cons.prems(1,3) by (meson list.set_intros(2))
    with False e show ?thesis by simp
  qed
qed simp

lemma carrier_get_class:
  assumes "btree m" "\<forall>k. eq_ignore_ascii_case k key \<longrightarrow> k \<noteq> key \<longrightarrow> map_of m k = None"
    and "map_of m key = Some (JString v)"
  shows "carrier_get m key = Some v"
proof (rule carrier_get_only_entry)
  fix k x
  assume "(k, x) \<in> set m" "eq_ignore_ascii_case k key"
  moreover from this have "map_of m k = Some x" using btree_distinct [OF assms(1)] by simp
  ultimately show "x = JString v" using assms(2,3) by force
qed (use map_of_SomeD [OF assms(3)] in auto)

text \<open>The metadata after a W3C trace context has been put in.\<close>

definition with_trace_context :: "string \<Rightarrow> string \<Rightarrow> carrier \<Rightarrow> carrier" where
  "with_trace_context parent state m =
     carrier_set ''tracestate'' state (carrier_set ''traceparent'' parent m)"

lemma propagation_fields_w3c:
  assumes "filter (is_persisted_trace_field \<circ> fst) (te_inject env context) =
      [(''traceparent'', p), (''tracestate'', s)]"
  shows "propagation_fields env context =
      [(''traceparent'', JString p), (''tracestate'', JString s)]"
  unfolding propagation_fields_def
  by (subst fold_carrier_set_persisted) (simp add: assms carrier_set_def btree_retain_def)

lemma map_of_with_trace_context:
  assumes "btree m"
  shows "map_of (with_trace_context p s m) k =
    (if k = ''traceparent'' then Some (JString p)
     else if k = ''tracestate'' then Some (JString s)
     else if is_persisted_trace_field k then None
     else map_of m k)"
  using assms
  by (auto simp: with_trace_context_def map_of_carrier_set btree_carrier_set
      is_persisted_trace_field_iff)


text \<open>A propagator of two fixed fields and one JSON text, for a concrete run.\<close>

definition traced_metadata :: carrier where
  "traced_metadata =
     [(''traceparent'', JString ''00-1''), (''tracestate'', JString ''k=v''), (''user'', JNull)]"

definition two_field_env :: "bool trace_env" where
  "two_field_env =
     \<lparr>te_valid = (\<lambda>c. c),
      te_inject = (\<lambda>_. [(''traceparent'', ''00-1''), (''baggage'', ''x''), (''tracestate'', ''k=v'')]),
      te_extract = (\<lambda>_ get _. get ''traceparent'' \<noteq> None), te_new = False,
      te_json_parse = (\<lambda>b.
        if b = ''J'' then Some (JObject traced_metadata)
        else if b = ''O'' then Some (JObject [(''Traceparent'', JNull), (''user'', JNull)]) else None),
      te_json_print = (\<lambda>v. if v = JObject traced_metadata then Some ''J'' else None),
      te_utf8_lossy = (\<lambda>b. b), te_show_uuid = (\<lambda>_. [])\<rparr>"


text \<open>
  Delivering an event never panics for want of one: its span is named after the stream of the
  link when the event was reached through one and carries the type of the linked event itself; a
  message with neither an event nor a link has no span.
\<close>

theorem receive_span:
  "receive_complete env current consumer r \<noteq> Panic
   \<and> (receive_complete env current consumer r = Ok None \<longleftrightarrow> rs_event r = None \<and> rs_link r = None)
   \<and> (case (rs_event r, rs_link r) of
        (Some e, Some l) \<Rightarrow> \<exists>sp. receive_complete env current consumer r = Ok (Some sp)
          \<and> sp_name sp = ''receive '' @ stream_id l
          \<and> map_of (sp_attributes sp) MESSAGING_DESTINATION_NAME = Some (stream_id l)
          \<and> map_of (sp_attributes sp) TROGON_EVENTSTORE_EVENT_TYPE = Some (re_event_type e)
          \<and> map_of (sp_attributes sp) MESSAGING_CONSUMER_GROUP_NAME = consumer
      | _ \<Rightarrow> True)"
  by (auto simp: receive_complete_def get_original_event_def Let_def MESSAGING_SYSTEM_def
      MESSAGING_OPERATION_NAME_def MESSAGING_OPERATION_TYPE_def MESSAGING_DESTINATION_NAME_def
      MESSAGING_MESSAGE_ID_def TROGON_EVENTSTORE_EVENT_TYPE_def MESSAGING_CONSUMER_GROUP_NAME_def
      split: option.splits)

end
