(* ===== verification/Command.thy ===== *)
theory Command
  imports Connection Request Wire Observability
begin

text \<open>
  What the commands of \<open>commands.rs\<close>, \<open>projection_client.rs\<close> and \<open>operations/mod.rs\<close> share. A
  command is given what \<open>current_selected_node\<close> returned and the gRPC call as a function of the
  handle and the request; it returns its result and the messages it sends to the connection actor.
  What every such command does to the connection is an interface, \<open>node_command\<close>, which each
  command is shown to have where it is defined. A response stream is the list of the outcomes of
  \<open>try_next\<close>.
\<close>

section \<open>Calls\<close>

record 'c client_env =
  ce_request :: request_env
  ce_trace :: "'c trace_env"
  ce_context :: 'c
  ce_uuid_parse :: "string \<Rightarrow> uuid option"
  ce_fresh :: "nat \<Rightarrow> uuid" \<comment> \<open>the identifiers \<open>Uuid::new_v4\<close> gives, in order\<close>

text \<open>A call whose failure is translated and reported by hand, and not by \<open>execute\<close>.\<close>

definition call_node ::
  "handle \<Rightarrow> (status, 'a) outcome \<Rightarrow> ('a \<Rightarrow> (error, 'b) outcome) \<Rightarrow> (error, 'b) outcome \<times> msg list" where
  "call_node h response k =
     (case response of
        Ok a \<Rightarrow> (k a, [])
      | Err st \<Rightarrow> (let e = from_grpc st in (Err e, handle_error (h_id h) e))
      | Panic \<Rightarrow> (Panic, []))"

text \<open>A request built first and then sent through \<open>execute\<close>.\<close>

definition execute_request ::
  "(error, 'm request) outcome \<Rightarrow> (error, handle) outcome
     \<Rightarrow> (handle \<Rightarrow> 'm request \<Rightarrow> (status, 'a) outcome) \<Rightarrow> (error, 'a) outcome \<times> msg list" where
  "execute_request request node action =
     (case request of
        Ok req \<Rightarrow> execute node (\<lambda>h. action h req)
      | Err e \<Rightarrow> (Err e, [])
      | Panic \<Rightarrow> (Panic, []))"

text \<open>What \<open>try_next\<close> gives of a response stream.\<close>

datatype 'a poll = Message 'a | Closed | Broken status

section \<open>What a command does to the connection\<close>

text \<open>
  A command reports an error to the actor with the identifier of the handle it used, and nothing
  else; without a node it sends nothing and fails.
\<close>

locale node_command =
  fixes run :: "(error, handle) outcome \<Rightarrow> (error, 'a) outcome \<times> msg list"
  assumes reports: "snd (run (Ok h)) = (case fst (run (Ok h)) of Err e \<Rightarrow> handle_error (h_id h) e | _ \<Rightarrow> [])"
    and without_node: "\<not> is_ok node \<Longrightarrow> snd (run node) = [] \<and> \<not> is_ok (fst (run node))"
begin

lemma sent: "x \<in> set (snd (run (Ok h))) \<Longrightarrow>
    (\<exists>m. x = CreateChannel (h_id h) None \<and> fst (run (Ok h)) = Err (ServerError m))
  \<or> (\<exists>l. x = CreateChannel (h_id h) (Some l) \<and> fst (run (Ok h)) = Err (NotLeaderException l))"
  by (cases "fst (run (Ok h))"; cases "case fst (run (Ok h)) of Err e \<Rightarrow> e | _ \<Rightarrow> AccessDenied")
    (auto simp: reports)

text \<open>Any result but a named leader leaves the actor as it is.\<close>

lemma kept:
  assumes "machine_inv env s m" "mc_running m" "mc_handle m = Some h"
    and "\<And>l. fst (run (Ok h)) \<noteq> Err (NotLeaderException l)"
  shows "run_actor (connection_step env) m (snd (run (Ok h))) = (m, [])"
proof -
  have only: "\<exists>m. x = CreateChannel (h_id h) None" if "x \<in> set (snd (run (Ok h)))" for x
    using sent [OF that] assms(4) by auto
  then have "concat (map (\<lambda>x. case x of GetChannel n \<Rightarrow> [n] | _ \<Rightarrow> []) (snd (run (Ok h)))) = []"
    by (auto split: msg.splits)
  with connected_run [OF assms(1-3), of "snd (run (Ok h))"] only show ?thesis
    by fastforce
qed

text \<open>A named leader that answers becomes the node of the actor.\<close>

lemma moved:
  assumes "machine_inv env s m" "mc_running m" "mc_handle m = Some h"
    and "fst (run (Ok h)) = Err (NotLeaderException leader)"
    and "ne_parse_uri env (uri_text s leader) = Some uri"
    and "ne_supported_methods env uri (mc_world m) = (InTime response, w1)"
    and "supported_methods_info (ne_display env) response = Ok info"
  shows "\<exists>h1. mc_handle (fst (run_actor (connection_step env) m (snd (run (Ok h))))) = Some h1
    \<and> h_endpoint h1 = leader \<and> h_server_info h1 = info"
proof -
  have "snd (run (Ok h)) = [CreateChannel (h_id h) (Some leader)]" using reports assms(4) by simp
  with named_leader_step [OF assms(1-3,5,6) prod.collapse [symmetric]] assms(7) show ?thesis
    by (auto simp: fst_run_actor_Cons simp del: run_actor.simps(2) connection_step.simps)
qed

end

text \<open>The two ways a command is built both have the interface.\<close>

lemma execute_reports:
  "snd (execute (Ok h) action) =
     (case fst (execute (Ok h) action) of Err e \<Rightarrow> handle_error (h_id h) e | _ \<Rightarrow> [])"
  by (auto simp: execute_def Let_def split: outcome.splits)

lemma execute_without_node: "\<not> is_ok node \<Longrightarrow> snd (execute node action) = [] \<and> \<not> is_ok (fst (execute node action))"
  by (cases node) (auto simp: execute_def)

lemma new_request_not_Err [simp]: "new_request env s kind opts message \<noteq> Err e"
  by (auto simp: new_request_def build_request_metadata_def Let_def split: option.splits
      elim!: map_ok.elims bind_outcome.elims)

lemma node_command_execute_request:
  assumes "\<And>e. request \<noteq> Err e"
  shows "node_command (\<lambda>node. execute_request request node action)"
  using assms
  by unfold_locales
    (auto simp: execute_request_def execute_reports execute_without_node split: outcome.splits)

lemma call_node_reports:
  assumes "\<And>a e. k a = Err e \<Longrightarrow> handle_error (h_id h) e = []"
  shows "snd (call_node h response k) =
    (case fst (call_node h response k) of Err e \<Rightarrow> handle_error (h_id h) e | _ \<Rightarrow> [])"
  using assms by (auto simp: call_node_def Let_def split: outcome.splits)

text \<open>An environment without a trace context, for concrete runs.\<close>

definition plain_client_env :: "unit client_env" where
  "plain_client_env =
     \<lparr>ce_request = plain_request_env,
      ce_trace =
        \<lparr>te_valid = (\<lambda>_. False), te_inject = (\<lambda>_. []), te_extract = (\<lambda>c _ _. c), te_new = (),
         te_json_parse = (\<lambda>_. None), te_json_print = (\<lambda>_. None), te_utf8_lossy = (\<lambda>b. b),
         te_show_uuid = (\<lambda>_. [])\<rparr>,
      ce_context = (), ce_uuid_parse = (\<lambda>_. None), ce_fresh = of_nat\<rparr>"

lemma unnamed_request_Ok:
  "rq_valid_value env ''true'' \<Longrightarrow> connection_name s = None \<Longrightarrow>
     \<exists>req. new_request env s kind opts message = Ok req \<and> req_message req = message"
  by (auto simp: new_request_def build_request_metadata_def Let_def)

lemma plain_request_Ok:
  "connection_name s = None \<Longrightarrow>
     \<exists>req. new_request plain_request_env s kind opts message = Ok req \<and> req_message req = message"
  using plain_request_env_values(1) by (rule unnamed_request_Ok)

end
