(* ===== verification/StreamCommands.thy ===== *)
theory StreamCommands
  imports Command
begin

text \<open>
  The commands on streams of \<open>commands.rs\<close>: append, read, delete and tombstone, and the stream of
  events a read gives.
\<close>

section \<open>Filters\<close>

definition filter_into_proto :: "subscription_filter \<Rightarrow> filter_options" where
  "filter_into_proto f =
     (let window = (case sf_max f of Some n \<Rightarrow> WindowMax n | None \<Rightarrow> WindowCount);
          expr = \<lparr>fe_regex = (case sf_regex f of Some r \<Rightarrow> r | None \<Rightarrow> []), fe_prefix = sf_prefixes f\<rparr>
      in \<lparr>fo_checkpoint_interval_multiplier = 1,
          fo_filter = Some (if sf_based_on_stream f then FilterStreamIdentifier expr
                            else FilterEventType expr),
          fo_window = Some window\<rparr>)"

definition ps_create_filter_into_proto :: "subscription_filter \<Rightarrow> filter_options" where
  "ps_create_filter_into_proto f =
     (let window = (case sf_max f of Some n \<Rightarrow> WindowMax n | None \<Rightarrow> WindowCount);
          expr = \<lparr>fe_regex = (case sf_regex f of Some r \<Rightarrow> r | None \<Rightarrow> []), fe_prefix = sf_prefixes f\<rparr>
      in \<lparr>fo_checkpoint_interval_multiplier = 1,
          fo_filter = Some (if sf_based_on_stream f then FilterStreamIdentifier expr
                            else FilterEventType expr),
          fo_window = Some window\<rparr>)"

section \<open>Appending\<close>

text \<open>The messages of an append: its options, then one per event, in order.\<close>

definition append_payload ::
  "'c client_env \<Rightarrow> name_source \<Rightarrow> append_options \<Rightarrow> event_data list \<Rightarrow> append_req list" where
  "append_payload env stream opts events =
     Some (AppendOptions
       \<lparr>aro_stream_identifier = Some \<lparr>stream_name = into_stream_name stream\<rparr>,
        aro_expected_stream_revision = Some (apo_version opts)\<rparr>)
     # map (\<lambda>(i, event). append_req_from (ce_fresh env i)
              (inject_event_context (ce_trace env) event (ce_context env)))
         (List.enumerate 0 events)"

fun append_response :: "append_resp \<Rightarrow> (error, write_result) outcome" where
  "append_response (Some (AppendSuccess success)) = write_result_from success"
| "append_response (Some (AppendWrongExpectedVersion e)) =
     bind_outcome (error_from_wrong_version e) Err"
| "append_response None = Panic"

definition append_to_stream ::
  "'c client_env \<Rightarrow> client_settings \<Rightarrow> (error, handle) outcome
     \<Rightarrow> (handle \<Rightarrow> append_req list request \<Rightarrow> (status, append_resp) outcome)
     \<Rightarrow> name_source \<Rightarrow> append_options \<Rightarrow> event_data list \<Rightarrow> (error, write_result) outcome \<times> msg list" where
  "append_to_stream env s node rpc stream opts events =
     (case node of
        Ok h \<Rightarrow>
          (case new_request (ce_request env) s append_kind opts (append_payload env stream opts events) of
             Ok req \<Rightarrow> call_node h (rpc h req) append_response
           | Err e \<Rightarrow> (Err e, [])
           | Panic \<Rightarrow> (Panic, []))
      | Err e \<Rightarrow> (Err e, [])
      | Panic \<Rightarrow> (Panic, []))"

section \<open>Reading\<close>

datatype read_event =
    ReadResolved resolved_event
  | ReadFirstStreamPosition u64
  | ReadLastStreamPosition u64
  | ReadLastAllStreamPosition Position

record reading =
  rd_channel_id :: uuid
  rd_inner :: "read_resp poll list"

text \<open>
  \<open>next_read_event\<close>: the first message that is not skipped, with the messages sent to the actor
  and what is left of the stream; \<open>None\<close> when it still waits at the end of the list.
\<close>

fun next_read_event ::
  "(string \<Rightarrow> uuid option) \<Rightarrow> uuid \<Rightarrow> read_resp poll list
     \<Rightarrow> (((error, read_event option) outcome \<times> msg list) \<times> read_resp poll list) option" where
  "next_read_event uuid_parse channel [] = None"
| "next_read_event uuid_parse channel (Broken st # rest) =
     (let e = from_grpc st in Some ((Err e, handle_error channel e), rest))"
| "next_read_event uuid_parse channel (Closed # rest) = Some ((Ok None, []), rest)"
| "next_read_event uuid_parse channel (Message None # rest) = Some ((Panic, []), rest)"
| "next_read_event uuid_parse channel (Message (Some content) # rest) =
     (case content of
        ContentStreamNotFound _ \<Rightarrow> Some ((Err ResourceNotFound, []), rest)
      | ContentEvent event \<Rightarrow>
          Some ((map_ok (\<lambda>r. Some (ReadResolved r)) (resolved_event_from uuid_parse event), []), rest)
      | ContentFirstStreamPosition n \<Rightarrow> Some ((Ok (Some (ReadFirstStreamPosition n)), []), rest)
      | ContentLastStreamPosition n \<Rightarrow> Some ((Ok (Some (ReadLastStreamPosition n)), []), rest)
      | ContentLastAllStreamPosition p \<Rightarrow>
          Some ((Ok (Some (ReadLastAllStreamPosition (position_of_wire p))), []), rest)
      | _ \<Rightarrow> next_read_event uuid_parse channel rest)"

lemma next_read_event_shorter:
  "next_read_event uuid_parse channel tape = Some (r, rest) \<Longrightarrow> length rest < length tape"
  by (induction uuid_parse channel tape rule: next_read_event.induct)
    (auto simp: Let_def split: read_content.splits)

text \<open>\<open>ReadStream::next\<close>: the next event, the positions skipped.\<close>

function read_next ::
  "(string \<Rightarrow> uuid option) \<Rightarrow> uuid \<Rightarrow> read_resp poll list
     \<Rightarrow> (((error, resolved_event option) outcome \<times> msg list) \<times> read_resp poll list) option" where
  "read_next uuid_parse channel tape =
     (case next_read_event uuid_parse channel tape of
        None \<Rightarrow> None
      | Some ((Ok (Some (ReadResolved event)), ms), rest) \<Rightarrow> Some ((Ok (Some event), ms), rest)
      | Some ((Ok (Some _), ms), rest) \<Rightarrow> read_next uuid_parse channel rest
      | Some ((Ok None, ms), rest) \<Rightarrow> Some ((Ok None, ms), rest)
      | Some ((Err e, ms), rest) \<Rightarrow> Some ((Err e, ms), rest)
      | Some ((Panic, ms), rest) \<Rightarrow> Some ((Panic, ms), rest))"
  by pat_completeness auto

termination
  by (relation "measure (\<lambda>(_, _, tape). length tape)") (auto dest: next_read_event_shorter)

declare read_next.simps [simp del]

fun read_direction_as_i32 :: "read_direction \<Rightarrow> i32" where
  "read_direction_as_i32 Forward = 0"
| "read_direction_as_i32 Backward = 1"

definition read_stream_request :: "name_source \<Rightarrow> read_stream_options \<Rightarrow> u64 \<Rightarrow> read_req_options" where
  "read_stream_request stream opts n =
     \<lparr>rro_read_direction = read_direction_as_i32 (ro_direction opts),
      rro_resolve_links = ro_resolve_link_tos opts,
      rro_uuid_option = Some (Some ContentString),
      rro_control_option = Some 1,
      rro_stream_option = Some (ReadStreamOption
        \<lparr>so_stream_identifier = Some \<lparr>stream_name = into_stream_name stream\<rparr>,
         so_revision_option = Some
           (case ro_position opts of
              At v \<Rightarrow> RevisionAt v | Start \<Rightarrow> RevisionStart | End \<Rightarrow> RevisionEnd)\<rparr>),
      rro_count_option = Some (Count n),
      rro_filter_option = Some NoFilter\<rparr>"

definition read_all_request :: "read_all_options \<Rightarrow> u64 \<Rightarrow> read_req_options" where
  "read_all_request opts n =
     \<lparr>rro_read_direction = read_direction_as_i32 (ra_direction opts),
      rro_resolve_links = ra_resolve_link_tos opts,
      rro_uuid_option = Some (Some ContentString),
      rro_control_option = None,
      rro_stream_option = Some (ReadAllOption
        \<lparr>ao_all_option = Some
           (case ra_position opts of
              At pos \<Rightarrow> AllPosition (wire_of_position pos) | Start \<Rightarrow> AllStart | End \<Rightarrow> AllEnd)\<rparr>),
      rro_count_option = Some (Count n),
      rro_filter_option = Some
        (case ra_filter opts of Some f \<Rightarrow> FilterBy (filter_into_proto f) | None \<Rightarrow> NoFilter)\<rparr>"

text \<open>Both reads build their request before they ask for a node.\<close>

definition send_read ::
  "(error, read_req_options option request) outcome \<Rightarrow> (error, handle) outcome
     \<Rightarrow> (handle \<Rightarrow> read_req_options option request \<Rightarrow> (status, read_resp poll list) outcome)
     \<Rightarrow> (error, reading) outcome \<times> msg list" where
  "send_read request node rpc =
     (case bind_outcome request (\<lambda>req. map_ok (\<lambda>h. (h, req)) node) of
        Ok (h, req) \<Rightarrow>
          call_node h (rpc h req) (\<lambda>inner. Ok \<lparr>rd_channel_id = h_id h, rd_inner = inner\<rparr>)
      | Err e \<Rightarrow> (Err e, [])
      | Panic \<Rightarrow> (Panic, []))"

definition read_stream ::
  "'c client_env \<Rightarrow> client_settings \<Rightarrow> (error, handle) outcome
     \<Rightarrow> (handle \<Rightarrow> read_req_options option request \<Rightarrow> (status, read_resp poll list) outcome)
     \<Rightarrow> read_stream_options \<Rightarrow> name_source \<Rightarrow> u64 \<Rightarrow> (error, reading) outcome \<times> msg list" where
  "read_stream env s node rpc opts stream n =
     send_read (new_request (ce_request env) s read_stream_kind opts
       (Some (read_stream_request stream opts n))) node rpc"

definition read_all ::
  "'c client_env \<Rightarrow> client_settings \<Rightarrow> (error, handle) outcome
     \<Rightarrow> (handle \<Rightarrow> read_req_options option request \<Rightarrow> (status, read_resp poll list) outcome)
     \<Rightarrow> read_all_options \<Rightarrow> u64 \<Rightarrow> (error, reading) outcome \<times> msg list" where
  "read_all env s node rpc opts n =
     send_read (new_request (ce_request env) s read_all_kind opts
       (Some (read_all_request opts n))) node rpc"

section \<open>Deleting\<close>

text \<open>\<open>DeleteReq\<close> and \<open>TombstoneReq\<close> have the same fields, and so have their answers.\<close>

definition delete_request :: "name_source \<Rightarrow> stream_state \<Rightarrow> delete_req_options" where
  "delete_request stream state =
     \<lparr>dro_stream_identifier = Some \<lparr>stream_name = into_stream_name stream\<rparr>,
      dro_expected_stream_revision = Some (expected_revision_of state)\<rparr>"

fun delete_response :: "delete_resp \<Rightarrow> Position option" where
  "delete_response (Some (DeletedAt p)) = Some (position_of_wire p)"
| "delete_response (Some DeletedNoPosition) = None"
| "delete_response None = None"

definition delete_stream ::
  "'c client_env \<Rightarrow> client_settings \<Rightarrow> (error, handle) outcome
     \<Rightarrow> (handle \<Rightarrow> delete_req_options option request \<Rightarrow> (status, delete_resp) outcome)
     \<Rightarrow> name_source \<Rightarrow> delete_stream_options \<Rightarrow> (error, Position option) outcome \<times> msg list" where
  "delete_stream env s node rpc stream opts =
     execute_request
       (new_request (ce_request env) s delete_stream_kind opts
         (Some (delete_request stream (dso_version opts)))) node
       (\<lambda>h req. map_ok delete_response (rpc h req))"

definition tombstone_stream ::
  "'c client_env \<Rightarrow> client_settings \<Rightarrow> (error, handle) outcome
     \<Rightarrow> (handle \<Rightarrow> delete_req_options option request \<Rightarrow> (status, delete_resp) outcome)
     \<Rightarrow> name_source \<Rightarrow> tombstone_stream_options \<Rightarrow> (error, Position option) outcome \<times> msg list" where
  "tombstone_stream env s node rpc stream opts =
     execute_request
       (new_request (ce_request env) s tombstone_stream_kind opts
         (Some (delete_request stream (tso_stream_state opts)))) node
       (\<lambda>h req. map_ok delete_response (rpc h req))"

section \<open>The commands and the connection\<close>

lemma append_response_Err: "append_response r = Err e \<Longrightarrow> handle_error i e = []"
  by (cases r rule: append_response.cases)
    (auto simp: write_result_from_def error_from_wrong_version_def bind_outcome_Err_iff)

interpretation append_command:
  node_command "\<lambda>node. append_to_stream env s node rpc stream opts events"
  for env :: "'c client_env" and s rpc stream opts events
proof
  fix h
  show "snd (append_to_stream env s (Ok h) rpc stream opts events) =
    (case fst (append_to_stream env s (Ok h) rpc stream opts events) of
       Err e \<Rightarrow> handle_error (h_id h) e | _ \<Rightarrow> [])"
    using call_node_reports [of append_response, OF append_response_Err]
    by (auto simp: append_to_stream_def split: outcome.splits)
next
  fix node :: "(error, handle) outcome"
  assume "\<not> is_ok node"
  then show "snd (append_to_stream env s node rpc stream opts events) = []
    \<and> \<not> is_ok (fst (append_to_stream env s node rpc stream opts events))"
    by (cases node) (auto simp: append_to_stream_def)
qed

lemma node_command_send_read:
  assumes "\<And>e. request \<noteq> Err e"
  shows "node_command (\<lambda>node. send_read request node rpc)"
proof
  fix h
  show "snd (send_read request (Ok h) rpc) =
    (case fst (send_read request (Ok h) rpc) of Err e \<Rightarrow> handle_error (h_id h) e | _ \<Rightarrow> [])"
    using assms by (cases request) (auto simp: send_read_def intro!: call_node_reports)
next
  fix node :: "(error, handle) outcome"
  assume "\<not> is_ok node"
  with assms show "snd (send_read request node rpc) = [] \<and> \<not> is_ok (fst (send_read request node rpc))"
    by (cases node; cases request) (auto simp: send_read_def)
qed

interpretation read_stream_command:
  node_command "\<lambda>node. read_stream env s node rpc opts stream n"
  for env :: "'c client_env" and s rpc opts stream n
  unfolding read_stream_def by (rule node_command_send_read) simp

interpretation read_all_command:
  node_command "\<lambda>node. read_all env s node rpc opts n"
  for env :: "'c client_env" and s rpc opts n
  unfolding read_all_def by (rule node_command_send_read) simp

interpretation delete_command:
  node_command "\<lambda>node. delete_stream env s node rpc stream opts"
  for env :: "'c client_env" and s rpc stream opts
  unfolding delete_stream_def by (rule node_command_execute_request) simp

interpretation tombstone_command:
  node_command "\<lambda>node. tombstone_stream env s node rpc stream opts"
  for env :: "'c client_env" and s rpc stream opts
  unfolding tombstone_stream_def by (rule node_command_execute_request) simp

section \<open>Facts\<close>

text \<open>The loop \<open>while let Some(event) = stream.next().await?\<close> of a reader: the events, and how it ends.\<close>

function drain ::
  "(string \<Rightarrow> uuid option) \<Rightarrow> uuid \<Rightarrow> read_resp poll list
     \<Rightarrow> resolved_event list \<times> (error, resolved_event option) outcome option" where
  "drain uuid_parse channel tape =
     (case read_next uuid_parse channel tape of
        None \<Rightarrow> ([], None)
      | Some ((Ok (Some event), _), rest) \<Rightarrow>
          (let (events, final) = drain uuid_parse channel rest in (event # events, final))
      | Some ((r, _), _) \<Rightarrow> ([], Some r))"
  by pat_completeness auto

lemma read_next_shorter:
  "read_next uuid_parse channel tape = Some (r, rest) \<Longrightarrow> length rest < length tape"
proof (induction uuid_parse channel tape rule: read_next.induct)
  case (1 uuid_parse channel tape)
  note step = "1.prems" [unfolded read_next.simps [of uuid_parse channel tape]]
  show ?case
  proof (cases "next_read_event uuid_parse channel tape")
    case None
    with step show ?thesis by simp
  next
    case (Some x)
    obtain q ms t where x: "x = ((q, ms), t)" by (metis prod.exhaust)
    note shorter = next_read_event_shorter [OF Some [unfolded x]]
    show ?thesis
    proof (cases "\<exists>ev. q = Ok (Some ev) \<and> (\<forall>e. ev \<noteq> ReadResolved e)")
      case True
      then obtain ev where ev: "q = Ok (Some ev)" "\<forall>e. ev \<noteq> ReadResolved e" by blast
      then have "read_next uuid_parse channel tape = read_next uuid_parse channel t"
        using Some x by (subst read_next.simps) (cases ev; simp)
      moreover have "read_next uuid_parse channel t = Some (r, rest) \<Longrightarrow> length rest < length t"
        using "1.IH" [OF Some] x ev by (cases ev) auto
      ultimately show ?thesis using "1.prems" shorter by simp
    next
      case False
      with step Some x shorter show ?thesis
        by (auto split: outcome.splits option.splits read_event.splits)
    qed
  qed
qed

termination drain
  by (relation "measure (\<lambda>(_, _, tape). length tape)") (auto dest: read_next_shorter)

declare drain.simps [simp del]

text \<open>The events among the messages of a response, and what the last of them makes of the read.\<close>

fun events_of :: "read_content list \<Rightarrow> wire_read_event list" where
  "events_of [] = []"
| "events_of (ContentEvent e # cs) = e # events_of cs"
| "events_of (_ # cs) = events_of cs"

fun read_outcome :: "read_resp poll \<Rightarrow> (error, resolved_event option) outcome option" where
  "read_outcome Closed = Some (Ok None)"
| "read_outcome (Broken st) = Some (Err (from_grpc st))"
| "read_outcome (Message (Some (ContentStreamNotFound _))) = Some (Err ResourceNotFound)"
| "read_outcome (Message None) = Some Panic"
| "read_outcome _ = None"

lemma read_next_event:
  "resolved_event_from uuid_parse e = Ok r \<Longrightarrow>
     read_next uuid_parse channel (Message (Some (ContentEvent e)) # rest) = Some ((Ok (Some r), []), rest)"
  by (subst read_next.simps) simp

lemma read_next_skip:
  "(\<forall>i. c \<noteq> ContentStreamNotFound i) \<Longrightarrow> (\<forall>e. c \<noteq> ContentEvent e) \<Longrightarrow>
     read_next uuid_parse channel (Message (Some c) # rest) = read_next uuid_parse channel rest"
  by (subst read_next.simps) (cases c; simp flip: read_next.simps)

lemma read_next_final:
  assumes "read_outcome final = Some r"
  shows "\<exists>ms. read_next uuid_parse channel (final # rest) = Some ((r, ms), rest)"
  using assms
  by (subst read_next.simps, cases final rule: read_outcome.cases) (auto simp: Let_def)

lemma drain_skip:
  "(\<forall>i. c \<noteq> ContentStreamNotFound i) \<Longrightarrow> (\<forall>e. c \<noteq> ContentEvent e) \<Longrightarrow>
     drain uuid_parse channel (Message (Some c) # rest) = drain uuid_parse channel rest"
  by (subst (1 2) drain.simps) (simp add: read_next_skip)

text \<open>
  C12. A reader gets exactly the events of the response, converted, in their order, the other
  messages skipped, until the stream closes, breaks, or says that there is no such stream; these
  three end the read without an error, with the translated status, and with \<open>ResourceNotFound\<close>.
\<close>

theorem reading_yields_events:
  assumes "\<forall>c \<in> set cs. \<forall>i. c \<noteq> ContentStreamNotFound i"
    and "collect (resolved_event_from uuid_parse) (events_of cs) = Ok events"
    and "read_outcome final = Some r" "\<And>ev. r \<noteq> Ok (Some ev)"
  shows "drain uuid_parse channel (map (Message \<circ> Some) cs @ final # rest) = (events, Some r)"
  using assms(1,2)
proof (induction cs arbitrary: events)
  case Nil
  obtain ms where "read_next uuid_parse channel (final # rest) = Some ((r, ms), rest)"
    using read_next_final [OF assms(3)] by blast
  with Nil assms(4) show ?case
    by (subst drain.simps) (auto split: outcome.splits option.splits)
next
  case (Cons c cs)
  show ?case
  proof (cases "\<exists>e. c = ContentEvent e")
    case True
    then obtain e where e: "c = ContentEvent e" by blast
    with Cons.prems(2) obtain r1 evs where r1: "resolved_event_from uuid_parse e = Ok r1"
      "collect (resolved_event_from uuid_parse) (events_of cs) = Ok evs" "events = r1 # evs"
      by auto
    with Cons e show ?thesis by (subst drain.simps) (simp add: read_next_event comp_def)
  next
    case False
    then have "events_of (c # cs) = events_of cs" by (cases c) auto
    with Cons False show ?thesis by (simp add: drain_skip)
  qed
qed

lemma reading_yields_events_witness:
  "drain (\<lambda>_. None) 7
     (map (Message \<circ> Some) [ContentFirstStreamPosition 0,
        ContentEvent \<lparr>wv_event = None, wv_link = None, wv_position = Some (CommitPosition 3)\<rparr>]
      @ Closed # []) =
   ([\<lparr>rs_event = None, rs_link = None, rs_commit_position = Some 3\<rparr>], Some (Ok None))"
  by (rule reading_yields_events) (simp_all add: resolved_event_from_def)

text \<open>
  C13. An append sends its options first and then one message per event, in order, each with the
  event's own identifier or a fresh one, its payload and its type and content type; only the
  custom metadata may change, and only inside a valid span.
\<close>

theorem append_sends_events_in_order:
  "\<exists>proposed. append_payload env stream opts events =
      Some (AppendOptions
        \<lparr>aro_stream_identifier = Some \<lparr>stream_name = into_stream_name stream\<rparr>,
         aro_expected_stream_revision = Some (apo_version opts)\<rparr>)
      # map (Some \<circ> AppendProposed) proposed
   \<and> length proposed = length events
   \<and> (\<forall>i < length events.
        pm_data (proposed ! i) = ed_payload (events ! i)
      \<and> pm_metadata (proposed ! i) = ed_metadata (events ! i)
      \<and> pm_id (proposed ! i) =
          Some (uuid_into (case ed_id_opt (events ! i) of Some u \<Rightarrow> u | None \<Rightarrow> ce_fresh env i))
      \<and> (te_valid (ce_trace env) (ce_context env)
         \<or> pm_custom_metadata (proposed ! i) =
             (case ed_custom_metadata (events ! i) of Some b \<Rightarrow> b | None \<Rightarrow> [])))"
proof -
  define proposed where "proposed = map (\<lambda>(i, event). proposed_message_from (ce_fresh env i)
      (inject_event_context (ce_trace env) event (ce_context env))) (List.enumerate 0 events)"
  have inj: "ed_payload (inject_event_context t e c) = ed_payload e"
    "ed_metadata (inject_event_context t e c) = ed_metadata e"
    "ed_id_opt (inject_event_context t e c) = ed_id_opt e"
    "\<not> te_valid t c \<Longrightarrow> inject_event_context t e c = e" for t :: "'a trace_env" and e c
    by (auto simp: inject_event_context_def split: option.splits)
  have "length proposed = length events" by (simp add: proposed_def)
  moreover have nth: "proposed ! i = proposed_message_from (ce_fresh env i)
      (inject_event_context (ce_trace env) (events ! i) (ce_context env))"
    if "i < length events" for i
    using that by (simp add: proposed_def nth_enumerate_eq)
  moreover have "append_payload env stream opts events =
      Some (AppendOptions
        \<lparr>aro_stream_identifier = Some \<lparr>stream_name = into_stream_name stream\<rparr>,
         aro_expected_stream_revision = Some (apo_version opts)\<rparr>)
      # map (Some \<circ> AppendProposed) proposed"
    by (auto simp: append_payload_def proposed_def append_req_from_def)
  ultimately show ?thesis
    using inj(4) [of "ce_trace env" "ce_context env"]
    by (intro exI [of _ proposed], cases "te_valid (ce_trace env) (ce_context env)")
      (simp_all add: proposed_message_from_def inj(1-3))
qed

lemma append_sends_events_in_order_witness:
  "length (append_payload plain_client_env (NameStr ''s'') append_options_default
      [event_data_binary ''a'' [], event_data_binary ''b'' []]) = 3"
  using append_sends_events_in_order [of plain_client_env "NameStr ''s''" append_options_default
      "[event_data_binary ''a'' [], event_data_binary ''b'' []]"]
  by auto

text \<open>
  C11. A failed append and the connection. The actor that gave the handle keeps its node after any
  failure but a named leader, an unavailable node included; a named leader that answers becomes
  its node, so that the next command goes there.
\<close>

theorem append_failure_and_connection:
  assumes "machine_inv env s m" "mc_running m" "mc_handle m = Some h"
    and "append_to_stream cenv s (Ok h) rpc stream opts events = (Err e, msgs)"
  shows "case e of
      NotLeaderException leader \<Rightarrow> \<forall>uri response w1 info.
        ne_parse_uri env (uri_text s leader) = Some uri \<longrightarrow>
        ne_supported_methods env uri (mc_world m) = (InTime response, w1) \<longrightarrow>
        supported_methods_info (ne_display env) response = Ok info \<longrightarrow>
        (\<exists>h1. mc_handle (fst (run_actor (connection_step env) m msgs)) = Some h1
          \<and> h_endpoint h1 = leader \<and> h_server_info h1 = info)
    | _ \<Rightarrow> run_actor (connection_step env) m msgs = (m, [])"
proof (cases "\<exists>leader. e = NotLeaderException leader")
  case True
  then obtain leader where e: "e = NotLeaderException leader" by blast
  have failed: "fst (append_to_stream cenv s (Ok h) rpc stream opts events) = Err (NotLeaderException leader)"
    using assms(4) e by simp
  show ?thesis
    using append_command.moved [OF assms(1-3) failed] assms(4)
    by (simp add: e del: run_actor.simps)
next
  case False
  then have "run_actor (connection_step env) m msgs = (m, [])"
    using append_command.kept [OF assms(1-3), of cenv s rpc stream opts events] assms(4) by simp
  with False show ?thesis by (cases e) auto
qed

lemma append_failure_and_connection_witness:
  "let r = append_to_stream plain_client_env (nc_settings (single_node 3))
        (Ok (the (mc_handle connected_machine)))
        (\<lambda>_ _. Err (status_new (\<lambda>_ m. m) CodeUnavailable ''gone'')) (NameStr ''s'')
        append_options_default []
   in fst r = Err (ServerError ''gone'')
    \<and> run_actor (connection_step (counting_env Elapsed)) connected_machine (snd r) =
        (connected_machine, [])"
proof -
  let ?h = "the (mc_handle connected_machine)"
  let ?rpc = "\<lambda>_ _. Err (status_new (\<lambda>_ m. m) CodeUnavailable ''gone'') :: (status, append_resp) outcome"
  let ?s = "nc_settings (single_node 3)"
  let ?payload = "append_payload plain_client_env (NameStr ''s'') append_options_default []"
  have m: "mc_running connected_machine" "mc_handle connected_machine = Some ?h"
    by (simp_all add: connected_machine_def Let_def)
  have "connection_name ?s = None" by (simp add: single_node_def client_settings_default_def)
  from plain_request_Ok [OF this, of append_kind append_options_default ?payload]
  obtain req where "new_request plain_request_env ?s append_kind append_options_default ?payload = Ok req"
    by blast
  then have "fst (append_to_stream plain_client_env ?s (Ok ?h) ?rpc (NameStr ''s'')
      append_options_default []) = Err (ServerError ''gone'')"
    by (simp add: append_to_stream_def call_node_def plain_client_env_def status_new_def Let_def
        from_grpc_def metadata_str_def)
  moreover from this obtain msgs where failed: "append_to_stream plain_client_env ?s (Ok ?h) ?rpc (NameStr ''s'')
      append_options_default [] = (Err (ServerError ''gone''), msgs)"
    by (metis prod.collapse)
  moreover from append_failure_and_connection [OF connected_machine_inv m failed]
  have "run_actor (connection_step (counting_env Elapsed)) connected_machine msgs =
      (connected_machine, [])" by simp
  ultimately show ?thesis by (simp add: Let_def)
qed

end
