(* ===== verification/Batch.thy ===== *)
theory Batch
  imports StreamCommands
begin

text \<open>
  Batch appends: the actor of \<open>batch.rs\<close> that pairs answers with requests, the client's side of it,
  and \<open>batch_append\<close> of \<open>commands.rs\<close>, which opens the session, turns requests into messages and
  pumps the answers back. A reply channel is a number; dropping its sender is an answer of its own.
  tonic's reading of a status number and the text of a status are parameters.
\<close>

section \<open>The actor\<close>

record 'c batch_req =
  brq_id :: uuid
  brq_stream_name :: string
  brq_events :: "event_data list"
  brq_expected_revision :: stream_state
  brq_context :: 'c

record batch_write_result =
  bwr_stream_name :: string
  bwr_current_revision :: "u64 option"
  bwr_current_position :: "Position option"
  bwr_stream_state :: "stream_state option"

type_synonym batch_answer = "(error, batch_write_result) outcome"

datatype 'c batch_msg =
    BatchIn "'c batch_req" nat
  | BatchOut uuid batch_answer
  | BatchFailed error

datatype 'c batch_output = Forwarded "'c batch_req" | BatchReply nat batch_answer | BatchDropped nat

text \<open>The registry of pending requests, and whether the task still runs.\<close>

record batch_state =
  bs_reg :: "(uuid \<times> nat) list"
  bs_running :: bool

definition batch_new :: batch_state where
  "batch_new = \<lparr>bs_reg = [], bs_running = True\<rparr>"

text \<open>The task ends: what is still registered is dropped.\<close>

definition batch_stop :: "'c batch_output list \<Rightarrow> (uuid \<times> nat) list \<Rightarrow> batch_state \<times> 'c batch_output list" where
  "batch_stop out reg = (\<lparr>bs_reg = [], bs_running = False\<rparr>, out @ map (BatchDropped \<circ> snd) reg)"

text \<open>
  One message, together with whether the request stream still takes what is forwarded. Inserting
  under an identifier already registered drops the sender that was there.
\<close>

fun batch_step :: "batch_state \<Rightarrow> bool \<times> 'c batch_msg \<Rightarrow> batch_state \<times> 'c batch_output list" where
  "batch_step s (is_open, BatchIn req sender) =
     (if \<not> bs_running s then (s, [BatchDropped sender])
      else if is_open then
        (s\<lparr>bs_reg := AList.update (brq_id req) sender (bs_reg s)\<rparr>,
         Forwarded req
         # (case map_of (bs_reg s) (brq_id req) of Some old \<Rightarrow> [BatchDropped old] | None \<Rightarrow> []))
      else batch_stop [BatchDropped sender] (bs_reg s))"
| "batch_step s (is_open, BatchOut i result) =
     (if \<not> bs_running s then (s, [])
      else (case map_of (bs_reg s) i of
          Some sender \<Rightarrow>
            (let reg = AList.delete i (bs_reg s)
             in if is_ok result then (s\<lparr>bs_reg := reg\<rparr>, [BatchReply sender result])
                else batch_stop [BatchReply sender result] reg)
        | None \<Rightarrow> (s, [])))"
| "batch_step s (is_open, BatchFailed e) =
     (if \<not> bs_running s then (s, [])
      else batch_stop (map (\<lambda>(_, sender). BatchReply sender (Err e)) (bs_reg s)) [])"

section \<open>The client's side\<close>

text \<open>\<open>append_to_stream\<close> of the batch client: its span, its message and what it makes of the answer.\<close>

definition BATCH_APPEND_TO_STREAM :: client_op where
  "BATCH_APPEND_TO_STREAM = ClientOperation ''batch_append_to_stream''"

definition batch_closed :: "(code \<Rightarrow> string \<Rightarrow> string) \<Rightarrow> error" where
  "batch_closed display =
     ServerError (st_display (status_new display CodeCancelled ''Batch-append stream has been closed''))"

fun batch_reply_result :: "(code \<Rightarrow> string \<Rightarrow> string) \<Rightarrow> 'c batch_output \<Rightarrow> batch_answer" where
  "batch_reply_result display (BatchReply _ r) = r"
| "batch_reply_result display _ = Err (batch_closed display)"

definition batch_req_new ::
  "uuid \<Rightarrow> 'c \<Rightarrow> string \<Rightarrow> event_data list \<Rightarrow> stream_state \<Rightarrow> 'c batch_req" where
  "batch_req_new i context name events expected =
     \<lparr>brq_id = i, brq_stream_name = name, brq_events = events, brq_expected_revision = expected,
      brq_context = context\<rparr>"

definition batch_append_to_stream ::
  "(uuid \<Rightarrow> string) \<Rightarrow> (code \<Rightarrow> string \<Rightarrow> string) \<Rightarrow> 'c batch_req \<Rightarrow> 'c batch_output
     \<Rightarrow> batch_answer \<times> 'c span" where
  "batch_append_to_stream show_uuid display req answer =
     (let (r, sp) = client_operation (on_collection BATCH_APPEND_TO_STREAM (brq_stream_name req))
            (batch_reply_result display answer)
      in (r, sp\<lparr>sp_attributes :=
                take 3 (sp_attributes sp)
                @ [(TROGON_EVENTSTORE_BATCH_CORRELATION_ID, show_uuid (brq_id req))]
                @ drop 3 (sp_attributes sp)\<rparr>))"

section \<open>The session\<close>

definition convert_event_data_to_batch_proposed_message ::
  "'c client_env \<Rightarrow> uuid \<Rightarrow> event_data \<Rightarrow> 'c \<Rightarrow> proposed_message" where
  "convert_event_data_to_batch_proposed_message env fresh event context =
     (let event1 = inject_event_context (ce_trace env) event context
      in \<lparr>pm_id = Some (uuid_into (case ed_id_opt event1 of Some i \<Rightarrow> i | None \<Rightarrow> fresh)),
          pm_metadata = ed_metadata event1,
          pm_custom_metadata = (case ed_custom_metadata event1 of Some b \<Rightarrow> b | None \<Rightarrow> []),
          pm_data = ed_payload event1\<rparr>)"

fun expected_stream_position_of :: "stream_state \<Rightarrow> expected_stream_position" where
  "expected_stream_position_of (StreamRevision v) = ExpectStreamPosition v"
| "expected_stream_position_of NoStream = ExpectPosNoStream"
| "expected_stream_position_of StreamExists = ExpectPosStreamExists"
| "expected_stream_position_of Any = ExpectPosAny"

text \<open>\<open>SystemTime + Duration\<close> panics when the seconds leave an \<open>i64\<close>; \<open>now\<close> is since the epoch.\<close>

definition system_time_add :: "duration \<Rightarrow> duration \<Rightarrow> (error, duration) outcome" where
  "system_time_add now d = (if (now + d) div 1000000000 < 2 ^ 63 then Ok (now + d) else Panic)"

definition batch_request ::
  "'c client_env \<Rightarrow> batch_append_options \<Rightarrow> duration \<Rightarrow> 'c batch_req
     \<Rightarrow> (error, batch_append_req) outcome" where
  "batch_request env opts now req =
     bind_outcome
       (system_time_add now
         (case co_deadline (common_operation_options opts) of Some d \<Rightarrow> d | None \<Rightarrow> from_secs 10))
       (\<lambda>due.
       Ok \<lparr>bar_correlation_id = Some (uuid_into (brq_id req)),
           bar_options = Some
             \<lparr>bo_stream_identifier = Some \<lparr>stream_name = brq_stream_name req\<rparr>,
              bo_expected_stream_position = Some (expected_stream_position_of (brq_expected_revision req)),
              bo_deadline_option = Some (Deadline
                \<lparr>ts_seconds = of_nat (due div 1000000000), ts_nanos = of_nat (due mod 1000000000)\<rparr>)\<rparr>,
           bar_proposed_messages =
             map (\<lambda>(k, event). convert_event_data_to_batch_proposed_message env (ce_fresh env k) event
                   (brq_context req))
               (List.enumerate 0 (brq_events req)),
           bar_is_final = True\<rparr>)"

fun stream_state_of_position :: "expected_stream_position \<Rightarrow> stream_state" where
  "stream_state_of_position ExpectPosAny = Any"
| "stream_state_of_position ExpectPosNoStream = NoStream"
| "stream_state_of_position ExpectPosStreamExists = StreamExists"
| "stream_state_of_position (ExpectStreamPosition v) = StreamRevision v"

definition batch_response ::
  "'c client_env \<Rightarrow> (i32 \<Rightarrow> code) \<Rightarrow> batch_append_resp \<Rightarrow> (error, uuid \<times> batch_answer) outcome" where
  "batch_response env code_from resp =
     bind_outcome (unwrap (bap_stream_identifier resp)) (\<lambda>sid.
     bind_outcome (unwrap (bap_correlation_id resp)) (\<lambda>cid.
     bind_outcome (case uuid_try_from (ce_uuid_parse env) cid of Ok i \<Rightarrow> Ok i | _ \<Rightarrow> Panic) (\<lambda>i.
     bind_outcome (unwrap (bap_result resp)) (\<lambda>result.
       Ok (i,
         case result of
           BatchSuccess success \<Rightarrow>
             Ok \<lparr>bwr_stream_name = te_utf8_lossy (ce_trace env) (stream_name sid),
                 bwr_current_revision =
                   (case as_current_revision_option success of
                      Some (SuccessCurrentRevision v) \<Rightarrow> Some v
                    | Some SuccessNoStream \<Rightarrow> None
                    | None \<Rightarrow> None),
                 bwr_current_position =
                   (case as_position_option success of
                      Some (SuccessPosition p) \<Rightarrow> Some (position_of_wire p)
                    | Some SuccessNoPosition \<Rightarrow> None
                    | None \<Rightarrow> None),
                 bwr_stream_state = map_option stream_state_of_position (bap_expected_stream_position resp)\<rparr>
         | BatchError st \<Rightarrow> Err (Grpc (code_from (rpc_code st)) (rpc_message st)))))))"

text \<open>
  The task that reads the answers: each poll comes with whether the actor still takes a message.
  It gives the messages to the actor and those to the connection; a panic ends it.
\<close>

fun batch_pump ::
  "'c client_env \<Rightarrow> (i32 \<Rightarrow> code) \<Rightarrow> handle \<Rightarrow> (bool \<times> batch_append_resp poll) list
     \<Rightarrow> 'c batch_msg list \<times> msg list" where
  "batch_pump env code_from h [] = ([], [])"
| "batch_pump env code_from h ((takes, Broken st) # rest) =
     (let e = from_grpc st in (if takes then [BatchFailed e] else [], handle_error (h_id h) e))"
| "batch_pump env code_from h ((takes, Closed) # rest) = ([], [])"
| "batch_pump env code_from h ((takes, Message resp) # rest) =
     (case batch_response env code_from resp of
        Ok (i, result) \<Rightarrow>
          (if takes then
             (let (out, ms) = batch_pump env code_from h rest in (BatchOut i result # out, ms))
           else ([], []))
      | _ \<Rightarrow> ([], []))"

text \<open>The task that opens the session: a call that fails is told to the actor only.\<close>

definition batch_open ::
  "'c client_env \<Rightarrow> (i32 \<Rightarrow> code) \<Rightarrow> handle
     \<Rightarrow> (status, (bool \<times> batch_append_resp poll) list) outcome \<Rightarrow> 'c batch_msg list \<times> msg list" where
  "batch_open env code_from h answer =
     (case answer of
        Ok tape \<Rightarrow> batch_pump env code_from h tape
      | Err st \<Rightarrow> ([BatchFailed (from_grpc st)], [])
      | Panic \<Rightarrow> ([], []))"

text \<open>\<open>batch_append\<close>: the metadata of the session's request, when the node can do batch appends.\<close>

definition batch_append ::
  "'c client_env \<Rightarrow> client_settings \<Rightarrow> (error, handle) outcome \<Rightarrow> batch_append_options
     \<Rightarrow> (error, handle \<times> unit request) outcome" where
  "batch_append env s node opts =
     bind_outcome node (\<lambda>h.
       if \<not> supports_feature h BATCH_APPEND then Err UnsupportedFeature
       else map_ok (\<lambda>req. (h, req)) (new_request (ce_request env) s batch_append_kind opts ()))"

section \<open>Every request is owed one answer\<close>

definition batch_inv :: "batch_state \<Rightarrow> bool" where
  "batch_inv s \<longleftrightarrow> distinct (map fst (bs_reg s)) \<and> (\<not> bs_running s \<longrightarrow> bs_reg s = [])"

definition batch_held :: "batch_state \<Rightarrow> nat multiset" where
  "batch_held s = mset (map snd (bs_reg s))"

fun batch_taken :: "bool \<times> 'c batch_msg \<Rightarrow> nat multiset" where
  "batch_taken (_, BatchIn _ sender) = {#sender#}"
| "batch_taken _ = {#}"

fun batch_given :: "'c batch_output \<Rightarrow> nat multiset" where
  "batch_given (BatchReply sender _) = {#sender#}"
| "batch_given (BatchDropped sender) = {#sender#}"
| "batch_given (Forwarded _) = {#}"

lemma mset_snd_update:
  "distinct (map fst al) \<Longrightarrow>
     mset (map snd (AList.update k v al))
       + (case map_of al k of Some old \<Rightarrow> {#old#} | None \<Rightarrow> {#}) =
     add_mset v (mset (map snd al))"
  by (induction al) (auto simp: map_of_eq_None_iff split: option.splits)

lemma mset_snd_delete:
  "distinct (map fst al) \<Longrightarrow> map_of al k = Some v \<Longrightarrow>
     add_mset v (mset (map snd (AList.delete k al))) = mset (map snd al)"
proof (induction al)
  case (Cons e al)
  show ?case
  proof (cases "fst e = k")
    case True
    with Cons.prems have "k \<notin> set (map fst al)" by auto
    then have "AList.delete k al = al" by (simp add: AList.delete_eq filter_id_conv image_iff) force
    with Cons.prems True show ?thesis by auto
  next
    case False
    with Cons show ?thesis by (cases e) (auto simp: add_mset_commute)
  qed
qed simp

lemma batch_given_dropped [simp]: "sum_list (map (batch_given \<circ> (BatchDropped \<circ> snd)) reg) = mset (map snd reg)"
  by (induction reg) auto

lemma batch_given_failed [simp]:
  "sum_list (map (batch_given \<circ> (\<lambda>(_, sender). BatchReply sender r)) reg) = mset (map snd reg)"
  by (induction reg) auto

lemma batch_step_inv: "batch_inv s \<Longrightarrow> batch_inv (fst (batch_step s m))"
  by (cases "(s, m)" rule: batch_step.cases)
    (auto simp: batch_inv_def batch_stop_def distinct_update distinct_delete Let_def split: option.splits)

lemma batch_step_balance:
  assumes "batch_inv s"
  shows "batch_held (fst (batch_step s m)) + sum_list (map batch_given (snd (batch_step s m))) =
    batch_held s + batch_taken m"
proof (cases "(s, m)" rule: batch_step.cases)
  case (1 s1 is_open req sender)
  have d: "distinct (map fst (bs_reg s))" using assms by (simp add: batch_inv_def)
  show ?thesis
    using 1 mset_snd_update [OF d, of "brq_id req" sender]
    by (auto simp: batch_held_def batch_stop_def comp_assoc split: option.splits)
next
  case (2 s1 is_open i result)
  have d: "distinct (map fst (bs_reg s))" using assms by (simp add: batch_inv_def)
  show ?thesis
    using 2 mset_snd_delete [OF d, of i]
    by (auto simp: batch_held_def batch_stop_def Let_def split: option.splits)
next
  case (3 s1 is_open e)
  then show ?thesis by (auto simp: batch_held_def batch_stop_def)
qed

interpretation batch_account: actor_account batch_step batch_held batch_taken batch_given batch_inv
  by unfold_locales (simp_all add: batch_step_balance batch_step_inv)

interpretation batch_stopped: actor_stop batch_step "\<lambda>s. \<not> bs_running s"
proof
  fix s :: batch_state and m :: "bool \<times> 'c batch_msg"
  assume "\<not> bs_running s"
  then show "fst (batch_step s m) = s" by (cases "(s, m)" rule: batch_step.cases) auto
qed

lemma batch_inv_new [simp]: "batch_inv batch_new"
  by (simp add: batch_inv_def batch_new_def)

text \<open>
  C9. Whatever the order of requests, answers and failures: every request handed to the batch actor
  is either still pending or was answered exactly once, by a result or by a dropped channel, and no
  answer goes to a request that was not made. A session that has ended leaves none pending.
\<close>

theorem batch_requests_conserved:
  assumes "run_actor batch_step batch_new msgs = (s, outs)"
  shows "mset (map snd (bs_reg s)) + sum_list (map batch_given outs) = sum_list (map batch_taken msgs)
    \<and> distinct (map fst (bs_reg s)) \<and> (\<not> bs_running s \<longrightarrow> bs_reg s = [])"
proof -
  have "batch_held s + sum_list (map batch_given outs) = sum_list (map batch_taken msgs)"
    using batch_account.run_balance [OF batch_inv_new, of msgs] assms
    by (simp add: batch_new_def batch_held_def)
  moreover have "batch_inv s"
    using batch_account.run_keeps [OF batch_inv_new, of msgs] assms by simp
  ultimately show ?thesis by (simp add: batch_held_def batch_inv_def)
qed

lemma batch_requests_conserved_witness:
  "mset (map snd (bs_reg (fst (run_actor batch_step batch_new
      [(True, BatchIn (batch_req_new 1 () [] [] Any) 5), (True, BatchOut 2 (Err AccessDenied))]))))
    = {#5#}"
  using batch_requests_conserved [OF prod.collapse [symmetric],
      of "[(True, BatchIn (batch_req_new 1 () [] [] Any) 5), (True, BatchOut 2 (Err AccessDenied))]"]
  by (simp add: batch_new_def batch_req_new_def)

text \<open>Where an entry of the registry and a reply come from.\<close>

lemma set_update_entry: "(i, c) \<in> set (AList.update k v al) \<Longrightarrow> (i, c) \<in> set al \<or> i = k \<and> c = v"
  by (induction al) (auto split: if_splits)

lemma batch_step_reg:
  "(i, c) \<in> set (bs_reg (fst (batch_step s (b, m)))) \<Longrightarrow>
     (i, c) \<in> set (bs_reg s) \<or> (\<exists>q. m = BatchIn q c \<and> brq_id q = i)"
  by (cases m)
    (auto simp: batch_stop_def Let_def AList.delete_eq split: if_splits option.splits
      dest!: set_update_entry)

lemma batch_step_reply:
  "BatchReply c r \<in> set (snd (batch_step s (b, m))) \<Longrightarrow>
     \<exists>i. (i, c) \<in> set (bs_reg s) \<and> (m = BatchOut i r \<or> (\<exists>e. m = BatchFailed e \<and> r = Err e))"
  by (cases m)
    (auto simp: batch_stop_def Let_def split: if_splits option.splits dest: map_of_SomeD)

lemma run_batch_reply:
  "BatchReply c r \<in> set (snd (run_actor batch_step s msgs)) \<Longrightarrow>
     \<exists>i. ((i, c) \<in> set (bs_reg s) \<or> (\<exists>b q. (b, BatchIn q c) \<in> set msgs \<and> brq_id q = i))
       \<and> ((\<exists>b. (b, BatchOut i r) \<in> set msgs) \<or> (\<exists>b e. (b, BatchFailed e) \<in> set msgs \<and> r = Err e))"
proof (induction msgs arbitrary: s)
  case (Cons bm msgs)
  obtain b m where bm: "bm = (b, m)" by fastforce
  from Cons.prems consider
      "BatchReply c r \<in> set (snd (batch_step s (b, m)))"
    | "BatchReply c r \<in> set (snd (run_actor batch_step (fst (batch_step s (b, m))) msgs))"
    unfolding bm snd_run_actor_Cons by auto
  then show ?case
  proof cases
    case 1
    from batch_step_reply [OF 1] show ?thesis unfolding bm by auto
  next
    case 2
    from Cons.IH [OF 2] obtain i where i:
      "(i, c) \<in> set (bs_reg (fst (batch_step s (b, m)))) \<or> (\<exists>b q. (b, BatchIn q c) \<in> set msgs \<and> brq_id q = i)"
      "(\<exists>b. (b, BatchOut i r) \<in> set msgs) \<or> (\<exists>b e. (b, BatchFailed e) \<in> set msgs \<and> r = Err e)"
      by blast
    from i(1) batch_step_reg [of i c s b m]
    have "(i, c) \<in> set (bs_reg s) \<or> (\<exists>b q. (b, BatchIn q c) \<in> set (bm # msgs) \<and> brq_id q = i)"
      unfolding bm by auto
    with i(2) show ?thesis unfolding bm by (metis list.set_intros(2))
  qed
qed simp

text \<open>
  C10. Answers are not mixed up: the result a caller gets is one the server gave for the identifier
  of that caller's own request, or the error that ended the session.
\<close>

theorem batch_answers_routed:
  assumes "BatchReply c r \<in> set (snd (run_actor batch_step batch_new msgs))"
  shows "\<exists>b q. (b, BatchIn q c) \<in> set msgs
    \<and> ((\<exists>b1. (b1, BatchOut (brq_id q) r) \<in> set msgs) \<or> (\<exists>b1 e. (b1, BatchFailed e) \<in> set msgs \<and> r = Err e))"
  using run_batch_reply [OF assms] by (auto simp: batch_new_def) blast

lemma batch_answers_routed_witness:
  "\<exists>b q. (b, BatchIn q 5) \<in> set [(True, BatchIn (batch_req_new 1 () [] [] Any) 5), (True, BatchOut 1 (Err AccessDenied))]
    \<and> brq_id q = 1"
proof -
  have "BatchReply 5 (Err AccessDenied) \<in> set (snd (run_actor batch_step batch_new
      [(True, BatchIn (batch_req_new 1 () [] [] Any) 5), (True, BatchOut 1 (Err AccessDenied))]))"
    by (simp add: batch_new_def batch_req_new_def batch_stop_def)
  from batch_answers_routed [OF this] show ?thesis by auto
qed

text \<open>
  C16. One refused append ends the whole session: the other pending appends are dropped, as is every
  later one, whatever else arrives, and each of their callers reads a closed session although the
  server may have taken its events.
\<close>

theorem failed_append_drops_the_others:
  assumes "bs_running s" "map_of (bs_reg s) i = Some c" "\<not> is_ok r"
    and "run_actor batch_step s ((b, BatchOut i r) # later) = (s1, outs)"
  shows "BatchReply c r \<in> set outs
    \<and> (\<forall>(j, c1) \<in> set (bs_reg s). j \<noteq> i \<longrightarrow> BatchDropped c1 \<in> set outs)
    \<and> (\<forall>b1 q c1. (b1, BatchIn q c1) \<in> set later \<longrightarrow> BatchDropped c1 \<in> set outs)
    \<and> (\<forall>c1. batch_reply_result display (BatchDropped c1) = Err (batch_closed display))"
proof -
  have step: "batch_step s (b, BatchOut i r) =
      batch_stop [BatchReply c r] (AList.delete i (bs_reg s))"
    using assms(1-3) by (simp add: Let_def)
  have outs: "outs = BatchReply c r # map (BatchDropped \<circ> snd) (AList.delete i (bs_reg s))
      @ snd (run_actor batch_step \<lparr>bs_reg = [], bs_running = False\<rparr> later)"
    using assms(4) snd_run_actor_Cons [of batch_step s "(b, BatchOut i r)" later]
    by (simp add: step batch_stop_def del: run_actor.simps(2) batch_step.simps)
  have later: "BatchDropped c1 \<in> set (snd (run_actor batch_step \<lparr>bs_reg = [], bs_running = False\<rparr> later))"
    if "(b1, BatchIn q c1) \<in> set later" for b1 q c1
    using that
  proof (induction later)
    case (Cons m ms)
    have "fst (batch_step \<lparr>bs_reg = [], bs_running = False\<rparr> m) = \<lparr>bs_reg = [], bs_running = False\<rparr>"
      by (rule batch_stopped.stopped_step) simp
    with Cons show ?case by (auto simp: snd_run_actor_Cons simp del: run_actor.simps(2))
  qed simp
  show ?thesis using later by (auto simp: outs AList.delete_eq image_iff)
qed

lemma failed_append_drops_the_others_witness:
  "BatchDropped 6 \<in> set (snd (run_actor batch_step \<lparr>bs_reg = [(1, 5), (2, 6)], bs_running = True\<rparr>
     [(True, BatchOut 1 (Err AccessDenied) :: unit batch_msg)]))"
  using failed_append_drops_the_others [OF _ _ _ prod.collapse [symmetric],
      of "\<lparr>bs_reg = [(1, 5), (2, 6)], bs_running = True\<rparr>" 1 5 "Err AccessDenied" True
        "[] :: (bool \<times> unit batch_msg) list"]
  by simp

lemma batch_pump_closed:
  assumes "\<forall>r \<in> set resps. \<exists>j w. batch_response env code_from r = Ok (j, Ok w) \<and> j \<noteq> i"
  shows "snd (batch_pump env code_from h (map (\<lambda>r. (True, Message r)) resps @ (True, Closed) # rest)) = []
    \<and> (\<forall>m \<in> set (fst (batch_pump env code_from h (map (\<lambda>r. (True, Message r)) resps @ (True, Closed) # rest))).
         \<exists>j w. m = BatchOut j (Ok w) \<and> j \<noteq> i)"
  using assms by (induction resps) (fastforce split: prod.splits)+

lemma pending_kept:
  assumes "\<forall>m \<in> set msgs. \<exists>b j w. m = (b, BatchOut j (Ok w)) \<and> j \<noteq> i"
    and "bs_running s" "map_of (bs_reg s) i = Some c"
  shows "bs_running (fst (run_actor batch_step s msgs))
    \<and> map_of (bs_reg (fst (run_actor batch_step s msgs))) i = Some c"
  using assms
proof (induction msgs arbitrary: s)
  case (Cons m msgs)
  then obtain b j w where m: "m = (b, BatchOut j (Ok w))" "j \<noteq> i" by auto
  have "bs_running (fst (batch_step s m)) \<and> map_of (bs_reg (fst (batch_step s m))) i = Some c"
    using Cons.prems(2,3) m by (auto simp: delete_conv' Let_def split: option.splits)
  with Cons show ?case by (simp add: fst_run_actor_Cons del: run_actor.simps(2))
qed simp

text \<open>
  C18. A server that closes the session in an orderly way while an append is pending leaves its
  caller waiting: the end of the response stream is not told to the actor, which keeps running
  with the append still registered.
\<close>

theorem closed_session_keeps_pending:
  assumes "bs_running s" "map_of (bs_reg s) i = Some c"
    and "\<forall>r \<in> set resps. \<exists>j w. batch_response env code_from r = Ok (j, Ok w) \<and> j \<noteq> i"
    and "batch_open env code_from h
      (Ok (map (\<lambda>r. (True, Message r)) resps @ [(True, Closed)])) = (msgs, told)"
    and "run_actor batch_step s (map (\<lambda>m. (True, m)) msgs) = (s1, outs)"
  shows "bs_running s1 \<and> map_of (bs_reg s1) i = Some c \<and> told = []"
proof -
  have p: "batch_pump env code_from h (map (\<lambda>r. (True, Message r)) resps @ [(True, Closed)]) = (msgs, told)"
    using assms(4) by (simp add: batch_open_def)
  note closed = batch_pump_closed [OF assms(3), of h "[]", unfolded p]
  then have "\<forall>m \<in> set (map (\<lambda>m. (True, m)) msgs). \<exists>b j w. m = (b, BatchOut j (Ok w)) \<and> j \<noteq> i"
    by auto
  from pending_kept [OF this assms(1,2)] closed assms(5) show ?thesis by simp
qed

lemma closed_session_keeps_pending_witness:
  "map_of (bs_reg (fst (run_actor batch_step \<lparr>bs_reg = [(1, 5)], bs_running = True\<rparr>
      (map (\<lambda>m. (True, m)) (fst (batch_open plain_client_env (\<lambda>_. CodeUnknown)
         (the (mc_handle connected_machine)) (Ok [(True, Closed)]))))))) 1 = Some 5"
  using closed_session_keeps_pending [OF _ _ _ prod.collapse [symmetric] prod.collapse [symmetric],
      of "\<lparr>bs_reg = [(1, 5)], bs_running = True\<rparr>" 1 5 "[]" plain_client_env "\<lambda>_. CodeUnknown"
        "the (mc_handle connected_machine)"]
  by simp

section \<open>Requests\<close>

text \<open>
  C38. The deadline a batch append carries is exactly the current time plus the timeout of the
  session (ten seconds unless set), in whole seconds and nanoseconds below one second; the sum
  leaves the range of the clock, and the request panics, only at $2^{63}$ seconds.
\<close>

theorem batch_deadline_bounds:
  "let d = (case co_deadline (common_operation_options opts) of Some t \<Rightarrow> t | None \<Rightarrow> from_secs 10)
   in case batch_request env opts now req of
      Ok r \<Rightarrow> \<exists>o1 t. bar_options r = Some o1 \<and> bo_deadline_option o1 = Some (Deadline t)
        \<and> sint (ts_seconds t) * 1000000000 + sint (ts_nanos t) = int (now + d)
        \<and> 0 \<le> sint (ts_nanos t) \<and> sint (ts_nanos t) < 1000000000
    | Err e \<Rightarrow> False
    | Panic \<Rightarrow> 2 ^ 63 \<le> (now + d) div 1000000000"
proof (cases "(now + (case co_deadline (common_operation_options opts) of Some t \<Rightarrow> t
    | None \<Rightarrow> from_secs 10)) div 1000000000 < 2 ^ 63")
  case True
  define d where "d = (case co_deadline (common_operation_options opts) of Some t \<Rightarrow> t | None \<Rightarrow> from_secs 10)"
  note True = True [folded d_def]
  have secs: "sint (of_nat ((now + d) div 1000000000) :: i64) = int ((now + d) div 1000000000)"
    using True by (simp add: signed_of_nat signed_take_bit_int_eq_self)
  have nanos: "sint (of_nat ((now + d) mod 1000000000) :: i32) = int ((now + d) mod 1000000000)"
  proof -
    have "(now + d) mod 1000000000 < 1000000000" by simp
    then have "int ((now + d) mod 1000000000) < 1000000000" by linarith
    then have "int ((now + d) mod 1000000000) < 2 ^ 31" by (rule less_trans) simp
    then show ?thesis by (simp add: signed_of_nat signed_take_bit_int_eq_self)
  qed
  have "int ((now + d) div 1000000000) * 1000000000 + int ((now + d) mod 1000000000) = int (now + d)"
    by (metis div_mult_mod_eq of_nat_add of_nat_mult of_nat_numeral)
  with True show ?thesis
    by (simp add: batch_request_def system_time_add_def secs nanos Let_def flip: d_def)
next
  case False
  then show ?thesis by (simp add: batch_request_def system_time_add_def Let_def)
qed

end
