(* ===== verification/Subscription.thy ===== *)
theory Subscription
  imports StreamCommands
begin

text \<open>
  Catch-up subscriptions (\<open>commands.rs\<close>): the struct \<open>Subscription\<close>, the loop that delivers its
  next event and subscribes again after a failure, and the two commands that make one. The world
  outside (the actor of the connection, the server, the clock, the tracer) is threaded through an
  environment. The end of the list of polls means that the stream has nothing to give yet; a
  response stream that has closed stays closed, as tonic's streams do.
\<close>

section \<open>State and environment\<close>

record subscription =
  sub_channel_id :: uuid
  sub_stream :: "read_resp poll list option"
  sub_attempts :: usize
  sub_limit :: usize
  sub_retry_enabled :: bool
  sub_delay :: duration
  sub_options :: read_req_options
  sub_metadata :: metadata

definition subscription_new ::
  "retry_options option \<Rightarrow> metadata \<Rightarrow> read_req_options \<Rightarrow> subscription" where
  "subscription_new retry md opts =
     (let (limit, delay, enabled) =
        (case retry of Some r \<Rightarrow> (ry_limit r, ry_delay r, True) | None \<Rightarrow> (1, 0, False))
      in \<lparr>sub_channel_id = 0, sub_stream = None, sub_attempts = 1, sub_limit = limit,
          sub_retry_enabled = enabled, sub_delay = delay, sub_options = opts, sub_metadata = md\<rparr>)"

text \<open>\<open>'c\<close> is a trace context and \<open>'w\<close> the world; \<open>su_chrono\<close> says which seconds chrono has a date for.\<close>

record ('c, 'w) sub_env =
  su_node :: "'w \<Rightarrow> (error, handle) outcome \<times> 'w"
  su_read :: "handle \<Rightarrow> read_req_options option request \<Rightarrow> 'w
    \<Rightarrow> (status, read_resp poll list) outcome \<times> 'w"
  su_report :: "msg list \<Rightarrow> 'w \<Rightarrow> 'w"
  su_sleep :: "duration \<Rightarrow> 'w \<Rightarrow> 'w"
  su_export :: "'c span \<Rightarrow> 'w \<Rightarrow> 'w"
  su_trace :: "'c trace_env"
  su_context :: 'c
  su_uuid_parse :: "string \<Rightarrow> uuid option"
  su_chrono :: "nat \<Rightarrow> bool"

section \<open>Messages\<close>

text \<open>
  \<open>timestamp_to_datetime\<close>: the seconds are taken as unsigned, and so are the nanoseconds, with
  whole seconds of them carried over; adding them to the epoch panics outside the range of the
  clock, and so does chrono outside its own.
\<close>

definition timestamp_to_datetime ::
  "('c, 'w) sub_env \<Rightarrow> timestamp \<Rightarrow> (error, duration) outcome" where
  "timestamp_to_datetime env t =
     (let secs = unat (ts_seconds t) + unat (ts_nanos t) div 1000000000;
          nanos = unat (ts_nanos t) mod 1000000000
      in if secs < 2 ^ 63 \<and> su_chrono env secs then Ok (secs * 1000000000 + nanos) else Panic)"

definition caught_up_from :: "('c, 'w) sub_env \<Rightarrow> live_state \<Rightarrow> (error, caught_up option) outcome" where
  "caught_up_from env a =
     map_optional (\<lambda>t.
       map_ok (\<lambda>date.
         \<lparr>cu_timestamp = date, cu_stream_revision = ls_stream_revision a,
          cu_position = map_option position_of_wire (ls_position a)\<rparr>)
         (timestamp_to_datetime env t)) (ls_timestamp a)"

definition fell_behind_from :: "('c, 'w) sub_env \<Rightarrow> live_state \<Rightarrow> (error, fell_behind option) outcome" where
  "fell_behind_from env a =
     map_optional (\<lambda>t.
       map_ok (\<lambda>date.
         \<lparr>fb_timestamp = date, fb_stream_revision = ls_stream_revision a,
          fb_position = map_option position_of_wire (ls_position a)\<rparr>)
         (timestamp_to_datetime env t)) (ls_timestamp a)"

text \<open>The request of the next subscription starts after the event that was just delivered.\<close>

definition resume_after :: "recorded_event \<Rightarrow> read_req_options \<Rightarrow> (error, read_req_options) outcome" where
  "resume_after e opts =
     bind_outcome (unwrap (rro_stream_option opts)) (\<lambda>target.
       Ok (opts\<lparr>rro_stream_option := Some
         (case target of
            ReadStreamOption so \<Rightarrow>
              ReadStreamOption (so\<lparr>so_revision_option := Some (RevisionAt (re_revision e))\<rparr>)
          | ReadAllOption ao \<Rightarrow>
              ReadAllOption (ao\<lparr>ao_all_option := Some (AllPosition (wire_of_position (re_position e)))\<rparr>))\<rparr>))"

text \<open>What a message of the subscription becomes, with the request to subscribe again by.\<close>

definition subscription_message ::
  "('c, 'w) sub_env \<Rightarrow> read_content \<Rightarrow> read_req_options \<Rightarrow> (error, subscription_event \<times> read_req_options) outcome" where
  "subscription_message env content opts =
     (case content of
        ContentEvent event \<Rightarrow>
          bind_outcome (resolved_event_from (su_uuid_parse env) event) (\<lambda>resolved.
          bind_outcome (get_original_event resolved) (\<lambda>original.
          bind_outcome (resume_after original opts) (\<lambda>opts1. Ok (EventAppeared resolved, opts1))))
      | ContentConfirmation subscription_id \<Rightarrow> Ok (Confirmed subscription_id, opts)
      | ContentCheckpoint chk \<Rightarrow>
          Ok (Checkpoint (Position (wc_commit_position chk) (wc_prepare_position chk)), opts)
      | ContentFirstStreamPosition n \<Rightarrow> Ok (FirstStreamPosition n, opts)
      | ContentLastStreamPosition n \<Rightarrow> Ok (LastStreamPosition n, opts)
      | ContentLastAllStreamPosition p \<Rightarrow> Ok (LastAllPosition (position_of_wire p), opts)
      | ContentCaughtUp a \<Rightarrow> map_ok (\<lambda>c. (CaughtUp c, opts)) (caught_up_from env a)
      | ContentFellBehind a \<Rightarrow> map_ok (\<lambda>f. (FellBehind f, opts)) (fell_behind_from env a)
      | ContentStreamNotFound _ \<Rightarrow> Panic)"

section \<open>The loop\<close>

datatype 'a awaited = Waiting | Ready 'a

type_synonym sub_result = "(error, subscription_event) outcome awaited"

text \<open>What \<open>try_next\<close> gives, and the stream after it.\<close>

fun take_poll :: "'a poll list \<Rightarrow> ('a poll \<times> 'a poll list) option" where
  "take_poll [] = None"
| "take_poll (Closed # rest) = Some (Closed, Closed # rest)"
| "take_poll (p # rest) = Some (p, rest)"

text \<open>One round with a stream: a result, or going round again.\<close>

definition sub_receive ::
  "('c, 'w) sub_env \<Rightarrow> subscription \<Rightarrow> read_resp poll list \<Rightarrow> 'w
     \<Rightarrow> sub_result option \<times> subscription \<times> 'w" where
  "sub_receive env s stream w =
     (case take_poll stream of
        None \<Rightarrow> (Some Waiting, s, w)
      | Some (Broken st, _) \<Rightarrow>
          (let e = from_grpc st;
               w1 = su_report env (handle_error (sub_channel_id s) e) w;
               s1 = s\<lparr>sub_stream := None, sub_attempts := 1\<rparr>
           in if is_access_denied e \<or> \<not> sub_retry_enabled s then (Some (Ready (Err e)), s1, w1)
              else (None, s1, w1))
      | Some (Message (Some content), rest) \<Rightarrow>
          (let s1 = s\<lparr>sub_stream := Some rest\<rparr>
           in (case subscription_message env content (sub_options s) of
                 Ok (event, opts1) \<Rightarrow>
                   (let w1 = (case event of
                          EventAppeared resolved \<Rightarrow>
                            (case receive_complete (su_trace env) (su_context env) None resolved of
                               Ok (Some sp) \<Rightarrow> su_export env sp w
                             | _ \<Rightarrow> w)
                        | _ \<Rightarrow> w)
                    in (Some (Ready (Ok event)), s1\<lparr>sub_options := opts1\<rparr>, w1))
               | Err e \<Rightarrow> (Some (Ready (Err e)), s1, w)
               | Panic \<Rightarrow> (Some (Ready Panic), s1, w)))
      | Some (_, rest) \<Rightarrow> (None, s\<lparr>sub_stream := Some rest\<rparr>, w))"

text \<open>One round without a stream: asking for a node and subscribing.\<close>

definition sub_subscribe ::
  "('c, 'w) sub_env \<Rightarrow> subscription \<Rightarrow> 'w \<Rightarrow> sub_result option \<times> subscription \<times> 'w" where
  "sub_subscribe env s w =
     (case su_node env w of
        (Ok h, w1) \<Rightarrow>
          (let s1 = s\<lparr>sub_channel_id := h_id h\<rparr>;
               req = \<lparr>req_message = Some (sub_options s), req_metadata = sub_metadata s,
                      req_timeout = None\<rparr>
           in (case su_read env h req w1 of
                 (Ok stream, w2) \<Rightarrow> (None, s1\<lparr>sub_stream := Some stream\<rparr>, w2)
               | (Err st, w2) \<Rightarrow>
                   (let e = from_grpc st;
                        w3 = su_report env (handle_error (h_id h) e) w2
                    in if \<not> is_access_denied e \<and> sub_attempts s < sub_limit s
                       then (None, s1\<lparr>sub_attempts := sub_attempts s + 1\<rparr>, su_sleep env (sub_delay s) w3)
                       else (Some (Ready (Err e)), s1, w3))
               | (Panic, w2) \<Rightarrow> (Some (Ready Panic), s1, w2)))
      | (Err e, w1) \<Rightarrow> (Some (Ready (Err e)), s, w1)
      | (Panic, w1) \<Rightarrow> (Some (Ready Panic), s, w1))"

definition sub_round ::
  "('c, 'w) sub_env \<Rightarrow> subscription \<times> 'w \<Rightarrow> sub_result option \<times> subscription \<times> 'w" where
  "sub_round env sw =
     (case sub_stream (fst sw) of
        Some stream \<Rightarrow> sub_receive env (fst sw) stream (snd sw)
      | None \<Rightarrow> sub_subscribe env (fst sw) (snd sw))"

definition next_subscription_event ::
  "('c, 'w) sub_env \<Rightarrow> subscription \<times> 'w \<Rightarrow> (sub_result \<times> subscription \<times> 'w) option" where
  "next_subscription_event env sw = repeat (sub_round env) sw"

text \<open>\<open>Subscription::next\<close>: the next event, other messages skipped.\<close>

definition sub_next_round ::
  "('c, 'w) sub_env \<Rightarrow> (subscription \<times> 'w) option
     \<Rightarrow> (error, resolved_event) outcome awaited option \<times> (subscription \<times> 'w) option" where
  "sub_next_round env state =
     (case Option.bind state (next_subscription_event env) of
        None \<Rightarrow> (None, None)
      | Some (Waiting, sw) \<Rightarrow> (Some Waiting, Some sw)
      | Some (Ready (Ok (EventAppeared event)), sw) \<Rightarrow> (Some (Ready (Ok event)), Some sw)
      | Some (Ready (Ok _), sw) \<Rightarrow> (None, Some sw)
      | Some (Ready (Err e), sw) \<Rightarrow> (Some (Ready (Err e)), Some sw)
      | Some (Ready Panic, sw) \<Rightarrow> (Some (Ready Panic), Some sw))"

text \<open>A call of \<open>next_subscription_event\<close> that does not return is a state that is never left.\<close>

definition subscription_next ::
  "('c, 'w) sub_env \<Rightarrow> subscription \<times> 'w
     \<Rightarrow> ((error, resolved_event) outcome awaited \<times> (subscription \<times> 'w) option) option" where
  "subscription_next env sw = repeat (sub_next_round env) (Some sw)"

section \<open>The commands\<close>

definition subscribe_to_stream ::
  "'c client_env \<Rightarrow> client_settings \<Rightarrow> name_source \<Rightarrow> subscribe_to_stream_options
     \<Rightarrow> (error, subscription) outcome" where
  "subscribe_to_stream env s stream opts =
     (let req_options =
        \<lparr>rro_read_direction = 0,
         rro_resolve_links = ss_resolve_link_tos opts,
         rro_uuid_option = Some (Some ContentString),
         rro_control_option = None,
         rro_stream_option = Some (ReadStreamOption
           \<lparr>so_stream_identifier = Some \<lparr>stream_name = into_stream_name stream\<rparr>,
            so_revision_option = Some
              (case ss_position opts of
                 Start \<Rightarrow> RevisionStart | End \<Rightarrow> RevisionEnd | At v \<Rightarrow> RevisionAt v)\<rparr>),
         rro_count_option = Some CountSubscription,
         rro_filter_option = Some NoFilter\<rparr>
      in map_ok (\<lambda>md. subscription_new (ss_retry opts) md req_options)
           (build_request_metadata (ce_request env) s (common_operation_options opts)))"

definition subscribe_to_all ::
  "'c client_env \<Rightarrow> client_settings \<Rightarrow> subscribe_to_all_options \<Rightarrow> (error, subscription) outcome" where
  "subscribe_to_all env s opts =
     (let req_options =
        \<lparr>rro_read_direction = 0,
         rro_resolve_links = sa_resolve_link_tos opts,
         rro_uuid_option = Some (Some ContentString),
         rro_control_option = None,
         rro_stream_option = Some (ReadAllOption
           \<lparr>ao_all_option = Some
              (case sa_position opts of
                 Start \<Rightarrow> AllStart | End \<Rightarrow> AllEnd | At p \<Rightarrow> AllPosition (wire_of_position p))\<rparr>),
         rro_count_option = Some CountSubscription,
         rro_filter_option = Some
           (case sa_filter opts of Some f \<Rightarrow> FilterBy (filter_into_proto f) | None \<Rightarrow> NoFilter)\<rparr>
      in map_ok (\<lambda>md. subscription_new (sa_retry opts) md req_options)
           (build_request_metadata (ce_request env) s (common_operation_options opts)))"

section \<open>A stream that closes\<close>

text \<open>
  C15. When the server closes the response stream without an error, the subscription neither ends
  nor subscribes again: \<open>next_subscription_event\<close> and \<open>next\<close> go round for ever.
\<close>

theorem closed_subscription_spins:
  assumes "sub_stream s = Some (Closed # rest)"
  shows "next_subscription_event env (s, w) = None \<and> subscription_next env (s, w) = None"
proof -
  have event: "next_subscription_event env (s, w) = None"
    unfolding next_subscription_event_def
  proof (rule repeat_diverges)
    show "(s, w) \<in> {(s, w). sub_stream s = Some (Closed # rest)}" using assms by simp
    show "fst (sub_round env sw) = None \<and> snd (sub_round env sw) \<in> {(s, w). sub_stream s = Some (Closed # rest)}"
      if "sw \<in> {(s, w). sub_stream s = Some (Closed # rest)}" for sw
      using that by (cases sw) (auto simp: sub_round_def sub_receive_def)
  qed
  then have "subscription_next env (s, w) = None"
    unfolding subscription_next_def
    by (intro repeat_diverges [where D = "{Some (s, w), None}"]) (auto simp: sub_next_round_def)
  with event show ?thesis by simp
qed

section \<open>Attempts\<close>

text \<open>A server that refuses every subscription, and a count of how often it was asked.\<close>

definition refuses_all :: "('c, 'w) sub_env \<Rightarrow> ('w \<Rightarrow> nat) \<Rightarrow> bool" where
  "refuses_all env calls \<longleftrightarrow>
     (\<forall>w. is_ok (fst (su_node env w)) \<and> calls (snd (su_node env w)) = calls w)
   \<and> (\<forall>h req w. (\<exists>st. fst (su_read env h req w) = Err st \<and> \<not> is_access_denied (from_grpc st))
        \<and> calls (snd (su_read env h req w)) = calls w + 1)
   \<and> (\<forall>ms w. calls (su_report env ms w) = calls w)
   \<and> (\<forall>d w. calls (su_sleep env d w) = calls w)"

lemma sub_subscribe_refused:
  assumes "refuses_all env calls"
  shows "\<exists>e s1 w1. sub_subscribe env s w =
      (if sub_attempts s < sub_limit s then None else Some (Ready (Err e)), s1, w1)
    \<and> sub_stream s1 = sub_stream s \<and> sub_limit s1 = sub_limit s \<and> calls w1 = calls w + 1
    \<and> sub_attempts s1 = (if sub_attempts s < sub_limit s then sub_attempts s + 1 else sub_attempts s)"
proof -
  obtain h w1 where n: "su_node env w = (Ok h, w1)" "calls w1 = calls w"
    using assms unfolding refuses_all_def by (metis is_ok.elims(2) prod.collapse)
  define req where "req = \<lparr>req_message = Some (sub_options s), req_metadata = sub_metadata s,
    req_timeout = None :: duration option\<rparr>"
  obtain st w2 where r: "su_read env h req w1 = (Err st, w2)" "\<not> is_access_denied (from_grpc st)"
      "calls w2 = calls w1 + 1"
    using assms unfolding refuses_all_def by (metis prod.collapse)
  have "calls (su_report env ms w3) = calls w3" "calls (su_sleep env d w3) = calls w3" for ms d w3
    using assms by (auto simp: refuses_all_def)
  with n r show ?thesis by (auto simp: sub_subscribe_def Let_def simp flip: req_def)
qed


section \<open>Delivery in order\<close>

text \<open>The revision an event of a subscription is resumed from: that of its link, if it has one.\<close>

definition event_revision :: "wire_read_event \<Rightarrow> u64" where
  "event_revision e =
     (case wv_link e of
        Some l \<Rightarrow> wre_stream_revision l
      | None \<Rightarrow> (case wv_event e of Some v \<Rightarrow> wre_stream_revision v | None \<Rightarrow> 0))"

text \<open>What a stream with these events has to offer a subscription that starts there.\<close>

fun log_from :: "wire_read_event list \<Rightarrow> revision_option \<Rightarrow> wire_read_event list" where
  "log_from evs RevisionStart = evs"
| "log_from evs (RevisionAt v) = filter (\<lambda>e. v < event_revision e) evs"
| "log_from evs RevisionEnd = []"

fun stream_start :: "read_req_options \<Rightarrow> revision_option option" where
  "stream_start opts =
     (case rro_stream_option opts of
        Some (ReadStreamOption so) \<Rightarrow> so_revision_option so
      | _ \<Rightarrow> None)"

fun tape_events :: "read_resp poll list \<Rightarrow> wire_read_event list" where
  "tape_events [] = []"
| "tape_events (Message (Some (ContentEvent e)) # rest) = e # tape_events rest"
| "tape_events (Message _ # rest) = tape_events rest"
| "tape_events (_ # rest) = []"

text \<open>
  A server of that stream: it answers a subscription with the first of the events after its start,
  however many, with other messages in between and in any way of ending, or refuses it.
\<close>

definition serves_log :: "('c, 'w) sub_env \<Rightarrow> wire_read_event list \<Rightarrow> bool" where
  "serves_log env evs \<longleftrightarrow>
     sorted_wrt (\<lambda>a b. event_revision a < event_revision b) evs
   \<and> (\<forall>h req w opts start stream.
        req_message req = Some opts \<longrightarrow> stream_start opts = Some start \<longrightarrow>
        fst (su_read env h req w) = Ok stream \<longrightarrow>
        (\<exists>later. log_from evs start = tape_events stream @ later))"

definition owes :: "wire_read_event list \<Rightarrow> wire_read_event list \<Rightarrow> subscription \<Rightarrow> bool" where
  "owes evs pending s \<longleftrightarrow>
     (\<exists>start. stream_start (sub_options s) = Some start \<and> log_from evs start = pending)
   \<and> (\<forall>stream. sub_stream s = Some stream \<longrightarrow> (\<exists>later. pending = tape_events stream @ later))"

lemma log_from_next:
  assumes sorted: "sorted_wrt (\<lambda>a b. event_revision a < event_revision b) evs"
    and pending: "log_from evs start = e # pending"
  shows "log_from evs (RevisionAt (event_revision e)) = pending"
proof (cases start)
  case RevisionStart
  with assms show ?thesis by (auto simp: filter_id_conv)
next
  case (RevisionAt v)
  with pending have f: "filter (\<lambda>x. v < event_revision x) evs = e # pending" by simp
  then have "v < event_revision e" by (metis Cons_eq_filterD)
  then have "filter (\<lambda>x. event_revision e < event_revision x) evs =
      filter (\<lambda>x. event_revision e < event_revision x) (filter (\<lambda>x. v < event_revision x) evs)"
    by (auto simp: filter_filter intro!: filter_cong)
  also have "\<dots> = pending"
  proof -
    have "sorted_wrt (\<lambda>a b. event_revision a < event_revision b) (e # pending)"
      using sorted_wrt_filter [OF sorted, of "\<lambda>x. v < event_revision x"] f by simp
    then show ?thesis unfolding f by (auto simp: filter_id_conv)
  qed
  finally show ?thesis by simp
qed (use pending in simp)

lemma original_revision:
  "resolved_event_from uuid_parse e = Ok r \<Longrightarrow> get_original_event r = Ok o1 \<Longrightarrow>
     re_revision o1 = event_revision e"
  by (cases "wv_link e"; cases "wv_event e")
    (auto simp: resolved_event_from_def get_original_event_def event_revision_def recorded_event_from_Ok)

lemma resume_after_start:
  "stream_start opts = Some start \<Longrightarrow> resume_after o1 opts = Ok opts1 \<Longrightarrow>
     stream_start opts1 = Some (RevisionAt (re_revision o1))"
  by (cases "rro_stream_option opts"; cases "the (rro_stream_option opts)")
    (auto simp: resume_after_def)

lemma subscription_message_event:
  assumes "subscription_message env content opts = Ok (EventAppeared r, opts1)"
    and "stream_start opts = Some start"
  shows "\<exists>e. content = ContentEvent e \<and> resolved_event_from (su_uuid_parse env) e = Ok r
    \<and> stream_start opts1 = Some (RevisionAt (event_revision e))"
proof -
  obtain e o1 where e: "content = ContentEvent e" "resolved_event_from (su_uuid_parse env) e = Ok r"
      "(get_original_event r :: (error, recorded_event) outcome) = Ok o1"
      "resume_after o1 opts = Ok opts1"
    using assms(1) by (cases content) (auto simp: subscription_message_def)
  from resume_after_start [OF assms(2) e(4)] original_revision [OF e(2,3)] e(1,2)
  show ?thesis by simp
qed

lemma subscription_message_other:
  assumes "subscription_message env content opts = Ok (ev, opts1)" "\<And>r. ev \<noteq> EventAppeared r"
  shows "opts1 = opts \<and> (\<forall>e. content \<noteq> ContentEvent e)"
  using assms by (auto simp: subscription_message_def split: read_content.splits)

lemma timestamp_not_Err [simp]:
  "map_optional (\<lambda>t. map_ok f (timestamp_to_datetime env t)) t0 \<noteq> Err e"
  by (cases t0) (auto simp: timestamp_to_datetime_def Let_def map_ok_Err_iff)

lemma subscription_message_not_Err [simp]: "subscription_message env content opts \<noteq> Err e"
proof -
  have "recorded_event_from p v \<noteq> Err x" for p v and x :: error
    by (auto simp: recorded_event_from_def bind_outcome_Err_iff Let_def split: outcome.splits)
  then have "resolved_event_from p v \<noteq> Err x" for p v and x :: error
    by (cases "wv_event v"; cases "wv_link v") (auto simp: resolved_event_from_def bind_outcome_Err_iff map_ok_Err_iff)
  then show ?thesis
    by (auto simp: subscription_message_def resume_after_def caught_up_from_def fell_behind_from_def
        get_original_event_def bind_outcome_Err_iff map_ok_Err_iff split: read_content.splits option.splits)
qed

text \<open>One round delivers the next event owed, or leaves what is owed as it was.\<close>

definition round_ok ::
  "('c, 'w) sub_env \<Rightarrow> wire_read_event list \<Rightarrow> wire_read_event list \<Rightarrow> sub_result option
     \<Rightarrow> subscription \<Rightarrow> bool" where
  "round_ok env evs pending r s1 \<longleftrightarrow>
     (case r of
        Some (Ready (Ok (EventAppeared ev))) \<Rightarrow>
          (\<exists>e later. pending = e # later \<and> resolved_event_from (su_uuid_parse env) e = Ok ev
             \<and> owes evs later s1)
      | Some (Ready Panic) \<Rightarrow> True
      | _ \<Rightarrow> owes evs pending s1)"

lemma sub_receive_ok:
  assumes "serves_log env evs" "owes evs pending s" "sub_stream s = Some stream"
    and "sub_receive env s stream w = (r, s1, w1)"
  shows "round_ok env evs pending r s1"
proof (cases stream)
  case Nil
  with assms show ?thesis by (auto simp: sub_receive_def round_ok_def)
next
  case (Cons p rest)
  obtain start later where start: "stream_start (sub_options s) = Some start"
      "log_from evs start = pending" "pending = tape_events stream @ later"
    using assms(2,3) by (auto simp: owes_def)
  show ?thesis
  proof (cases p)
    case (Broken st)
    with Cons assms(4) start show ?thesis
      by (auto simp: sub_receive_def Let_def round_ok_def owes_def split: if_splits)
  next
    case Closed
    with Cons assms(4) start show ?thesis
      by (auto simp: sub_receive_def round_ok_def owes_def)
  next
    case (Message m)
    show ?thesis
    proof (cases m)
      case None
      with Message Cons assms(4) start show ?thesis
        by (auto simp: sub_receive_def round_ok_def owes_def)
    next
      case (Some content)
      show ?thesis
      proof (cases "subscription_message env content (sub_options s)")
        case (Ok x)
        obtain ev opts1 where x: "x = (ev, opts1)" by fastforce
        have r: "r = Some (Ready (Ok ev))" "s1 = s\<lparr>sub_stream := Some rest, sub_options := opts1\<rparr>"
          using assms(4) Cons Message Some Ok x by (auto simp: sub_receive_def Let_def)
        show ?thesis
        proof (cases "\<exists>q. ev = EventAppeared q")
          case True
          then obtain q where q: "ev = EventAppeared q" by blast
          from subscription_message_event [OF Ok [unfolded x q] start(1)] obtain e
            where e: "content = ContentEvent e" "resolved_event_from (su_uuid_parse env) e = Ok q"
              "stream_start opts1 = Some (RevisionAt (event_revision e))" by blast
          have p: "pending = e # tape_events rest @ later"
            using start(3) Cons Message Some e(1) by simp
          have "log_from evs (RevisionAt (event_revision e)) = tape_events rest @ later"
            using assms(1) log_from_next [OF _ start(2) [unfolded p]]
            by (simp add: serves_log_def del: log_from.simps stream_start.simps)
          with e p show ?thesis
            by (auto simp: round_ok_def r q owes_def simp del: log_from.simps)
        next
          case False
          with subscription_message_other [OF Ok [unfolded x]]
          have "opts1 = sub_options s" "\<forall>e. content \<noteq> ContentEvent e" by auto
          moreover from this have "tape_events stream = tape_events rest"
            using Cons Message Some by (cases content) auto
          ultimately show ?thesis using False start
            by (cases ev) (auto simp: round_ok_def r owes_def)
        qed
      next
        case (Err e)
        then show ?thesis by simp
      next
        case Panic
        with assms(4) Cons Message Some show ?thesis by (auto simp: sub_receive_def round_ok_def)
      qed
    qed
  qed
qed

lemma sub_subscribe_ok:
  assumes "serves_log env evs" "owes evs pending s" "sub_stream s = None"
    and "sub_subscribe env s w = (r, s1, w1)"
  shows "round_ok env evs pending r s1"
proof -
  obtain start where start: "stream_start (sub_options s) = Some start" "log_from evs start = pending"
    using assms(2) by (auto simp: owes_def)
  obtain n w2 where n: "su_node env w = (n, w2)" by fastforce
  show ?thesis
  proof (cases n)
    case (Ok h)
    define req where "req = \<lparr>req_message = Some (sub_options s), req_metadata = sub_metadata s,
      req_timeout = None :: duration option\<rparr>"
    obtain a w3 where a: "su_read env h req w2 = (a, w3)" by fastforce
    show ?thesis
    proof (cases a)
      case (Ok stream)
      have "\<exists>later. log_from evs start = tape_events stream @ later"
        using assms(1) a Ok start(1) unfolding serves_log_def req_def
        by (metis fst_conv request.select_convs(1))
      with assms(3,4) n \<open>n = Ok h\<close> a Ok start show ?thesis
        by (auto simp: sub_subscribe_def Let_def round_ok_def owes_def simp del: log_from.simps
            simp flip: req_def)
    next
      case (Err st)
      with assms(3,4) n \<open>n = Ok h\<close> a start show ?thesis
        by (auto simp: sub_subscribe_def Let_def round_ok_def owes_def simp del: log_from.simps
            simp flip: req_def split: if_splits)
    next
      case Panic
      with assms(4) n \<open>n = Ok h\<close> a show ?thesis
        by (auto simp: sub_subscribe_def Let_def round_ok_def simp flip: req_def)
    qed
  next
    case (Err e)
    with assms n show ?thesis by (auto simp: sub_subscribe_def round_ok_def)
  next
    case Panic
    with assms n show ?thesis by (auto simp: sub_subscribe_def round_ok_def)
  qed
qed

lemma sub_round_ok:
  assumes "serves_log env evs" "owes evs pending s" "sub_round env (s, w) = (r, s1, w1)"
  shows "round_ok env evs pending r s1"
proof (cases "sub_stream s")
  case None
  with assms(3) sub_subscribe_ok [OF assms(1,2)] show ?thesis by (simp add: sub_round_def)
next
  case (Some stream)
  with assms(3) sub_receive_ok [OF assms(1,2)] show ?thesis by (simp add: sub_round_def)
qed

lemma next_subscription_event_ok:
  assumes "serves_log env evs" "owes evs pending s"
    and "next_subscription_event env (s, w) = Some (r, s1, w1)"
  shows "round_ok env evs pending (Some r) s1"
proof -
  have "(\<lambda>r sw. round_ok env evs pending (Some r) (fst sw)) r (s1, w1)"
  proof (rule repeat_result [where body = "sub_round env" and P = "\<lambda>sw. owes evs pending (fst sw)"])
    show "owes evs pending (fst (s, w))" using assms(2) by simp
    show "repeat (sub_round env) (s, w) = Some (r, s1, w1)"
      using assms(3) by (simp add: next_subscription_event_def)
  next
    fix a b assume "owes evs pending (fst a)" "sub_round env a = (None, b)"
    with sub_round_ok [OF assms(1), of pending "fst a" "snd a" None "fst b" "snd b"]
    show "owes evs pending (fst b)" by (simp add: round_ok_def)
  next
    fix a b x assume "owes evs pending (fst a)" "sub_round env a = (Some x, b)"
    with sub_round_ok [OF assms(1), of pending "fst a" "snd a" "Some x" "fst b" "snd b"]
    show "round_ok env evs pending (Some x) (fst b)" by simp
  qed
  then show ?thesis by simp
qed

text \<open>The same of \<open>next\<close>: what it returns is the next event owed.\<close>

lemma subscription_next_ok:
  assumes "serves_log env evs" "owes evs pending s"
    and "subscription_next env (s, w) = Some (r, Some (s1, w1))"
  shows "case r of
      Ready (Ok ev) \<Rightarrow> \<exists>e later. pending = e # later \<and> resolved_event_from (su_uuid_parse env) e = Ok ev
        \<and> owes evs later s1
    | Ready Panic \<Rightarrow> True
    | _ \<Rightarrow> owes evs pending s1"
proof -
  define Q where "Q = (\<lambda>(r :: (error, resolved_event) outcome awaited) (sw :: (subscription \<times> 'b) option).
    case sw of None \<Rightarrow> False | Some (s1, w1) \<Rightarrow>
      (case r of
      Ready (Ok ev) \<Rightarrow> \<exists>e later. pending = e # later \<and> resolved_event_from (su_uuid_parse env) e = Ok ev
        \<and> owes evs later s1
    | Ready Panic \<Rightarrow> True
    | _ \<Rightarrow> owes evs pending s1))"
  define P where "P = (\<lambda>sw :: (subscription \<times> 'b) option.
    case sw of None \<Rightarrow> True | Some (s1, w1) \<Rightarrow> owes evs pending s1)"
  have round: "case fst (sub_next_round env a) of
      None \<Rightarrow> P (snd (sub_next_round env a))
    | Some x \<Rightarrow> Q x (snd (sub_next_round env a))" if P: "P a" for a
  proof (cases a)
    case None
    then show ?thesis by (simp add: sub_next_round_def P_def)
  next
    case (Some sw)
    obtain s0 w0 where sw: "sw = (s0, w0)" by fastforce
    show ?thesis
    proof (cases "next_subscription_event env (s0, w0)")
      case None
      with Some sw show ?thesis by (simp add: sub_next_round_def P_def)
    next
      case (Some y)
      obtain x s2 w2 where y: "y = (x, s2, w2)" by (metis prod.exhaust)
      have "owes evs pending s0" using P \<open>a = Some sw\<close> sw by (simp add: P_def)
      from next_subscription_event_ok [OF assms(1) this Some [unfolded y]]
      show ?thesis using \<open>a = Some sw\<close> sw Some y
        by (auto simp: sub_next_round_def P_def Q_def round_ok_def split: awaited.splits outcome.splits
            subscription_event.splits)
    qed
  qed
  have "Q r (Some (s1, w1))"
  proof (rule repeat_result [where body = "sub_next_round env" and P = P])
    show "P (Some (s, w))" using assms(2) by (simp add: P_def)
    show "repeat (sub_next_round env) (Some (s, w)) = Some (r, Some (s1, w1))"
      using assms(3) by (simp add: subscription_next_def)
    show "P b" if "P a" "sub_next_round env a = (None, b)" for a b
      using round [OF that(1)] that(2) by simp
    show "Q x b" if "P a" "sub_next_round env a = (Some x, b)" for a b x
      using round [OF that(1)] that(2) by simp
  qed
  then show ?thesis by (simp add: Q_def)
qed

text \<open>
  What a caller sees of a subscription over time: events that \<open>next\<close> returns, and, when it waits at
  the end of what has arrived, more messages of the stream arriving.
\<close>

inductive delivers ::
  "('c, 'w) sub_env \<Rightarrow> wire_read_event list \<Rightarrow> subscription \<times> 'w \<Rightarrow> resolved_event list
     \<Rightarrow> subscription \<times> 'w \<Rightarrow> bool"
  for env and evs where
  nothing: "delivers env evs sw [] sw"
| event: "subscription_next env sw = Some (Ready (Ok ev), Some sw1) \<Longrightarrow>
     delivers env evs sw1 events sw2 \<Longrightarrow> delivers env evs sw (ev # events) sw2"
| arrived: "sub_stream s = Some [] \<Longrightarrow> stream_start (sub_options s) = Some start \<Longrightarrow>
     log_from evs start = tape_events polls @ later \<Longrightarrow>
     delivers env evs (s\<lparr>sub_stream := Some polls\<rparr>, w1) events sw2 \<Longrightarrow>
     delivers env evs (s, w) events sw2"

lemma delivers_owed:
  assumes "serves_log env evs"
  shows "delivers env evs sw events sw2 \<Longrightarrow> owes evs pending (fst sw) \<Longrightarrow>
     \<exists>given rest. pending = given @ rest
       \<and> list_all2 (\<lambda>e r. resolved_event_from (su_uuid_parse env) e = Ok r) given events
       \<and> owes evs rest (fst sw2)"
proof (induction arbitrary: pending rule: delivers.induct)
  case (nothing sw)
  then show ?case by auto
next
  case (event sw ev sw1 events sw2)
  obtain s w s1 w1 where sw: "sw = (s, w)" "sw1 = (s1, w1)" by fastforce
  from subscription_next_ok [OF assms event.prems [unfolded sw fst_conv] event.hyps(1) [unfolded sw]]
  obtain e later where e: "pending = e # later" "resolved_event_from (su_uuid_parse env) e = Ok ev"
    "owes evs later s1" by auto
  from event.IH [of later] e(3) sw obtain given rest where
    "later = given @ rest" "list_all2 (\<lambda>e r. resolved_event_from (su_uuid_parse env) e = Ok r) given events"
    "owes evs rest (fst sw2)" by auto
  with e(1,2) show ?case by (intro exI [of _ "e # given"] exI [of _ rest]) simp
next
  case (arrived s start polls later w1 events sw2 w)
  have "pending = log_from evs start"
    using arrived.prems arrived.hyps(2) by (auto simp: owes_def simp del: log_from.simps stream_start.simps)
  then have "owes evs pending (s\<lparr>sub_stream := Some polls\<rparr>)"
    using arrived.hyps(2,3) by (auto simp: owes_def simp del: log_from.simps)
  with arrived.IH show ?case by simp
qed


section \<open>Concrete runs\<close>

text \<open>A node that is there, and a server whose answer depends on the request.\<close>

definition local_handle :: handle where
  "local_handle =
     \<lparr>h_id = 1, h_uri = ''http://localhost:2113'', h_endpoint = \<lparr>ep_host = ''localhost'', ep_port = 2113\<rparr>,
      h_secure = False, h_server_info = server_info_default\<rparr>"

definition unavailable :: status where
  "unavailable = status_new (\<lambda>_ m. m) CodeUnavailable ''gone''"

lemma unavailable_error [simp]: "from_grpc unavailable = ServerError ''gone''"
  by (simp add: unavailable_def status_new_def from_grpc_def metadata_str_def Let_def)

definition server_env ::
  "(read_req_options option request \<Rightarrow> (status, read_resp poll list) outcome) \<Rightarrow> (unit, nat) sub_env" where
  "server_env answer =
     \<lparr>su_node = (\<lambda>w. (Ok local_handle, w)), su_read = (\<lambda>_ req w. (answer req, w + 1)),
      su_report = (\<lambda>_ w. w), su_sleep = (\<lambda>_ w. w), su_export = (\<lambda>_ w. w),
      su_trace = ce_trace plain_client_env, su_context = (), su_uuid_parse = (\<lambda>_. None),
      su_chrono = (\<lambda>_. True)\<rparr>"

definition demo_options :: read_req_options where
  "demo_options =
     (read_stream_request (NameStr ''s'') read_stream_options_default 0)
       \<lparr>rro_count_option := Some CountSubscription\<rparr>"


text \<open>A server of two events whose stream breaks after each.\<close>

definition demo_event :: "u64 \<Rightarrow> wire_read_event" where
  "demo_event n =
     \<lparr>wv_event = Some
        \<lparr>wre_id = Some (uuid_into 7), wre_stream_identifier = Some \<lparr>stream_name = ''s''\<rparr>,
         wre_stream_revision = n, wre_prepare_position = 9, wre_commit_position = 9,
         wre_metadata = [], wre_custom_metadata = [], wre_data = []\<rparr>,
      wv_link = None, wv_position = None\<rparr>"

definition breaking_server :: "(unit, nat) sub_env" where
  "breaking_server = server_env (\<lambda>req.
     case Option.bind (req_message req) stream_start of
       Some start \<Rightarrow>
         Ok (map (Message \<circ> Some \<circ> ContentEvent) (take 1 (log_from [demo_event 0, demo_event 1] start))
           @ [Broken unavailable])
     | None \<Rightarrow> Err unavailable)"

lemma tape_events_Message: "tape_events (map (Message \<circ> Some \<circ> ContentEvent) es @ [Broken st]) = es"
  by (induction es) auto

lemma serves_breaking_server: "serves_log breaking_server [demo_event 0, demo_event 1]"
proof -
  have "\<exists>later. log_from evs start =
      tape_events (map (Message \<circ> Some \<circ> ContentEvent) (take 1 (log_from evs start)) @ [Broken st]) @ later"
    for evs start st
    unfolding tape_events_Message by (metis append_take_drop_id)
  then show ?thesis
    unfolding serves_log_def breaking_server_def server_env_def
    by (auto simp: demo_event_def event_revision_def simp del: log_from.simps stream_start.simps)
qed

lemma closed_subscription_spins_witness:
  "next_subscription_event (server_env (\<lambda>_. Err unavailable))
     ((subscription_new None [] demo_options)\<lparr>sub_stream := Some [Closed]\<rparr>, 0) = None"
  using closed_subscription_spins [where rest = "[]" and w = 0
      and s = "(subscription_new None [] demo_options)\<lparr>sub_stream := Some [Closed]\<rparr>"
      and env = "server_env (\<lambda>_. Err unavailable)"] by simp

lemma breaking_server_subscribe:
  "sub_stream s = None \<Longrightarrow> stream_start (sub_options s) = Some start \<Longrightarrow>
     sub_round breaking_server (s, w) =
       (None, s\<lparr>sub_channel_id := 1, sub_stream := Some (map (Message \<circ> Some \<circ> ContentEvent)
           (take 1 (log_from [demo_event 0, demo_event 1] start)) @ [Broken unavailable])\<rparr>, w + 1)"
  by (simp add: sub_round_def sub_subscribe_def breaking_server_def server_env_def local_handle_def Let_def
      del: log_from.simps)

lemma breaking_server_event:
  assumes "sub_stream s = Some [Message (Some (ContentEvent (demo_event n))), Broken unavailable]"
    and "stream_start (sub_options s) = Some start" "sub_retry_enabled s"
  shows "\<exists>r s1. sub_round breaking_server (s, w) = (Some (Ready (Ok (EventAppeared r))), s1, w)
    \<and> sub_stream s1 = Some [Broken unavailable] \<and> sub_retry_enabled s1
    \<and> stream_start (sub_options s1) = Some (RevisionAt n)"
proof -
  obtain so where so: "rro_stream_option (sub_options s) = Some (ReadStreamOption so)"
    using assms(2) by (auto split: option.splits stream_option.splits)
  show ?thesis
    using assms(1,3) so
    by (auto simp: sub_round_def sub_receive_def breaking_server_def server_env_def demo_event_def
        subscription_message_def resolved_event_from_def recorded_event_from_def get_original_event_def
        resume_after_def Let_def split: outcome.splits option.splits)
qed

lemma breaking_server_next:
  assumes "sub_stream s = None \<or> sub_stream s = Some [Broken unavailable]" "sub_retry_enabled s"
    and "stream_start (sub_options s) = Some start"
    and "take 1 (log_from [demo_event 0, demo_event 1] start) = [demo_event n]"
  shows "\<exists>r s1 w1. subscription_next breaking_server (s, w) = Some (Ready (Ok r), Some (s1, w1))
    \<and> sub_stream s1 = Some [Broken unavailable] \<and> sub_retry_enabled s1
    \<and> stream_start (sub_options s1) = Some (RevisionAt n)"
proof -
  have "\<exists>s0 w0. repeat (sub_round breaking_server) (s, w) = repeat (sub_round breaking_server) (s0, w0)
      \<and> sub_stream s0 = None \<and> sub_retry_enabled s0 \<and> sub_options s0 = sub_options s"
  proof (cases "sub_stream s")
    case None
    with assms(2) show ?thesis by blast
  next
    case (Some stream)
    with assms(1,2) have "sub_round breaking_server (s, w) =
        (None, s\<lparr>sub_stream := None, sub_attempts := 1\<rparr>, w)"
      by (simp add: sub_round_def sub_receive_def breaking_server_def server_env_def Let_def)
    from repeat_again [of "sub_round breaking_server", OF this] assms(2) show ?thesis by fastforce
  qed
  then obtain s0 w0 where s0: "repeat (sub_round breaking_server) (s, w) =
      repeat (sub_round breaking_server) (s0, w0)"
    "sub_stream s0 = None" "sub_retry_enabled s0" "sub_options s0 = sub_options s" by blast
  define s2 where "s2 = s0\<lparr>sub_channel_id := 1, sub_stream :=
    Some [Message (Some (ContentEvent (demo_event n))), Broken unavailable]\<rparr>"
  have "sub_round breaking_server (s0, w0) = (None, s2, w0 + 1)"
    using breaking_server_subscribe [OF s0(2), of start w0] s0(4) assms(3,4)
    by (simp add: s2_def del: stream_start.simps)
  note subscribed = repeat_again [of "sub_round breaking_server", OF this]
  obtain r s1 where s1: "sub_round breaking_server (s2, w0 + 1) = (Some (Ready (Ok (EventAppeared r))), s1, w0 + 1)"
    "sub_stream s1 = Some [Broken unavailable]" "sub_retry_enabled s1"
    "stream_start (sub_options s1) = Some (RevisionAt n)"
    using breaking_server_event [of s2 n start "w0 + 1"] s0(3,4) assms(3)
    by (auto simp: s2_def simp del: stream_start.simps)
  have "next_subscription_event breaking_server (s, w) = Some (Ready (Ok (EventAppeared r)), s1, w0 + 1)"
    unfolding next_subscription_event_def s0(1) subscribed by (rule repeat_return [of "sub_round breaking_server", OF s1(1)])
  then have "subscription_next breaking_server (s, w) = Some (Ready (Ok r), Some (s1, w0 + 1))"
    unfolding subscription_next_def by (intro repeat_return) (simp add: sub_next_round_def)
  with s1 show ?thesis by blast
qed


section \<open>Messages that panic\<close>

lemma negative_seconds: "sint (ts_seconds t) < 0 \<Longrightarrow> timestamp_to_datetime env t = Panic"
  using sint_negative [of "ts_seconds t"] by (simp add: timestamp_to_datetime_def Let_def)



end
