(* ===== verification/Http.thy ===== *)
theory Http
  imports Command
begin

text \<open>
  The HTTP endpoints that older servers offer for persistent subscriptions (\<open>http/mod.rs\<close> and
  \<open>http/persistent_subscriptions.rs\<close>). reqwest, percent-encoding and JSON are an environment: a
  request is what the builder was told, and sending it gives an answer. The kinds of stream a
  command is for (\<open>StreamKind\<close> and \<open>StreamPositionTypeSelector\<close> of \<open>commands.rs\<close>) stand here too.
\<close>

section \<open>Kinds of streams\<close>

datatype stream_kind = AllStream | RegularStream string

fun is_all :: "stream_kind \<Rightarrow> bool" where
  "is_all AllStream = True"
| "is_all (RegularStream _) = False"

fun kind_name :: "stream_kind \<Rightarrow> string" where
  "kind_name AllStream = ''$all''"
| "kind_name (RegularStream s) = s"

text \<open>A selector takes a start point apart; \<open>None\<close> is its \<open>unreachable!\<close>.\<close>

fun select_all :: "revision_or_position \<Rightarrow> Position option" where
  "select_all (InLog p) = Some p"
| "select_all (Revision _) = None"

fun select_regular :: "revision_or_position \<Rightarrow> u64 option" where
  "select_regular (Revision r) = Some r"
| "select_regular (InLog _) = None"

definition select_both :: "revision_or_position \<Rightarrow> revision_or_position option" where
  "select_both v = Some v"

text \<open>\<open>start.map(|p| selector.select(p))\<close>, which panics when the selector does.\<close>

fun select_start ::
  "(revision_or_position \<Rightarrow> 'a option) \<Rightarrow> revision_or_position stream_position
     \<Rightarrow> (error, 'a stream_position) outcome" where
  "select_start sel (At v) = (case sel v of Some x \<Rightarrow> Ok (At x) | None \<Rightarrow> Panic)"
| "select_start sel Start = Ok Start"
| "select_start sel End = Ok End"

section \<open>Requests\<close>

datatype http_method = Get | Post

datatype http_auth = HttpBasic string string | HttpBearer string

record http_request =
  hr_method :: http_method
  hr_url :: string
  hr_headers :: "(string \<times> string) list"
  hr_query :: "(string \<times> string) list"
  hr_auth :: "http_auth option"

text \<open>Sending fails, with the status of the error if it has one, or gives a status and a body.\<close>

datatype http_answer = SendFailed "nat option" string | Answered nat string

record http_env =
  ht_send :: "http_request \<Rightarrow> http_answer"
  ht_encode :: "string \<Rightarrow> string"
  ht_utf8_lossy :: "bytes \<Rightarrow> string"
  ht_reason :: "nat \<Rightarrow> string" \<comment> \<open>the canonical reason of a status, as \<open>{:?}\<close> prints it\<close>
  ht_json_info :: "string \<Rightarrow> (string, ps_info_http_json) outcome"
  ht_json_infos :: "string \<Rightarrow> (string, ps_info_http_json list) outcome"
  ht_nom :: nom_lib

text \<open>The client asks for the same authentication over HTTP as over gRPC.\<close>

definition http_resolve_authentication ::
  "common_options \<Rightarrow> client_settings \<Rightarrow> authentication option" where
  "http_resolve_authentication co s =
     (case co_authentication co of
        Some a \<Rightarrow> Some a
      | None \<Rightarrow> map_option Basic (default_user_name s))"

definition http_configure_auth ::
  "http_env \<Rightarrow> http_request \<Rightarrow> authentication option \<Rightarrow> http_request" where
  "http_configure_auth env b auth =
     (case auth of
        Some (Basic c) \<Rightarrow>
          b\<lparr>hr_auth := Some (HttpBasic (ht_utf8_lossy env (cr_login c)) (ht_utf8_lossy env (cr_password c)))\<rparr>
      | Some (Bearer token) \<Rightarrow> b\<lparr>hr_auth := Some (HttpBearer (ht_utf8_lossy env token))\<rparr>
      | None \<Rightarrow> b)"

definition is_success :: "nat \<Rightarrow> bool" where "is_success n \<longleftrightarrow> 200 \<le> n \<and> n < 300"

definition is_server_error :: "nat \<Rightarrow> bool" where "is_server_error n \<longleftrightarrow> 500 \<le> n \<and> n < 600"

definition http_execute_request :: "http_env \<Rightarrow> http_request \<Rightarrow> (error, string) outcome" where
  "http_execute_request env b =
     (case ht_send env b of
        SendFailed (Some n) display \<Rightarrow>
          Err (if n = 401 then AccessDenied
               else if n = 404 then ResourceNotFound
               else if is_server_error n then ServerError display
               else InternalClientError)
      | SendFailed None _ \<Rightarrow> Err InternalClientError
      | Answered n body \<Rightarrow>
          (if is_success n then Ok body
           else if n = 401 then Err AccessDenied
           else if n = 404 then Err ResourceNotFound
           else if is_server_error n
             then Err (ServerError (''unexpected server error, reason: '' @ ht_reason env n))
           else Err InternalClientError))"

definition http_authenticated ::
  "http_env \<Rightarrow> client_settings \<Rightarrow> 'o options_scheme \<Rightarrow> http_request \<Rightarrow> http_request" where
  "http_authenticated env s opts b =
     http_configure_auth env b (http_resolve_authentication (common_operation_options opts) s)"

section \<open>Information\<close>

text \<open>The settings in a configuration, before the start point is known.\<close>

definition http_settings :: "ps_config \<Rightarrow> 'a stream_position \<Rightarrow> 'a ps_settings" where
  "http_settings c start =
     \<lparr>ps_resolve_link_tos = pc_resolve_linktos c,
      ps_start_from = start,
      ps_extra_statistics = pc_extra_statistics c,
      ps_message_timeout = from_millis (pc_message_timeout_milliseconds c),
      ps_max_retry_count = ucast (pc_max_retry_count c),
      ps_live_buffer_size = ucast (pc_live_buffer_size c),
      ps_read_batch_size = ucast (pc_read_batch_size c),
      ps_history_buffer_size = ucast (pc_buffer_size c),
      ps_checkpoint_after = from_millis (pc_checkpoint_after_milliseconds c),
      ps_checkpoint_lower_bound = ucast (pc_min_checkpoint_count c),
      ps_checkpoint_upper_bound = ucast (pc_max_checkpoint_count c),
      ps_max_subscriber_count = ucast (pc_max_subscriber_count c),
      ps_consumer_strategy_name = pc_named_consumer_strategy c\<rparr>"

definition http_stats :: "http_env \<Rightarrow> ps_info_http_json \<Rightarrow> (error, ps_stats) outcome" where
  "http_stats env info =
     (let stats =
        \<lparr>pst_average_per_second = ph_average_items_per_second info,
         pst_total_items = ph_total_items_processed info,
         pst_count_since_last_measurement = ph_count_since_last_measurement info,
         pst_last_checkpointed_event_revision = None,
         pst_last_known_event_revision = None,
         pst_last_checkpointed_position = None,
         pst_last_known_position = None,
         pst_read_buffer_count = ph_read_buffer_count info,
         pst_live_buffer_count = ph_live_buffer_count info,
         pst_retry_buffer_count = ph_retry_buffer_count info,
         pst_total_in_flight_messages = ph_total_in_flight_messages info,
         pst_outstanding_messages_count = ph_outstanding_messages_count info,
         pst_parked_message_count = ph_parked_message_count info\<rparr>
      in if ph_event_stream_id info = ''$all'' then
           bind_outcome (map_optional (parse_position (ht_nom env)) (ph_last_checkpointed_event_position info)) (\<lambda>chk.
           bind_outcome (map_optional (parse_position (ht_nom env)) (ph_last_known_event_position info)) (\<lambda>known.
             Ok (stats\<lparr>pst_last_checkpointed_position := chk, pst_last_known_position := known\<rparr>)))
         else
           Ok (stats\<lparr>pst_last_checkpointed_event_revision := Some (ph_last_processed_event_number info),
                     pst_last_known_event_revision := Some (ph_last_known_event_number info)\<rparr>))"

definition from_http_info ::
  "http_env \<Rightarrow> (revision_or_position \<Rightarrow> 'a option) \<Rightarrow> ps_info_http_json \<Rightarrow> (error, 'a ps_info) outcome" where
  "from_http_info env sel info =
     bind_outcome
       (map_optional (\<lambda>c.
          map_ok (http_settings c)
            (if ph_event_stream_id info = ''$all'' then
               bind_outcome (parse_stream_position (ht_nom env) (pc_start_position c)) (select_start sel)
             else select_start sel (pc_start_from c)))
         (ph_config info)) (\<lambda>settings.
     bind_outcome (http_stats env info) (\<lambda>stats.
       Ok \<lparr>pi_event_source = ph_event_stream_id info,
           pi_group_name = ph_group_name info,
           pi_status = ph_status info,
           pi_connections = ph_connections info,
           pi_settings = settings,
           pi_stats = stats\<rparr>))"

section \<open>The endpoints\<close>

definition http_post :: "string \<Rightarrow> http_request" where
  "http_post url =
     \<lparr>hr_method = Post, hr_url = url,
      hr_headers = [(''content-type'', ''application/json''), (''content-length'', ''0'')],
      hr_query = [], hr_auth = None\<rparr>"

definition http_get :: "string \<Rightarrow> http_request" where
  "http_get url =
     \<lparr>hr_method = Get, hr_url = url, hr_headers = [(''content-type'', ''application/json'')],
      hr_query = [], hr_auth = None\<rparr>"

definition http_replay_parked_messages ::
  "http_env \<Rightarrow> client_settings \<Rightarrow> handle \<Rightarrow> string \<Rightarrow> string \<Rightarrow> replay_parked_options \<Rightarrow> (error, unit) outcome" where
  "http_replay_parked_messages env s h stream consumer_group opts =
     (let builder = http_post (handle_url h @ ''/subscriptions/'' @ ht_encode env stream @ ''/''
            @ ht_encode env consumer_group @ ''/replayParked'');
          builder = (case rpo_stop_at opts of
              Some stop_at \<Rightarrow> builder\<lparr>hr_query := [(''stopAt'', show_u64 stop_at)]\<rparr>
            | None \<Rightarrow> builder)
      in map_ok (\<lambda>_. ()) (http_execute_request env (http_authenticated env s opts builder)))"

definition http_infos ::
  "http_env \<Rightarrow> (revision_or_position \<Rightarrow> 'a option) \<Rightarrow> (error, string) outcome \<Rightarrow> (error, 'a ps_info list) outcome" where
  "http_infos env sel response =
     bind_outcome response (\<lambda>body.
     bind_outcome (map_err InternalParsingError (ht_json_infos env body)) (collect (from_http_info env sel)))"

definition http_list_all_persistent_subscriptions ::
  "http_env \<Rightarrow> client_settings \<Rightarrow> handle \<Rightarrow> options \<Rightarrow> (error, revision_or_position ps_info list) outcome" where
  "http_list_all_persistent_subscriptions env s h opts =
     http_infos env select_both
       (http_execute_request env (http_authenticated env s opts (http_get (handle_url h @ ''/subscriptions''))))"

definition http_list_persistent_subscriptions_for_stream ::
  "http_env \<Rightarrow> client_settings \<Rightarrow> handle \<Rightarrow> stream_kind \<Rightarrow> (revision_or_position \<Rightarrow> 'a option)
     \<Rightarrow> options \<Rightarrow> (error, 'a ps_info list) outcome" where
  "http_list_persistent_subscriptions_for_stream env s h kind sel opts =
     http_infos env sel
       (http_execute_request env (http_authenticated env s opts
          (http_get (handle_url h @ ''/subscriptions/'' @ ht_encode env (kind_name kind)))))"

definition http_get_persistent_subscription_info ::
  "http_env \<Rightarrow> client_settings \<Rightarrow> handle \<Rightarrow> stream_kind \<Rightarrow> (revision_or_position \<Rightarrow> 'a option)
     \<Rightarrow> string \<Rightarrow> options \<Rightarrow> (error, 'a ps_info) outcome" where
  "http_get_persistent_subscription_info env s h kind sel consumer_group opts =
     bind_outcome
       (http_execute_request env (http_authenticated env s opts
          (http_get (handle_url h @ ''/subscriptions/'' @ ht_encode env (kind_name kind) @ ''/''
             @ ht_encode env consumer_group @ ''/info'')))) (\<lambda>body.
     bind_outcome (map_err InternalParsingError (ht_json_info env body)) (from_http_info env sel))"

definition http_restart_persistent_subscription_subsystem ::
  "http_env \<Rightarrow> client_settings \<Rightarrow> handle \<Rightarrow> options \<Rightarrow> (error, unit) outcome" where
  "http_restart_persistent_subscription_subsystem env s h opts =
     map_ok (\<lambda>_. ())
       (http_execute_request env (http_authenticated env s opts
          (http_post (handle_url h @ ''/subscriptions/restart''))))"

end
