(* ===== verification/PersistentSub.thy ===== *)
theory PersistentSub
  imports Http StreamCommands
begin

text \<open>
  Persistent subscriptions (\<open>commands.rs\<close>): creating, updating, deleting and listing groups, replaying
  parked messages, subscribing to a group, and acknowledging its events. Where a server lacks the
  management calls a command falls back on HTTP (theory \<open>Http\<close>), and what that reports is not told
  to the connection.
\<close>

section \<open>Creating and updating\<close>

text \<open>
  The trait \<open>PsSettings\<close>: what creating and updating ask of the options of a group, for a group on
  one stream and for one on all of them.
\<close>

record ('o, 'a) ps_options_trait =
  pt_settings :: "'o \<Rightarrow> 'a ps_settings"
  pt_to_create_options :: "'o \<Rightarrow> stream_identifier \<Rightarrow> create_stream_option"
  pt_to_update_options :: "'o \<Rightarrow> stream_identifier \<Rightarrow> update_stream_option"

fun start_revision :: "u64 stream_position \<Rightarrow> revision_option" where
  "start_revision Start = RevisionStart"
| "start_revision End = RevisionEnd"
| "start_revision (At v) = RevisionAt v"

fun start_position :: "Position stream_position \<Rightarrow> all_option" where
  "start_position Start = AllStart"
| "start_position End = AllEnd"
| "start_position (At p) = AllPosition (wire_of_position p)"

definition stream_group :: "(persistent_subscription_options, u64) ps_options_trait" where
  "stream_group =
     \<lparr>pt_settings = setts,
      pt_to_create_options = (\<lambda>opts sid. CreateStream
        \<lparr>so_stream_identifier = Some sid,
         so_revision_option = Some (start_revision (ps_start_from (setts opts)))\<rparr>),
      pt_to_update_options = (\<lambda>opts sid. UpdateStream
        \<lparr>so_stream_identifier = Some sid,
         so_revision_option = Some (start_revision (ps_start_from (setts opts)))\<rparr>)\<rparr>"

definition all_group :: "(ps_to_all_options, Position) ps_options_trait" where
  "all_group =
     \<lparr>pt_settings = setts,
      pt_to_create_options = (\<lambda>opts _. CreateAll
        \<lparr>cao_all_option = Some (start_position (ps_start_from (setts opts))),
         cao_filter_option = Some
           (case poa_filter opts of Some f \<Rightarrow> FilterBy (ps_create_filter_into_proto f) | None \<Rightarrow> NoFilter)\<rparr>),
      pt_to_update_options = (\<lambda>opts _. UpdateAll
        \<lparr>ao_all_option = Some (start_position (ps_start_from (setts opts)))\<rparr>)\<rparr>"

text \<open>A request is sent, once it is built, and an error reported.\<close>

definition send_request ::
  "handle \<Rightarrow> (error, 'm request) outcome \<Rightarrow> ('m request \<Rightarrow> (status, 'a) outcome)
     \<Rightarrow> ('a \<Rightarrow> (error, 'b) outcome) \<Rightarrow> (error, 'b) outcome \<times> msg list" where
  "send_request h request rpc k =
     (case request of
        Ok req \<Rightarrow> call_node h (rpc req) k
      | Err e \<Rightarrow> (Err e, [])
      | Panic \<Rightarrow> (Panic, []))"

definition create_persistent_subscription ::
  "'c client_env \<Rightarrow> client_settings \<Rightarrow> ('m options_scheme, 'a) ps_options_trait \<Rightarrow> (error, handle) outcome
     \<Rightarrow> (handle \<Rightarrow> create_req_options option request \<Rightarrow> (status, unit) outcome)
     \<Rightarrow> name_source \<Rightarrow> string \<Rightarrow> 'm options_scheme \<Rightarrow> (error, unit) outcome \<times> msg list" where
  "create_persistent_subscription env s trait node rpc stream consumer_group opts =
     (case bind_outcome node (\<lambda>h. map_ok (Pair h) (create_settings_try_from (pt_settings trait opts))) of
        Ok (h, settings) \<Rightarrow>
          (let sid = \<lparr>stream_name = into_stream_name stream\<rparr>;
               req_options = pt_to_create_options trait opts sid;
               is_to_all = (case req_options of CreateAll _ \<Rightarrow> True | _ \<Rightarrow> False)
           in if is_to_all \<and> \<not> supports_feature h PERSISTENT_SUBSCRIPITON_TO_ALL
              then (Err UnsupportedFeature, [])
              else send_request h
                (new_request (ce_request env) s ps_kind opts
                  (Some \<lparr>cro_stream_identifier = Some sid, cro_group_name = consumer_group,
                        cro_settings = Some settings, cro_stream_option = Some req_options\<rparr>))
                (rpc h) (\<lambda>_. Ok ()))
      | Err e \<Rightarrow> (Err e, [])
      | Panic \<Rightarrow> (Panic, []))"

definition update_persistent_subscription ::
  "'c client_env \<Rightarrow> client_settings \<Rightarrow> ('m options_scheme, 'a) ps_options_trait \<Rightarrow> (error, handle) outcome
     \<Rightarrow> (handle \<Rightarrow> update_req_options option request \<Rightarrow> (status, unit) outcome)
     \<Rightarrow> name_source \<Rightarrow> string \<Rightarrow> 'm options_scheme \<Rightarrow> (error, unit) outcome \<times> msg list" where
  "update_persistent_subscription env s trait node rpc stream consumer_group opts =
     (case bind_outcome node (\<lambda>h. map_ok (Pair h) (update_settings_try_from (pt_settings trait opts))) of
        Ok (h, settings) \<Rightarrow>
          (let sid = \<lparr>stream_name = into_stream_name stream\<rparr>;
               req_options = pt_to_update_options trait opts sid;
               is_to_all = (case req_options of UpdateAll _ \<Rightarrow> True | _ \<Rightarrow> False)
           in if is_to_all \<and> \<not> supports_feature h PERSISTENT_SUBSCRIPITON_TO_ALL
              then (Err UnsupportedFeature, [])
              else send_request h
                (new_request (ce_request env) s ps_kind opts
                  (Some \<lparr>uro_stream_identifier = Some sid, uro_group_name = consumer_group,
                        uro_settings = Some settings, uro_stream_option = Some req_options\<rparr>))
                (rpc h) (\<lambda>_. Ok ()))
      | Err e \<Rightarrow> (Err e, [])
      | Panic \<Rightarrow> (Panic, []))"

section \<open>Deleting and subscribing\<close>

definition group_stream_option :: "name_source \<Rightarrow> bool \<Rightarrow> ps_stream_option" where
  "group_stream_option stream to_all =
     (if \<not> to_all then PsStream \<lparr>stream_name = into_stream_name stream\<rparr> else PsAll)"

definition delete_persistent_subscription ::
  "'c client_env \<Rightarrow> client_settings \<Rightarrow> (error, handle) outcome
     \<Rightarrow> (handle \<Rightarrow> ps_group_options option request \<Rightarrow> (status, unit) outcome)
     \<Rightarrow> name_source \<Rightarrow> string \<Rightarrow> options \<Rightarrow> bool \<Rightarrow> (error, unit) outcome \<times> msg list" where
  "delete_persistent_subscription env s node rpc stream consumer_group opts to_all =
     (case node of
        Ok h \<Rightarrow>
          (if to_all \<and> \<not> supports_feature h PERSISTENT_SUBSCRIPITON_TO_ALL then (Err UnsupportedFeature, [])
           else send_request h
             (new_request (ce_request env) s Regular opts
               (Some \<lparr>pg_group_name = consumer_group,
                     pg_stream_option = Some (group_stream_option stream to_all)\<rparr>))
             (rpc h) (\<lambda>_. Ok ()))
      | Err e \<Rightarrow> (Err e, [])
      | Panic \<Rightarrow> (Panic, []))"

text \<open>
  A subscription to a group: the node it came from, the answers, and what was sent on the request
  stream so far, with whether that stream is still read.
\<close>

record persistent_subscription =
  psn_channel_id :: uuid
  psn_inner :: "ps_read_resp poll list"
  psn_group_name :: string
  psn_sent :: "ps_read_req list"
  psn_open :: bool

definition subscribe_to_persistent_subscription ::
  "'c client_env \<Rightarrow> client_settings \<Rightarrow> (error, handle) outcome
     \<Rightarrow> (handle \<Rightarrow> unit request \<Rightarrow> ps_read_req list \<Rightarrow> (status, ps_read_resp poll list) outcome)
     \<Rightarrow> name_source \<Rightarrow> string \<Rightarrow> subscribe_to_ps_options \<Rightarrow> bool
     \<Rightarrow> (error, persistent_subscription) outcome \<times> msg list" where
  "subscribe_to_persistent_subscription env s node rpc stream consumer_group opts to_all =
     (case node of
        Ok h \<Rightarrow>
          (if to_all \<and> \<not> supports_feature h PERSISTENT_SUBSCRIPITON_TO_ALL then (Err UnsupportedFeature, [])
           else
             (let sent = [Some (PsOptions
                    \<lparr>pro_group_name = consumer_group,
                     pro_buffer_size = u64_as_i32 (sp_buffer_size opts),
                     pro_uuid_option = Some (Some ContentString),
                     pro_stream_option = Some (group_stream_option stream to_all)\<rparr>)]
              in send_request h (new_request (ce_request env) s subscribe_to_ps_kind opts ())
                   (\<lambda>req. rpc h req sent)
                   (\<lambda>inner. Ok \<lparr>psn_channel_id = h_id h, psn_inner = inner,
                                psn_group_name = consumer_group, psn_sent = sent, psn_open = True\<rparr>)))
      | Err e \<Rightarrow> (Err e, [])
      | Panic \<Rightarrow> (Panic, []))"

section \<open>Events and acknowledgements\<close>

text \<open>
  One event of the group, with the messages to the connection and the span of the delivery;
  \<open>None\<close> while nothing has arrived.
\<close>

record ('c, 'r) ps_step =
  st_result :: 'r
  st_msgs :: "msg list"
  st_span :: "'c span option"
  st_next :: persistent_subscription

definition ps_next_subscription_event ::
  "'c client_env \<Rightarrow> persistent_subscription
     \<Rightarrow> ('c, (error, persistent_subscription_event) outcome) ps_step option" where
  "ps_next_subscription_event env p =
     (case psn_inner p of
        [] \<Rightarrow> None
      | Broken st # rest \<Rightarrow>
          (if metadata_str st ''exception'' = Some ''persistent-subscription-dropped''
           then Some \<lparr>st_result = Err (IllegalStateError ''Persistent subscription has dropped''),
                     st_msgs = [], st_span = None, st_next = p\<lparr>psn_inner := rest\<rparr>\<rparr>
           else (let e = from_grpc st
                 in Some \<lparr>st_result = Err e, st_msgs = handle_error (psn_channel_id p) e,
                          st_span = None, st_next = p\<lparr>psn_inner := rest\<rparr>\<rparr>))
      | Message (Some content) # rest \<Rightarrow>
          (let event = persistent_content_from (ce_uuid_parse env) content
           in Some \<lparr>st_result = event, st_msgs = [],
                    st_span =
                      (case event of
                         Ok (PsEventAppeared _ resolved) \<Rightarrow>
                           (case receive_complete (ce_trace env) (ce_context env)
                                   (Some (psn_group_name p)) resolved of
                              Ok sp \<Rightarrow> sp
                            | _ \<Rightarrow> None)
                       | _ \<Rightarrow> None),
                    st_next = p\<lparr>psn_inner := rest\<rparr>\<rparr>)
      | _ # rest \<Rightarrow>
          Some \<lparr>st_result = Panic, st_msgs = [], st_span = None, st_next = p\<lparr>psn_inner := rest\<rparr>\<rparr>)"

lemma ps_step_shorter:
  "ps_next_subscription_event env p = Some step \<Longrightarrow>
     length (psn_inner (st_next step)) < length (psn_inner p)"
  by (auto simp: ps_next_subscription_event_def Let_def split: list.splits poll.splits option.splits if_splits)

text \<open>\<open>next\<close>: confirmations are skipped; the messages of the last step are those it sent.\<close>

function ps_next ::
  "'c client_env \<Rightarrow> persistent_subscription \<Rightarrow> ('c, (error, resolved_event) outcome) ps_step option" where
  "ps_next env p =
     (case ps_next_subscription_event env p of
        None \<Rightarrow> None
      | Some step \<Rightarrow>
          (case st_result step of
             Ok (PsEventAppeared _ resolved) \<Rightarrow>
               Some \<lparr>st_result = Ok resolved, st_msgs = st_msgs step, st_span = st_span step,
                     st_next = st_next step\<rparr>
           | Ok (PsConfirmed _) \<Rightarrow> ps_next env (st_next step)
           | Err e \<Rightarrow>
               Some \<lparr>st_result = Err e, st_msgs = st_msgs step, st_span = st_span step,
                     st_next = st_next step\<rparr>
           | Panic \<Rightarrow>
               Some \<lparr>st_result = Panic, st_msgs = st_msgs step, st_span = st_span step,
                     st_next = st_next step\<rparr>))"
  by pat_completeness auto

termination
  by (relation "measure (\<lambda>(_, p). length (psn_inner p))") (auto dest: ps_step_shorter)

declare ps_next.simps [simp del]

text \<open>Sending on the request stream.\<close>

definition ack_send :: "ps_read_req \<Rightarrow> persistent_subscription \<Rightarrow> (error, unit) outcome \<times> persistent_subscription" where
  "ack_send req p =
     (if psn_open p then (Ok (), p\<lparr>psn_sent := psn_sent p @ [req]\<rparr>)
      else (Err (IllegalStateError ''Ack was ignored as the transaction no longer exists''), p))"

definition ack_ids :: "uuid list \<Rightarrow> persistent_subscription \<Rightarrow> (error, unit) outcome \<times> persistent_subscription" where
  "ack_ids ids p = ack_send (Some (PsAck \<lparr>ack_id = [], ack_ids = map uuid_into ids\<rparr>)) p"

fun nak_action_as_i32 :: "nak_action \<Rightarrow> i32" where
  "nak_action_as_i32 NakUnknown = 0"
| "nak_action_as_i32 NakPark = 1"
| "nak_action_as_i32 NakRetry = 2"
| "nak_action_as_i32 NakSkip = 3"
| "nak_action_as_i32 NakStop = 4"

definition nack_ids ::
  "uuid list \<Rightarrow> nak_action \<Rightarrow> string \<Rightarrow> persistent_subscription
     \<Rightarrow> (error, unit) outcome \<times> persistent_subscription" where
  "nack_ids ids action reason p =
     ack_send (Some (PsNack
       \<lparr>nack_id = [], nack_ids = map uuid_into ids, nack_act = nak_action_as_i32 action,
        nack_reason = reason\<rparr>)) p"

definition ps_ack_event ::
  "resolved_event \<Rightarrow> persistent_subscription \<Rightarrow> (error, unit) outcome \<times> persistent_subscription" where
  "ps_ack_event resolved p =
     (case get_original_event resolved of
        Ok original \<Rightarrow> ack_ids [re_id original] p
      | Err e \<Rightarrow> (Err e, p)
      | Panic \<Rightarrow> (Panic, p))"

definition ps_nack_event ::
  "resolved_event \<Rightarrow> nak_action \<Rightarrow> string \<Rightarrow> persistent_subscription
     \<Rightarrow> (error, unit) outcome \<times> persistent_subscription" where
  "ps_nack_event resolved action reason p =
     (case get_original_event resolved of
        Ok original \<Rightarrow> nack_ids [re_id original] action reason p
      | Err e \<Rightarrow> (Err e, p)
      | Panic \<Rightarrow> (Panic, p))"

section \<open>Facts\<close>

text \<open>What \<open>next\<close> passes over.\<close>

fun is_confirmation :: "ps_read_resp poll \<Rightarrow> bool" where
  "is_confirmation (Message (Some (PsSubscriptionConfirmation _))) = True"
| "is_confirmation _ = False"

lemma ps_next_confirmation:
  "is_confirmation x \<Longrightarrow> psn_inner p = x # rest \<Longrightarrow> ps_next env p = ps_next env (p\<lparr>psn_inner := rest\<rparr>)"
  by (cases x rule: is_confirmation.cases)
    (auto simp: ps_next.simps [of env p] ps_next_subscription_event_def Let_def)

lemma ps_next_skips:
  "\<forall>x \<in> set skipped. is_confirmation x \<Longrightarrow>
     ps_next env (p\<lparr>psn_inner := skipped @ rest\<rparr>) = ps_next env (p\<lparr>psn_inner := rest\<rparr>)"
proof (induction skipped)
  case (Cons x skipped)
  then show ?case
    using ps_next_confirmation [where x = x and p = "p\<lparr>psn_inner := x # skipped @ rest\<rparr>"
        and rest = "skipped @ rest" and env = env]
    by simp
qed simp

lemma ps_next_inner:
  "ps_next env p = ps_next env (p\<lparr>psn_inner := dropWhile is_confirmation (psn_inner p)\<rparr>)"
  using ps_next_skips [where skipped = "takeWhile is_confirmation (psn_inner p)" and p = p
      and rest = "dropWhile is_confirmation (psn_inner p)"]
  by (auto dest: set_takeWhileD)

lemma ps_next_waiting: "dropWhile is_confirmation (psn_inner p) = [] \<Longrightarrow> ps_next env p = None"
  using ps_next_inner [of env p]
  by (simp only:) (simp add: ps_next.simps ps_next_subscription_event_def)

text \<open>The step on the first answer that is no confirmation.\<close>

lemma ps_next_event:
  assumes "dropWhile is_confirmation (psn_inner p) = Message (Some (PsEvent e)) # rest"
  shows "\<exists>step. ps_next env p = Some step \<and> st_next step = p\<lparr>psn_inner := rest\<rparr>
    \<and> st_result step =
        (case persistent_event_from (ce_uuid_parse env) e of
           Ok (PsEventAppeared _ r) \<Rightarrow> Ok r
         | Ok (PsConfirmed _) \<Rightarrow> Panic | Err x \<Rightarrow> Err x | Panic \<Rightarrow> Panic)"
proof -
  have "persistent_event_from (ce_uuid_parse env) e \<noteq> Ok (PsConfirmed s)" for s
    by (auto simp: persistent_event_from_def bind_outcome_Ok_iff)
  then show ?thesis
    unfolding ps_next_inner [of env p] assms
    by (auto simp: ps_next.simps ps_next_subscription_event_def Let_def
        split: outcome.splits persistent_subscription_event.splits)
qed

lemma ps_next_final:
  assumes "dropWhile is_confirmation (psn_inner p) = x # rest"
    and "x = Closed \<or> x = Message None \<or> x = Broken st"
  shows "\<exists>step. ps_next env p = Some step \<and> (st_result step = Panic \<longleftrightarrow> x \<noteq> Broken st)
    \<and> \<not> is_ok (st_result step)"
  using assms(2)
  unfolding ps_next_inner [of env p] assms(1)
  by (auto simp: ps_next.simps ps_next_subscription_event_def Let_def)

lemma first_answer_cases:
  assumes "dropWhile is_confirmation polls = x # rest"
  obtains e where "x = Message (Some (PsEvent e))" | "x = Closed \<or> x = Message None \<or> (\<exists>st. x = Broken st)"
proof -
  have "\<not> is_confirmation x" using assms by (simp add: dropWhile_eq_Cons_conv)
  then show ?thesis using that by (cases x rule: is_confirmation.cases) auto
qed

section \<open>Properties\<close>

text \<open>
  C26. Acknowledging a delivered event acknowledges the message it came from: of everything the
  server sent, \<open>next\<close> passes over confirmations only, gives the event of the first other message,
  and an \<open>ack\<close> or \<open>nack\<close> of it sends, in the form the server reads back, the identifier of that
  message's link if it has one and of its event otherwise; a message with neither is delivered
  too, and panics the acknowledgement.
\<close>

theorem delivered_event_acknowledged:
  assumes "ps_next env p = Some step" "st_result step = Ok r" "psn_open p"
  shows "\<exists>skipped e rest. psn_inner p = skipped @ Message (Some (PsEvent e)) # rest
    \<and> (\<forall>x \<in> set skipped. is_confirmation x) \<and> psn_inner (st_next step) = rest
    \<and> (case (case pve_link e of Some l \<Rightarrow> Some l | None \<Rightarrow> pve_event e) of
         None \<Rightarrow> fst (ps_ack_event r (st_next step)) = Panic
       | Some source \<Rightarrow> \<exists>wid i. pre_id source = Some wid
           \<and> uuid_try_from (ce_uuid_parse env) wid = Ok i
           \<and> uuid_try_from (ce_uuid_parse env) (uuid_into i) = Ok i
           \<and> ps_ack_event r (st_next step) =
               (Ok (), (st_next step)\<lparr>psn_sent := psn_sent p @
                  [Some (PsAck \<lparr>ack_id = [], ack_ids = [uuid_into i]\<rparr>)]\<rparr>)
           \<and> ps_nack_event r action reason (st_next step) =
               (Ok (), (st_next step)\<lparr>psn_sent := psn_sent p @
                  [Some (PsNack \<lparr>nack_id = [], nack_ids = [uuid_into i],
                                nack_act = nak_action_as_i32 action, nack_reason = reason\<rparr>)]\<rparr>))"
proof (cases "dropWhile is_confirmation (psn_inner p)")
  case Nil
  with ps_next_waiting [of p env] assms(1) show ?thesis by simp
next
  case (Cons x rest)
  from Cons show ?thesis
  proof (cases rule: first_answer_cases)
    case (1 e)
    from ps_next_event [OF Cons [unfolded 1], of env] assms(1,2)
    obtain n where moved: "st_next step = p\<lparr>psn_inner := rest\<rparr>"
      and event: "persistent_event_from (ce_uuid_parse env) e = Ok (PsEventAppeared n r)"
      by (auto split: outcome.splits persistent_subscription_event.splits)
    have split: "psn_inner p = takeWhile is_confirmation (psn_inner p) @ Message (Some (PsEvent e)) # rest"
      using takeWhile_dropWhile_id [of is_confirmation "psn_inner p"] Cons 1 by simp
    show ?thesis
      using assms(3) event
      by (intro exI [of _ "takeWhile is_confirmation (psn_inner p)"] exI [of _ e] exI [of _ rest]
          conjI split)
        (auto simp: moved dest!: set_takeWhileD
          simp: persistent_event_from_def bind_outcome_Ok_iff map_ok_Ok_iff recorded_event_from_ps_def
            recorded_event_from_Ok streams_event_from_def ps_ack_event_def ps_nack_event_def
            get_original_event_def ack_ids_def nack_ids_def ack_send_def
          split: option.splits)
  next
    case 2
    then obtain st where "x = Closed \<or> x = Message None \<or> x = Broken st" by blast
    from ps_next_final [OF Cons this, of env] assms(1,2) show ?thesis by auto
  qed
qed

lemma delivered_event_acknowledged_witness:
  "let e = \<lparr>pve_event = None,
        pve_link = Some \<lparr>pre_id = Some (uuid_into 7), pre_stream_identifier = Some \<lparr>stream_name = ''s''\<rparr>,
          pre_stream_revision = 0, pre_prepare_position = 0, pre_commit_position = 0, pre_metadata = [],
          pre_custom_metadata = [], pre_data = []\<rparr>,
        pve_position = None, pve_count = None\<rparr>;
      p = \<lparr>psn_channel_id = 1,
        psn_inner = [Message (Some (PsSubscriptionConfirmation ''s::g'')), Message (Some (PsEvent e))],
        psn_group_name = ''g'', psn_sent = [], psn_open = True\<rparr>
   in \<exists>step r. ps_next plain_client_env p = Some step \<and> st_result step = Ok r
      \<and> psn_inner (st_next step) = []"
proof -
  define e where "e = \<lparr>pve_event = None,
      pve_link = Some \<lparr>pre_id = Some (uuid_into 7), pre_stream_identifier = Some \<lparr>stream_name = ''s''\<rparr>,
        pre_stream_revision = 0, pre_prepare_position = 0, pre_commit_position = 0, pre_metadata = [],
        pre_custom_metadata = [], pre_data = []\<rparr>,
      pve_position = None, pve_count = None\<rparr>"
  define p where "p = \<lparr>psn_channel_id = 1,
      psn_inner = [Message (Some (PsSubscriptionConfirmation ''s::g'')), Message (Some (PsEvent e))],
      psn_group_name = ''g'', psn_sent = [], psn_open = True\<rparr>"
  have "\<exists>n r. persistent_event_from (ce_uuid_parse plain_client_env) e = Ok (PsEventAppeared n r)"
    by (simp add: e_def persistent_event_from_def recorded_event_from_ps_def streams_event_from_def
        recorded_event_from_def Let_def)
  then obtain step r where step: "ps_next plain_client_env p = Some step" "st_result step = Ok r"
    using ps_next_event [where p = p and e = e and rest = "[]" and env = plain_client_env]
    by (auto simp: p_def)
  have "psn_inner (st_next step) = []"
    using delivered_event_acknowledged [OF step, where action = NakPark and reason = "''poison''"]
    by (auto simp: p_def Cons_eq_append_conv)
  with step show ?thesis by (auto simp: Let_def p_def e_def)
qed

text \<open>
  C27. A group's reader and the end of its stream. \<open>next\<close> waits exactly while the server has sent
  confirmations only; it panics when the server closes the stream in an orderly way or sends an
  answer without content, and when an event does not convert; a broken stream is an error.
\<close>

theorem persistent_next_panics:
  "(ps_next env p = None \<longleftrightarrow> dropWhile is_confirmation (psn_inner p) = [])
   \<and> (map_option st_result (ps_next env p) = Some Panic \<longleftrightarrow>
        (case dropWhile is_confirmation (psn_inner p) of
           [] \<Rightarrow> False
         | Closed # _ \<Rightarrow> True
         | Broken _ # _ \<Rightarrow> False
         | Message None # _ \<Rightarrow> True
         | Message (Some (PsEvent e)) # _ \<Rightarrow> persistent_event_from (ce_uuid_parse env) e = Panic
         | Message (Some (PsSubscriptionConfirmation _)) # _ \<Rightarrow> False))"
proof (cases "dropWhile is_confirmation (psn_inner p)")
  case Nil
  then show ?thesis using ps_next_waiting [OF Nil, of env] by (simp only: list.case) simp
next
  case (Cons x rest)
  from Cons show ?thesis
  proof (cases rule: first_answer_cases)
    case (1 e)
    have "persistent_event_from (ce_uuid_parse env) e \<noteq> Ok (PsConfirmed s)" for s
      by (auto simp: persistent_event_from_def bind_outcome_Ok_iff)
    with ps_next_event [OF Cons [unfolded 1], of env] show ?thesis
      unfolding Cons 1 by (auto split: outcome.splits persistent_subscription_event.splits)
  next
    case 2
    then obtain st where "x = Closed \<or> x = Message None \<or> x = Broken st" by blast
    with ps_next_final [OF Cons this, of env] show ?thesis unfolding Cons by auto
  qed
qed

text \<open>
  The buffer size asked for travels as the low 32 bits of the number of the options: a
  subscription made has sent its options and nothing else, and the size in them, read as the
  signed number it is, is the one asked for exactly when that is below \<open>2 ^ 31\<close>.
\<close>

theorem buffer_size_narrowed:
  assumes "fst (subscribe_to_persistent_subscription env s node rpc stream consumer_group opts to_all) = Ok p"
  shows "\<exists>o1. psn_sent p = [Some (PsOptions o1)] \<and> pro_group_name o1 = consumer_group
    \<and> pro_stream_option o1 = Some (group_stream_option stream to_all)
    \<and> psn_open p \<and> - (2 ^ 31) \<le> sint (pro_buffer_size o1) \<and> sint (pro_buffer_size o1) < 2 ^ 31
    \<and> (sint (pro_buffer_size o1) = uint (sp_buffer_size opts) \<longleftrightarrow> sp_buffer_size opts < 2 ^ 31)"
  using assms
  by (auto simp: subscribe_to_persistent_subscription_def send_request_def call_node_def Let_def
      u64_as_i32_exact u64_as_i32_range [simplified] split: outcome.splits if_splits)


lemma buffer_size_narrowed_witness:
  "\<exists>p. fst (subscribe_to_persistent_subscription plain_client_env client_settings_default
       (Ok (\<lparr>h_id = 1, h_uri = [], h_endpoint = \<lparr>ep_host = ''h'', ep_port = 1\<rparr>, h_secure = False,
             h_server_info = server_info_default\<rparr>))
       (\<lambda>_ _ _. Ok []) (NameStr ''s'') ''g'' (subscribe_to_ps_buffer_size (2 ^ 31) subscribe_to_ps_options_default)
       False) = Ok p
    \<and> (\<exists>o1. psn_sent p = [Some (PsOptions o1)] \<and> sint (pro_buffer_size o1) \<noteq> 2 ^ 31)"
proof -
  let ?h = "\<lparr>h_id = 1, h_uri = [], h_endpoint = \<lparr>ep_host = ''h'', ep_port = 1\<rparr>, h_secure = False,
             h_server_info = server_info_default\<rparr>"
  let ?opts = "subscribe_to_ps_buffer_size (2 ^ 31) subscribe_to_ps_options_default"
  have "\<exists>p. fst (subscribe_to_persistent_subscription plain_client_env client_settings_default (Ok ?h)
      (\<lambda>_ _ _. Ok []) (NameStr ''s'') ''g'' ?opts False) = Ok p"
    using plain_request_Ok [of client_settings_default subscribe_to_ps_kind ?opts "()"]
    by (auto simp: subscribe_to_persistent_subscription_def send_request_def call_node_def
        plain_client_env_def client_settings_default_def)
  then obtain p where p: "fst (subscribe_to_persistent_subscription plain_client_env client_settings_default
      (Ok ?h) (\<lambda>_ _ _. Ok []) (NameStr ''s'') ''g'' ?opts False) = Ok p" by blast
  from buffer_size_narrowed [OF p] show ?thesis
    using p by (auto simp: subscribe_to_ps_buffer_size_def)
qed

end
