(* ===== verification/Management.thy ===== *)
theory Management
  imports PersistentSub
begin

text \<open>
  Managing the groups of persistent subscriptions (\<open>commands.rs\<close>): listing them, reading one,
  replaying its parked messages and restarting the subsystem. A node with the management calls is
  asked over gRPC; any other over HTTP (theory \<open>Http\<close>), and what that reports is not told to the
  connection.
\<close>

section \<open>Reading information\<close>

text \<open>\<open>sub.map(|i| selector.select(i))\<close>, which panics when the selector does.\<close>

definition ps_info_select :: "('a \<Rightarrow> 'b option) \<Rightarrow> 'a ps_info \<Rightarrow> (error, 'b ps_info) outcome" where
  "ps_info_select sel info =
     (let chosen = ps_info_map sel info
      in if map_option ps_start_from (pi_settings chosen) = Some (At None) then Panic
         else Ok (ps_info_map the chosen))"

definition kind_option :: "stream_kind \<Rightarrow> ps_stream_option" where
  "kind_option kind =
     (if is_all kind then PsAll else PsStream \<lparr>stream_name = kind_name kind\<rparr>)"

definition internal_list_persistent_subscriptions ::
  "'c client_env \<Rightarrow> nom_lib \<Rightarrow> client_settings \<Rightarrow> handle
     \<Rightarrow> (handle \<Rightarrow> list_option option option request \<Rightarrow> (status, subscription_info list) outcome)
     \<Rightarrow> options \<Rightarrow> (revision_or_position \<Rightarrow> 'a option) \<Rightarrow> list_option
     \<Rightarrow> (error, 'a ps_info list) outcome \<times> msg list" where
  "internal_list_persistent_subscriptions env nl s h rpc opts sel list_option =
     send_request h (new_request (ce_request env) s Regular opts (Some (Some list_option))) (rpc h)
       (collect (\<lambda>info. bind_outcome (subscription_info_try_from nl info) (ps_info_select sel)))"

section \<open>The commands\<close>

definition list_all_persistent_subscriptions ::
  "'c client_env \<Rightarrow> http_env \<Rightarrow> client_settings \<Rightarrow> (error, handle) outcome
     \<Rightarrow> (handle \<Rightarrow> list_option option option request \<Rightarrow> (status, subscription_info list) outcome)
     \<Rightarrow> options \<Rightarrow> (error, revision_or_position ps_info list) outcome \<times> msg list" where
  "list_all_persistent_subscriptions env http s node rpc opts =
     (case node of
        Ok h \<Rightarrow>
          (if \<not> supports_feature h PERSISTENT_SUBSCRIPTION_MANAGEMENT
           then (http_list_all_persistent_subscriptions http s h opts, [])
           else internal_list_persistent_subscriptions env (ht_nom http) s h rpc opts select_both
                  ListAllSubscriptions)
      | Err e \<Rightarrow> (Err e, [])
      | Panic \<Rightarrow> (Panic, []))"

text \<open>The stream's kind and its selector are one value in the code.\<close>

definition list_persistent_subscriptions_for_stream ::
  "'c client_env \<Rightarrow> http_env \<Rightarrow> client_settings \<Rightarrow> (error, handle) outcome
     \<Rightarrow> (handle \<Rightarrow> list_option option option request \<Rightarrow> (status, subscription_info list) outcome)
     \<Rightarrow> stream_kind \<Rightarrow> (revision_or_position \<Rightarrow> 'a option) \<Rightarrow> options
     \<Rightarrow> (error, 'a ps_info list) outcome \<times> msg list" where
  "list_persistent_subscriptions_for_stream env http s node rpc kind sel opts =
     (case node of
        Ok h \<Rightarrow>
          (if \<not> supports_feature h PERSISTENT_SUBSCRIPTION_MANAGEMENT then
             (if is_all kind \<and> \<not> supports_feature h PERSISTENT_SUBSCRIPITON_TO_ALL
              then (Err UnsupportedFeature, [])
              else (http_list_persistent_subscriptions_for_stream http s h kind sel opts, []))
           else internal_list_persistent_subscriptions env (ht_nom http) s h rpc opts sel
                  (ListForStream (Some (kind_option kind))))
      | Err e \<Rightarrow> (Err e, [])
      | Panic \<Rightarrow> (Panic, []))"

definition replay_parked_messages ::
  "'c client_env \<Rightarrow> http_env \<Rightarrow> client_settings \<Rightarrow> (error, handle) outcome
     \<Rightarrow> (handle \<Rightarrow> replay_options option request \<Rightarrow> (status, unit) outcome)
     \<Rightarrow> stream_kind \<Rightarrow> string \<Rightarrow> replay_parked_options \<Rightarrow> (error, unit) outcome \<times> msg list" where
  "replay_parked_messages env http s node rpc kind consumer_group opts =
     (case node of
        Ok h \<Rightarrow>
          (if \<not> supports_feature h PERSISTENT_SUBSCRIPTION_MANAGEMENT then
             (if is_all kind \<and> \<not> supports_feature h PERSISTENT_SUBSCRIPITON_TO_ALL
              then (Err UnsupportedFeature, [])
              else (http_replay_parked_messages http s h (kind_name kind) consumer_group opts, []))
           else send_request h
             (new_request (ce_request env) s Regular opts
               (Some \<lparr>rp_group_name = consumer_group,
                     rp_stream_option = Some (kind_option kind),
                     rp_stop_at_option = Some
                       (case rpo_stop_at opts of Some v \<Rightarrow> StopAt v | None \<Rightarrow> NoLimit)\<rparr>))
             (rpc h) (\<lambda>_. Ok ()))
      | Err e \<Rightarrow> (Err e, [])
      | Panic \<Rightarrow> (Panic, []))"

definition get_persistent_subscription_info ::
  "'c client_env \<Rightarrow> http_env \<Rightarrow> client_settings \<Rightarrow> (error, handle) outcome
     \<Rightarrow> (handle \<Rightarrow> ps_group_options option request \<Rightarrow> (status, subscription_info option) outcome)
     \<Rightarrow> stream_kind \<Rightarrow> (revision_or_position \<Rightarrow> 'a option) \<Rightarrow> string \<Rightarrow> options
     \<Rightarrow> (error, 'a ps_info) outcome \<times> msg list" where
  "get_persistent_subscription_info env http s node rpc kind sel consumer_group opts =
     (case node of
        Ok h \<Rightarrow>
          (if \<not> supports_feature h PERSISTENT_SUBSCRIPTION_MANAGEMENT then
             (if is_all kind \<and> \<not> supports_feature h PERSISTENT_SUBSCRIPITON_TO_ALL
              then (Err UnsupportedFeature, [])
              else (http_get_persistent_subscription_info http s h kind sel consumer_group opts, []))
           else send_request h
             (new_request (ce_request env) s Regular opts
               (Some \<lparr>pg_group_name = consumer_group, pg_stream_option = Some (kind_option kind)\<rparr>))
             (rpc h)
             (\<lambda>resp. case resp of
                Some info \<Rightarrow> bind_outcome (subscription_info_try_from (ht_nom http) info) (ps_info_select sel)
              | None \<Rightarrow> Err ResourceNotFound))
      | Err e \<Rightarrow> (Err e, [])
      | Panic \<Rightarrow> (Panic, []))"

definition restart_persistent_subscription_subsystem ::
  "'c client_env \<Rightarrow> http_env \<Rightarrow> client_settings \<Rightarrow> (error, handle) outcome
     \<Rightarrow> (handle \<Rightarrow> unit request \<Rightarrow> (status, unit) outcome)
     \<Rightarrow> options \<Rightarrow> (error, unit) outcome \<times> msg list" where
  "restart_persistent_subscription_subsystem env http s node rpc opts =
     (case node of
        Ok h \<Rightarrow>
          (if \<not> supports_feature h PERSISTENT_SUBSCRIPTION_MANAGEMENT
           then (http_restart_persistent_subscription_subsystem http s h opts, [])
           else send_request h (new_request (ce_request env) s Regular opts ()) (rpc h) (\<lambda>_. Ok ()))
      | Err e \<Rightarrow> (Err e, [])
      | Panic \<Rightarrow> (Panic, []))"


section \<open>Facts\<close>

text \<open>The shape of a result that was reported as the interface \<open>node_command\<close> asks.\<close>

definition reported :: "handle \<Rightarrow> (error, 'a) outcome \<times> msg list \<Rightarrow> bool" where
  "reported h r \<longleftrightarrow> snd r = (case fst r of Err e \<Rightarrow> handle_error (h_id h) e | _ \<Rightarrow> [])"

lemma reported_plain [simp]:
  "reported h (Panic, [])" "reported h (Ok a, [])"
  "reported h (Err e, []) \<longleftrightarrow> handle_error (h_id h) e = []"
  by (auto simp: reported_def)

lemma reported_send [simp]:
  assumes "\<And>a e. k a = Err e \<Longrightarrow> handle_error (h_id h) e = []" "\<And>e. request \<noteq> Err e"
  shows "reported h (send_request h request rpc k)"
  using assms call_node_reports [of k h, OF assms(1)]
  by (auto simp: send_request_def reported_def split: outcome.splits)

lemma node_command_reported:
  assumes "\<And>h. reported h (run (Ok h))" "\<And>e. run (Err e) = (Err e, [])" "run Panic = (Panic, [])"
  shows "node_command run"
proof
  show "snd (run node) = [] \<and> \<not> is_ok (fst (run node))" if "\<not> is_ok node" for node
    using that assms(2,3) by (cases node) auto
qed (use assms(1) in \<open>simp add: reported_def\<close>)

lemma ps_info_select_not_Err [simp]: "ps_info_select sel info \<noteq> Err e"
  by (simp add: ps_info_select_def Let_def)

lemma subscription_info_Err:
  "subscription_info_try_from nl info = Err e \<Longrightarrow> \<exists>m. e = InternalParsingError m"
  by (auto simp: subscription_info_try_from_def bind_outcome_Err_iff parse_stream_position_def
      parse_revision_or_position_def map_ok_Err_iff split: if_splits outcome.splits)

lemma read_info_Err:
  "bind_outcome (subscription_info_try_from nl info) (ps_info_select sel) = Err e \<Longrightarrow>
     handle_error i e = []"
  by (auto simp: bind_outcome_Err_iff dest!: subscription_info_Err)

lemma collect_Err: "collect f xs = Err e \<Longrightarrow> \<exists>x \<in> set xs. f x = Err e"
  by (induction f xs rule: collect.induct) (auto simp: bind_outcome_Err_iff map_ok_Err_iff split: outcome.splits)

lemma named_strategy_Err: "named_consumer_strategy_as_i32 s = Err e \<Longrightarrow> e = UnsupportedFeature"
  by (auto simp: named_consumer_strategy_as_i32_def split: consumer_strategy.splits)



text \<open>The commands on the group itself always go over gRPC, and have the interface of a command.\<close>

interpretation delete_group:
  node_command "\<lambda>node. delete_persistent_subscription env s node rpc stream consumer_group opts to_all"
  for env :: "'c client_env" and s rpc stream consumer_group opts to_all
  by (rule node_command_reported)
    (auto simp: delete_persistent_subscription_def intro!: reported_send)

interpretation join_group:
  node_command "\<lambda>node. subscribe_to_persistent_subscription env s node rpc stream consumer_group opts to_all"
  for env :: "'c client_env" and s rpc stream consumer_group opts to_all
  by (rule node_command_reported)
    (auto simp: subscribe_to_persistent_subscription_def Let_def intro!: reported_send)

interpretation create_group:
  node_command "\<lambda>node. create_persistent_subscription env s trait node rpc stream consumer_group opts"
  for env :: "'c client_env" and s and trait :: "('m options_scheme, 'a) ps_options_trait"
    and rpc stream consumer_group opts
  by (rule node_command_reported)
    (auto simp: create_persistent_subscription_def create_settings_try_from_def Let_def
      map_ok_Err_iff bind_outcome_Err_iff dest!: named_strategy_Err intro!: reported_send split: outcome.splits)

interpretation update_group:
  node_command "\<lambda>node. update_persistent_subscription env s trait node rpc stream consumer_group opts"
  for env :: "'c client_env" and s and trait :: "('m options_scheme, 'a) ps_options_trait"
    and rpc stream consumer_group opts
  by (rule node_command_reported)
    (auto simp: update_persistent_subscription_def update_settings_try_from_def Let_def
      map_ok_Err_iff bind_outcome_Err_iff dest!: named_strategy_Err intro!: reported_send split: outcome.splits)

section \<open>Properties\<close>

text \<open>What a management command on a node tells the connection.\<close>

definition management_told :: "handle \<Rightarrow> (error, 'a) outcome \<Rightarrow> msg list" where
  "management_told h result =
     (if supports_feature h PERSISTENT_SUBSCRIPTION_MANAGEMENT
      then (case result of Err e \<Rightarrow> handle_error (h_id h) e | _ \<Rightarrow> [])
      else [])"

lemma management_told_iff:
  "snd r = management_told h (fst r) \<longleftrightarrow>
     (if supports_feature h PERSISTENT_SUBSCRIPTION_MANAGEMENT then reported h r else snd r = [])"
  by (simp add: management_told_def reported_def)

lemma internal_list_reported:
  "reported h (internal_list_persistent_subscriptions env nl s h rpc opts sel lo)"
  unfolding internal_list_persistent_subscriptions_def
  by (rule reported_send) (auto dest!: collect_Err read_info_Err)

text \<open>
  C28. Management and the connection: whichever of the five commands runs, a node with the
  management calls is reported when it fails as unavailable or names a leader; one without is
  never reported, since no failure of an HTTP call reaches the connection, not even that the node
  is gone.
\<close>

theorem management_reports:
  "(let r = list_all_persistent_subscriptions env http s (Ok h) rpc1 o1
    in snd r = management_told h (fst r))
   \<and> (let r = list_persistent_subscriptions_for_stream env http s (Ok h) rpc1 kind sel o1
      in snd r = management_told h (fst r))
   \<and> (let r = replay_parked_messages env http s (Ok h) rpc2 kind consumer_group o2
      in snd r = management_told h (fst r))
   \<and> (let r = get_persistent_subscription_info env http s (Ok h) rpc3 kind sel consumer_group o1
      in snd r = management_told h (fst r))
   \<and> (let r = restart_persistent_subscription_subsystem env http s (Ok h) rpc4 o1
      in snd r = management_told h (fst r))"
  unfolding Let_def management_told_iff
  by (auto simp: internal_list_reported list_all_persistent_subscriptions_def
      list_persistent_subscriptions_for_stream_def replay_parked_messages_def
      get_persistent_subscription_info_def restart_persistent_subscription_subsystem_def
      dest: read_info_Err intro!: reported_send split: option.splits)

text \<open>
  The same group of one stream, reported over gRPC and over HTTP: the same texts, the same
  integers at their two widths, the same checkpoints.
\<close>

definition same_configuration :: "subscription_info \<Rightarrow> ps_config \<Rightarrow> bool" where
  "same_configuration si c \<longleftrightarrow>
     pc_resolve_linktos c = si_resolve_link_tos si
   \<and> pc_message_timeout_milliseconds c = scast (si_message_timeout_milliseconds si)
   \<and> pc_extra_statistics c = si_extra_statistics si
   \<and> pc_max_retry_count c = scast (si_max_retry_count si)
   \<and> pc_live_buffer_size c = scast (si_live_buffer_size si)
   \<and> pc_buffer_size c = scast (si_buffer_size si)
   \<and> pc_read_batch_size c = scast (si_read_batch_size si)
   \<and> pc_checkpoint_after_milliseconds c = scast (si_check_point_after_milliseconds si)
   \<and> pc_min_checkpoint_count c = scast (si_min_check_point_count si)
   \<and> pc_max_checkpoint_count c = scast (si_max_check_point_count si)
   \<and> pc_max_subscriber_count c = scast (si_max_subscriber_count si)
   \<and> pc_named_consumer_strategy c = consumer_strategy_from_string (si_named_consumer_strategy si)"

definition same_statistics :: "subscription_info \<Rightarrow> ps_info_http_json \<Rightarrow> bool" where
  "same_statistics si ph \<longleftrightarrow>
     ph_average_items_per_second ph = f64_of_i32 (si_average_per_second si)
   \<and> ph_total_items_processed ph = si_total_items si
   \<and> ph_count_since_last_measurement ph = si_count_since_last_measurement si
   \<and> ph_total_in_flight_messages ph = scast (si_total_in_flight_messages si)
   \<and> ph_read_buffer_count ph = scast (si_read_buffer_count si)
   \<and> ph_live_buffer_count ph = si_live_buffer_count si
   \<and> ph_retry_buffer_count ph = scast (si_retry_buffer_count si)
   \<and> ph_outstanding_messages_count ph = scast (si_outstanding_messages_count si)
   \<and> ph_parked_message_count ph = si_parked_message_count si"

definition reports_same_group :: "nom_lib \<Rightarrow> subscription_info \<Rightarrow> ps_info_http_json \<Rightarrow> bool" where
  "reports_same_group nl si ph \<longleftrightarrow>
     si_event_source si \<noteq> ''$all'' \<and> ph_event_stream_id ph = si_event_source si
   \<and> ph_group_name ph = si_group_name si \<and> ph_status ph = si_status si
   \<and> ph_connections ph = map connection_info_from (si_connections si)
   \<and> same_statistics si ph
   \<and> parse_revision_or_position nl (si_last_checkpointed_event_position si) =
       Ok (Revision (ph_last_processed_event_number ph))
   \<and> parse_revision_or_position nl (si_last_known_event_position si) =
       Ok (Revision (ph_last_known_event_number ph))
   \<and> (case ph_config ph of
        None \<Rightarrow> False
      | Some c \<Rightarrow> same_configuration si c
          \<and> parse_stream_position nl (si_start_from si) = Ok (pc_start_from c))"

lemma ucast_scast_i32 [simp]: "ucast (scast (x :: i32) :: i64) = x"
  by (rule bit_word_eqI) (simp add: bit_unsigned_iff bit_signed_iff)

lemma same_information:
  assumes "reports_same_group (ht_nom env) si ph"
  shows "bind_outcome (subscription_info_try_from (ht_nom env) si) (ps_info_select sel) = from_http_info env sel ph"
proof -
  from assms obtain c where config: "ph_config ph = Some c" "same_configuration si c"
    and start: "parse_stream_position (ht_nom env) (si_start_from si) = Ok (pc_start_from c)"
    by (auto simp: reports_same_group_def split: option.splits)
  have stats: "http_stats env ph = Ok (subscription_info_stats (ht_nom env) si)"
    using assms
    by (simp add: reports_same_group_def same_statistics_def http_stats_def
        subscription_info_stats_def checkpoint_texts_def i32_as_usize_def Let_def)
  have settings: "\<forall>start. http_settings c start =
      \<lparr>ps_resolve_link_tos = si_resolve_link_tos si, ps_start_from = start,
       ps_extra_statistics = si_extra_statistics si,
       ps_message_timeout = from_millis (scast (si_message_timeout_milliseconds si)),
       ps_max_retry_count = si_max_retry_count si, ps_live_buffer_size = si_live_buffer_size si,
       ps_read_batch_size = si_read_batch_size si, ps_history_buffer_size = si_buffer_size si,
       ps_checkpoint_after = from_millis (scast (si_check_point_after_milliseconds si)),
       ps_checkpoint_lower_bound = si_min_check_point_count si,
       ps_checkpoint_upper_bound = si_max_check_point_count si,
       ps_max_subscriber_count = si_max_subscriber_count si,
       ps_consumer_strategy_name = consumer_strategy_from_string (si_named_consumer_strategy si)\<rparr>"
    using config(2) by (simp add: http_settings_def same_configuration_def)
  have http: "from_http_info env sel ph = bind_outcome (select_start sel (pc_start_from c)) (\<lambda>start.
      Ok \<lparr>pi_event_source = si_event_source si, pi_group_name = si_group_name si,
          pi_status = si_status si, pi_connections = map connection_info_from (si_connections si),
          pi_settings = Some (http_settings c start),
          pi_stats = subscription_info_stats (ht_nom env) si\<rparr>)"
    using assms
    by (cases "select_start sel (pc_start_from c)")
      (simp_all add: from_http_info_def config stats reports_same_group_def)
  show ?thesis
    unfolding http
    by (cases "pc_start_from c")
      (auto simp: settings subscription_info_try_from_def start ps_info_select_def ps_info_map_def
        ps_settings_map_def Let_def split: option.splits)
qed

lemma same_informations:
  "list_all2 (reports_same_group (ht_nom env)) infos phs \<Longrightarrow>
     collect (\<lambda>info. bind_outcome (subscription_info_try_from (ht_nom env) info) (ps_info_select sel)) infos =
     collect (from_http_info env sel) phs"
  by (induction rule: list_all2_induct) (simp_all add: same_information)


text \<open>One group as two servers report it, for a concrete run.\<close>

definition local_node :: "features \<Rightarrow> handle" where
  "local_node fs =
     \<lparr>h_id = 1, h_uri = ''http://localhost:2113'', h_endpoint = \<lparr>ep_host = ''localhost'', ep_port = 2113\<rparr>,
      h_secure = False, h_server_info = \<lparr>si_version = server_version_default, si_features = fs\<rparr>\<rparr>"

definition listed_group :: subscription_info where
  "listed_group =
     \<lparr>si_event_source = ''orders'', si_group_name = ''billing'', si_status = ''Live'', si_connections = [],
      si_average_per_second = 0, si_total_items = 12, si_count_since_last_measurement = 3,
      si_last_checkpointed_event_position = show_u64 7, si_last_known_event_position = show_u64 11,
      si_resolve_link_tos = True, si_start_from = ''-1'', si_message_timeout_milliseconds = 30000,
      si_extra_statistics = False, si_max_retry_count = 10, si_live_buffer_size = 500, si_buffer_size = 500,
      si_read_batch_size = 20, si_check_point_after_milliseconds = 2000, si_min_check_point_count = 10,
      si_max_check_point_count = 1000, si_read_buffer_count = 0, si_live_buffer_count = 0,
      si_retry_buffer_count = 0, si_total_in_flight_messages = 1, si_outstanding_messages_count = 1,
      si_named_consumer_strategy = ''RoundRobin'', si_max_subscriber_count = 0, si_parked_message_count = 0\<rparr>"

definition listed_json :: ps_info_http_json where
  "listed_json =
     \<lparr>ph_event_stream_id = ''orders'', ph_group_name = ''billing'', ph_status = ''Live'',
      ph_average_items_per_second = f64_of_i32 0, ph_total_items_processed = 12,
      ph_last_processed_event_number = 7, ph_last_checkpointed_event_position = None,
      ph_last_known_event_position = None, ph_last_known_event_number = 11, ph_connection_count = 0,
      ph_total_in_flight_messages = 1,
      ph_config = Some \<lparr>pc_resolve_linktos = True, pc_start_from = End, pc_start_position = [],
        pc_message_timeout_milliseconds = 30000, pc_extra_statistics = False, pc_max_retry_count = 10,
        pc_live_buffer_size = 500, pc_buffer_size = 500, pc_read_batch_size = 20,
        pc_prefer_round_robin = True, pc_checkpoint_after_milliseconds = 2000,
        pc_min_checkpoint_count = 10, pc_max_checkpoint_count = 1000, pc_max_subscriber_count = 0,
        pc_named_consumer_strategy = RoundRobin\<rparr>,
      ph_read_buffer_count = 0, ph_live_buffer_count = 0, ph_retry_buffer_count = 0,
      ph_outstanding_messages_count = 1, ph_parked_message_count = 0,
      ph_count_since_last_measurement = 3, ph_connections = []\<rparr>"

definition listing_http :: http_env where
  "listing_http =
     \<lparr>ht_send = (\<lambda>_. Answered 200 ''[..]''), ht_encode = (\<lambda>s. s), ht_utf8_lossy = (\<lambda>b. b),
      ht_reason = (\<lambda>_. []), ht_json_info = (\<lambda>_. Ok listed_json),
      ht_json_infos = (\<lambda>_. Ok [listed_json]), ht_nom = nom_ref\<rparr>"

lemma listed_same: "reports_same_group (ht_nom listing_http) listed_group listed_json"
  by (simp add: reports_same_group_def same_statistics_def same_configuration_def listed_group_def
      listed_json_def parse_revision_or_position_def parse_stream_position_def
      consumer_strategy_from_string_def)


end
