(* ===== verification/Projection.thy ===== *)
theory Projection
  imports Command Json "HOL-Library.List_Lexorder" "HOL-Library.Char_ord"
begin

text \<open>
  Projections (\<open>projection_client.rs\<close> with the messages of
  \<open>event_store/generated/projections.rs\<close>): the requests, the stream of statistics, and
  \<open>parse_value\<close>, which turns a protobuf value into a JSON one with a stack of its own instead of
  recursion. A command builds its request before it asks for a node. Deserializing the JSON value
  into the caller's type is a parameter.
\<close>

section \<open>Messages\<close>

record continuous_projection =
  cp_name :: string
  cp_track_emitted_streams :: bool

datatype create_mode = OneTime | TransientMode string | Continuous continuous_projection

record create_projection_req =
  cpr_query :: string
  cpr_engine_version :: i32
  cpr_mode :: "create_mode option"

datatype emit_option = EmitEnabled bool | NoEmitOptions

record update_projection_req =
  upr_name :: string
  upr_query :: string
  upr_emit_option :: "emit_option option"

record delete_projection_req =
  dpr_name :: string
  dpr_delete_emitted_streams :: bool
  dpr_delete_state_stream :: bool
  dpr_delete_checkpoint_stream :: bool

datatype statistics_mode = StatsName string | StatsAll | StatsTransient | StatsContinuous | StatsOneTime

text \<open>The options of reset and disable, of enable, and of state and result.\<close>

record checkpoint_req =
  ckr_name :: string
  ckr_write_checkpoint :: bool

record partition_req =
  pr_name :: string
  pr_partition :: string

text \<open>The details of a projection, as the server sends them; an \<open>f32\<close> is read as the number it is.\<close>

record statistics_details =
  sd_core_processing_time :: i64
  sd_version :: i64
  sd_epoch :: i64
  sd_effective_name :: string
  sd_writes_in_progress :: i32
  sd_reads_in_progress :: i32
  sd_partitions_cached :: i32
  sd_status :: string
  sd_state_reason :: string
  sd_name :: string
  sd_mode :: string
  sd_position :: string
  sd_progress :: f64
  sd_last_checkpoint :: string
  sd_events_processed_after_restart :: i64
  sd_checkpoint_status :: string
  sd_buffered_events :: i64
  sd_write_pending_events_before_checkpoint :: i32
  sd_write_pending_events_after_checkpoint :: i32

type_synonym statistics_resp = "statistics_details option"

section \<open>Projections\<close>

datatype stats_for = ForName string | AllProjections | AllContinuous

record projection_status =
  pjs_core_processing_time :: i64
  pjs_version :: i64
  pjs_epoch :: i64
  pjs_effective_name :: string
  pjs_writes_in_progress :: i32
  pjs_reads_in_progress :: i32
  pjs_partitions_cached :: i32
  pjs_status :: string
  pjs_state_reason :: string
  pjs_name :: string
  pjs_mode :: string
  pjs_position :: string
  pjs_progress :: f64
  pjs_last_checkpoint :: string
  pjs_events_processed_after_restart :: i64
  pjs_checkpoint_status :: string
  pjs_buffered_events :: i64
  pjs_write_pending_events_before_checkpoint :: i32
  pjs_write_pending_events_after_checkpoint :: i32

definition create_projection_internal ::
  "'c client_env \<Rightarrow> client_settings \<Rightarrow> (error, handle) outcome
     \<Rightarrow> (handle \<Rightarrow> create_projection_req option request \<Rightarrow> (status, unit) outcome)
     \<Rightarrow> 'm options_scheme \<Rightarrow> create_projection_req \<Rightarrow> (error, unit) outcome \<times> msg list" where
  "create_projection_internal env s node rpc create_opts req_options =
     execute_request (new_request (ce_request env) s Regular create_opts (Some req_options)) node rpc"

definition update_projection ::
  "'c client_env \<Rightarrow> client_settings \<Rightarrow> (error, handle) outcome
     \<Rightarrow> (handle \<Rightarrow> update_projection_req option request \<Rightarrow> (status, unit) outcome)
     \<Rightarrow> string \<Rightarrow> string \<Rightarrow> update_projection_options \<Rightarrow> (error, unit) outcome \<times> msg list" where
  "update_projection env s node rpc name query opts =
     execute_request
       (new_request (ce_request env) s Regular opts
         (Some \<lparr>upr_name = name, upr_query = query,
               upr_emit_option = Some
                 (case upo_emit opts of Some b \<Rightarrow> EmitEnabled b | None \<Rightarrow> NoEmitOptions)\<rparr>))
       node rpc"

definition create_projection_request :: "string \<Rightarrow> string \<Rightarrow> create_projection_options \<Rightarrow> create_projection_req" where
  "create_projection_request name query opts =
     \<lparr>cpr_query = query, cpr_engine_version = engine_version_as_i32 (cpo_engine_version opts),
      cpr_mode = Some (Continuous
        \<lparr>cp_name = name, cp_track_emitted_streams = cpo_track_emitted_streams opts\<rparr>)\<rparr>"

text \<open>Creating asks for a node twice when events are to be emitted: for the call and for the update.\<close>

definition create_projection ::
  "'c client_env \<Rightarrow> client_settings \<Rightarrow> (error, handle) outcome \<Rightarrow> (error, handle) outcome
     \<Rightarrow> (handle \<Rightarrow> create_projection_req option request \<Rightarrow> (status, unit) outcome)
     \<Rightarrow> (handle \<Rightarrow> update_projection_req option request \<Rightarrow> (status, unit) outcome)
     \<Rightarrow> string \<Rightarrow> string \<Rightarrow> create_projection_options \<Rightarrow> (error, unit) outcome \<times> msg list" where
  "create_projection env s node1 node2 create_rpc update_rpc name query opts =
     (case create_projection_internal env s node1 create_rpc opts
          (create_projection_request name query opts) of
        (Ok _, msgs) \<Rightarrow>
          (if cpo_emit opts
           then (case update_projection env s node2 update_rpc name query
                   (update_projection_emit True update_projection_options_default) of
                   (r, more_msgs) \<Rightarrow> (r, msgs @ more_msgs))
           else (Ok (), msgs))
      | failed \<Rightarrow> failed)"

definition delete_projection ::
  "'c client_env \<Rightarrow> client_settings \<Rightarrow> (error, handle) outcome
     \<Rightarrow> (handle \<Rightarrow> delete_projection_req option request \<Rightarrow> (status, unit) outcome)
     \<Rightarrow> string \<Rightarrow> delete_projection_options \<Rightarrow> (error, unit) outcome \<times> msg list" where
  "delete_projection env s node rpc name opts =
     execute_request
       (new_request (ce_request env) s Regular opts
         (Some \<lparr>dpr_name = name, dpr_delete_emitted_streams = dpo_delete_emitted_streams opts,
               dpr_delete_state_stream = dpo_delete_state_stream opts,
               dpr_delete_checkpoint_stream = dpo_delete_checkpoint_stream opts\<rparr>))
       node rpc"

text \<open>The stream of statistics: the handle it reports to, the answers, and whether it has ended.\<close>

record statistics_stream =
  sst_handle :: handle
  sst_inner :: "statistics_resp poll list"
  sst_ended :: bool

definition status_of_details :: "statistics_details \<Rightarrow> projection_status" where
  "status_of_details d =
     \<lparr>pjs_core_processing_time = sd_core_processing_time d,
      pjs_version = sd_version d,
      pjs_epoch = sd_epoch d,
      pjs_effective_name = sd_effective_name d,
      pjs_writes_in_progress = sd_writes_in_progress d,
      pjs_reads_in_progress = sd_reads_in_progress d,
      pjs_partitions_cached = sd_partitions_cached d,
      pjs_status = sd_status d,
      pjs_state_reason = sd_state_reason d,
      pjs_name = sd_name d,
      pjs_mode = sd_mode d,
      pjs_position = sd_position d,
      pjs_progress = sd_progress d,
      pjs_last_checkpoint = sd_last_checkpoint d,
      pjs_events_processed_after_restart = sd_events_processed_after_restart d,
      pjs_checkpoint_status = sd_checkpoint_status d,
      pjs_buffered_events = sd_buffered_events d,
      pjs_write_pending_events_before_checkpoint = sd_write_pending_events_before_checkpoint d,
      pjs_write_pending_events_after_checkpoint = sd_write_pending_events_after_checkpoint d\<rparr>"

text \<open>
  \<open>try_next\<close> on it: the next status, with the messages to the connection; \<open>None\<close> while nothing has
  arrived. An error, whichever it is, is reported as a lost node and ends the stream.
\<close>

definition statistics_next ::
  "statistics_stream \<Rightarrow> (((error, projection_status option) outcome \<times> msg list) \<times> statistics_stream) option" where
  "statistics_next st =
     (if sst_ended st then Some ((Ok None, []), st)
      else case sst_inner st of
        [] \<Rightarrow> None
      | Broken status # rest \<Rightarrow>
          Some ((Err (from_grpc status), report_error (sst_handle st)),
                st\<lparr>sst_inner := rest, sst_ended := True\<rparr>)
      | Closed # rest \<Rightarrow> Some ((Ok None, []), st\<lparr>sst_inner := rest, sst_ended := True\<rparr>)
      | Message resp # rest \<Rightarrow>
          Some (((case resp of Some d \<Rightarrow> Ok (Some (status_of_details d)) | None \<Rightarrow> Panic), []),
                st\<lparr>sst_inner := rest\<rparr>))"

definition statistics ::
  "'c client_env \<Rightarrow> client_settings \<Rightarrow> (error, handle) outcome
     \<Rightarrow> (handle \<Rightarrow> statistics_mode option option request \<Rightarrow> (status, statistics_resp poll list) outcome)
     \<Rightarrow> stats_for \<Rightarrow> options \<Rightarrow> (error, statistics_stream) outcome \<times> msg list" where
  "statistics env s node rpc stats_for opts =
     (let mode = (case stats_for of
            ForName name \<Rightarrow> StatsName name
          | AllProjections \<Rightarrow> StatsAll
          | AllContinuous \<Rightarrow> StatsContinuous)
      in execute_request (new_request (ce_request env) s Regular opts (Some (Some mode))) node
           (\<lambda>h req. map_ok (\<lambda>inner. \<lparr>sst_handle = h, sst_inner = inner, sst_ended = False\<rparr>) (rpc h req)))"

definition get_status ::
  "'c client_env \<Rightarrow> client_settings \<Rightarrow> (error, handle) outcome
     \<Rightarrow> (handle \<Rightarrow> statistics_mode option option request \<Rightarrow> (status, statistics_resp poll list) outcome)
     \<Rightarrow> string \<Rightarrow> options \<Rightarrow> ((error, projection_status option) outcome \<times> msg list) option" where
  "get_status env s node rpc name opts =
     (case statistics env s node rpc (ForName name) opts of
        (Ok st, msgs) \<Rightarrow>
          map_option (\<lambda>((r, more_msgs), _). (r, msgs @ more_msgs)) (statistics_next st)
      | (Err e, msgs) \<Rightarrow> Some (Err e, msgs)
      | (Panic, msgs) \<Rightarrow> Some (Panic, msgs))"

definition list_projections ::
  "'c client_env \<Rightarrow> client_settings \<Rightarrow> (error, handle) outcome
     \<Rightarrow> (handle \<Rightarrow> statistics_mode option option request \<Rightarrow> (status, statistics_resp poll list) outcome)
     \<Rightarrow> options \<Rightarrow> (error, statistics_stream) outcome \<times> msg list" where
  "list_projections env s node rpc opts = statistics env s node rpc AllContinuous opts"

definition enable_projection ::
  "'c client_env \<Rightarrow> client_settings \<Rightarrow> (error, handle) outcome
     \<Rightarrow> (handle \<Rightarrow> string option request \<Rightarrow> (status, unit) outcome)
     \<Rightarrow> string \<Rightarrow> options \<Rightarrow> (error, unit) outcome \<times> msg list" where
  "enable_projection env s node rpc name opts =
     execute_request (new_request (ce_request env) s Regular opts (Some name)) node rpc"

definition reset_projection ::
  "'c client_env \<Rightarrow> client_settings \<Rightarrow> (error, handle) outcome
     \<Rightarrow> (handle \<Rightarrow> checkpoint_req option request \<Rightarrow> (status, unit) outcome)
     \<Rightarrow> string \<Rightarrow> options \<Rightarrow> (error, unit) outcome \<times> msg list" where
  "reset_projection env s node rpc name opts =
     execute_request
       (new_request (ce_request env) s Regular opts
         (Some \<lparr>ckr_name = name, ckr_write_checkpoint = False\<rparr>))
       node rpc"

definition disable_projection_internal ::
  "'c client_env \<Rightarrow> client_settings \<Rightarrow> (error, handle) outcome
     \<Rightarrow> (handle \<Rightarrow> checkpoint_req option request \<Rightarrow> (status, unit) outcome)
     \<Rightarrow> string \<Rightarrow> bool \<Rightarrow> options \<Rightarrow> (error, unit) outcome \<times> msg list" where
  "disable_projection_internal env s node rpc name write_checkpoint opts =
     execute_request
       (new_request (ce_request env) s Regular opts
         (Some \<lparr>ckr_name = name, ckr_write_checkpoint = write_checkpoint\<rparr>))
       node rpc"

definition disable_projection ::
  "'c client_env \<Rightarrow> client_settings \<Rightarrow> (error, handle) outcome
     \<Rightarrow> (handle \<Rightarrow> checkpoint_req option request \<Rightarrow> (status, unit) outcome)
     \<Rightarrow> string \<Rightarrow> options \<Rightarrow> (error, unit) outcome \<times> msg list" where
  "disable_projection env s node rpc name opts = disable_projection_internal env s node rpc name True opts"

definition abort_projection ::
  "'c client_env \<Rightarrow> client_settings \<Rightarrow> (error, handle) outcome
     \<Rightarrow> (handle \<Rightarrow> checkpoint_req option request \<Rightarrow> (status, unit) outcome)
     \<Rightarrow> string \<Rightarrow> options \<Rightarrow> (error, unit) outcome \<times> msg list" where
  "abort_projection env s node rpc name opts = disable_projection_internal env s node rpc name False opts"

definition restart_subsystem ::
  "'c client_env \<Rightarrow> client_settings \<Rightarrow> (error, handle) outcome
     \<Rightarrow> (handle \<Rightarrow> unit request \<Rightarrow> (status, unit) outcome)
     \<Rightarrow> options \<Rightarrow> (error, unit) outcome \<times> msg list" where
  "restart_subsystem env s node rpc opts =
     execute_request (new_request (ce_request env) s Regular opts ()) node rpc"

section \<open>Values\<close>

text \<open>
  \<open>prost_types::Value\<close>, the well-known protobuf message: a value without a kind is \<open>ProtoNone\<close>; the
  fields of a struct are a \<open>BTreeMap\<close>, here the list of its entries in the order of iteration.
\<close>

datatype proto =
    ProtoNone
  | ProtoNull
  | ProtoNumber f64
  | ProtoString string
  | ProtoBool bool
  | ProtoStruct "(string \<times> proto) list"
  | ProtoList "proto list"

datatype stack_item =
    SList "proto list" "json list"
  | SMap "(string \<times> proto) list" string "(string \<times> json) list"
  | SValue json
  | SProto proto

text \<open>What a value taken from the stack puts on it, the top first.\<close>

fun unfold_proto :: "proto \<Rightarrow> (error, stack_item list) outcome" where
  "unfold_proto ProtoNone = Ok [SValue JNull]"
| "unfold_proto ProtoNull = Ok [SValue JNull]"
| "unfold_proto (ProtoNumber x) =
     map_ok (\<lambda>n. [SValue (JNumber n)]) (unwrap (number_from_f64 x))"
| "unfold_proto (ProtoString s) = Ok [SValue (JString s)]"
| "unfold_proto (ProtoBool b) = Ok [SValue (JBool b)]"
| "unfold_proto (ProtoStruct []) = Ok [SValue (JObject [])]"
| "unfold_proto (ProtoStruct ((k, v) # kvs)) = Ok [SProto v, SMap kvs k []]"
| "unfold_proto (ProtoList []) = Ok [SValue (JArray [])]"
| "unfold_proto (ProtoList (v # vs)) = Ok [SProto v, SList vs []]"

text \<open>One turn of the loop: the element taken, and \<open>param\<close>; what goes on the stack, and \<open>param\<close>.\<close>

fun parse_turn :: "stack_item \<Rightarrow> json option \<Rightarrow> (error, stack_item list \<times> json option) outcome" where
  "parse_turn (SValue v) param = Ok ([], Some v)"
| "parse_turn (SMap kvs k acc) None = Panic"
| "parse_turn (SMap kvs k acc) (Some value) =
     (let acc = btree_insert k value acc
      in case kvs of
           (k1, v1) # rest \<Rightarrow> Ok ([SProto v1, SMap rest k1 acc], None)
         | [] \<Rightarrow> Ok ([SValue (JObject acc)], None))"
| "parse_turn (SList vs acc) None = Panic"
| "parse_turn (SList vs acc) (Some value) =
     (let acc = acc @ [value]
      in case vs of
           v # rest \<Rightarrow> Ok ([SProto v, SList rest acc], None)
         | [] \<Rightarrow> Ok ([SValue (JArray acc)], None))"
| "parse_turn (SProto p) param = map_ok (\<lambda>items. (items, param)) (unfold_proto p)"

text \<open>The weight of what is on the stack, which every turn makes less.\<close>

fun proto_weight :: "proto \<Rightarrow> nat" where
  "proto_weight (ProtoStruct kvs) = 3 + sum_list (map (\<lambda>kv. Suc (proto_weight (snd kv))) kvs)"
| "proto_weight (ProtoList vs) = 3 + sum_list (map (\<lambda>v. Suc (proto_weight v)) vs)"
| "proto_weight _ = 2"

fun item_weight :: "stack_item \<Rightarrow> nat" where
  "item_weight (SValue _) = 1"
| "item_weight (SMap kvs _ _) = 2 + sum_list (map (\<lambda>kv. Suc (proto_weight (snd kv))) kvs)"
| "item_weight (SList vs _) = 2 + sum_list (map (\<lambda>v. Suc (proto_weight v)) vs)"
| "item_weight (SProto p) = proto_weight p"

lemma unfold_proto_weight:
  "unfold_proto p = Ok items \<Longrightarrow> sum_list (map item_weight items) < proto_weight p"
  by (cases p rule: unfold_proto.cases) (auto simp: map_ok_Ok_iff)

lemma parse_turn_weight:
  "parse_turn item param = Ok (items, param1) \<Longrightarrow> sum_list (map item_weight items) < item_weight item"
  by (cases "(item, param)" rule: parse_turn.cases)
    (auto simp: Let_def map_ok_Ok_iff unfold_proto_weight split: list.splits)

function parse_loop :: "stack_item list \<Rightarrow> json option \<Rightarrow> (error, json option) outcome" where
  "parse_loop [] param = Ok param"
| "parse_loop (item # stack) param =
     (case parse_turn item param of
        Ok (items, param1) \<Rightarrow> parse_loop (items @ stack) param1
      | Err e \<Rightarrow> Err e
      | Panic \<Rightarrow> Panic)"
  by pat_completeness auto

termination
  by (relation "measure (\<lambda>(stack, _). sum_list (map item_weight stack))")
    (auto dest!: parse_turn_weight)

definition parse_value :: "proto \<Rightarrow> (error, json) outcome" where
  "parse_value value = bind_outcome (parse_loop [SProto value] None) unwrap"

definition parsed_value :: "proto option \<Rightarrow> (error, json) outcome" where
  "parsed_value v = (case v of Some p \<Rightarrow> parse_value p | None \<Rightarrow> Ok JNull)"

text \<open>
  State and result: the value becomes the caller's type, and that it does not is a result inside
  the result.
\<close>

definition get_state ::
  "'c client_env \<Rightarrow> client_settings \<Rightarrow> (error, handle) outcome
     \<Rightarrow> (handle \<Rightarrow> partition_req option request \<Rightarrow> (status, proto option) outcome)
     \<Rightarrow> (json \<Rightarrow> (string, 'a) outcome)
     \<Rightarrow> string \<Rightarrow> partition_options \<Rightarrow> (error, (string, 'a) outcome) outcome \<times> msg list" where
  "get_state env s node rpc from_value name opts =
     execute_request
       (new_request (ce_request env) s Regular opts
         (Some \<lparr>pr_name = name, pr_partition = po_partition opts\<rparr>))
       node
       (\<lambda>h req. bind_outcome (rpc h req) (\<lambda>state.
          case parsed_value state of Ok v \<Rightarrow> Ok (from_value v) | _ \<Rightarrow> Panic))"

definition get_result ::
  "'c client_env \<Rightarrow> client_settings \<Rightarrow> (error, handle) outcome
     \<Rightarrow> (handle \<Rightarrow> partition_req option request \<Rightarrow> (status, proto option) outcome)
     \<Rightarrow> (json \<Rightarrow> (string, 'a) outcome)
     \<Rightarrow> string \<Rightarrow> partition_options \<Rightarrow> (error, (string, 'a) outcome) outcome \<times> msg list" where
  "get_result env s node rpc from_value name opts =
     execute_request
       (new_request (ce_request env) s Regular opts
         (Some \<lparr>pr_name = name, pr_partition = po_partition opts\<rparr>))
       node
       (\<lambda>h req. bind_outcome (rpc h req) (\<lambda>result.
          case parsed_value result of Ok v \<Rightarrow> Ok (from_value v) | _ \<Rightarrow> Panic))"


section \<open>The loop and the recursion it stands for\<close>

text \<open>The JSON value of a protobuf one; \<open>None\<close> where a number is infinite or no number.\<close>

fun json_of :: "proto \<Rightarrow> json option" where
  "json_of ProtoNone = Some JNull"
| "json_of ProtoNull = Some JNull"
| "json_of (ProtoNumber x) = map_option JNumber (number_from_f64 x)"
| "json_of (ProtoString s) = Some (JString s)"
| "json_of (ProtoBool b) = Some (JBool b)"
| "json_of (ProtoStruct kvs) =
     map_option (\<lambda>vs. JObject (fold (\<lambda>(k, v). btree_insert k v) (zip (map fst kvs) vs) []))
       (those (map (\<lambda>kv. json_of (snd kv)) kvs))"
| "json_of (ProtoList vs) = map_option JArray (those (map json_of vs))"

fun finite_numbers :: "proto \<Rightarrow> bool" where
  "finite_numbers (ProtoNumber x) \<longleftrightarrow> (\<exists>r. x = Finite r)"
| "finite_numbers (ProtoStruct kvs) \<longleftrightarrow> (\<forall>kv \<in> set kvs. finite_numbers (snd kv))"
| "finite_numbers (ProtoList vs) \<longleftrightarrow> (\<forall>v \<in> set vs. finite_numbers v)"
| "finite_numbers _ \<longleftrightarrow> True"

text \<open>What such values look like: numbers are floats, objects ordered maps.\<close>

fun well_typed :: "json \<Rightarrow> bool" where
  "well_typed (JNumber n) \<longleftrightarrow> (\<exists>r. n = Float r)"
| "well_typed (JArray vs) \<longleftrightarrow> (\<forall>v \<in> set vs. well_typed v)"
| "well_typed (JObject kvs) \<longleftrightarrow> btree kvs \<and> (\<forall>kv \<in> set kvs. well_typed (snd kv))"
| "well_typed _ \<longleftrightarrow> True"

lemma number_from_f64_Some_iff: "number_from_f64 x = Some n \<longleftrightarrow> (\<exists>r. x = Finite r \<and> n = Float r)"
  by (cases x) auto

lemma number_from_f64_None_iff: "number_from_f64 x = None \<longleftrightarrow> (\<nexists>r. x = Finite r)"
  by (cases x) auto

lemma those_None_iff: "those xs = None \<longleftrightarrow> None \<in> set xs"
  by (induction xs) (auto split: option.splits)

lemma those_Some_iff: "those xs = Some ys \<longleftrightarrow> xs = map Some ys"
  by (induction xs arbitrary: ys) (auto split: option.splits simp: Cons_eq_map_conv)

text \<open>The turns of the loop, one equation each.\<close>

lemma parse_loop_turns [simp]:
  "parse_loop (SValue v # stack) param = parse_loop stack (Some v)"
  "parse_loop (SList [] acc # stack) (Some j) = parse_loop stack (Some (JArray (acc @ [j])))"
  "parse_loop (SList (p # ps) acc # stack) (Some j) =
     parse_loop (SProto p # SList ps (acc @ [j]) # stack) None"
  "parse_loop (SMap [] k m # stack) (Some j) = parse_loop stack (Some (JObject (btree_insert k j m)))"
  "parse_loop (SMap ((k1, p) # kvs) k m # stack) (Some j) =
     parse_loop (SProto p # SMap kvs k1 (btree_insert k j m) # stack) None"
  by (simp_all add: Let_def)

lemma parse_loop_unfold:
  "parse_loop (SProto p # stack) param =
     (case unfold_proto p of Ok items \<Rightarrow> parse_loop (items @ stack) param | Err e \<Rightarrow> Err e | Panic \<Rightarrow> Panic)"
  by (cases "unfold_proto p") simp_all

declare parse_loop.simps(2) [simp del]

lemma parse_loop_opened [simp]:
  "parse_loop (SProto (ProtoStruct ((k, v) # kvs)) # stack) param =
     parse_loop (SProto v # SMap kvs k [] # stack) param"
  "parse_loop (SProto (ProtoList (v # vs)) # stack) param = parse_loop (SProto v # SList vs [] # stack) param"
  by (simp_all add: parse_loop_unfold [of "ProtoStruct ((k, v) # kvs)"] parse_loop_unfold [of "ProtoList (v # vs)"])

text \<open>Going on with a value, or not.\<close>

fun go_on :: "stack_item list \<Rightarrow> json option \<Rightarrow> (error, json option) outcome" where
  "go_on stack None = Panic"
| "go_on stack (Some v) = parse_loop stack (Some v)"

lemma parse_loop_list:
  assumes "\<And>v stack param. v \<in> set vs \<Longrightarrow> parse_loop (SProto v # stack) param = go_on stack (json_of v)"
  shows "parse_loop (SList vs acc # stack) (Some j) =
    go_on stack (map_option (\<lambda>js. JArray (acc @ j # js)) (those (map json_of vs)))"
  using assms
  by (induction vs arbitrary: acc j) (auto split: option.splits simp: option.map_comp comp_def)

lemma parse_loop_map:
  assumes "\<And>v stack param. v \<in> snd ` set kvs \<Longrightarrow>
      parse_loop (SProto v # stack) param = go_on stack (json_of v)"
  shows "parse_loop (SMap kvs k acc # stack) (Some j) =
    go_on stack (map_option
      (\<lambda>js. JObject (fold (\<lambda>(k, v). btree_insert k v) (zip (k # map fst kvs) (j # js)) acc))
      (those (map (\<lambda>kv. json_of (snd kv)) kvs)))"
  using assms
  by (induction kvs arbitrary: acc j k) (auto split: option.splits simp: option.map_comp comp_def)

lemma parse_loop_proto: "parse_loop (SProto p # stack) param = go_on stack (json_of p)"
proof (induction p arbitrary: stack param rule: json_of.induct)
  case (3 x)
  then show ?case by (cases x) (simp_all add: parse_loop_unfold)
next
  case (6 kvs)
  show ?case
  proof (cases kvs)
    case (Cons kv rest)
    have "parse_loop (SProto v # stack) param = go_on stack (json_of v)"
      if "v \<in> snd ` set kvs" for v stack param
      using 6 that by fastforce
    with Cons parse_loop_map [where kvs = rest and stack = stack and k = "fst kv" and acc = "[]"]
    show ?thesis
      by (cases kv) (auto simp: option.map_comp comp_def
          split: option.splits)
  qed (simp add: parse_loop_unfold)
next
  case (7 vs)
  show ?case
  proof (cases vs)
    case (Cons v rest)
    with 7 parse_loop_list [where vs = rest and stack = stack and acc = "[]"] show ?thesis
      by (auto simp: option.map_comp comp_def split: option.splits)
  qed (simp add: parse_loop_unfold)
qed (simp_all add: parse_loop_unfold)

lemma json_of_None_iff: "json_of p = None \<longleftrightarrow> \<not> finite_numbers p"
  by (induction p rule: json_of.induct) (force simp: number_from_f64_None_iff those_None_iff image_iff)+

lemma set_btree_insert: "set (btree_insert k v kvs) \<subseteq> insert (k, v) (set kvs)"
  by (induction k v kvs rule: btree_insert.induct) auto

lemma well_typed_fold:
  "btree acc \<Longrightarrow> \<forall>kv \<in> set acc. well_typed (snd kv) \<Longrightarrow> \<forall>kv \<in> set kvs. well_typed (snd kv) \<Longrightarrow>
     well_typed (JObject (fold (\<lambda>(k, v). btree_insert k v) kvs acc))"
proof (induction kvs arbitrary: acc)
  case (Cons kv kvs)
  have "\<forall>x \<in> set (btree_insert (fst kv) (snd kv) acc). well_typed (snd x)"
    using Cons.prems(2,3) set_btree_insert [of "fst kv" "snd kv" acc] by auto
  with Cons.IH [of "btree_insert (fst kv) (snd kv) acc"] Cons.prems show ?case
    by (cases kv) (simp add: btree_btree_insert)
qed simp

lemma json_of_well_typed: "json_of p = Some j \<Longrightarrow> well_typed j"
proof (induction p arbitrary: j rule: json_of.induct)
  case (6 kvs)
  then obtain vs where vs: "map (\<lambda>kv. json_of (snd kv)) kvs = map Some vs"
    and j: "j = JObject (fold (\<lambda>(k, v). btree_insert k v) (zip (map fst kvs) vs) [])"
    by (auto simp: those_Some_iff)
  have "\<forall>v \<in> set vs. well_typed v"
    using 6 vs by (metis (no_types, lifting) image_eqI imageE list.set_map)
  then show ?case
    unfolding j by (intro well_typed_fold) (auto dest: set_zip_rightD)
next
  case (7 vs)
  then show ?case by (auto simp: those_Some_iff) (metis image_eqI imageE list.set_map)
qed (auto simp: number_from_f64_Some_iff)

section \<open>Commands and the connection\<close>

interpretation create_call:
  node_command "\<lambda>node. create_projection_internal env s node rpc opts r"
  for env :: "'c client_env" and s rpc and opts :: "'m options_scheme" and r
  unfolding create_projection_internal_def by (rule node_command_execute_request) simp

interpretation update_call:
  node_command "\<lambda>node. update_projection env s node rpc name query opts"
  for env :: "'c client_env" and s rpc name query opts
  unfolding update_projection_def by (rule node_command_execute_request) simp

interpretation delete_call:
  node_command "\<lambda>node. delete_projection env s node rpc name opts"
  for env :: "'c client_env" and s rpc name opts
  unfolding delete_projection_def by (rule node_command_execute_request) simp

interpretation statistics_call:
  node_command "\<lambda>node. statistics env s node rpc stats_for opts"
  for env :: "'c client_env" and s rpc stats_for opts
  unfolding statistics_def Let_def by (rule node_command_execute_request) simp

interpretation disable_call:
  node_command "\<lambda>node. disable_projection_internal env s node rpc name w opts"
  for env :: "'c client_env" and s rpc name w opts
  unfolding disable_projection_internal_def by (rule node_command_execute_request) simp

interpretation state_call:
  node_command "\<lambda>node. get_state env s node rpc from_value name opts"
  for env :: "'c client_env" and s rpc and from_value :: "json \<Rightarrow> (string, 'a) outcome" and name opts
  unfolding get_state_def by (rule node_command_execute_request) simp

text \<open>Two requests made with the same settings both panic or neither does.\<close>

lemma request_after_request:
  assumes "request_env_ok env" "new_request env s kind opts m = Ok r"
  shows "\<exists>r1. new_request env s kind1 opts1 m1 = Ok r1"
proof -
  have "\<not> (\<exists>name. connection_name s = Some name \<and> \<not> rq_valid_value env name)"
    using assms new_request_Panic_iff [of env s kind opts m] by (auto simp: request_env_ok_def)
  then have "new_request env s kind1 opts1 m1 \<noteq> Panic"
    using assms(1) new_request_Panic_iff [of env s kind1 opts1 m1] by (auto simp: request_env_ok_def)
  then show ?thesis by (cases "new_request env s kind1 opts1 m1") auto
qed

section \<open>Properties\<close>

text \<open>
  C30. The loop with its own stack is the recursion over the value: it always ends, never takes a
  value that is not there, and panics only where the recursion has no result. Objects keep the
  entries of the struct, a later one replacing an earlier one with its key.
\<close>

theorem parse_value_reference:
  "parse_value p = (case json_of p of Some j \<Rightarrow> Ok j | None \<Rightarrow> Panic)"
  by (cases "json_of p") (simp_all add: parse_value_def parse_loop_proto)

text \<open>
  C31. What comes out has one shape: every number is a float, even a whole one, every object is an
  ordered map without repeated keys, to any depth; and parsing panics exactly on a value with an
  infinite number or a NaN somewhere in it.
\<close>

theorem parse_value_typed:
  "case parse_value p of
     Ok j \<Rightarrow> finite_numbers p \<and> well_typed j
   | Err e \<Rightarrow> False
   | Panic \<Rightarrow> \<not> finite_numbers p"
proof -
  have "parse_value p = (case json_of p of Some j \<Rightarrow> Ok j | None \<Rightarrow> Panic)"
    by (cases "json_of p") (simp_all add: parse_value_def parse_loop_proto)
  then show ?thesis
    using json_of_None_iff [of p] json_of_well_typed [of p] by (cases "json_of p") auto
qed




text \<open>What reading a stream of statistics to its end, or to where it waits, gives and reports.\<close>

function read_statistics ::
  "statistics_stream \<Rightarrow> (error, projection_status option) outcome list \<times> msg list" where
  "read_statistics st =
     (case statistics_next st of
        Some ((Ok (Some s), ms), st1) \<Rightarrow>
          (let (rs, ms1) = read_statistics st1 in (Ok (Some s) # rs, ms @ ms1))
      | Some ((r, ms), _) \<Rightarrow> ([r], ms)
      | None \<Rightarrow> ([], []))"
  by pat_completeness auto

termination
  by (relation "measure (\<lambda>st. length (sst_inner st))")
    (auto simp: statistics_next_def split: if_splits list.splits poll.splits option.splits)

declare read_statistics.simps [simp del]

lemma read_statistics_details:
  "read_statistics \<lparr>sst_handle = h, sst_inner = map (Message \<circ> Some) ds @ polls, sst_ended = False\<rparr> =
     (map (Ok \<circ> Some \<circ> status_of_details) ds
        @ fst (read_statistics \<lparr>sst_handle = h, sst_inner = polls, sst_ended = False\<rparr>),
      snd (read_statistics \<lparr>sst_handle = h, sst_inner = polls, sst_ended = False\<rparr>))"
  by (induction ds) (simp_all add: read_statistics.simps [where st = "\<lparr>sst_handle = h, sst_inner = Message (Some _) # _, sst_ended = False\<rparr>"]
      statistics_next_def)

text \<open>
  C33. The statistics of projections arrive in order and complete, whatever follows them; a broken
  stream ends with its error. But that error is reported as a lost node, whichever it is: the
  actor keeps its node even when the error names the leader, which a failed call would have
  moved to.
\<close>

theorem statistics_error_drops_leader:
  assumes "machine_inv env s m" "mc_running m" "mc_handle m = Some h"
  shows "fst (read_statistics
        \<lparr>sst_handle = h, sst_inner = map (Message \<circ> Some) ds @ Broken st # rest, sst_ended = False\<rparr>) =
      map (Ok \<circ> Some \<circ> status_of_details) ds @ [Err (from_grpc st)]
    \<and> run_actor (connection_step env) m (snd (read_statistics
        \<lparr>sst_handle = h, sst_inner = map (Message \<circ> Some) ds @ Broken st # rest, sst_ended = False\<rparr>)) =
      (m, [])"
proof -
  have "read_statistics \<lparr>sst_handle = h, sst_inner = Broken st # rest, sst_ended = False\<rparr> =
      ([Err (from_grpc st)], [CreateChannel (h_id h) None])"
    by (simp add: read_statistics.simps statistics_next_def report_error_def)
  then show ?thesis
    using connected_run [OF assms, of "[CreateChannel (h_id h) None]"]
    by (simp add: read_statistics_details del: run_actor.simps)
qed

lemma statistics_error_drops_leader_witness:
  "let st = status_new (\<lambda>_ m. m) CodeUnavailable ''gone'';
       r = read_statistics \<lparr>sst_handle = the (mc_handle connected_machine), sst_inner = [Broken st],
         sst_ended = False\<rparr>
   in fst r = [Err (ServerError ''gone'')]
    \<and> run_actor (connection_step (counting_env Elapsed)) connected_machine (snd r) = (connected_machine, [])"
proof -
  let ?st = "status_new (\<lambda>_ m. m) CodeUnavailable ''gone''"
  obtain h where h: "mc_running connected_machine" "mc_handle connected_machine = Some h"
    by (simp add: connected_machine_def Let_def)
  have "from_grpc ?st = ServerError ''gone''"
    by (simp add: from_grpc_def status_new_def metadata_str_def Let_def)
  then show ?thesis
    using statistics_error_drops_leader [OF connected_machine_inv h, where ds = "[]" and rest = "[]" and st = ?st]
    by (simp add: h Let_def del: run_actor.simps)
qed

end
