(* ===== verification/Stats.thy ===== *)
theory Stats
  imports Types "HOL-Library.Multiset"
begin

text \<open>
  The statistics of the extras (\<open>trogon-eventstore-extras/src/stats.rs\<close>): what a server reports as
  a hash map of texts, read into typed records. The entries come in any order, here the list in
  which the map is iterated. An arm of the code's match is an entry of a table: the key, and what
  its value does to the record. Reading a date is chrono's and a parameter, as is the rounding of
  a decimal number to a float; the grammar of floats is that of \<open>f64::from_str\<close>.
\<close>

section \<open>The records\<close>

record gc_stats =
  gc_allocation_speed :: f64
  gc_gen0_items_count :: i64
  gc_gen0_size :: i64
  gc_gen1_items_count :: i64
  gc_gen1_size :: i64
  gc_gen2_items_count :: i64
  gc_gen2_size :: i64
  gc_large_heap_size :: i64
  gc_time_in_gc :: f64
  gc_total_bytes_in_heaps :: i64

definition gc_stats_default :: gc_stats where
  "gc_stats_default =
     \<lparr>gc_allocation_speed = Finite 0, gc_gen0_items_count = 0, gc_gen0_size = 0,
      gc_gen1_items_count = 0, gc_gen1_size = 0, gc_gen2_items_count = 0, gc_gen2_size = 0,
      gc_large_heap_size = 0, gc_time_in_gc = Finite 0, gc_total_bytes_in_heaps = 0\<rparr>"

record tcp_stats =
  tc_connections :: i64
  tc_receiving_speed :: f64
  tc_sending_speed :: f64
  tc_in_send :: i64
  tc_measure_time :: string
  tc_pending_received :: i64
  tc_pending_send :: i64
  tc_received_bytes_since_last_run :: i64
  tc_received_bytes_total :: i64
  tc_sent_bytes_since_last_run :: i64
  tc_sent_bytes_total :: i64

definition tcp_stats_default :: tcp_stats where
  "tcp_stats_default =
     \<lparr>tc_connections = 0, tc_receiving_speed = Finite 0, tc_sending_speed = Finite 0,
      tc_in_send = 0, tc_measure_time = [], tc_pending_received = 0, tc_pending_send = 0,
      tc_received_bytes_since_last_run = 0, tc_received_bytes_total = 0,
      tc_sent_bytes_since_last_run = 0, tc_sent_bytes_total = 0\<rparr>"

record disk_io_stats =
  dk_read_bytes :: i64
  dk_written_bytes :: i64
  dk_read_ops :: i64
  dk_write_ops :: i64

definition disk_io_stats_default :: disk_io_stats where
  "disk_io_stats_default =
     \<lparr>dk_read_bytes = 0, dk_written_bytes = 0, dk_read_ops = 0, dk_write_ops = 0\<rparr>"

record proc_stats =
  pr_id :: i64
  pr_start_time :: int
  pr_mem :: i64
  pr_cpu :: f64
  pr_threads_count :: i64
  pr_thrown_exceptions_rate :: f64
  pr_contentions_rate :: f64
  pr_gc :: gc_stats
  pr_disk_io :: disk_io_stats
  pr_tcp :: tcp_stats

definition proc_stats_default :: proc_stats where
  "proc_stats_default =
     \<lparr>pr_id = 0, pr_start_time = 0, pr_mem = 0, pr_cpu = Finite 0, pr_threads_count = 0,
      pr_thrown_exceptions_rate = Finite 0, pr_contentions_rate = Finite 0,
      pr_gc = gc_stats_default, pr_disk_io = disk_io_stats_default,
      pr_tcp = tcp_stats_default\<rparr>"

record load_avg =
  la_one_m :: f64
  la_five_m :: f64
  la_fifteen_m :: f64

definition load_avg_default :: load_avg where
  "load_avg_default =
     \<lparr>la_one_m = Finite 0, la_five_m = Finite 0, la_fifteen_m = Finite 0\<rparr>"

record drive_stats =
  dt_available_bytes :: usize
  dt_total_bytes :: usize
  dt_usage :: string
  dt_used_bytes :: usize

definition drive_stats_default :: drive_stats where
  "drive_stats_default =
     \<lparr>dt_available_bytes = 0, dt_total_bytes = 0, dt_usage = [], dt_used_bytes = 0\<rparr>"

record drive =
  dv_path :: string
  dv_stats :: drive_stats

definition drive_default :: drive where
  "drive_default =
     \<lparr>dv_path = [], dv_stats = drive_stats_default\<rparr>"

record sys_stats =
  sy_free_mem :: usize
  sy_loadavg :: load_avg
  sy_drive :: "drive option"

definition sys_stats_default :: sys_stats where
  "sys_stats_default =
     \<lparr>sy_free_mem = 0, sy_loadavg = load_avg_default, sy_drive = None\<rparr>"

record queue_stats =
  qu_name :: string
  qu_group_name :: string
  qu_avg_items_per_second :: usize
  qu_current_idle_time :: "string option"
  qu_current_item_processing_time :: "string option"
  qu_idle_time_percent :: f64
  qu_length_current_try_peak :: i64
  qu_length_lifetime_peak :: i64
  qu_length :: i64
  qu_avg_processing_time :: f64
  qu_total_items_processed :: i64
  qu_in_progress_message :: string
  qu_last_processed_message :: string

definition queue_stats_default :: queue_stats where
  "queue_stats_default =
     \<lparr>qu_name = [], qu_group_name = [], qu_avg_items_per_second = 0,
      qu_current_idle_time = None, qu_current_item_processing_time = None,
      qu_idle_time_percent = Finite 0, qu_length_current_try_peak = 0,
      qu_length_lifetime_peak = 0, qu_length = 0, qu_avg_processing_time = Finite 0,
      qu_total_items_processed = 0, qu_in_progress_message = [],
      qu_last_processed_message = []\<rparr>"

record writer_stats =
  ew_last_flush_size :: i64
  ew_last_flush_delays_ms :: f64
  ew_mean_flush_size :: i64
  ew_mean_flush_delays_ms :: f64
  ew_max_flush_size :: i64
  ew_max_flush_delays_ms :: f64
  ew_queued_flush_messages :: i64

definition writer_stats_default :: writer_stats where
  "writer_stats_default =
     \<lparr>ew_last_flush_size = 0, ew_last_flush_delays_ms = Finite 0, ew_mean_flush_size = 0,
      ew_mean_flush_delays_ms = Finite 0, ew_max_flush_size = 0,
      ew_max_flush_delays_ms = Finite 0, ew_queued_flush_messages = 0\<rparr>"

record read_index_stats =
  ri_cached_record :: i64
  ri_not_cached_record :: i64
  ri_cached_stream_info :: i64
  ri_not_cached_stream_info :: i64
  ri_cached_trans_info :: i64
  ri_not_cached_trans_info :: i64

definition read_index_stats_default :: read_index_stats where
  "read_index_stats_default =
     \<lparr>ri_cached_record = 0, ri_not_cached_record = 0, ri_cached_stream_info = 0,
      ri_not_cached_stream_info = 0, ri_cached_trans_info = 0, ri_not_cached_trans_info = 0\<rparr>"

record es_stats =
  eb_queues :: "string \<rightharpoonup> queue_stats"
  eb_checksum :: i64
  eb_checksum_non_flushed :: i64
  eb_writer :: writer_stats
  eb_read_index :: read_index_stats

definition es_stats_default :: es_stats where
  "es_stats_default =
     \<lparr>eb_queues = Map.empty, eb_checksum = 0, eb_checksum_non_flushed = 0,
      eb_writer = writer_stats_default, eb_read_index = read_index_stats_default\<rparr>"

record server_statistics =
  sts_proc :: proc_stats
  sts_sys :: sys_stats
  sts_es :: es_stats

definition server_statistics_default :: server_statistics where
  "server_statistics_default =
     \<lparr>sts_proc = proc_stats_default, sts_sys = sys_stats_default, sts_es = es_stats_default\<rparr>"

section \<open>Reading values\<close>

record stat_env =
  se_round64 :: "rat \<Rightarrow> f64"
  se_round32 :: "rat \<Rightarrow> f64"
  se_datetime :: "string \<Rightarrow> (string, int) outcome"

definition is_digit :: "char \<Rightarrow> bool" where
  "is_digit c \<longleftrightarrow> to_digit c \<noteq> None"

definition digits_value :: "string \<Rightarrow> nat" where
  "digits_value ds = foldl (\<lambda>n c. 10 * n + the (to_digit c)) 0 ds"

definition strip_sign :: "string \<Rightarrow> bool \<times> string" where
  "strip_sign s =
     (case s of
        c # cs \<Rightarrow> if c = CHR ''-'' then (True, cs) else if c = CHR ''+'' then (False, cs) else (False, s)
      | [] \<Rightarrow> (False, s))"

text \<open>Digits, a fraction and an exponent; one of the two groups of digits may be empty.\<close>

definition parse_exponent :: "string \<Rightarrow> int option" where
  "parse_exponent s =
     (case s of
        [] \<Rightarrow> Some 0
      | e # rest \<Rightarrow>
          (let (neg, ds) = strip_sign rest
           in if (e = CHR ''e'' \<or> e = CHR ''E'') \<and> ds \<noteq> [] \<and> list_all is_digit ds
              then Some (if neg then - int (digits_value ds) else int (digits_value ds))
              else None))"

definition parse_decimal :: "string \<Rightarrow> rat option" where
  "parse_decimal s =
     (let whole = takeWhile is_digit s;
          rest = dropWhile is_digit s;
          (fraction, rest) =
            (case rest of
               CHR ''.'' # t \<Rightarrow> (takeWhile is_digit t, dropWhile is_digit t)
             | _ \<Rightarrow> ([], rest))
      in if whole = [] \<and> fraction = [] then None
         else map_option (\<lambda>e. of_nat (digits_value (whole @ fraction)) * 10 powi (e - int (length fraction)))
                (parse_exponent rest))"

definition parse_float :: "(rat \<Rightarrow> f64) \<Rightarrow> string \<Rightarrow> (string, f64) outcome" where
  "parse_float rnd s =
     (let (neg, body) = strip_sign s
      in if s = [] then Err ''cannot parse float from empty string''
         else if eq_ignore_ascii_case body ''inf'' \<or> eq_ignore_ascii_case body ''infinity''
           then Ok (if neg then NegInfinity else PosInfinity)
         else if eq_ignore_ascii_case body ''nan'' then Ok NaN
         else (case parse_decimal body of
             Some r \<Rightarrow> Ok (rnd (if neg then - r else r))
           | None \<Rightarrow> Err ''invalid float literal''))"

definition metric_error :: "string \<Rightarrow> string \<Rightarrow> string \<Rightarrow> error" where
  "metric_error key err value =
     InternalParsingError (key @ '': '' @ err @ '' = '' @ [CHR 0x27] @ value @ [CHR 0x27])"

text \<open>An arm: the key and the value give an error or what becomes of the record.\<close>

type_synonym 'r arm = "stat_env \<Rightarrow> string \<Rightarrow> string \<Rightarrow> (error, 'r \<Rightarrow> 'r) outcome"

definition field_arm ::
  "(stat_env \<Rightarrow> string \<Rightarrow> (string, 'v) outcome) \<Rightarrow> (('v \<Rightarrow> 'v) \<Rightarrow> 'r \<Rightarrow> 'r) \<Rightarrow> 'r arm" where
  "field_arm parse upd env key value =
     map_ok (\<lambda>v. upd (\<lambda>_. v)) (map_err (\<lambda>e. metric_error key e value) (parse env value))"

abbreviation int_arm :: "((i64 \<Rightarrow> i64) \<Rightarrow> 'r \<Rightarrow> 'r) \<Rightarrow> 'r arm" where
  "int_arm \<equiv> field_arm (\<lambda>_ value. map_ok of_int (map_err show_int_error (parse_i64 value)))"

abbreviation usize_arm :: "((usize \<Rightarrow> usize) \<Rightarrow> 'r \<Rightarrow> 'r) \<Rightarrow> 'r arm" where
  "usize_arm \<equiv> field_arm (\<lambda>_ value. map_err show_int_error (parse_u64 value))"

abbreviation float_arm :: "((f64 \<Rightarrow> f64) \<Rightarrow> 'r \<Rightarrow> 'r) \<Rightarrow> 'r arm" where
  "float_arm \<equiv> field_arm (\<lambda>env. parse_float (se_round64 env))"

abbreviation float32_arm :: "((f64 \<Rightarrow> f64) \<Rightarrow> 'r \<Rightarrow> 'r) \<Rightarrow> 'r arm" where
  "float32_arm \<equiv> field_arm (\<lambda>env. parse_float (se_round32 env))"

abbreviation time_arm :: "((int \<Rightarrow> int) \<Rightarrow> 'r \<Rightarrow> 'r) \<Rightarrow> 'r arm" where
  "time_arm \<equiv> field_arm se_datetime"

abbreviation text_arm :: "((string \<Rightarrow> string) \<Rightarrow> 'r \<Rightarrow> 'r) \<Rightarrow> 'r arm" where
  "text_arm \<equiv> field_arm (\<lambda>_ value. Ok value)"

text \<open>A text, unless it is \<open>null\<close>, which leaves the field as it is.\<close>

definition optional_arm :: "((string option \<Rightarrow> string option) \<Rightarrow> 'r \<Rightarrow> 'r) \<Rightarrow> 'r arm" where
  "optional_arm upd env key value =
     (if value = ''null'' then Ok (\<lambda>r. r) else Ok (upd (\<lambda>_. Some value)))"

text \<open>The free memory: a negative number is none, one too big for a signed integer is tried as unsigned.\<close>

definition free_mem_arm :: "sys_stats arm" where
  "free_mem_arm env key value =
     (case parse_i64 value of
        Ok n \<Rightarrow> Ok (sy_free_mem_update (\<lambda>_. if n < 0 then 0 else of_int n))
      | Err NegOverflow \<Rightarrow> Ok (sy_free_mem_update (\<lambda>_. 0))
      | Err PosOverflow \<Rightarrow>
          map_ok (\<lambda>n. sy_free_mem_update (\<lambda>_. n))
            (map_err (\<lambda>e. metric_error key (show_int_error e) value) (parse_u64 value))
      | Err e \<Rightarrow> Err (metric_error key (show_int_error e) value)
      | Panic \<Rightarrow> Panic)"

section \<open>The arms\<close>

definition proc_arms :: "(string \<times> proc_stats arm) list" where
  "proc_arms =
     [(''proc-startTime'', time_arm pr_start_time_update),
      (''proc-id'', int_arm pr_id_update),
      (''proc-mem'', int_arm pr_mem_update),
      (''proc-cpu'', float_arm pr_cpu_update),
      (''proc-threadsCount'', int_arm pr_threads_count_update),
      (''proc-contentionsRate'', float_arm pr_contentions_rate_update),
      (''proc-thrownExceptionsRate'', float_arm pr_thrown_exceptions_rate_update)]"

definition gc_arms :: "(string \<times> gc_stats arm) list" where
  "gc_arms =
     [(''proc-gc-allocationSpeed'', float_arm gc_allocation_speed_update),
      (''proc-gc-gen0ItemsCount'', int_arm gc_gen0_items_count_update),
      (''proc-gc-gen0Size'', int_arm gc_gen0_size_update),
      (''proc-gc-gen1ItemsCount'', int_arm gc_gen1_items_count_update),
      (''proc-gc-gen1Size'', int_arm gc_gen1_size_update),
      (''proc-gc-gen2ItemsCount'', int_arm gc_gen2_items_count_update),
      (''proc-gc-gen2Size'', int_arm gc_gen2_size_update),
      (''proc-gc-largeHeapSize'', int_arm gc_large_heap_size_update),
      (''proc-gc-timeInGc'', float_arm gc_time_in_gc_update),
      (''proc-gc-totalBytesInHeaps'', int_arm gc_total_bytes_in_heaps_update)]"

definition disk_io_arms :: "(string \<times> disk_io_stats arm) list" where
  "disk_io_arms =
     [(''proc-diskIo-readBytes'', int_arm dk_read_bytes_update),
      (''proc-diskIo-writtenBytes'', int_arm dk_written_bytes_update),
      (''proc-diskIo-readOps'', int_arm dk_read_ops_update),
      (''proc-diskIo-writeOps'', int_arm dk_write_ops_update)]"

definition tcp_arms :: "(string \<times> tcp_stats arm) list" where
  "tcp_arms =
     [(''proc-tcp-connections'', int_arm tc_connections_update),
      (''proc-tcp-receivingSpeed'', float_arm tc_receiving_speed_update),
      (''proc-tcp-sendingSpeed'', float_arm tc_sending_speed_update),
      (''proc-tcp-inSend'', int_arm tc_in_send_update),
      (''proc-tcp-measureTime'', text_arm tc_measure_time_update),
      (''proc-tcp-pendingReceived'', int_arm tc_pending_received_update),
      (''proc-tcp-pendingSend'', int_arm tc_pending_send_update),
      (''proc-tcp-receivedBytesSinceLastRun'', int_arm tc_received_bytes_since_last_run_update),
      (''proc-tcp-receivedBytesTotal'', int_arm tc_received_bytes_total_update),
      (''proc-tcp-sentBytesSinceLastRun'', int_arm tc_sent_bytes_since_last_run_update),
      (''proc-tcp-sentBytesTotal'', int_arm tc_sent_bytes_total_update)]"

definition load_avg_arms :: "(string \<times> load_avg arm) list" where
  "load_avg_arms =
     [(''sys-loadavg-1m'', float_arm la_one_m_update),
      (''sys-loadavg-5m'', float_arm la_five_m_update),
      (''sys-loadavg-15m'', float_arm la_fifteen_m_update)]"

definition es_arms :: "(string \<times> es_stats arm) list" where
  "es_arms =
     [(''es-checksum'', int_arm eb_checksum_update),
      (''es-checksumNonFlushed'', int_arm eb_checksum_non_flushed_update)]"

definition drive_arms :: "(string \<times> drive_stats arm) list" where
  "drive_arms =
     [(''availableBytes'', usize_arm dt_available_bytes_update),
      (''totalBytes'', usize_arm dt_total_bytes_update),
      (''usage'', text_arm dt_usage_update),
      (''usedBytes'', usize_arm dt_used_bytes_update)]"

definition queue_arms :: "(string \<times> queue_stats arm) list" where
  "queue_arms =
     [(''queueName'', text_arm qu_name_update),
      (''groupName'', text_arm qu_group_name_update),
      (''avgItemsPerSecond'', usize_arm qu_avg_items_per_second_update),
      (''avgProcessingTime'', float_arm qu_avg_processing_time_update),
      (''currentIdleTime'', optional_arm qu_current_idle_time_update),
      (''currentItemProcessingTime'', optional_arm qu_current_item_processing_time_update),
      (''idleTimePercent'', float32_arm qu_idle_time_percent_update),
      (''length'', int_arm qu_length_update),
      (''lengthCurrentTryPeak'', int_arm qu_length_current_try_peak_update),
      (''lengthLifetimePeak'', int_arm qu_length_lifetime_peak_update),
      (''totalItemsProcessed'', int_arm qu_total_items_processed_update),
      (''inProgressMessage'', text_arm qu_in_progress_message_update),
      (''lastProcessedMessage'', text_arm qu_last_processed_message_update)]"

definition writer_arms :: "(string \<times> writer_stats arm) list" where
  "writer_arms =
     [(''es-writer-lastFlushSize'', int_arm ew_last_flush_size_update),
      (''es-writer-lastFlushDelayMs'', float_arm ew_last_flush_delays_ms_update),
      (''es-writer-meanFlushSize'', int_arm ew_mean_flush_size_update),
      (''es-writer-meanFlushDelayMs'', float_arm ew_mean_flush_delays_ms_update),
      (''es-writer-maxFlushSize'', int_arm ew_max_flush_size_update),
      (''es-writer-maxFlushDelayMs'', float_arm ew_max_flush_delays_ms_update),
      (''es-writer-queuedFlushMessages'', int_arm ew_queued_flush_messages_update)]"

definition read_index_arms :: "(string \<times> read_index_stats arm) list" where
  "read_index_arms =
     [(''es-readIndex-cachedRecord'', int_arm ri_cached_record_update),
      (''es-readIndex-notCachedRecord'', int_arm ri_not_cached_record_update),
      (''es-readIndex-cachedStreamInfo'', int_arm ri_cached_stream_info_update),
      (''es-readIndex-notCachedStreamInfo'', int_arm ri_not_cached_stream_info_update),
      (''es-readIndex-cachedTransInfo'', int_arm ri_cached_trans_info_update),
      (''es-readIndex-notCachedTransInfo'', int_arm ri_not_cached_trans_info_update)]"


text \<open>An arm of a part is one of the whole.\<close>

definition lift_arms ::
  "(('r \<Rightarrow> 'r) \<Rightarrow> 's \<Rightarrow> 's) \<Rightarrow> (string \<times> 'r arm) list \<Rightarrow> (string \<times> 's arm) list" where
  "lift_arms upd arms = map (\<lambda>(k, a). (k, \<lambda>env key value. map_ok upd (a env key value))) arms"

text \<open>The arms whose key is a literal; none of them begins as a key of a drive or a queue does.\<close>

definition literal_arms :: "(string \<times> server_statistics arm) list" where
  "literal_arms =
     lift_arms sts_proc_update
       (proc_arms @ lift_arms pr_gc_update gc_arms @ lift_arms pr_disk_io_update disk_io_arms
         @ lift_arms pr_tcp_update tcp_arms)
     @ lift_arms sts_sys_update (lift_arms sy_loadavg_update load_avg_arms @ [(''sys-freeMem'', free_mem_arm)])
     @ lift_arms sts_es_update
       (es_arms @ lift_arms eb_writer_update writer_arms @ lift_arms eb_read_index_update read_index_arms)"

section \<open>Drives and queues\<close>

fun strip_prefix :: "string \<Rightarrow> string \<Rightarrow> string option" where
  "strip_prefix [] s = Some s"
| "strip_prefix (c # cs) (d # ds) = (if c = d then strip_prefix cs ds else None)"
| "strip_prefix (_ # _) [] = None"

definition split_once :: "char \<Rightarrow> string \<Rightarrow> (string \<times> string) option" where
  "split_once c s =
     (case dropWhile (\<lambda>d. d \<noteq> c) s of
        [] \<Rightarrow> None
      | _ # rest \<Rightarrow> Some (takeWhile (\<lambda>d. d \<noteq> c) s, rest))"

definition rsplit_once :: "char \<Rightarrow> string \<Rightarrow> (string \<times> string) option" where
  "rsplit_once c s = map_option (\<lambda>(a, b). (rev b, rev a)) (split_once c (rev s))"

text \<open>What a table makes of a property: an unknown one is left out.\<close>

definition arm_effect ::
  "(string \<times> 'r arm) list \<Rightarrow> string \<Rightarrow> stat_env \<Rightarrow> string \<Rightarrow> string \<Rightarrow> (error, 'r \<Rightarrow> 'r) outcome" where
  "arm_effect arms prop env key value =
     (case map_of arms prop of Some a \<Rightarrow> a env key value | None \<Rightarrow> Ok (\<lambda>r. r))"

text \<open>The first drive met gives the path; its properties, and those of every other drive, go there.\<close>

definition drive_entry ::
  "stat_env \<Rightarrow> string \<Rightarrow> string \<Rightarrow> string \<Rightarrow> drive option \<Rightarrow> (error, drive option) outcome" where
  "drive_entry env key rest value d =
     bind_outcome
       (case d of
          None \<Rightarrow> map_ok (\<lambda>(path, _). \<lparr>dv_path = path, dv_stats = drive_stats_default\<rparr>)
                    (unwrap (split_once (CHR ''-'') rest))
        | Some drive \<Rightarrow> Ok drive) (\<lambda>drive.
     bind_outcome (unwrap (rsplit_once (CHR ''-'') key)) (\<lambda>(_, prop).
     map_ok (\<lambda>f. Some (dv_stats_update f drive)) (arm_effect drive_arms prop env key value)))"

definition queue_entry ::
  "stat_env \<Rightarrow> string \<Rightarrow> string \<Rightarrow> string \<Rightarrow> (string \<rightharpoonup> queue_stats) \<Rightarrow> (error, string \<rightharpoonup> queue_stats) outcome" where
  "queue_entry env key rest value queues =
     bind_outcome (unwrap (rsplit_once (CHR ''-'') rest)) (\<lambda>(queue_name, prop).
     map_ok
       (\<lambda>f. queues(queue_name \<mapsto>
          f (case queues queue_name of Some q \<Rightarrow> q | None \<Rightarrow> queue_stats_default)))
       (arm_effect queue_arms prop env key value))"

definition statistics_entry ::
  "stat_env \<Rightarrow> string \<times> string \<Rightarrow> server_statistics \<Rightarrow> (error, server_statistics) outcome" where
  "statistics_entry env entry stats =
     (case entry of (key, value) \<Rightarrow>
       (case map_of literal_arms key of
          Some arm \<Rightarrow> map_ok (\<lambda>f. f stats) (arm env key value)
        | None \<Rightarrow>
            (case strip_prefix ''sys-drive-'' key of
               Some rest \<Rightarrow>
                 map_ok (\<lambda>d. sts_sys_update (sy_drive_update (\<lambda>_. d)) stats)
                   (drive_entry env key rest value (sy_drive (sts_sys stats)))
             | None \<Rightarrow>
                 (case strip_prefix ''es-queue-'' key of
                    Some rest \<Rightarrow>
                      map_ok (\<lambda>qs. sts_es_update (eb_queues_update (\<lambda>_. qs)) stats)
                        (queue_entry env key rest value (eb_queues (sts_es stats)))
                  | None \<Rightarrow> Ok stats))))"

fun parse_entries ::
  "stat_env \<Rightarrow> (string \<times> string) list \<Rightarrow> server_statistics \<Rightarrow> (error, server_statistics) outcome" where
  "parse_entries env [] stats = Ok stats"
| "parse_entries env (entry # entries) stats =
     bind_outcome (statistics_entry env entry stats) (parse_entries env entries)"

definition parse_statistics :: "stat_env \<Rightarrow> (string \<times> string) list \<Rightarrow> (error, server_statistics) outcome" where
  "parse_statistics env entries = parse_entries env entries server_statistics_default"


section \<open>Arms that do not disturb one another\<close>

definition effects :: "'r arm \<Rightarrow> ('r \<Rightarrow> 'r) set" where
  "effects a = {f. \<exists>env key value. a env key value = Ok f}"

definition swapping :: "('r \<Rightarrow> 'r) set \<Rightarrow> ('r \<Rightarrow> 'r) set \<Rightarrow> bool" where
  "swapping F G \<longleftrightarrow> (\<forall>f \<in> F. \<forall>g \<in> G. f \<circ> g = g \<circ> f)"

definition undisturbed :: "(string \<times> 'r arm) list \<Rightarrow> bool" where
  "undisturbed arms \<longleftrightarrow> sorted_wrt (\<lambda>x y. swapping (effects (snd x)) (effects (snd y))) arms"

lemma swapping_sym: "swapping F G \<Longrightarrow> swapping G F"
  by (auto simp: swapping_def)

lemma effectsI: "a env key value = Ok f \<Longrightarrow> f \<in> effects a"
  unfolding effects_def by blast

lemma effects_field_arm: "f \<in> effects (field_arm parse upd) \<Longrightarrow> \<exists>v. f = upd (\<lambda>_. v)"
  by (auto simp: effects_def field_arm_def map_ok_Ok_iff)

lemma effects_optional_arm: "f \<in> effects (optional_arm upd) \<Longrightarrow> f = (\<lambda>r. r) \<or> (\<exists>v. f = upd (\<lambda>_. v))"
  by (auto simp: effects_def optional_arm_def split: if_splits)

lemma effects_lifted:
  "effects (\<lambda>env key value. map_ok upd (a env key value)) = upd ` effects a"
  by (auto simp: effects_def map_ok_Ok_iff)

lemma swap_field_field:
  "(\<And>v w r. upd (\<lambda>_. v) (upd1 (\<lambda>_. w) r) = upd1 (\<lambda>_. w) (upd (\<lambda>_. v) r)) \<Longrightarrow>
     swapping (effects (field_arm parse upd)) (effects (field_arm parse1 upd1))"
  by (auto simp: swapping_def fun_eq_iff dest!: effects_field_arm effects_optional_arm)

lemma swap_field_optional:
  "(\<And>v w r. upd (\<lambda>_. v) (upd1 (\<lambda>_. w) r) = upd1 (\<lambda>_. w) (upd (\<lambda>_. v) r)) \<Longrightarrow>
     swapping (effects (field_arm parse upd)) (effects (optional_arm upd1))"
  by (auto simp: swapping_def fun_eq_iff dest!: effects_field_arm effects_optional_arm)

lemma swap_optional_field:
  "(\<And>v w r. upd (\<lambda>_. v) (upd1 (\<lambda>_. w) r) = upd1 (\<lambda>_. w) (upd (\<lambda>_. v) r)) \<Longrightarrow>
     swapping (effects (optional_arm upd)) (effects (field_arm parse1 upd1))"
  by (auto simp: swapping_def fun_eq_iff dest!: effects_field_arm effects_optional_arm)

lemma swap_optional_optional:
  "(\<And>v w r. upd (\<lambda>_. v) (upd1 (\<lambda>_. w) r) = upd1 (\<lambda>_. w) (upd (\<lambda>_. v) r)) \<Longrightarrow>
     swapping (effects (optional_arm upd)) (effects (optional_arm upd1))"
  by (auto simp: swapping_def fun_eq_iff dest!: effects_field_arm effects_optional_arm)

lemmas swaps = swap_field_field swap_field_optional swap_optional_field swap_optional_optional

lemma undisturbed_proc: "undisturbed proc_arms"
  by (auto simp: undisturbed_def proc_arms_def intro!: swaps proc_stats.equality)

lemma undisturbed_gc: "undisturbed gc_arms"
  by (auto simp: undisturbed_def gc_arms_def intro!: swaps gc_stats.equality)

lemma undisturbed_disk_io: "undisturbed disk_io_arms"
  by (auto simp: undisturbed_def disk_io_arms_def intro!: swaps disk_io_stats.equality)

lemma undisturbed_tcp: "undisturbed tcp_arms"
  by (auto simp: undisturbed_def tcp_arms_def intro!: swaps tcp_stats.equality)

lemma undisturbed_load_avg: "undisturbed load_avg_arms"
  by (auto simp: undisturbed_def load_avg_arms_def intro!: swaps load_avg.equality)

lemma undisturbed_es: "undisturbed es_arms"
  by (auto simp: undisturbed_def es_arms_def intro!: swaps es_stats.equality)

lemma undisturbed_drive: "undisturbed drive_arms"
  by (auto simp: undisturbed_def drive_arms_def intro!: swaps drive_stats.equality)

lemma undisturbed_queue: "undisturbed queue_arms"
  by (auto simp: undisturbed_def queue_arms_def intro!: swaps queue_stats.equality)

lemma undisturbed_writer: "undisturbed writer_arms"
  by (auto simp: undisturbed_def writer_arms_def intro!: swaps writer_stats.equality)

lemma undisturbed_read_index: "undisturbed read_index_arms"
  by (auto simp: undisturbed_def read_index_arms_def intro!: swaps read_index_stats.equality)

lemma undisturbed_append:
  "undisturbed (as @ bs) \<longleftrightarrow> undisturbed as \<and> undisturbed bs
     \<and> (\<forall>x \<in> set as. \<forall>y \<in> set bs. swapping (effects (snd x)) (effects (snd y)))"
  by (auto simp: undisturbed_def sorted_wrt_append)

lemma undisturbed_lift:
  assumes "undisturbed arms" "\<And>F G. upd F \<circ> upd G = upd (F \<circ> G)"
  shows "undisturbed (lift_arms upd arms)"
proof -
  have swap: "swapping (upd ` F) (upd ` G)" if "swapping F G" for F G
    using that by (auto simp: swapping_def assms(2))
  show ?thesis
    using assms(1)
    unfolding undisturbed_def lift_arms_def sorted_wrt_map
    by (rule sorted_wrt_mono_rel [rotated]) (auto simp: effects_lifted swap)
qed

text \<open>Arms of two parts, and what the arms of a part are.\<close>

lemma lifted_effect:
  "x \<in> set (lift_arms upd arms) \<Longrightarrow> f \<in> effects (snd x) \<Longrightarrow>
     \<exists>y \<in> set arms. \<exists>F \<in> effects (snd y). f = upd F"
  by (force simp: lift_arms_def effects_lifted)

lemma lifted_swap:
  assumes "\<And>F G. upd F \<circ> upd1 G = upd1 G \<circ> upd F"
  shows "\<forall>x \<in> set (lift_arms upd as). \<forall>y \<in> set (lift_arms upd1 bs). swapping (effects (snd x)) (effects (snd y))"
  using assms by (auto simp: swapping_def dest!: lifted_effect)

lemma undisturbed_swap:
  assumes "undisturbed arms" "map_of arms k = Some a" "map_of arms k1 = Some b" "k \<noteq> k1"
  shows "swapping (effects a) (effects b)"
proof -
  obtain i where i: "i < length arms" "arms ! i = (k, a)"
    using map_of_SomeD [OF assms(2)] by (auto simp: in_set_conv_nth)
  obtain j where j: "j < length arms" "arms ! j = (k1, b)"
    using map_of_SomeD [OF assms(3)] by (auto simp: in_set_conv_nth)
  have ordered: "swapping (effects (snd (arms ! m))) (effects (snd (arms ! n)))"
    if "m < n" "n < length arms" for m n
    using assms(1) that unfolding undisturbed_def sorted_wrt_iff_nth_less by blast
  have "i \<noteq> j" using i j assms(4) by auto
  then show ?thesis
    using ordered [of i j] swapping_sym [OF ordered [of j i]] i j by (cases "i < j") auto
qed


text \<open>What a literal arm may do to the whole: each touches one place.\<close>

definition literal_places :: "(server_statistics \<Rightarrow> server_statistics) \<Rightarrow> bool" where
  "literal_places f \<longleftrightarrow>
     (\<exists>F. f = sts_proc_update F) \<or> (\<exists>F. f = sts_sys_update (sy_loadavg_update F))
   \<or> (\<exists>F. f = sts_sys_update (sy_free_mem_update F)) \<or> (\<exists>F. f = sts_es_update (eb_checksum_update F))
   \<or> (\<exists>F. f = sts_es_update (eb_checksum_non_flushed_update F))
   \<or> (\<exists>F. f = sts_es_update (eb_writer_update F)) \<or> (\<exists>F. f = sts_es_update (eb_read_index_update F))"

lemma effects_free_mem_arm:
  assumes "f \<in> effects free_mem_arm"
  shows "\<exists>F. f = sy_free_mem_update F"
proof -
  obtain env key "value" where eq: "free_mem_arm env key value = Ok f" using assms by (auto simp: effects_def)
  show ?thesis
  proof (cases "parse_i64 value")
    case (Err e)
    with eq show ?thesis by (cases e) (auto simp: free_mem_arm_def map_ok_Ok_iff)
  qed (use eq in \<open>auto simp: free_mem_arm_def\<close>)
qed

lemma effects_es_arms:
  "x \<in> set es_arms \<Longrightarrow> f \<in> effects (snd x) \<Longrightarrow>
     (\<exists>F. f = eb_checksum_update F) \<or> (\<exists>F. f = eb_checksum_non_flushed_update F)"
  by (auto simp: es_arms_def dest!: effects_field_arm)

lemma literal_effect:
  assumes "(k, a) \<in> set literal_arms" "f \<in> effects a"
  shows "literal_places f"
proof -
  obtain x where x: "x \<in> set literal_arms" "f \<in> effects (snd x)" using assms by force
  then consider
      (proc_part) F where "f = sts_proc_update F"
    | (sys_part) y F where "y \<in> set (lift_arms sy_loadavg_update load_avg_arms @ [(''sys-freeMem'', free_mem_arm)])"
        "F \<in> effects (snd y)" "f = sts_sys_update F"
    | (es_part) y F where "y \<in> set (es_arms @ lift_arms eb_writer_update writer_arms
          @ lift_arms eb_read_index_update read_index_arms)"
        "F \<in> effects (snd y)" "f = sts_es_update F"
    unfolding literal_arms_def set_append [of "lift_arms sts_proc_update _"] set_append [of "lift_arms sts_sys_update _"]
    by (blast dest: lifted_effect)
  then show ?thesis
  proof cases
    case proc_part
    then show ?thesis by (auto simp: literal_places_def)
  next
    case sys_part
    then show ?thesis
      by (auto simp: literal_places_def dest!: lifted_effect effects_free_mem_arm)
  next
    case es_part
    then show ?thesis
      by (auto simp: literal_places_def dest!: lifted_effect dest: effects_es_arms)
  qed
qed

text \<open>Two places of one record, as the parts of a table name them.\<close>

lemma parts_swap:
  "pr_gc_update F \<circ> pr_disk_io_update G = pr_disk_io_update G \<circ> pr_gc_update F"
  "pr_gc_update F \<circ> pr_tcp_update H = pr_tcp_update H \<circ> pr_gc_update F"
  "pr_disk_io_update G \<circ> pr_tcp_update H = pr_tcp_update H \<circ> pr_disk_io_update G"
  "eb_writer_update W \<circ> eb_read_index_update R = eb_read_index_update R \<circ> eb_writer_update W"
  "sts_proc_update P \<circ> sts_sys_update S = sts_sys_update S \<circ> sts_proc_update P"
  "sts_proc_update P \<circ> sts_es_update E = sts_es_update E \<circ> sts_proc_update P"
  "sts_sys_update S \<circ> sts_es_update E = sts_es_update E \<circ> sts_sys_update S"
  by (rule ext, simp add: proc_stats.equality es_stats.equality server_statistics.equality)+

lemma own_field_swaps:
  "x \<in> set proc_arms \<Longrightarrow> f \<in> effects (snd x) \<Longrightarrow> f \<circ> pr_gc_update F = pr_gc_update F \<circ> f"
  "x \<in> set proc_arms \<Longrightarrow> f \<in> effects (snd x) \<Longrightarrow> f \<circ> pr_disk_io_update G = pr_disk_io_update G \<circ> f"
  "x \<in> set proc_arms \<Longrightarrow> f \<in> effects (snd x) \<Longrightarrow> f \<circ> pr_tcp_update H = pr_tcp_update H \<circ> f"
  "y \<in> set es_arms \<Longrightarrow> g \<in> effects (snd y) \<Longrightarrow> g \<circ> eb_writer_update W = eb_writer_update W \<circ> g"
  "y \<in> set es_arms \<Longrightarrow> g \<in> effects (snd y) \<Longrightarrow> g \<circ> eb_read_index_update R = eb_read_index_update R \<circ> g"
  by (auto simp: proc_arms_def es_arms_def dest!: effects_field_arm
      intro!: ext proc_stats.equality es_stats.equality)

lemma undisturbed_parts:
  "undisturbed (proc_arms @ lift_arms pr_gc_update gc_arms @ lift_arms pr_disk_io_update disk_io_arms
     @ lift_arms pr_tcp_update tcp_arms)"
  "undisturbed (lift_arms sy_loadavg_update load_avg_arms @ [(''sys-freeMem'', free_mem_arm)])"
  "undisturbed (es_arms @ lift_arms eb_writer_update writer_arms @ lift_arms eb_read_index_update read_index_arms)"
  by (auto simp: undisturbed_append undisturbed_proc undisturbed_gc undisturbed_disk_io undisturbed_tcp
      undisturbed_load_avg undisturbed_es undisturbed_writer undisturbed_read_index
      swapping_def parts_swap own_field_swaps undisturbed_def [of "[_]"]
      intro!: undisturbed_lift ext sys_stats.equality dest!: lifted_effect effects_free_mem_arm)

lemma undisturbed_literal_arms: "undisturbed literal_arms"
  unfolding literal_arms_def undisturbed_append [of "lift_arms sts_proc_update _"]
    undisturbed_append [of "lift_arms sts_sys_update _"]
  using undisturbed_parts
  by (auto intro!: undisturbed_lift simp: swapping_def parts_swap dest!: lifted_effect)


section \<open>Entries in any order\<close>

definition drive_key :: "string \<Rightarrow> string \<Rightarrow> bool" where
  "drive_key path key \<longleftrightarrow>
     (\<exists>prop. key = ''sys-drive-'' @ path @ CHR ''-'' # prop \<and> CHR ''-'' \<notin> set prop)"

definition drive_upd :: "string \<Rightarrow> (drive_stats \<Rightarrow> drive_stats) \<Rightarrow> server_statistics \<Rightarrow> server_statistics" where
  "drive_upd path F =
     sts_sys_update (sy_drive_update (\<lambda>d. Some (dv_stats_update F
       (case d of Some x \<Rightarrow> x | None \<Rightarrow> \<lparr>dv_path = path, dv_stats = drive_stats_default\<rparr>))))"

definition queue_upd :: "string \<Rightarrow> (queue_stats \<Rightarrow> queue_stats) \<Rightarrow> server_statistics \<Rightarrow> server_statistics" where
  "queue_upd queue_name F =
     sts_es_update (eb_queues_update (\<lambda>qs. qs(queue_name \<mapsto>
       F (case qs queue_name of Some q \<Rightarrow> q | None \<Rightarrow> queue_stats_default))))"

text \<open>What an entry does, as a function of the statistics, when the drives have one path.\<close>

definition entry_effect ::
  "stat_env \<Rightarrow> string \<Rightarrow> string \<times> string \<Rightarrow> (error, server_statistics \<Rightarrow> server_statistics) outcome" where
  "entry_effect env path entry =
     (case entry of (key, value) \<Rightarrow>
       (case map_of literal_arms key of
          Some arm \<Rightarrow> arm env key value
        | None \<Rightarrow>
            (case strip_prefix ''sys-drive-'' key of
               Some rest \<Rightarrow>
                 map_ok (drive_upd path) (arm_effect drive_arms (drop (Suc (length path)) rest) env key value)
             | None \<Rightarrow>
                 (case strip_prefix ''es-queue-'' key of
                    Some rest \<Rightarrow>
                      bind_outcome (unwrap (rsplit_once (CHR ''-'') rest)) (\<lambda>(queue_name, prop).
                        map_ok (queue_upd queue_name) (arm_effect queue_arms prop env key value))
                  | None \<Rightarrow> Ok (\<lambda>s. s)))))"

lemma strip_prefix_append [simp]: "strip_prefix p (p @ s) = Some s"
  by (induction p) auto

lemma strip_prefix_Some: "strip_prefix p s = Some t \<Longrightarrow> s = p @ t"
  by (induction p s rule: strip_prefix.induct) (auto split: if_splits)

lemma split_once_found: "c \<notin> set s \<Longrightarrow> split_once c (s @ c # t) = Some (s, t)"
  by (simp add: split_once_def takeWhile_append dropWhile_append)

lemma split_once_Some:
  assumes "split_once c s = Some (a, b)"
  shows "s = a @ c # b" "c \<notin> set a"
proof -
  from assms obtain d where d: "dropWhile (\<lambda>d. d \<noteq> c) s = d # b" and a: "a = takeWhile (\<lambda>d. d \<noteq> c) s"
    by (auto simp: split_once_def split: list.splits)
  have "d = c" using hd_dropWhile [of "\<lambda>d. d \<noteq> c" s] d by simp
  then show "s = a @ c # b" using takeWhile_dropWhile_id [of "\<lambda>d. d \<noteq> c" s] d a by simp
  show "c \<notin> set a" using a by (auto dest: set_takeWhileD)
qed

lemma rsplit_once_found: "c \<notin> set t \<Longrightarrow> rsplit_once c (s @ c # t) = Some (s, t)"
  by (simp add: rsplit_once_def split_once_found)

lemma rsplit_once_Some: "rsplit_once c s = Some (a, b) \<Longrightarrow> s = a @ c # b"
  by (auto simp: rsplit_once_def rev_swap dest!: split_once_Some(1))

lemma map_ok_comp: "map_ok f (map_ok g r) = map_ok (\<lambda>x. f (g x)) r"
  by (cases r) auto

lemma map_ok_same: "(\<And>x. f x = g x) \<Longrightarrow> map_ok f r = map_ok g r"
  by (cases r) auto

definition drives_at :: "string \<Rightarrow> (string \<times> string) list \<Rightarrow> bool" where
  "drives_at path entries \<longleftrightarrow> CHR ''-'' \<notin> set path
   \<and> (\<forall>(key, _) \<in> set entries. strip_prefix ''sys-drive-'' key \<noteq> None \<longrightarrow> drive_key path key)"

lemma drive_key_parts:
  assumes "drive_key path key" "CHR ''-'' \<notin> set path"
  obtains metric where "strip_prefix ''sys-drive-'' key = Some (path @ CHR ''-'' # metric)"
    "split_once (CHR ''-'') (path @ CHR ''-'' # metric) = Some (path, metric)"
    "rsplit_once (CHR ''-'') key = Some (''sys-drive-'' @ path, metric)"
    "key = ''sys-drive-'' @ path @ CHR ''-'' # metric"
proof -
  from assms(1) obtain metric where key: "key = ''sys-drive-'' @ path @ CHR ''-'' # metric" "CHR ''-'' \<notin> set metric"
    by (auto simp only: drive_key_def)
  have "rsplit_once (CHR ''-'') ((''sys-drive-'' @ path) @ CHR ''-'' # metric) = Some (''sys-drive-'' @ path, metric)"
    by (rule rsplit_once_found [OF key(2)])
  with key that [OF _ split_once_found [OF assms(2)], of metric] show thesis
    by (simp only: strip_prefix_append append_assoc)
qed

lemma statistics_entry_effect:
  assumes "drives_at path entries" "entry \<in> set entries"
  shows "statistics_entry env entry s = map_ok (\<lambda>f. f s) (entry_effect env path entry)"
proof -
  obtain key "value" where entry: "entry = (key, value)" by (cases entry)
  show ?thesis
  proof (cases "map_of literal_arms key")
    case None
    note literal = None
    show ?thesis
    proof (cases "strip_prefix ''sys-drive-'' key")
      case None
      note drive = None
      show ?thesis
      proof (cases "strip_prefix ''es-queue-'' key")
        case (Some rest)
        with literal drive entry show ?thesis
          by (cases "rsplit_once (CHR ''-'') rest")
            (auto simp: statistics_entry_def entry_effect_def queue_entry_def queue_upd_def map_ok_comp
              intro!: map_ok_same server_statistics.equality es_stats.equality)
      qed (simp add: statistics_entry_def entry_effect_def entry literal drive)
    next
      case (Some rest)
      with assms entry have "drive_key path key" "CHR ''-'' \<notin> set path" by (auto simp: drives_at_def)
      then obtain metric where
        "strip_prefix ''sys-drive-'' key = Some (path @ CHR ''-'' # metric)"
        "split_once (CHR ''-'') (path @ CHR ''-'' # metric) = Some (path, metric)"
        "rsplit_once (CHR ''-'') key = Some (''sys-drive-'' @ path, metric)"
        by (rule drive_key_parts)
      with literal entry show ?thesis
        by (cases "sy_drive (sts_sys s)")
          (auto simp: statistics_entry_def entry_effect_def drive_entry_def drive_upd_def map_ok_comp
            intro!: map_ok_same server_statistics.equality sys_stats.equality)
    qed
  qed (simp add: statistics_entry_def entry_effect_def entry)
qed


text \<open>Entries with different keys do not disturb one another.\<close>

lemma updates_compose:
  "drive_upd path F \<circ> drive_upd path G = drive_upd path (F \<circ> G)"
  "queue_upd n f \<circ> queue_upd n g = queue_upd n (f \<circ> g)"
  "drive_upd path F \<circ> queue_upd n f = queue_upd n f \<circ> drive_upd path F"
  "n \<noteq> m \<Longrightarrow> queue_upd n f \<circ> queue_upd m g = queue_upd m g \<circ> queue_upd n f"
  by (auto simp: drive_upd_def queue_upd_def fun_eq_iff comp_def fun_upd_twist
      intro!: server_statistics.equality sys_stats.equality es_stats.equality)

lemma literal_places_apart:
  assumes "literal_places f"
  shows "f \<circ> drive_upd path F = drive_upd path F \<circ> f" "f \<circ> queue_upd n g = queue_upd n g \<circ> f"
  using assms
  by (auto simp: literal_places_def drive_upd_def queue_upd_def fun_eq_iff
      intro!: server_statistics.equality sys_stats.equality es_stats.equality)

lemma arm_effects_swap:
  assumes "undisturbed arms" "arm_effect arms p env k v = Ok F" "arm_effect arms q env1 k1 v1 = Ok G" "p \<noteq> q"
  shows "F \<circ> G = G \<circ> F"
proof (cases "map_of arms p"; cases "map_of arms q")
  fix a b assume arms: "map_of arms p = Some a" "map_of arms q = Some b"
  with assms(2,3) have "F \<in> effects a" "G \<in> effects b"
    by (auto simp: arm_effect_def intro: effectsI)
  with undisturbed_swap [OF assms(1) arms assms(4)] show ?thesis by (auto simp: swapping_def)
qed (use assms(2,3) in \<open>auto simp: arm_effect_def fun_eq_iff\<close>)

inductive entry_touches :: "string \<Rightarrow> string \<Rightarrow> (server_statistics \<Rightarrow> server_statistics) \<Rightarrow> bool" for path where
  literal: "map_of literal_arms key = Some a \<Longrightarrow> f \<in> effects a \<Longrightarrow> entry_touches path key f"
| drive: "key = ''sys-drive-'' @ path @ CHR ''-'' # metric \<Longrightarrow>
    arm_effect drive_arms metric env k v = Ok F \<Longrightarrow> entry_touches path key (drive_upd path F)"
| queue: "key = ''es-queue-'' @ n @ CHR ''-'' # metric \<Longrightarrow>
    arm_effect queue_arms metric env k v = Ok F \<Longrightarrow> entry_touches path key (queue_upd n F)"
| unknown: "entry_touches path key (\<lambda>s. s)"

lemma entry_effect_touches:
  assumes "drives_at path entries" "(key, value) \<in> set entries" "entry_effect env path (key, value) = Ok f"
  shows "entry_touches path key f"
proof (cases "map_of literal_arms key")
  case (Some a)
  with assms(3) show ?thesis by (auto simp: entry_effect_def intro: entry_touches.literal effectsI)
next
  case None
  note literal = None
  show ?thesis
  proof (cases "strip_prefix ''sys-drive-'' key")
    case (Some rest)
    with assms(1,2) have "drive_key path key" "CHR ''-'' \<notin> set path" by (auto simp: drives_at_def)
    then obtain metric where
      "strip_prefix ''sys-drive-'' key = Some (path @ CHR ''-'' # metric)"
      "key = ''sys-drive-'' @ path @ CHR ''-'' # metric"
      by (rule drive_key_parts)
    with literal assms(3) show ?thesis
      by (auto simp: entry_effect_def map_ok_Ok_iff intro: entry_touches.drive)
  next
    case None
    with literal assms(3) show ?thesis
      by (auto simp: entry_effect_def bind_outcome_Ok_iff map_ok_Ok_iff intro!: entry_touches.unknown
          dest!: strip_prefix_Some rsplit_once_Some intro: entry_touches.queue split: option.splits)
  qed
qed

lemma touches_swap:
  assumes "entry_touches path key f" "entry_touches path key1 g" "key \<noteq> key1"
  shows "f \<circ> g = g \<circ> f"
  using assms(1)
proof cases
  case (literal a)
  note f = this
  from assms(2) show ?thesis
  proof cases
    case (literal b)
    with f assms(3) undisturbed_swap [OF undisturbed_literal_arms] show ?thesis by (auto simp: swapping_def)
  next
    case (drive metric env k v F)
    with f show ?thesis using literal_places_apart(1) [OF literal_effect [OF map_of_SomeD]] by metis
  next
    case (queue n metric env k v F)
    with f show ?thesis using literal_places_apart(2) [OF literal_effect [OF map_of_SomeD]] by metis
  qed (simp add: fun_eq_iff)
next
  case (drive metric env k v F)
  note f = this
  from assms(2) show ?thesis
  proof cases
    case (literal b)
    with f show ?thesis using literal_places_apart(1) [OF literal_effect [OF map_of_SomeD]] by metis
  next
    case (drive metric1 env1 k1 v1 G)
    with f assms(3) have "F \<circ> G = G \<circ> F" by (intro arm_effects_swap [OF undisturbed_drive]) auto
    with f drive show ?thesis by (simp add: updates_compose)
  next
    case (queue n metric1 env1 k1 v1 G)
    with f show ?thesis by (simp add: updates_compose)
  qed (simp add: fun_eq_iff)
next
  case (queue n metric env k v F)
  note f = this
  from assms(2) show ?thesis
  proof cases
    case (literal b)
    with f show ?thesis using literal_places_apart(2) [OF literal_effect [OF map_of_SomeD]] by metis
  next
    case (queue m metric1 env1 k1 v1 G)
    show ?thesis
    proof (cases "n = m")
      case True
      with f queue assms(3) have "F \<circ> G = G \<circ> F" by (intro arm_effects_swap [OF undisturbed_queue]) auto
      with True f queue show ?thesis by (simp add: updates_compose)
    next
      case False
      with f queue show ?thesis by (simp add: updates_compose)
    qed
  next
    case (drive metric1 env1 k1 v1 G)
    with f show ?thesis by (simp add: updates_compose)
  qed (simp add: fun_eq_iff)
qed (simp add: fun_eq_iff)


text \<open>Parsing is doing what every entry does, one after the other.\<close>

definition effect_of :: "stat_env \<Rightarrow> string \<Rightarrow> string \<times> string \<Rightarrow> server_statistics \<Rightarrow> server_statistics" where
  "effect_of env path entry = (case entry_effect env path entry of Ok f \<Rightarrow> f | _ \<Rightarrow> (\<lambda>s. s))"

lemma parse_entries_Ok_iff:
  assumes "drives_at path all" "set entries \<subseteq> set all"
  shows "parse_entries env entries s = Ok s1 \<longleftrightarrow>
    (\<forall>entry \<in> set entries. is_ok (entry_effect env path entry)) \<and> s1 = fold (effect_of env path) entries s"
  using assms(2)
proof (induction entries arbitrary: s)
  case (Cons entry entries)
  then have "statistics_entry env entry s = map_ok (\<lambda>f. f s) (entry_effect env path entry)"
    by (intro statistics_entry_effect [OF assms(1)]) simp
  with Cons show ?case
    by (cases "entry_effect env path entry") (auto simp: effect_of_def)
qed auto

lemma fold_effects_permuted:
  assumes "drives_at path entries" "distinct (map fst entries)"
    and "\<forall>entry \<in> set entries. is_ok (entry_effect env path entry)" "mset others = mset entries"
  shows "fold (effect_of env path) others s = fold (effect_of env path) entries s"
proof -
  have "effect_of env path x \<circ> effect_of env path y = effect_of env path y \<circ> effect_of env path x"
    if "x \<in> set entries" "y \<in> set entries" for x y
  proof (cases "x = y")
    case False
    with that assms(2) have "fst x \<noteq> fst y" by (auto simp: distinct_map inj_on_def)
    moreover from that assms(3) obtain f g where "entry_effect env path x = Ok f" "entry_effect env path y = Ok g"
      by (metis is_ok.elims(2))
    moreover from this have "entry_touches path (fst x) f" "entry_touches path (fst y) g"
      using that entry_effect_touches [OF assms(1)] by (metis prod.collapse)+
    ultimately show ?thesis using touches_swap by (simp add: effect_of_def)
  qed simp
  then have "fold (effect_of env path) entries = fold (effect_of env path) others"
    using assms(4) by (intro fold_multiset_equiv) auto
  then show ?thesis by simp
qed

section \<open>Integers too large\<close>

lemma parse_digits_show_nat_over: "limit < n \<Longrightarrow> parse_digits over limit 0 (show_nat n) = Err over"
proof (induction n rule: show_nat.induct)
  case (1 n)
  show ?case
  proof (cases "n < 10")
    case True
    with 1 show ?thesis by (subst show_nat.simps) simp
  next
    case False
    with 1 show ?thesis
      by (cases "n div 10 \<le> limit"; subst show_nat.simps)
        (simp_all add: parse_digits_append parse_digits_show_nat)
  qed
qed

lemma show_nat_unsigned [simp]:
  "hd (show_nat n) \<noteq> CHR ''+''" "hd (show_nat n) \<noteq> CHR ''-''" "show_nat n \<noteq> ''+''" "show_nat n \<noteq> ''-''"
  using show_nat_no_sign [of "hd (show_nat n)" n] show_nat_no_sign [of "CHR ''+''" n]
    show_nat_no_sign [of "CHR ''-''" n] hd_in_set [OF show_nat_nonempty]
  by auto

lemma parse_unsigned_show_nat_over: "limit < n \<Longrightarrow> parse_unsigned limit (show_nat n) = Err PosOverflow"
  by (simp add: parse_unsigned_def parse_digits_show_nat_over)

lemma parse_u64_show_int:
  "0 \<le> n \<Longrightarrow> parse_u64 (show_int n) = (if n < 2 ^ 64 then Ok (of_int n) else Err PosOverflow)"
  by (cases "n < 2 ^ 64")
    (simp_all add: parse_u64_def show_int_def parse_unsigned_show_nat parse_unsigned_show_nat_over)

lemma parse_i64_show_int:
  "parse_i64 (show_int n) =
     (if n < - (2 ^ 63) then Err NegOverflow else if n < 2 ^ 63 then Ok n else Err PosOverflow)"
proof (cases "n < 0")
  case True
  then have "parse_i64 (show_int n) = map_ok (\<lambda>n. - int n) (parse_digits NegOverflow (2 ^ 63) 0 (show_nat (nat (- n))))"
    by (simp add: parse_i64_def show_int_def)
  with True show ?thesis
    by (cases "nat (- n) \<le> 2 ^ 63") (simp_all add: parse_digits_show_nat parse_digits_show_nat_over)
next
  case False
  then have "parse_i64 (show_int n) = map_ok int (parse_digits PosOverflow (2 ^ 63 - 1) 0 (show_nat (nat n)))"
    by (simp add: parse_i64_def show_int_def)
  with False show ?thesis
    by (cases "nat n \<le> 2 ^ 63 - 1") (simp_all add: parse_digits_show_nat parse_digits_show_nat_over)
qed

lemma literal_free_mem:
  "map_of literal_arms ''sys-freeMem'' =
     Some (\<lambda>env key value. map_ok sts_sys_update (free_mem_arm env key value))"
  by (simp add: literal_arms_def lift_arms_def proc_arms_def gc_arms_def disk_io_arms_def tcp_arms_def
      load_avg_arms_def)

section \<open>Properties\<close>

text \<open>
  C34. The statistics do not depend on the order in which the hash map is iterated: when the keys of
  drives name one drive, by a path without a dash, every order of the entries that parses gives
  the same records, and every other order parses too.
\<close>

theorem statistics_any_order:
  assumes "drives_at path entries" "distinct (map fst entries)"
    and "mset others = mset entries" "parse_statistics env entries = Ok s"
  shows "parse_statistics env others = Ok s"
proof -
  have same: "set others = set entries" using assms(3) by (metis set_mset_mset)
  with assms(1) have "drives_at path others" by (simp add: drives_at_def)
  with assms(4) same fold_effects_permuted [OF assms(1,2) _ assms(3), of env] show ?thesis
    using parse_entries_Ok_iff [OF assms(1) order_refl, of env server_statistics_default s]
      parse_entries_Ok_iff [OF _ order_refl, of path others env server_statistics_default s]
    by (simp add: parse_statistics_def)
qed

definition plain_stat_env :: stat_env where
  "plain_stat_env = \<lparr>se_round64 = Finite, se_round32 = Finite, se_datetime = (\<lambda>_. Err ''input is out of range'')\<rparr>"

lemma statistics_any_order_witness:
  "parse_statistics plain_stat_env
      [(''sys-drive-C:-usage'', ''42%''), (''es-queue-Worker #1-groupName'', ''Workers'')] =
   parse_statistics plain_stat_env
      [(''es-queue-Worker #1-groupName'', ''Workers''), (''sys-drive-C:-usage'', ''42%'')]"
proof -
  let ?entries = "[(''es-queue-Worker #1-groupName'', ''Workers''), (''sys-drive-C:-usage'', ''42%'')]"
  have drives: "drives_at ''C:'' ?entries"
    by (auto simp: drives_at_def drive_key_def)
  have "\<exists>s. parse_statistics plain_stat_env ?entries = Ok s"
    by (simp add: parse_statistics_def statistics_entry_def literal_arms_def lift_arms_def proc_arms_def
        gc_arms_def disk_io_arms_def tcp_arms_def load_avg_arms_def es_arms_def writer_arms_def
        read_index_arms_def queue_entry_def drive_entry_def rsplit_once_def split_once_def
        arm_effect_def queue_arms_def drive_arms_def field_arm_def server_statistics_default_def
        sys_stats_default_def)
  then obtain s where "parse_statistics plain_stat_env ?entries = Ok s" by blast
  with statistics_any_order [OF drives _ _ this,
      of "[(''sys-drive-C:-usage'', ''42%''), (''es-queue-Worker #1-groupName'', ''Workers'')]"]
  show ?thesis by simp
qed

text \<open>
  C35. The free memory a server reports, whatever integer it is: nothing for a negative number, the
  number itself up to the largest unsigned one, beyond what a signed one holds, and an error
  beyond that.
\<close>

theorem free_memory_clamped:
  "map_ok (sy_free_mem \<circ> sts_sys) (parse_statistics env [(''sys-freeMem'', show_int n)]) =
     (if n < 0 then Ok 0
      else if n < 2 ^ 64 then Ok (of_int n)
      else Err (metric_error ''sys-freeMem'' ''number too large to fit in target type'' (show_int n)))"
proof -
  have parsed: "parse_statistics env [(''sys-freeMem'', show_int n)] =
      map_ok (\<lambda>f. sts_sys_update f server_statistics_default) (free_mem_arm env ''sys-freeMem'' (show_int n))"
    by (cases "free_mem_arm env ''sys-freeMem'' (show_int n)")
      (simp_all add: parse_statistics_def statistics_entry_def literal_free_mem)
  consider "n < 0" | "0 \<le> n" "n < 2 ^ 63" | "2 ^ 63 \<le> n" "n < 2 ^ 64" | "2 ^ 64 \<le> n" by linarith
  then show ?thesis
  proof cases
    case 1
    then show ?thesis unfolding parsed by (simp add: free_mem_arm_def parse_i64_show_int)
  next
    case 2
    then show ?thesis unfolding parsed by (simp add: free_mem_arm_def parse_i64_show_int)
  next
    case 3
    then show ?thesis
      unfolding parsed by (simp add: free_mem_arm_def parse_i64_show_int parse_u64_show_int)
  next
    case 4
    then show ?thesis
      unfolding parsed by (simp add: free_mem_arm_def parse_i64_show_int parse_u64_show_int)
  qed
qed

text \<open>
  Two drives are one: the first one met gives the path, and the properties of the other replace
  its own, so that which drive is shown, and with whose figures, depends on the order of the map.
\<close>

lemma second_drive_overwrites:
  assumes "CHR ''-'' \<notin> set p"
  shows "map_ok (sy_drive \<circ> sts_sys) (parse_statistics env
      [(''sys-drive-'' @ p @ ''-usage'', a), (''sys-drive-'' @ q @ ''-usage'', b)]) =
    Ok (Some \<lparr>dv_path = p, dv_stats = drive_stats_default\<lparr>dt_usage := b\<rparr>\<rparr>)"
proof -
  have literal: "map_of literal_arms (''sys-drive-'' @ r) = None" for r
    by (simp add: literal_arms_def lift_arms_def proc_arms_def gc_arms_def disk_io_arms_def tcp_arms_def
        load_avg_arms_def es_arms_def writer_arms_def read_index_arms_def)
  have usage: "rsplit_once (CHR ''-'') (''sys-drive-'' @ r @ ''-usage'') = Some (''sys-drive-'' @ r, ''usage'')" for r
    using rsplit_once_found [of "CHR ''-''" "''usage''" "''sys-drive-'' @ r"] by simp
  have path: "split_once (CHR ''-'') (p @ ''-usage'') = Some (p, ''usage'')"
    using split_once_found [OF assms, of "''usage''"] by simp
  show ?thesis
    by (simp add: parse_statistics_def statistics_entry_def literal [simplified] drive_entry_def
        usage [simplified] path arm_effect_def drive_arms_def field_arm_def server_statistics_default_def
        sys_stats_default_def strip_prefix_append)
qed

end
