(* ===== verification/Operations.thy ===== *)
theory Operations
  imports Command
begin

text \<open>
  The operations client (\<open>operations/mod.rs\<close> with the messages of \<open>operations.rs\<close>, \<open>users.rs\<close> and
  \<open>monitoring.rs\<close> under \<open>event_store/generated\<close>): the node it asks, scavenging, the administration of
  a node and of users, the stream of raw statistics and the stream of user details. An operation
  asks for a node first and builds its request afterwards; what a call fails with is not told to
  the connection.
\<close>

section \<open>Messages\<close>

record start_scavenge_options =
  ss_thread_count :: i32
  ss_start_from_chunk :: i32

datatype wire_scavenge_result = ScavengeStarted | ScavengeInProgress | ScavengeStopped

record scavenge_resp =
  sr_scavenge_id :: string
  sr_scavenge_result :: i32

text \<open>The accessor of an enumeration field: a number that names no member reads as the default.\<close>

definition scavenge_result_of :: "scavenge_resp \<Rightarrow> wire_scavenge_result" where
  "scavenge_result_of resp =
     (if sr_scavenge_result resp = 1 then ScavengeInProgress
      else if sr_scavenge_result resp = 2 then ScavengeStopped
      else ScavengeStarted)"

text \<open>The options of creating and of updating a user.\<close>

record user_options =
  uo_login_name :: string
  uo_password :: string
  uo_full_name :: string
  uo_groups :: "string list"

record wire_user_details =
  wu_login_name :: string
  wu_full_name :: string
  wu_groups :: "string list"
  wu_last_updated :: "i64 option" \<comment> \<open>\<open>ticks_since_epoch\<close>\<close>
  wu_disabled :: bool

type_synonym details_resp = "wire_user_details option"

record change_password_options =
  cw_login_name :: string
  cw_current_password :: string
  cw_new_password :: string

record reset_password_options =
  rw_login_name :: string
  rw_new_password :: string

record stats_req =
  sq_use_metadata :: bool
  sq_refresh_time_period_in_ms :: u64

type_synonym stats_resp = "string \<rightharpoonup> string"

section \<open>Options and results\<close>

type_synonym operational_options = options

definition operational_options_default :: operational_options where
  "operational_options_default = \<lparr>common_operation_options = common_options_default\<rparr>"

definition operational_kind :: operation_kind where "operational_kind = Regular"

record stats_options = options +
  sto_refresh_time :: duration

definition stats_kind :: operation_kind where "stats_kind = Streaming"

definition stats_options_default :: stats_options where
  "stats_options_default =
     \<lparr>common_operation_options = common_options_default, sto_refresh_time = from_secs 1\<rparr>"

definition stats_refresh_time :: "duration \<Rightarrow> stats_options \<Rightarrow> stats_options" where
  "stats_refresh_time d opts = opts\<lparr>sto_refresh_time := d\<rparr>"

datatype scavenge_status = Started | InProgress | Stopped

record scavenge_result =
  scr_id :: string
  scr_status :: scavenge_status

record UserDetails =
  ud_login :: string
  ud_full_name :: string
  ud_groups :: "string list"
  ud_disabled :: bool
  ud_last_updated :: "duration option" \<comment> \<open>since the Unix epoch\<close>

section \<open>The node\<close>

definition ops_current_selected_node :: "(error, handle) outcome \<Rightarrow> (error, endpoint) outcome" where
  "ops_current_selected_node node = map_ok h_endpoint node"

definition ops_server_version :: "(error, handle) outcome \<Rightarrow> (error, server_info) outcome" where
  "ops_server_version node = map_ok h_server_info node"

text \<open>The request for the gossip carries the metadata of the default options, and no timeout.\<close>

definition ops_read_gossip ::
  "'c client_env \<Rightarrow> 'w net_env \<Rightarrow> client_settings \<Rightarrow> (error, handle) outcome
     \<Rightarrow> (handle \<Rightarrow> metadata \<Rightarrow> (status, wire_member_info list) outcome)
     \<Rightarrow> (error, member_info list) outcome" where
  "ops_read_gossip env net s node rpc =
     bind_outcome node (\<lambda>h.
     bind_outcome (build_request_metadata (ce_request env) s common_options_default) (\<lambda>md.
       map_err from_grpc (gossip_read net (rpc h md))))"

section \<open>Operations\<close>

text \<open>What the operations share: a node, the request of the message, the call.\<close>

definition operate ::
  "(error, handle) outcome \<Rightarrow> (error, 'm request) outcome
     \<Rightarrow> (handle \<Rightarrow> 'm request \<Rightarrow> (status, 'a) outcome) \<Rightarrow> (error, 'a) outcome" where
  "operate node request rpc =
     bind_outcome node (\<lambda>h. bind_outcome request (\<lambda>req. map_err from_grpc (rpc h req)))"

definition stats ::
  "'c client_env \<Rightarrow> client_settings \<Rightarrow> (error, handle) outcome
     \<Rightarrow> (handle \<Rightarrow> stats_req request \<Rightarrow> (status, stats_resp poll list) outcome)
     \<Rightarrow> stats_options \<Rightarrow> (error, stats_resp poll list) outcome" where
  "stats env s node rpc opts =
     operate node
       (new_request (ce_request env) s stats_kind opts
         \<lparr>sq_use_metadata = False, sq_refresh_time_period_in_ms = millis_as_u64 (sto_refresh_time opts)\<rparr>)
       rpc"

definition scavenge_result_from :: "scavenge_resp \<Rightarrow> scavenge_result" where
  "scavenge_result_from resp =
     (let status = (case scavenge_result_of resp of
            ScavengeStarted \<Rightarrow> Started
          | ScavengeInProgress \<Rightarrow> InProgress
          | ScavengeStopped \<Rightarrow> Stopped)
      in \<lparr>scr_id = sr_scavenge_id resp, scr_status = status\<rparr>)"

definition start_scavenge ::
  "'c client_env \<Rightarrow> client_settings \<Rightarrow> (error, handle) outcome
     \<Rightarrow> (handle \<Rightarrow> start_scavenge_options option request \<Rightarrow> (status, scavenge_resp) outcome)
     \<Rightarrow> usize \<Rightarrow> usize \<Rightarrow> operational_options \<Rightarrow> (error, scavenge_result) outcome" where
  "start_scavenge env s node rpc thread_count start_from_chunk opts =
     map_ok scavenge_result_from
       (operate node
         (new_request (ce_request env) s operational_kind opts
           (Some \<lparr>ss_thread_count = u64_as_i32 thread_count, ss_start_from_chunk = u64_as_i32 start_from_chunk\<rparr>))
         rpc)"

definition stop_scavenge ::
  "'c client_env \<Rightarrow> client_settings \<Rightarrow> (error, handle) outcome
     \<Rightarrow> (handle \<Rightarrow> string option request \<Rightarrow> (status, scavenge_resp) outcome)
     \<Rightarrow> string \<Rightarrow> operational_options \<Rightarrow> (error, scavenge_result) outcome" where
  "stop_scavenge env s node rpc scavenge_id opts =
     map_ok scavenge_result_from
       (operate node (new_request (ce_request env) s operational_kind opts (Some scavenge_id)) rpc)"

definition shutdown ::
  "'c client_env \<Rightarrow> client_settings \<Rightarrow> (error, handle) outcome
     \<Rightarrow> (handle \<Rightarrow> unit request \<Rightarrow> (status, unit) outcome)
     \<Rightarrow> operational_options \<Rightarrow> (error, unit) outcome" where
  "shutdown env s node rpc opts =
     operate node (new_request (ce_request env) s operational_kind opts ()) rpc"

definition merge_indexes ::
  "'c client_env \<Rightarrow> client_settings \<Rightarrow> (error, handle) outcome
     \<Rightarrow> (handle \<Rightarrow> unit request \<Rightarrow> (status, unit) outcome)
     \<Rightarrow> operational_options \<Rightarrow> (error, unit) outcome" where
  "merge_indexes env s node rpc opts =
     operate node (new_request (ce_request env) s operational_kind opts ()) rpc"

definition resign_node ::
  "'c client_env \<Rightarrow> client_settings \<Rightarrow> (error, handle) outcome
     \<Rightarrow> (handle \<Rightarrow> unit request \<Rightarrow> (status, unit) outcome)
     \<Rightarrow> operational_options \<Rightarrow> (error, unit) outcome" where
  "resign_node env s node rpc opts =
     operate node (new_request (ce_request env) s operational_kind opts ()) rpc"

definition set_node_priority ::
  "'c client_env \<Rightarrow> client_settings \<Rightarrow> (error, handle) outcome
     \<Rightarrow> (handle \<Rightarrow> i32 request \<Rightarrow> (status, unit) outcome)
     \<Rightarrow> usize \<Rightarrow> operational_options \<Rightarrow> (error, unit) outcome" where
  "set_node_priority env s node rpc priority opts =
     operate node (new_request (ce_request env) s operational_kind opts (u64_as_i32 priority)) rpc"

definition restart_persistent_subscriptions ::
  "'c client_env \<Rightarrow> client_settings \<Rightarrow> (error, handle) outcome
     \<Rightarrow> (handle \<Rightarrow> unit request \<Rightarrow> (status, unit) outcome)
     \<Rightarrow> operational_options \<Rightarrow> (error, unit) outcome" where
  "restart_persistent_subscriptions env s node rpc opts =
     operate node (new_request (ce_request env) s operational_kind opts ()) rpc"

section \<open>Users\<close>

definition create_user ::
  "'c client_env \<Rightarrow> client_settings \<Rightarrow> (error, handle) outcome
     \<Rightarrow> (handle \<Rightarrow> user_options option request \<Rightarrow> (status, unit) outcome)
     \<Rightarrow> string \<Rightarrow> string \<Rightarrow> string \<Rightarrow> string list \<Rightarrow> operational_options \<Rightarrow> (error, unit) outcome" where
  "create_user env s node rpc login password full_name groups opts =
     operate node
       (new_request (ce_request env) s operational_kind opts
         (Some \<lparr>uo_login_name = login, uo_password = password, uo_full_name = full_name,
               uo_groups = groups\<rparr>))
       rpc"

definition update_user ::
  "'c client_env \<Rightarrow> client_settings \<Rightarrow> (error, handle) outcome
     \<Rightarrow> (handle \<Rightarrow> user_options option request \<Rightarrow> (status, unit) outcome)
     \<Rightarrow> string \<Rightarrow> string \<Rightarrow> string \<Rightarrow> string list \<Rightarrow> operational_options \<Rightarrow> (error, unit) outcome" where
  "update_user env s node rpc login password full_name groups opts =
     operate node
       (new_request (ce_request env) s operational_kind opts
         (Some \<lparr>uo_login_name = login, uo_password = password, uo_full_name = full_name,
               uo_groups = groups\<rparr>))
       rpc"

definition delete_user ::
  "'c client_env \<Rightarrow> client_settings \<Rightarrow> (error, handle) outcome
     \<Rightarrow> (handle \<Rightarrow> string option request \<Rightarrow> (status, unit) outcome)
     \<Rightarrow> string \<Rightarrow> operational_options \<Rightarrow> (error, unit) outcome" where
  "delete_user env s node rpc login opts =
     operate node (new_request (ce_request env) s operational_kind opts (Some login)) rpc"

definition enable_user ::
  "'c client_env \<Rightarrow> client_settings \<Rightarrow> (error, handle) outcome
     \<Rightarrow> (handle \<Rightarrow> string option request \<Rightarrow> (status, unit) outcome)
     \<Rightarrow> string \<Rightarrow> operational_options \<Rightarrow> (error, unit) outcome" where
  "enable_user env s node rpc login opts =
     operate node (new_request (ce_request env) s operational_kind opts (Some login)) rpc"

definition disable_user ::
  "'c client_env \<Rightarrow> client_settings \<Rightarrow> (error, handle) outcome
     \<Rightarrow> (handle \<Rightarrow> string option request \<Rightarrow> (status, unit) outcome)
     \<Rightarrow> string \<Rightarrow> operational_options \<Rightarrow> (error, unit) outcome" where
  "disable_user env s node rpc login opts =
     operate node (new_request (ce_request env) s operational_kind opts (Some login)) rpc"

definition user_details ::
  "'c client_env \<Rightarrow> client_settings \<Rightarrow> (error, handle) outcome
     \<Rightarrow> (handle \<Rightarrow> string option request \<Rightarrow> (status, details_resp poll list) outcome)
     \<Rightarrow> string \<Rightarrow> operational_options \<Rightarrow> (error, details_resp poll list) outcome" where
  "user_details env s node rpc login opts =
     operate node (new_request (ce_request env) s operational_kind opts (Some login)) rpc"

definition change_user_password ::
  "'c client_env \<Rightarrow> client_settings \<Rightarrow> (error, handle) outcome
     \<Rightarrow> (handle \<Rightarrow> change_password_options option request \<Rightarrow> (status, unit) outcome)
     \<Rightarrow> string \<Rightarrow> string \<Rightarrow> string \<Rightarrow> operational_options \<Rightarrow> (error, unit) outcome" where
  "change_user_password env s node rpc login current_password new_password opts =
     operate node
       (new_request (ce_request env) s operational_kind opts
         (Some \<lparr>cw_login_name = login, cw_current_password = current_password,
               cw_new_password = new_password\<rparr>))
       rpc"

definition reset_user_password ::
  "'c client_env \<Rightarrow> client_settings \<Rightarrow> (error, handle) outcome
     \<Rightarrow> (handle \<Rightarrow> reset_password_options option request \<Rightarrow> (status, unit) outcome)
     \<Rightarrow> string \<Rightarrow> string \<Rightarrow> operational_options \<Rightarrow> (error, unit) outcome" where
  "reset_user_password env s node rpc login new_password opts =
     operate node
       (new_request (ce_request env) s operational_kind opts
         (Some \<lparr>rw_login_name = login, rw_new_password = new_password\<rparr>))
       rpc"

section \<open>The streams\<close>

text \<open>\<open>Stats::next\<close>: the statistics, and the end of the stream as an error; \<open>None\<close> while it waits.\<close>

fun stats_next :: "stats_resp poll list \<Rightarrow> ((error, stats_resp) outcome \<times> stats_resp poll list) option" where
  "stats_next [] = None"
| "stats_next (Broken st # rest) = Some (Err (from_grpc st), rest)"
| "stats_next (Message resp # rest) = Some (Ok resp, rest)"
| "stats_next (Closed # rest) = Some (Err ResourceNotFound, rest)"

text \<open>
  A date is the whole seconds of a count of 100-nanosecond ticks, read as unsigned. The time is
  always in range: it has less than \<open>2 ^ 63\<close> seconds.
\<close>

definition user_last_updated :: "i64 \<Rightarrow> duration option" where
  "user_last_updated ticks =
     (let since = from_secs (((ucast ticks :: u64) div 10000000))
      in if since div 1000000000 < 2 ^ 63 then Some since else None)"

definition user_details_of :: "wire_user_details \<Rightarrow> UserDetails" where
  "user_details_of details =
     (let last_updated = (case wu_last_updated details of
            Some ticks \<Rightarrow> user_last_updated ticks
          | None \<Rightarrow> None)
      in \<lparr>ud_login = wu_login_name details, ud_full_name = wu_full_name details,
          ud_groups = wu_groups details, ud_disabled = wu_disabled details,
          ud_last_updated = last_updated\<rparr>)"

text \<open>\<open>UserDetailsStream::next\<close>: an answer without details reads as the end of the stream.\<close>

fun user_details_next ::
  "details_resp poll list \<Rightarrow> ((error, UserDetails option) outcome \<times> details_resp poll list) option" where
  "user_details_next [] = None"
| "user_details_next (Broken st # rest) = Some (Err (from_grpc st), rest)"
| "user_details_next (Message resp # rest) = Some (Ok (map_option user_details_of resp), rest)"
| "user_details_next (Closed # rest) = Some (Ok None, rest)"

section \<open>Facts\<close>

lemma operate_Ok_iff:
  "operate node request rpc = Ok a \<longleftrightarrow>
     (\<exists>h req. node = Ok h \<and> request = Ok req \<and> rpc h req = Ok a)"
  by (cases node; cases request) (auto simp: operate_def map_err_Ok_iff)

text \<open>An operation fails as the search for a node does, or as the translated answer of the server.\<close>

lemma operate_Err:
  assumes "operate node (new_request env s kind opts message) rpc = Err e"
  shows "node = Err e \<or> (\<exists>h req st. node = Ok h \<and> rpc h req = Err st \<and> e = from_grpc st)"
proof (cases node)
  case (Ok h)
  show ?thesis
  proof (cases "new_request env s kind opts message")
    case (Ok req)
    with assms \<open>node = Ok h\<close> show ?thesis by (cases "rpc h req") (auto simp: operate_def)
  qed (use assms Ok in \<open>simp_all add: operate_def\<close>)
qed (use assms in \<open>simp_all add: operate_def\<close>)

text \<open>
  A leader the server names is the caller's error only: there are no messages to the connection
  in what an operation gives, unlike the commands of the client.
\<close>

lemma operation_keeps_leader_to_itself:
  assumes "new_request (ce_request env) s operational_kind opts () = Ok req"
    and "rpc h req = Err st" and "from_grpc st = NotLeaderException leader"
  shows "resign_node env s (Ok h) rpc opts = Err (NotLeaderException leader)"
    and "snd (execute_request (Ok req) (Ok h) rpc) = [CreateChannel (h_id h) (Some leader)]"
  using assms by (simp_all add: resign_node_def operate_def execute_request_def execute_def Let_def)

text \<open>The answer of a scavenge keeps its identifier; an unknown result reads as started.\<close>

lemma scavenge_unknown_result:
  "sr_scavenge_result resp \<notin> {1, 2} \<Longrightarrow>
     scavenge_result_from resp = \<lparr>scr_id = sr_scavenge_id resp, scr_status = Started\<rparr>"
  by (simp add: scavenge_result_from_def scavenge_result_of_def)

text \<open>
  A number of threads, a chunk or a priority beyond 32 bits reaches the server as another
  (\<open>u64_as_i32_exact\<close>).
\<close>

lemma set_node_priority_sent:
  assumes "set_node_priority env s (Ok h) (\<lambda>_ req. if sint (req_message req) = uint priority then Ok () else Err st)
      priority opts = Ok ()"
  shows "priority < 2 ^ 31"
  using assms
  by (auto dest!: new_request_OkD(2) simp: set_node_priority_def operate_Ok_iff u64_as_i32_exact split: if_splits)

text \<open>
  The date of a user is the second its ticks lie in. Ticks before the epoch become a date at least
  twenty-nine thousand years after it (\<open>2 ^ 63\<close> ticks), and no date is out of range.
\<close>

lemma user_last_updated_value:
  "user_last_updated ticks = Some (unat (ucast ticks :: u64) div 10000000 * 1000000000)"
proof -
  have "unat (ucast ticks :: u64) < 2 ^ 64" using unsigned_less [of "ucast ticks :: u64"] by simp
  then show ?thesis
    by (simp add: user_last_updated_def from_secs_def Let_def unat_div)
qed

lemma user_last_updated_after_epoch:
  assumes "0 \<le> sint ticks"
  shows "user_last_updated ticks = Some (nat (sint ticks) div 10000000 * 1000000000)"
proof -
  have "sint ticks < 2 ^ 63" using sint_lt [of ticks] by simp
  with assms have "uint ticks = sint ticks" by (simp add: uint_sint take_bit_int_eq_self)
  then have "unat ticks = nat (sint ticks)" by (simp add: unat_eq_nat_uint)
  then show ?thesis by (simp add: user_last_updated_value)
qed

lemma user_last_updated_before_epoch:
  assumes "sint ticks < 0"
  shows "\<exists>t. user_last_updated ticks = Some t \<and> 922337203685 * 1000000000 \<le> t"
  using sint_negative [OF assms] by (simp add: user_last_updated_value)

end
