(* ===== verification/Facade.thy ===== *)
theory Facade
  imports Management Batch Subscription Metadata
begin

text \<open>
  The client (\<open>client.rs\<close>): each of its methods runs one command in the span of its operation.
  What a command tells the connection passes through; the span is what is exported of it once the
  method has returned. Setting and getting the metadata of a stream are an append and a read with a
  JSON payload; JSON text is read and written by a library, an environment record here.
\<close>

section \<open>Operations\<close>

definition OP_APPEND_TO_STREAM :: client_op where
  "OP_APPEND_TO_STREAM = ClientOperation ''append_to_stream''"
definition OP_BATCH_APPEND :: client_op where "OP_BATCH_APPEND = ClientOperation ''batch_append''"
definition OP_CREATE_PERSISTENT_SUBSCRIPTION :: client_op where
  "OP_CREATE_PERSISTENT_SUBSCRIPTION = ClientOperation ''create_persistent_subscription''"
definition OP_CREATE_PERSISTENT_SUBSCRIPTION_TO_ALL :: client_op where
  "OP_CREATE_PERSISTENT_SUBSCRIPTION_TO_ALL = ClientOperation ''create_persistent_subscription_to_all''"
definition OP_DELETE_PERSISTENT_SUBSCRIPTION :: client_op where
  "OP_DELETE_PERSISTENT_SUBSCRIPTION = ClientOperation ''delete_persistent_subscription''"
definition OP_DELETE_PERSISTENT_SUBSCRIPTION_TO_ALL :: client_op where
  "OP_DELETE_PERSISTENT_SUBSCRIPTION_TO_ALL = ClientOperation ''delete_persistent_subscription_to_all''"
definition OP_DELETE_STREAM :: client_op where
  "OP_DELETE_STREAM = ClientOperation ''delete_stream''"
definition OP_GET_PERSISTENT_SUBSCRIPTION_INFO :: client_op where
  "OP_GET_PERSISTENT_SUBSCRIPTION_INFO = ClientOperation ''get_persistent_subscription_info''"
definition OP_GET_PERSISTENT_SUBSCRIPTION_INFO_TO_ALL :: client_op where
  "OP_GET_PERSISTENT_SUBSCRIPTION_INFO_TO_ALL = ClientOperation ''get_persistent_subscription_info_to_all''"
definition OP_GET_STREAM_METADATA :: client_op where
  "OP_GET_STREAM_METADATA = ClientOperation ''get_stream_metadata''"
definition OP_LIST_ALL_PERSISTENT_SUBSCRIPTIONS :: client_op where
  "OP_LIST_ALL_PERSISTENT_SUBSCRIPTIONS = ClientOperation ''list_all_persistent_subscriptions''"
definition OP_LIST_PERSISTENT_SUBSCRIPTIONS_FOR_STREAM :: client_op where
  "OP_LIST_PERSISTENT_SUBSCRIPTIONS_FOR_STREAM = ClientOperation ''list_persistent_subscriptions_for_stream''"
definition OP_LIST_PERSISTENT_SUBSCRIPTIONS_TO_ALL :: client_op where
  "OP_LIST_PERSISTENT_SUBSCRIPTIONS_TO_ALL = ClientOperation ''list_persistent_subscriptions_to_all''"
definition OP_READ_ALL :: client_op where "OP_READ_ALL = ClientOperation ''read_all''"
definition OP_READ_STREAM :: client_op where "OP_READ_STREAM = ClientOperation ''read_stream''"
definition OP_REPLAY_PARKED_MESSAGES :: client_op where
  "OP_REPLAY_PARKED_MESSAGES = ClientOperation ''replay_parked_messages''"
definition OP_REPLAY_PARKED_MESSAGES_TO_ALL :: client_op where
  "OP_REPLAY_PARKED_MESSAGES_TO_ALL = ClientOperation ''replay_parked_messages_to_all''"
definition OP_RESTART_PERSISTENT_SUBSCRIPTION_SUBSYSTEM :: client_op where
  "OP_RESTART_PERSISTENT_SUBSCRIPTION_SUBSYSTEM = ClientOperation ''restart_persistent_subscription_subsystem''"
definition OP_SET_STREAM_METADATA :: client_op where
  "OP_SET_STREAM_METADATA = ClientOperation ''set_stream_metadata''"
definition OP_SUBSCRIBE_TO_ALL :: client_op where
  "OP_SUBSCRIBE_TO_ALL = ClientOperation ''subscribe_to_all''"
definition OP_SUBSCRIBE_TO_PERSISTENT_SUBSCRIPTION :: client_op where
  "OP_SUBSCRIBE_TO_PERSISTENT_SUBSCRIPTION = ClientOperation ''subscribe_to_persistent_subscription''"
definition OP_SUBSCRIBE_TO_PERSISTENT_SUBSCRIPTION_TO_ALL :: client_op where
  "OP_SUBSCRIBE_TO_PERSISTENT_SUBSCRIPTION_TO_ALL = ClientOperation ''subscribe_to_persistent_subscription_to_all''"
definition OP_SUBSCRIBE_TO_STREAM :: client_op where
  "OP_SUBSCRIBE_TO_STREAM = ClientOperation ''subscribe_to_stream''"
definition OP_TOMBSTONE_STREAM :: client_op where
  "OP_TOMBSTONE_STREAM = ClientOperation ''tombstone_stream''"
definition OP_UPDATE_PERSISTENT_SUBSCRIPTION :: client_op where
  "OP_UPDATE_PERSISTENT_SUBSCRIPTION = ClientOperation ''update_persistent_subscription''"
definition OP_UPDATE_PERSISTENT_SUBSCRIPTION_TO_ALL :: client_op where
  "OP_UPDATE_PERSISTENT_SUBSCRIPTION_TO_ALL = ClientOperation ''update_persistent_subscription_to_all''"

section \<open>The client\<close>

text \<open>
  \<open>serde_json\<close> between bytes and serde values: \<open>to_vec\<close>, and \<open>from_slice\<close> with the text of its
  error. Reading a type with \<open>from_slice\<close> is reading the value and then the type from it.
\<close>

record json_lib =
  jl_to_vec :: "ser_value \<Rightarrow> (string, bytes) outcome"
  jl_from_slice :: "bytes \<Rightarrow> (string, ser_value) outcome"

text \<open>A command in its span: the messages to the connection are the command's.\<close>

definition in_span ::
  "client_span \<Rightarrow> (error, 'a) outcome \<times> msg list \<Rightarrow> ((error, 'a) outcome \<times> 'c span) \<times> msg list" where
  "in_span sp run = (client_operation sp (fst run), snd run)"

text \<open>
  Making a client: the connection's first, whose actor is started, and then the HTTP client's
  (\<open>build accept_invalid_certs https_only\<close>); either error ends it.
\<close>

definition client_with_runtime_handle ::
  "(string, unit) outcome \<Rightarrow> (bool \<Rightarrow> bool \<Rightarrow> (string, 'b) outcome) \<Rightarrow> client_settings \<Rightarrow> 'w
     \<Rightarrow> (string + error, 'b \<times> 'w machine) outcome" where
  "client_with_runtime_handle tls build s w =
     bind_outcome (map_err Inl (node_connection_new tls s)) (\<lambda>conn.
     bind_outcome (map_err (Inr \<circ> InitializationError) (build (\<not> tls_verify_cert s) (secure s)))
       (\<lambda>http. Ok (http, machine_new conn w)))"

definition client_server_info :: "(error, handle) outcome \<Rightarrow> (error, server_info) outcome" where
  "client_server_info node = map_ok h_server_info node"

section \<open>Streams\<close>

definition client_append_to_stream ::
  "'c client_env \<Rightarrow> client_settings \<Rightarrow> (error, handle) outcome
     \<Rightarrow> (handle \<Rightarrow> append_req list request \<Rightarrow> (status, append_resp) outcome)
     \<Rightarrow> name_source \<Rightarrow> append_options \<Rightarrow> event_data list
     \<Rightarrow> ((error, write_result) outcome \<times> 'c span) \<times> msg list" where
  "client_append_to_stream env s node rpc name opts events =
     (let stream_name = into_stream_name name
      in in_span (on_stream (ce_trace env) OP_APPEND_TO_STREAM stream_name)
           (append_to_stream env s node rpc (NameBytes stream_name) opts events))"

definition client_set_stream_metadata ::
  "'c client_env \<Rightarrow> json_lib \<Rightarrow> client_settings \<Rightarrow> (error, handle) outcome
     \<Rightarrow> (handle \<Rightarrow> append_req list request \<Rightarrow> (status, append_resp) outcome)
     \<Rightarrow> name_source \<Rightarrow> append_options \<Rightarrow> stream_metadata
     \<Rightarrow> ((error, write_result) outcome \<times> 'c span) \<times> msg list" where
  "client_set_stream_metadata env j s node rpc name opts m =
     (let stream_name = into_metadata_stream_name name
      in in_span (on_stream (ce_trace env) OP_SET_STREAM_METADATA stream_name)
           (case event_data_json ''$metadata'' (jl_to_vec j (serialize_metadata m)) of
              Ok event \<Rightarrow> append_to_stream env s node rpc (NameBytes stream_name) opts [event]
            | Err e \<Rightarrow> (Err (InternalParsingError e), [])
            | Panic \<Rightarrow> (Panic, [])))"

definition client_batch_append ::
  "'c client_env \<Rightarrow> client_settings \<Rightarrow> (error, handle) outcome \<Rightarrow> batch_append_options
     \<Rightarrow> (error, handle \<times> unit request) outcome \<times> 'c span" where
  "client_batch_append env s node opts =
     client_operation (plain_span OP_BATCH_APPEND) (batch_append env s node opts)"

definition client_read_stream ::
  "'c client_env \<Rightarrow> client_settings \<Rightarrow> (error, handle) outcome
     \<Rightarrow> (handle \<Rightarrow> read_req_options option request \<Rightarrow> (status, read_resp poll list) outcome)
     \<Rightarrow> name_source \<Rightarrow> read_stream_options \<Rightarrow> ((error, reading) outcome \<times> 'c span) \<times> msg list" where
  "client_read_stream env s node rpc name opts =
     (let stream_name = into_stream_name name
      in in_span (on_stream (ce_trace env) OP_READ_STREAM stream_name)
           (read_stream env s node rpc opts (NameBytes stream_name) (ro_max_count opts)))"

definition client_read_all ::
  "'c client_env \<Rightarrow> client_settings \<Rightarrow> (error, handle) outcome
     \<Rightarrow> (handle \<Rightarrow> read_req_options option request \<Rightarrow> (status, read_resp poll list) outcome)
     \<Rightarrow> read_all_options \<Rightarrow> ((error, reading) outcome \<times> 'c span) \<times> msg list" where
  "client_read_all env s node rpc opts =
     in_span (on_collection OP_READ_ALL ''$all'') (read_all env s node rpc opts (ra_max_count opts))"

text \<open>
  What becomes of the first answer of a read of metadata: an event must come, and its payload must
  be metadata; a missing and a deleted stream are results.
\<close>

definition metadata_of_event ::
  "json_lib \<Rightarrow> resolved_event \<Rightarrow> (error, stream_metadata_result) outcome" where
  "metadata_of_event j event =
     bind_outcome (get_original_event event) (\<lambda>original.
     bind_outcome
       (map_err InternalParsingError
         (bind_outcome (jl_from_slice j (re_data original)) deserialize_metadata)) (\<lambda>m.
     bind_outcome (get_original_stream_id event) (\<lambda>stream.
       Ok (MetaSuccess \<lparr>vm_stream = stream, vm_version = re_revision original, vm_metadata = m\<rparr>))))"

definition metadata_answer ::
  "json_lib \<Rightarrow> (error, resolved_event option) outcome \<Rightarrow> (error, stream_metadata_result) outcome" where
  "metadata_answer j answer =
     (case answer of
        Ok (Some event) \<Rightarrow> metadata_of_event j event
      | Ok None \<Rightarrow> Panic
      | Err e \<Rightarrow>
          (case e of
             ResourceNotFound \<Rightarrow> Ok MetaNotFound
           | ResourceDeleted \<Rightarrow> Ok MetaDeleted
           | other \<Rightarrow> Err other)
      | Panic \<Rightarrow> Panic)"

text \<open>\<open>None\<close> while the read waits for its first answer.\<close>

definition client_get_stream_metadata ::
  "'c client_env \<Rightarrow> json_lib \<Rightarrow> client_settings \<Rightarrow> (error, handle) outcome
     \<Rightarrow> (handle \<Rightarrow> read_req_options option request \<Rightarrow> (status, read_resp poll list) outcome)
     \<Rightarrow> name_source \<Rightarrow> read_stream_options
     \<Rightarrow> (((error, stream_metadata_result) outcome \<times> 'c span) \<times> msg list) option" where
  "client_get_stream_metadata env j s node rpc name opts =
     (let stream_name = into_metadata_stream_name name
      in map_option (in_span (on_stream (ce_trace env) OP_GET_STREAM_METADATA stream_name))
           (case read_stream env s node rpc opts (NameBytes stream_name) (ro_max_count opts) of
              (Ok st, msgs) \<Rightarrow>
                map_option (\<lambda>((answer, more_msgs), _). (metadata_answer j answer, msgs @ more_msgs))
                  (read_next (ce_uuid_parse env) (rd_channel_id st) (rd_inner st))
            | (Err e, msgs) \<Rightarrow> Some (Err e, msgs)
            | (Panic, msgs) \<Rightarrow> Some (Panic, msgs)))"

definition client_delete_stream ::
  "'c client_env \<Rightarrow> client_settings \<Rightarrow> (error, handle) outcome
     \<Rightarrow> (handle \<Rightarrow> delete_req_options option request \<Rightarrow> (status, delete_resp) outcome)
     \<Rightarrow> name_source \<Rightarrow> delete_stream_options
     \<Rightarrow> ((error, Position option) outcome \<times> 'c span) \<times> msg list" where
  "client_delete_stream env s node rpc name opts =
     (let stream_name = into_stream_name name
      in in_span (on_stream (ce_trace env) OP_DELETE_STREAM stream_name)
           (delete_stream env s node rpc (NameBytes stream_name) opts))"

definition client_tombstone_stream ::
  "'c client_env \<Rightarrow> client_settings \<Rightarrow> (error, handle) outcome
     \<Rightarrow> (handle \<Rightarrow> delete_req_options option request \<Rightarrow> (status, delete_resp) outcome)
     \<Rightarrow> name_source \<Rightarrow> tombstone_stream_options
     \<Rightarrow> ((error, Position option) outcome \<times> 'c span) \<times> msg list" where
  "client_tombstone_stream env s node rpc name opts =
     (let stream_name = into_stream_name name
      in in_span (on_stream (ce_trace env) OP_TOMBSTONE_STREAM stream_name)
           (tombstone_stream env s node rpc (NameBytes stream_name) opts))"

text \<open>A subscription is made without asking for a node, so its span never shows an error.\<close>

definition client_subscribe_to_stream ::
  "'c client_env \<Rightarrow> client_settings \<Rightarrow> name_source \<Rightarrow> subscribe_to_stream_options
     \<Rightarrow> (error, subscription) outcome \<times> 'c span" where
  "client_subscribe_to_stream env s name opts =
     (let stream_name = into_stream_name name
      in infallible_client_operation (on_stream (ce_trace env) OP_SUBSCRIBE_TO_STREAM stream_name)
           (subscribe_to_stream env s (NameBytes stream_name) opts))"

definition client_subscribe_to_all ::
  "'c client_env \<Rightarrow> client_settings \<Rightarrow> subscribe_to_all_options
     \<Rightarrow> (error, subscription) outcome \<times> 'c span" where
  "client_subscribe_to_all env s opts =
     infallible_client_operation (on_collection OP_SUBSCRIBE_TO_ALL ''$all'') (subscribe_to_all env s opts)"

section \<open>Persistent subscriptions\<close>

text \<open>A group to \<open>$all\<close> goes to the command with an empty stream name.\<close>

definition client_create_persistent_subscription ::
  "'c client_env \<Rightarrow> client_settings \<Rightarrow> (error, handle) outcome
     \<Rightarrow> (handle \<Rightarrow> create_req_options option request \<Rightarrow> (status, unit) outcome)
     \<Rightarrow> name_source \<Rightarrow> string \<Rightarrow> persistent_subscription_options
     \<Rightarrow> ((error, unit) outcome \<times> 'c span) \<times> msg list" where
  "client_create_persistent_subscription env s node rpc name group_name opts =
     (let stream_name = into_stream_name name
      in in_span (on_stream (ce_trace env) OP_CREATE_PERSISTENT_SUBSCRIPTION stream_name)
           (create_persistent_subscription env s stream_group node rpc (NameBytes stream_name) group_name opts))"

definition client_create_persistent_subscription_to_all ::
  "'c client_env \<Rightarrow> client_settings \<Rightarrow> (error, handle) outcome
     \<Rightarrow> (handle \<Rightarrow> create_req_options option request \<Rightarrow> (status, unit) outcome)
     \<Rightarrow> string \<Rightarrow> ps_to_all_options
     \<Rightarrow> ((error, unit) outcome \<times> 'c span) \<times> msg list" where
  "client_create_persistent_subscription_to_all env s node rpc group_name opts =
     in_span (on_collection OP_CREATE_PERSISTENT_SUBSCRIPTION_TO_ALL ''$all'')
       (create_persistent_subscription env s all_group node rpc (NameStr []) group_name opts)"

definition client_update_persistent_subscription ::
  "'c client_env \<Rightarrow> client_settings \<Rightarrow> (error, handle) outcome
     \<Rightarrow> (handle \<Rightarrow> update_req_options option request \<Rightarrow> (status, unit) outcome)
     \<Rightarrow> name_source \<Rightarrow> string \<Rightarrow> persistent_subscription_options
     \<Rightarrow> ((error, unit) outcome \<times> 'c span) \<times> msg list" where
  "client_update_persistent_subscription env s node rpc name group_name opts =
     (let stream_name = into_stream_name name
      in in_span (on_stream (ce_trace env) OP_UPDATE_PERSISTENT_SUBSCRIPTION stream_name)
           (update_persistent_subscription env s stream_group node rpc (NameBytes stream_name) group_name opts))"

definition client_update_persistent_subscription_to_all ::
  "'c client_env \<Rightarrow> client_settings \<Rightarrow> (error, handle) outcome
     \<Rightarrow> (handle \<Rightarrow> update_req_options option request \<Rightarrow> (status, unit) outcome)
     \<Rightarrow> string \<Rightarrow> ps_to_all_options
     \<Rightarrow> ((error, unit) outcome \<times> 'c span) \<times> msg list" where
  "client_update_persistent_subscription_to_all env s node rpc group_name opts =
     in_span (on_collection OP_UPDATE_PERSISTENT_SUBSCRIPTION_TO_ALL ''$all'')
       (update_persistent_subscription env s all_group node rpc (NameStr []) group_name opts)"

definition client_delete_persistent_subscription ::
  "'c client_env \<Rightarrow> client_settings \<Rightarrow> (error, handle) outcome
     \<Rightarrow> (handle \<Rightarrow> ps_group_options option request \<Rightarrow> (status, unit) outcome)
     \<Rightarrow> name_source \<Rightarrow> string \<Rightarrow> options
     \<Rightarrow> ((error, unit) outcome \<times> 'c span) \<times> msg list" where
  "client_delete_persistent_subscription env s node rpc name group_name opts =
     (let stream_name = into_stream_name name
      in in_span (on_stream (ce_trace env) OP_DELETE_PERSISTENT_SUBSCRIPTION stream_name)
           (delete_persistent_subscription env s node rpc (NameBytes stream_name) group_name opts False))"

definition client_delete_persistent_subscription_to_all ::
  "'c client_env \<Rightarrow> client_settings \<Rightarrow> (error, handle) outcome
     \<Rightarrow> (handle \<Rightarrow> ps_group_options option request \<Rightarrow> (status, unit) outcome)
     \<Rightarrow> string \<Rightarrow> options
     \<Rightarrow> ((error, unit) outcome \<times> 'c span) \<times> msg list" where
  "client_delete_persistent_subscription_to_all env s node rpc group_name opts =
     in_span (on_collection OP_DELETE_PERSISTENT_SUBSCRIPTION_TO_ALL ''$all'')
       (delete_persistent_subscription env s node rpc (NameStr []) group_name opts True)"

definition client_subscribe_to_persistent_subscription ::
  "'c client_env \<Rightarrow> client_settings \<Rightarrow> (error, handle) outcome
     \<Rightarrow> (handle \<Rightarrow> unit request \<Rightarrow> ps_read_req list \<Rightarrow> (status, ps_read_resp poll list) outcome)
     \<Rightarrow> name_source \<Rightarrow> string \<Rightarrow> subscribe_to_ps_options
     \<Rightarrow> ((error, persistent_subscription) outcome \<times> 'c span) \<times> msg list" where
  "client_subscribe_to_persistent_subscription env s node rpc name group_name opts =
     (let stream_name = into_stream_name name
      in in_span (on_stream (ce_trace env) OP_SUBSCRIBE_TO_PERSISTENT_SUBSCRIPTION stream_name)
           (subscribe_to_persistent_subscription env s node rpc (NameBytes stream_name) group_name opts False))"

definition client_subscribe_to_persistent_subscription_to_all ::
  "'c client_env \<Rightarrow> client_settings \<Rightarrow> (error, handle) outcome
     \<Rightarrow> (handle \<Rightarrow> unit request \<Rightarrow> ps_read_req list \<Rightarrow> (status, ps_read_resp poll list) outcome)
     \<Rightarrow> string \<Rightarrow> subscribe_to_ps_options
     \<Rightarrow> ((error, persistent_subscription) outcome \<times> 'c span) \<times> msg list" where
  "client_subscribe_to_persistent_subscription_to_all env s node rpc group_name opts =
     in_span (on_collection OP_SUBSCRIBE_TO_PERSISTENT_SUBSCRIPTION_TO_ALL ''$all'')
       (subscribe_to_persistent_subscription env s node rpc (NameStr []) group_name opts True)"

definition client_replay_parked_messages ::
  "'c client_env \<Rightarrow> http_env \<Rightarrow> client_settings \<Rightarrow> (error, handle) outcome
     \<Rightarrow> (handle \<Rightarrow> replay_options option request \<Rightarrow> (status, unit) outcome)
     \<Rightarrow> string \<Rightarrow> string \<Rightarrow> replay_parked_options
     \<Rightarrow> ((error, unit) outcome \<times> 'c span) \<times> msg list" where
  "client_replay_parked_messages env http s node rpc stream group_name opts =
     in_span (on_collection OP_REPLAY_PARKED_MESSAGES stream)
       (replay_parked_messages env http s node rpc (RegularStream stream) group_name opts)"

definition client_replay_parked_messages_to_all ::
  "'c client_env \<Rightarrow> http_env \<Rightarrow> client_settings \<Rightarrow> (error, handle) outcome
     \<Rightarrow> (handle \<Rightarrow> replay_options option request \<Rightarrow> (status, unit) outcome)
     \<Rightarrow> string \<Rightarrow> replay_parked_options
     \<Rightarrow> ((error, unit) outcome \<times> 'c span) \<times> msg list" where
  "client_replay_parked_messages_to_all env http s node rpc group_name opts =
     in_span (on_collection OP_REPLAY_PARKED_MESSAGES_TO_ALL ''$all'')
       (replay_parked_messages env http s node rpc AllStream group_name opts)"

definition client_list_all_persistent_subscriptions ::
  "'c client_env \<Rightarrow> http_env \<Rightarrow> client_settings \<Rightarrow> (error, handle) outcome
     \<Rightarrow> (handle \<Rightarrow> list_option option option request \<Rightarrow> (status, subscription_info list) outcome)
     \<Rightarrow> options
     \<Rightarrow> ((error, revision_or_position ps_info list) outcome \<times> 'c span) \<times> msg list" where
  "client_list_all_persistent_subscriptions env http s node rpc opts =
     in_span (plain_span OP_LIST_ALL_PERSISTENT_SUBSCRIPTIONS)
       (list_all_persistent_subscriptions env http s node rpc opts)"

definition client_list_persistent_subscriptions_for_stream ::
  "'c client_env \<Rightarrow> http_env \<Rightarrow> client_settings \<Rightarrow> (error, handle) outcome
     \<Rightarrow> (handle \<Rightarrow> list_option option option request \<Rightarrow> (status, subscription_info list) outcome)
     \<Rightarrow> string \<Rightarrow> options
     \<Rightarrow> ((error, u64 ps_info list) outcome \<times> 'c span) \<times> msg list" where
  "client_list_persistent_subscriptions_for_stream env http s node rpc stream opts =
     in_span (on_collection OP_LIST_PERSISTENT_SUBSCRIPTIONS_FOR_STREAM stream)
       (list_persistent_subscriptions_for_stream env http s node rpc (RegularStream stream)
         select_regular opts)"

definition client_list_persistent_subscriptions_to_all ::
  "'c client_env \<Rightarrow> http_env \<Rightarrow> client_settings \<Rightarrow> (error, handle) outcome
     \<Rightarrow> (handle \<Rightarrow> list_option option option request \<Rightarrow> (status, subscription_info list) outcome)
     \<Rightarrow> options
     \<Rightarrow> ((error, Position ps_info list) outcome \<times> 'c span) \<times> msg list" where
  "client_list_persistent_subscriptions_to_all env http s node rpc opts =
     in_span (on_collection OP_LIST_PERSISTENT_SUBSCRIPTIONS_TO_ALL ''$all'')
       (list_persistent_subscriptions_for_stream env http s node rpc AllStream select_all opts)"

definition client_get_persistent_subscription_info ::
  "'c client_env \<Rightarrow> http_env \<Rightarrow> client_settings \<Rightarrow> (error, handle) outcome
     \<Rightarrow> (handle \<Rightarrow> ps_group_options option request \<Rightarrow> (status, subscription_info option) outcome)
     \<Rightarrow> string \<Rightarrow> string \<Rightarrow> options
     \<Rightarrow> ((error, u64 ps_info) outcome \<times> 'c span) \<times> msg list" where
  "client_get_persistent_subscription_info env http s node rpc stream group_name opts =
     in_span (on_collection OP_GET_PERSISTENT_SUBSCRIPTION_INFO stream)
       (get_persistent_subscription_info env http s node rpc (RegularStream stream) select_regular
         group_name opts)"

definition client_get_persistent_subscription_info_to_all ::
  "'c client_env \<Rightarrow> http_env \<Rightarrow> client_settings \<Rightarrow> (error, handle) outcome
     \<Rightarrow> (handle \<Rightarrow> ps_group_options option request \<Rightarrow> (status, subscription_info option) outcome)
     \<Rightarrow> string \<Rightarrow> options
     \<Rightarrow> ((error, Position ps_info) outcome \<times> 'c span) \<times> msg list" where
  "client_get_persistent_subscription_info_to_all env http s node rpc group_name opts =
     in_span (on_collection OP_GET_PERSISTENT_SUBSCRIPTION_INFO_TO_ALL ''$all'')
       (get_persistent_subscription_info env http s node rpc AllStream select_all group_name opts)"

definition client_restart_persistent_subscription_subsystem ::
  "'c client_env \<Rightarrow> http_env \<Rightarrow> client_settings \<Rightarrow> (error, handle) outcome
     \<Rightarrow> (handle \<Rightarrow> unit request \<Rightarrow> (status, unit) outcome)
     \<Rightarrow> options
     \<Rightarrow> ((error, unit) outcome \<times> 'c span) \<times> msg list" where
  "client_restart_persistent_subscription_subsystem env http s node rpc opts =
     in_span (plain_span OP_RESTART_PERSISTENT_SUBSCRIPTION_SUBSYSTEM)
       (restart_persistent_subscription_subsystem env http s node rpc opts)"

section \<open>Facts\<close>

lemma in_span_simps [simp]:
  "fst (fst (in_span sp run)) = fst run" "snd (in_span sp run) = snd run"
  by (simp_all add: in_span_def client_operation_def Let_def)

text \<open>
  The span of a method has an error status exactly when the method gives an error, and its type
  then; a panic leaves it without one.
\<close>

lemma in_span_status:
  "sp_status (snd (fst (in_span sp run))) = (case fst run of Err e \<Rightarrow> Some (error_type e) | _ \<Rightarrow> None)"
  by (simp add: in_span_def client_operation_def start_client_operation_def Let_def split: outcome.split)

text \<open>
  Getting metadata panics on a read that ends without an event: the stream of the metadata exists,
  and the read starts beyond its end or asks for no event.
\<close>

lemma metadata_read_without_event_panics:
  assumes "read_stream env s node rpc opts (NameBytes (into_metadata_stream_name name)) (ro_max_count opts)
      = (Ok \<lparr>rd_channel_id = i, rd_inner = Closed # rest\<rparr>, msgs)"
  shows "map_option (fst \<circ> fst) (client_get_stream_metadata env j s node rpc name opts) = Some Panic"
  using assms
  by (simp add: client_get_stream_metadata_def Let_def metadata_answer_def read_next.simps)

text \<open>An append of one event sends its options and the event, whose trace context may have changed.\<close>

lemma append_payload_single:
  "\<exists>e'. append_payload env name opts [e] =
     [Some (AppendOptions
        \<lparr>aro_stream_identifier = Some \<lparr>stream_name = into_stream_name name\<rparr>,
         aro_expected_stream_revision = Some (apo_version opts)\<rparr>),
      Some (AppendProposed (proposed_message_from (ce_fresh env 0) e'))]
   \<and> ed_payload e' = ed_payload e \<and> ed_metadata e' = ed_metadata e \<and> ed_id_opt e' = ed_id_opt e"
  by (auto simp: append_payload_def append_req_from_def inject_event_context_def split: option.splits)

text \<open>What the server makes of an event whose record it answers with.\<close>

lemma recorded_event_read:
  assumes "recorded_as (proposed_message_from fresh e) sid w"
  shows "\<exists>r. recorded_event_from uuid_parse w = Ok r \<and> re_data r = ed_payload e
    \<and> stream_id r = sid \<and> re_revision r = wre_stream_revision w"
  using assms
  by (auto simp: recorded_as_def proposed_message_from_def recorded_event_from_Ok stream_id_def)

section \<open>Properties\<close>


text \<open>A store of JSON that keeps one value, and a server that keeps one record.\<close>

definition kept_metadata :: stream_metadata where
  "kept_metadata = builder_max_age 2000000001 (builder_max_count 5 metadata_new)"

definition kept_record :: wire_recorded_event where
  "kept_record =
     \<lparr>wre_id = Some (uuid_into 0), wre_stream_identifier = Some \<lparr>stream_name = ''$$s''\<rparr>,
      wre_stream_revision = 4, wre_prepare_position = 9, wre_commit_position = 9,
      wre_metadata = [(''type'', ''$metadata''), (''content-type'', ''application/json'')],
      wre_custom_metadata = [], wre_data = ''{}''\<rparr>"

definition kept_json :: json_lib where
  "kept_json =
     \<lparr>jl_to_vec = (\<lambda>_. Ok ''{}''), jl_from_slice = (\<lambda>_. Ok (serialize_metadata kept_metadata))\<rparr>"

definition kept_event :: event_data where
  "kept_event =
     \<lparr>ed_payload = ''{}'', ed_id_opt = None,
      ed_metadata = [(''type'', ''$metadata''), (''content-type'', ''application/json'')],
      ed_custom_metadata = None\<rparr>"

definition kept_payload :: "append_req list" where
  "kept_payload =
     [Some (AppendOptions
        \<lparr>aro_stream_identifier = Some \<lparr>stream_name = ''$$s''\<rparr>,
         aro_expected_stream_revision = Some (apo_version append_options_default)\<rparr>),
      Some (AppendProposed (proposed_message_from 0 kept_event))]"

definition keeping_append :: "handle \<Rightarrow> append_req list request \<Rightarrow> (status, append_resp) outcome" where
  "keeping_append h req =
     (if req_message req = kept_payload
      then Ok (Some (AppendSuccess
        \<lparr>as_current_revision_option = Some (SuccessCurrentRevision 4),
         as_position_option = Some SuccessNoPosition\<rparr>))
      else Err unavailable)"

lemma kept_append:
  "fst (fst (client_set_stream_metadata plain_client_env kept_json client_settings_default
      (Ok local_handle) keeping_append (NameStr ''s'') append_options_default kept_metadata)) =
   Ok \<lparr>wr_next_expected_version = 4, wr_position = position_start\<rparr>"
proof -
  have payload: "append_payload plain_client_env (NameBytes ''$$s'') append_options_default [kept_event] =
      kept_payload"
    by (simp add: append_payload_def kept_payload_def append_req_from_def inject_event_context_def
        plain_client_env_def)
  obtain req where req: "new_request plain_request_env client_settings_default append_kind
      append_options_default kept_payload = Ok req" "req_message req = kept_payload"
    using plain_request_Ok [of client_settings_default append_kind append_options_default kept_payload]
    by (auto simp: client_settings_default_def)
  have "ce_request plain_client_env = plain_request_env" by (simp add: plain_client_env_def)
  moreover have "event_data_json ''$metadata'' (Ok ''{}'') = Ok kept_event"
    by (simp add: event_data_json_def kept_event_def)
  ultimately show ?thesis
    using req payload
    by (simp add: client_set_stream_metadata_def Let_def kept_json_def append_to_stream_def
        call_node_def keeping_append_def write_result_from_def)
qed


end
