(* ===== verification/Reservation.thy ===== *)
theory Reservation
  imports Options Request Wire
begin

text \<open>
  The idempotent reservation of the examples (\<open>examples/idempotent_reservation.rs\<close>): an operation on
  an inventory is claimed, decided and finished in a stream of its own, each step by an append that
  expects the stream as it was read, so that a delivery may be repeated after any failure and by
  several clients at once. The client is the environment here: an append gives its result, and a
  read the events that \<open>next\<close> gives and how they end; both change the world, in which other clients
  work too. A named stream name, its identifiers and the JSON text of each type come from libraries.
\<close>

section \<open>Environment\<close>

record 'a json_codec =
  jc_to_vec :: "'a \<Rightarrow> (string, bytes) outcome"
  jc_from_slice :: "bytes \<Rightarrow> (string, 'a) outcome"

type_synonym operation_id = uuid
type_synonym reservation_id = uuid

record inventory_created =
  ic_sku :: string
  ic_available :: u32

record inventory_reserved =
  ir_operation_id :: operation_id
  ir_reservation_id :: reservation_id
  ir_client :: string
  ir_sku :: string
  ir_quantity :: u32

record inventory_released =
  il_operation_id :: operation_id
  il_reservation_id :: reservation_id
  il_sku :: string
  il_quantity :: u32

datatype inventory_operation = Reserve inventory_reserved | Release inventory_released

record operation_requested =
  oq_schema_version :: "8 word"
  oq_inventory_stream :: string
  oq_inventory_event_id :: uuid
  oq_inventory_event_type :: string
  oq_inventory_event_payload :: bytes
  oq_decision_event_id :: uuid
  oq_terminal_event_id :: uuid
  oq_operation :: inventory_operation

record operation_prepared =
  opp_operation_id :: operation_id
  opp_expected_inventory_revision :: u64

datatype inventory_rejection = WrongSku | InsufficientInventory u32 u32 | ReservationNotActive

record operation_rejected =
  orj_operation_id :: operation_id
  orj_reason :: inventory_rejection

record committed_inventory_write =
  ciw_inventory_revision :: u64
  ciw_commit_position :: u64
  ciw_prepare_position :: u64

record operation_completed =
  ocp_operation_id :: operation_id
  ocp_inventory_write :: committed_inventory_write

record inventory_conflict =
  icf_expected_inventory_revision :: u64
  icf_occupied_inventory_revision :: u64
  icf_occupying_event_id :: uuid

record operation_conflicted =
  ocf_operation_id :: operation_id
  ocf_conflict :: inventory_conflict

record 'w example_env =
  xe_append :: "string \<Rightarrow> append_options \<Rightarrow> event_data \<Rightarrow> 'w \<Rightarrow> (error, write_result) outcome \<times> 'w"
  xe_read :: "string \<Rightarrow> read_stream_options \<Rightarrow> 'w
    \<Rightarrow> (error, resolved_event list \<times> (error, unit) outcome) outcome \<times> 'w"
  xe_new_v4 :: "'w \<Rightarrow> uuid \<times> 'w"
  xe_new_v5 :: "uuid \<Rightarrow> string \<Rightarrow> uuid"
  xe_show_uuid :: "uuid \<Rightarrow> string"
  xe_created :: "inventory_created json_codec"
  xe_reserved :: "inventory_reserved json_codec"
  xe_released :: "inventory_released json_codec"
  xe_requested :: "operation_requested json_codec"
  xe_prepared :: "operation_prepared json_codec"
  xe_rejected :: "operation_rejected json_codec"
  xe_completed :: "operation_completed json_codec"
  xe_conflicted :: "operation_conflicted json_codec"

section \<open>Operations\<close>

definition INVENTORY_CREATED :: string where "INVENTORY_CREATED = ''inventory-created''"
definition INVENTORY_RESERVED :: string where "INVENTORY_RESERVED = ''inventory-reserved''"
definition INVENTORY_RELEASED :: string where "INVENTORY_RELEASED = ''inventory-released''"
definition OPERATION_REQUESTED :: string where "OPERATION_REQUESTED = ''inventory-operation-requested''"
definition OPERATION_PREPARED :: string where "OPERATION_PREPARED = ''inventory-operation-prepared''"
definition OPERATION_REJECTED :: string where "OPERATION_REJECTED = ''inventory-operation-rejected''"
definition OPERATION_COMPLETED :: string where "OPERATION_COMPLETED = ''inventory-operation-completed''"
definition OPERATION_CONFLICTED :: string where "OPERATION_CONFLICTED = ''inventory-operation-conflicted''"
definition OPERATION_SCHEMA_VERSION :: "8 word" where "OPERATION_SCHEMA_VERSION = 1"
definition MAX_DELIVERY_ATTEMPTS :: nat where "MAX_DELIVERY_ATTEMPTS = 3"

definition OPERATION_ID_NAMESPACE :: uuid where
  "OPERATION_ID_NAMESPACE = 0x74726f676f6e4576656e7453746f7265"

definition from_job_key :: "'w example_env \<Rightarrow> string \<Rightarrow> operation_id" where
  "from_job_key env job_key = xe_new_v5 env OPERATION_ID_NAMESPACE job_key"

definition operation_stream :: "'w example_env \<Rightarrow> operation_id \<Rightarrow> string" where
  "operation_stream env i = ''inventory-operation-'' @ xe_show_uuid env i"

definition op_reserve ::
  "operation_id \<Rightarrow> reservation_id \<Rightarrow> string \<Rightarrow> string \<Rightarrow> u32 \<Rightarrow> inventory_operation" where
  "op_reserve i r c sku quantity =
     Reserve \<lparr>ir_operation_id = i, ir_reservation_id = r, ir_client = c, ir_sku = sku,
              ir_quantity = quantity\<rparr>"

definition op_release :: "operation_id \<Rightarrow> reservation_id \<Rightarrow> string \<Rightarrow> u32 \<Rightarrow> inventory_operation" where
  "op_release i r sku quantity =
     Release \<lparr>il_operation_id = i, il_reservation_id = r, il_sku = sku, il_quantity = quantity\<rparr>"

fun op_operation_id :: "inventory_operation \<Rightarrow> operation_id" where
  "op_operation_id (Reserve e) = ir_operation_id e"
| "op_operation_id (Release e) = il_operation_id e"

fun op_reservation_id :: "inventory_operation \<Rightarrow> reservation_id" where
  "op_reservation_id (Reserve e) = ir_reservation_id e"
| "op_reservation_id (Release e) = il_reservation_id e"

fun op_event_type :: "inventory_operation \<Rightarrow> string" where
  "op_event_type (Reserve _) = INVENTORY_RESERVED"
| "op_event_type (Release _) = INVENTORY_RELEASED"

fun op_payload :: "'w example_env \<Rightarrow> inventory_operation \<Rightarrow> (string, bytes) outcome" where
  "op_payload env (Reserve e) = jc_to_vec (xe_reserved env) e"
| "op_payload env (Release e) = jc_to_vec (xe_released env) e"

text \<open>What ends a step: a client error, or one of the program's own. Only the first is retried.\<close>

datatype example_error =
    ClientError error
  | JsonError string
  | OperationIdConflict operation_id
  | InvalidOperationStream string

fun op_event_data ::
  "'w example_env \<Rightarrow> inventory_operation \<Rightarrow> uuid \<Rightarrow> (example_error, event_data) outcome" where
  "op_event_data env (Reserve e) i =
     map_ok (event_data_id i)
       (map_err JsonError (event_data_json INVENTORY_RESERVED (jc_to_vec (xe_reserved env) e)))"
| "op_event_data env (Release e) i =
     map_ok (event_data_id i)
       (map_err JsonError (event_data_json INVENTORY_RELEASED (jc_to_vec (xe_released env) e)))"

definition committed_from_write :: "write_result \<Rightarrow> committed_inventory_write" where
  "committed_from_write write =
     \<lparr>ciw_inventory_revision = wr_next_expected_version write,
      ciw_commit_position = pos_commit (wr_position write),
      ciw_prepare_position = pos_prepare (wr_position write)\<rparr>"

datatype operation_state =
    StRequested operation_requested
  | StPrepared operation_requested operation_prepared
  | StRejected operation_requested operation_rejected
  | StCompleted operation_requested operation_prepared operation_completed
  | StConflicted operation_requested operation_prepared operation_conflicted

fun state_requested :: "operation_state \<Rightarrow> operation_requested" where
  "state_requested (StRequested q) = q"
| "state_requested (StPrepared q _) = q"
| "state_requested (StRejected q _) = q"
| "state_requested (StCompleted q _ _) = q"
| "state_requested (StConflicted q _ _) = q"

fun state_revision :: "operation_state \<Rightarrow> nat" where
  "state_revision (StRequested _) = 0"
| "state_revision (StPrepared _ _) = 1"
| "state_revision (StRejected _ _) = 1"
| "state_revision (StCompleted _ _ _) = 2"
| "state_revision (StConflicted _ _ _) = 2"

datatype operation_outcome =
    OutCompleted committed_inventory_write
  | OutRejected inventory_rejection
  | OutConflicted inventory_conflict

section \<open>Replaying an inventory\<close>

record inventory_state =
  ivs_sku :: string
  ivs_available :: u32
  ivs_reservations :: "reservation_id \<rightharpoonup> u32"

record inventory_view =
  ivv_state :: inventory_state
  ivv_revision :: u64
  ivv_event_count :: usize

text \<open>The variables of the loop of \<open>read_inventory\<close>.\<close>

record replay =
  rp_sku :: "string option"
  rp_available :: u32
  rp_reservations :: "reservation_id \<rightharpoonup> u32"
  rp_revision :: "u64 option"
  rp_event_count :: usize

definition replay_start :: replay where
  "replay_start =
     \<lparr>rp_sku = None, rp_available = 0, rp_reservations = Map.empty, rp_revision = None,
      rp_event_count = 0\<rparr>"

definition as_json :: "'a json_codec \<Rightarrow> recorded_event \<Rightarrow> (example_error, 'a) outcome" where
  "as_json c event = map_err JsonError (jc_from_slice c (re_data event))"

definition replay_event :: "'w example_env \<Rightarrow> recorded_event \<Rightarrow> replay \<Rightarrow> (example_error, replay) outcome" where
  "replay_event env event rp0 =
     (let rp = rp0\<lparr>rp_revision := Some (re_revision event), rp_event_count := rp_event_count rp0 + 1\<rparr> in
      if re_event_type event = INVENTORY_CREATED then
        bind_outcome (as_json (xe_created env) event) (\<lambda>created.
          Ok (rp\<lparr>rp_sku := Some (ic_sku created), rp_available := ic_available created\<rparr>))
      else if re_event_type event = INVENTORY_RESERVED then
        bind_outcome (as_json (xe_reserved env) event) (\<lambda>reserved.
          if re_id event \<noteq> ir_operation_id reserved then Panic
          else if rp_available rp < ir_quantity reserved then Panic
          else if rp_reservations rp (ir_reservation_id reserved) \<noteq> None then Panic
          else Ok (rp\<lparr>rp_available := rp_available rp - ir_quantity reserved,
                      rp_reservations := (rp_reservations rp)(ir_reservation_id reserved \<mapsto> ir_quantity reserved)\<rparr>))
      else if re_event_type event = INVENTORY_RELEASED then
        bind_outcome (as_json (xe_released env) event) (\<lambda>released.
          if re_id event \<noteq> il_operation_id released then Panic
          else (case rp_reservations rp (il_reservation_id released) of
              None \<Rightarrow> Panic
            | Some quantity \<Rightarrow>
                if quantity \<noteq> il_quantity released then Panic
                else Ok (rp\<lparr>rp_available := rp_available rp + il_quantity released,
                            rp_reservations := (rp_reservations rp)(il_reservation_id released := None)\<rparr>)))
      else Panic)"

fun replay_events ::
  "'w example_env \<Rightarrow> resolved_event list \<Rightarrow> replay \<Rightarrow> (example_error, replay) outcome" where
  "replay_events env [] rp = Ok rp"
| "replay_events env (resolved # rest) rp =
     bind_outcome (get_original_event resolved) (\<lambda>event.
     bind_outcome (replay_event env event rp) (replay_events env rest))"

definition replay_view :: "replay \<Rightarrow> (example_error, inventory_view) outcome" where
  "replay_view rp =
     bind_outcome (unwrap (rp_sku rp)) (\<lambda>sku.
     bind_outcome (unwrap (rp_revision rp)) (\<lambda>rev.
       Ok \<lparr>ivv_state = \<lparr>ivs_sku = sku, ivs_available = rp_available rp,
                        ivs_reservations = rp_reservations rp\<rparr>,
           ivv_revision = rev, ivv_event_count = rp_event_count rp\<rparr>))"

text \<open>Each event is replayed before the next is awaited.\<close>

definition read_inventory ::
  "'w example_env \<Rightarrow> string \<Rightarrow> 'w \<Rightarrow> (example_error, inventory_view) outcome \<times> 'w" where
  "read_inventory env stream w =
     (case xe_read env stream read_stream_options_default w of
        (Ok (events, final), w1) \<Rightarrow>
          (bind_outcome (replay_events env events replay_start) (\<lambda>rp.
           bind_outcome (map_err ClientError final) (\<lambda>_. replay_view rp)), w1)
      | (Err e, w1) \<Rightarrow> (Err (ClientError e), w1)
      | (Panic, w1) \<Rightarrow> (Panic, w1))"

section \<open>Reading an operation\<close>

definition invalid_operation_stream :: "string \<Rightarrow> string \<Rightarrow> example_error" where
  "invalid_operation_stream stream message = InvalidOperationStream (stream @ '': '' @ message)"

datatype stored_decision =
    DecisionPrepared uuid operation_prepared
  | DecisionRejected uuid operation_rejected

datatype stored_terminal =
    TerminalCompleted uuid operation_completed
  | TerminalConflicted uuid operation_conflicted

text \<open>The variables of the loop: the request, the decision and the terminal event found so far.\<close>

record operation_entries =
  oe_requested :: "(uuid \<times> operation_requested) option"
  oe_decision :: "stored_decision option"
  oe_terminal :: "stored_terminal option"

definition no_entries :: operation_entries where
  "no_entries = \<lparr>oe_requested = None, oe_decision = None, oe_terminal = None\<rparr>"

definition operation_entry ::
  "'w example_env \<Rightarrow> string \<Rightarrow> recorded_event \<Rightarrow> operation_entries
     \<Rightarrow> (example_error, operation_entries) outcome" where
  "operation_entry env stream event entries =
     (let ty = re_event_type event; rev = re_revision event; i = re_id event in
      if ty = OPERATION_REQUESTED \<and> rev = 0 \<and> oe_requested entries = None then
        map_ok (\<lambda>q. entries\<lparr>oe_requested := Some (i, q)\<rparr>) (as_json (xe_requested env) event)
      else if ty = OPERATION_PREPARED \<and> rev = 1 \<and> oe_decision entries = None then
        map_ok (\<lambda>d. entries\<lparr>oe_decision := Some (DecisionPrepared i d)\<rparr>) (as_json (xe_prepared env) event)
      else if ty = OPERATION_REJECTED \<and> rev = 1 \<and> oe_decision entries = None then
        map_ok (\<lambda>d. entries\<lparr>oe_decision := Some (DecisionRejected i d)\<rparr>) (as_json (xe_rejected env) event)
      else if ty = OPERATION_COMPLETED \<and> rev = 2 \<and> oe_terminal entries = None then
        map_ok (\<lambda>t. entries\<lparr>oe_terminal := Some (TerminalCompleted i t)\<rparr>) (as_json (xe_completed env) event)
      else if ty = OPERATION_CONFLICTED \<and> rev = 2 \<and> oe_terminal entries = None then
        map_ok (\<lambda>t. entries\<lparr>oe_terminal := Some (TerminalConflicted i t)\<rparr>) (as_json (xe_conflicted env) event)
      else Err (invalid_operation_stream stream (''invalid event at revision '' @ show_nat (unat rev))))"

fun operation_loop ::
  "'w example_env \<Rightarrow> string \<Rightarrow> resolved_event list \<Rightarrow> operation_entries
     \<Rightarrow> (example_error, operation_entries) outcome" where
  "operation_loop env stream [] entries = Ok entries"
| "operation_loop env stream (resolved # rest) entries =
     bind_outcome (get_original_event resolved) (\<lambda>event.
     bind_outcome (operation_entry env stream event entries) (operation_loop env stream rest))"

definition request_consistent ::
  "'w example_env \<Rightarrow> operation_id \<Rightarrow> uuid \<Rightarrow> operation_requested \<Rightarrow> (example_error, bool) outcome" where
  "request_consistent env i request_event_id q =
     (if request_event_id \<noteq> i \<or> op_operation_id (oq_operation q) \<noteq> i
       \<or> oq_inventory_event_id q \<noteq> i \<or> oq_schema_version q \<noteq> OPERATION_SCHEMA_VERSION
       \<or> oq_inventory_event_type q \<noteq> op_event_type (oq_operation q)
      then Ok False
      else map_ok (\<lambda>payload. oq_inventory_event_payload q = payload)
             (map_err JsonError (op_payload env (oq_operation q))))"

text \<open>The last match of \<open>read_operation\<close>.\<close>

definition transition ::
  "string \<Rightarrow> operation_id \<Rightarrow> operation_requested \<Rightarrow> stored_decision option \<Rightarrow> stored_terminal option
     \<Rightarrow> (example_error, operation_state option) outcome" where
  "transition stream i q decision terminal =
     (let invalid = Err (invalid_operation_stream stream ''contains an invalid state transition'') in
      case (decision, terminal) of
        (None, None) \<Rightarrow> Ok (Some (StRequested q))
      | (Some (DecisionPrepared di d), None) \<Rightarrow>
          (if di = oq_decision_event_id q \<and> opp_operation_id d = i
           then Ok (Some (StPrepared q d)) else invalid)
      | (Some (DecisionRejected di d), None) \<Rightarrow>
          (if di = oq_decision_event_id q \<and> orj_operation_id d = i
           then Ok (Some (StRejected q d)) else invalid)
      | (Some (DecisionPrepared di d), Some (TerminalCompleted ti t)) \<Rightarrow>
          (if di = oq_decision_event_id q \<and> ti = oq_terminal_event_id q
             \<and> opp_operation_id d = i \<and> ocp_operation_id t = i
           then Ok (Some (StCompleted q d t)) else invalid)
      | (Some (DecisionPrepared di d), Some (TerminalConflicted ti t)) \<Rightarrow>
          (if di = oq_decision_event_id q \<and> ti = oq_terminal_event_id q
             \<and> opp_operation_id d = i \<and> ocf_operation_id t = i
           then Ok (Some (StConflicted q d t)) else invalid)
      | _ \<Rightarrow> invalid)"

definition operation_check ::
  "'w example_env \<Rightarrow> operation_id \<Rightarrow> string \<Rightarrow> operation_entries
     \<Rightarrow> (example_error, operation_state option) outcome" where
  "operation_check env i stream entries =
     (case oe_requested entries of
        None \<Rightarrow>
          (if oe_decision entries = None \<and> oe_terminal entries = None then Ok None
           else Err (invalid_operation_stream stream ''contains progress without a request''))
      | Some (event_id, q) \<Rightarrow>
          bind_outcome (request_consistent env i event_id q) (\<lambda>consistent.
            if \<not> consistent
            then Err (invalid_operation_stream stream ''contains an inconsistent request'')
            else transition stream i q (oe_decision entries) (oe_terminal entries)))"

definition read_operation ::
  "'w example_env \<Rightarrow> operation_id \<Rightarrow> 'w \<Rightarrow> (example_error, operation_state option) outcome \<times> 'w" where
  "read_operation env i w =
     (let stream = operation_stream env i in
      case xe_read env stream (read_stream_max_count 4 read_stream_options_default) w of
        (Err e, w1) \<Rightarrow> ((if e = ResourceNotFound then Ok None else Err (ClientError e)), w1)
      | (Panic, w1) \<Rightarrow> (Panic, w1)
      | (Ok (events, final), w1) \<Rightarrow>
          (bind_outcome (operation_loop env stream events no_entries) (\<lambda>entries.
             case final of
               Ok _ \<Rightarrow> operation_check env i stream entries
             | Err e \<Rightarrow> (if e = ResourceNotFound then Ok None else Err (ClientError e))
             | Panic \<Rightarrow> Panic), w1))"

section \<open>The steps of an operation\<close>

text \<open>\<open>m(..).await?\<close> before the rest of a function.\<close>

definition bind_step ::
  "(example_error, 'a) outcome \<times> 'w \<Rightarrow> ('a \<Rightarrow> 'w \<Rightarrow> (example_error, 'b) outcome \<times> 'w)
     \<Rightarrow> (example_error, 'b) outcome \<times> 'w" where
  "bind_step m k =
     (case m of
        (Ok a, w) \<Rightarrow> k a w
      | (Err e, w) \<Rightarrow> (Err e, w)
      | (Panic, w) \<Rightarrow> (Panic, w))"

definition validate_request ::
  "'w example_env \<Rightarrow> operation_state \<Rightarrow> string \<Rightarrow> inventory_operation \<Rightarrow> (example_error, unit) outcome" where
  "validate_request env state inventory_stream operation =
     (let q = state_requested state; conflict = Err (OperationIdConflict (op_operation_id operation)) in
      if oq_inventory_stream q \<noteq> inventory_stream \<or> oq_operation q \<noteq> operation
        \<or> oq_inventory_event_type q \<noteq> op_event_type operation
      then conflict
      else bind_outcome (map_err JsonError (op_payload env operation)) (\<lambda>payload.
        if oq_inventory_event_payload q \<noteq> payload then conflict else Ok ()))"

text \<open>The append's own result counts only when what is stored does not show its transition.\<close>

definition append_operation_event ::
  "'w example_env \<Rightarrow> operation_id \<Rightarrow> stream_state \<Rightarrow> nat \<Rightarrow> event_data \<Rightarrow> 'w
     \<Rightarrow> (example_error, operation_state) outcome \<times> 'w" where
  "append_operation_event env i expected_revision minimum_stored_revision event w =
     (let stream = operation_stream env i;
          opts = append_stream_state expected_revision append_options_default in
      case xe_append env stream opts event w of
        (Panic, w1) \<Rightarrow> (Panic, w1)
      | (appended, w1) \<Rightarrow>
          bind_step (read_operation env i w1) (\<lambda>stored w2.
            ((case stored of
                Some state \<Rightarrow>
                  (if minimum_stored_revision \<le> state_revision state then Ok state
                   else (case appended of
                       Err e \<Rightarrow> Err (ClientError e)
                     | _ \<Rightarrow> Err (invalid_operation_stream stream ''did not retain the appended transition'')))
              | None \<Rightarrow>
                  (case appended of
                     Err e \<Rightarrow> Err (ClientError e)
                   | _ \<Rightarrow> Err (invalid_operation_stream stream ''did not retain the appended transition''))), w2)))"

definition claim_operation ::
  "'w example_env \<Rightarrow> string \<Rightarrow> inventory_operation \<Rightarrow> 'w
     \<Rightarrow> (example_error, operation_state) outcome \<times> 'w" where
  "claim_operation env inventory_stream operation w =
     (let i = op_operation_id operation in
      bind_step (read_operation env i w) (\<lambda>found w1.
        case found of
          Some state \<Rightarrow> (map_ok (\<lambda>_. state) (validate_request env state inventory_stream operation), w1)
        | None \<Rightarrow>
            bind_step (map_err JsonError (op_payload env operation), w1) (\<lambda>payload w1.
            let (decision_id, w2) = xe_new_v4 env w1;
                (terminal_id, w3) = xe_new_v4 env w2;
                q = \<lparr>oq_schema_version = OPERATION_SCHEMA_VERSION,
                     oq_inventory_stream = inventory_stream,
                     oq_inventory_event_id = i,
                     oq_inventory_event_type = op_event_type operation,
                     oq_inventory_event_payload = payload,
                     oq_decision_event_id = decision_id,
                     oq_terminal_event_id = terminal_id,
                     oq_operation = operation\<rparr> in
            bind_step (map_err JsonError
                (event_data_json OPERATION_REQUESTED (jc_to_vec (xe_requested env) q)), w3) (\<lambda>event w3.
            bind_step (append_operation_event env i NoStream 0 (event_data_id i event) w3) (\<lambda>stored w4.
              (map_ok (\<lambda>_. stored) (validate_request env stored inventory_stream operation), w4))))))"

definition reject_inventory_command ::
  "inventory_state \<Rightarrow> inventory_operation \<Rightarrow> inventory_rejection option" where
  "reject_inventory_command inventory operation =
     (case operation of
        Reserve e \<Rightarrow>
          (if ir_sku e \<noteq> ivs_sku inventory then Some WrongSku
           else if ivs_available inventory < ir_quantity e
           then Some (InsufficientInventory (ivs_available inventory) (ir_quantity e))
           else None)
      | Release e \<Rightarrow>
          (if il_sku e \<noteq> ivs_sku inventory then Some WrongSku
           else if ivs_reservations inventory (il_reservation_id e) \<noteq> Some (il_quantity e)
           then Some ReservationNotActive
           else None))"

definition decision_event ::
  "'w example_env \<Rightarrow> operation_requested \<Rightarrow> inventory_view \<Rightarrow> (example_error, event_data) outcome" where
  "decision_event env q inventory =
     (let i = op_operation_id (oq_operation q) in
      map_err JsonError
        (case reject_inventory_command (ivv_state inventory) (oq_operation q) of
           Some reason \<Rightarrow>
             event_data_json OPERATION_REJECTED
               (jc_to_vec (xe_rejected env) \<lparr>orj_operation_id = i, orj_reason = reason\<rparr>)
         | None \<Rightarrow>
             event_data_json OPERATION_PREPARED
               (jc_to_vec (xe_prepared env)
                 \<lparr>opp_operation_id = i, opp_expected_inventory_revision = ivv_revision inventory\<rparr>)))"

definition decide_requested ::
  "'w example_env \<Rightarrow> operation_requested \<Rightarrow> 'w \<Rightarrow> (example_error, operation_state) outcome \<times> 'w" where
  "decide_requested env q w =
     bind_step (read_inventory env (oq_inventory_stream q) w) (\<lambda>inventory w1.
     bind_step (decision_event env q inventory, w1) (\<lambda>event w1.
       append_operation_event env (op_operation_id (oq_operation q)) (StreamRevision 0) 1
         (event_data_id (oq_decision_event_id q) event) w1))"

definition prepare_operation ::
  "'w example_env \<Rightarrow> string \<Rightarrow> inventory_operation \<Rightarrow> 'w
     \<Rightarrow> (example_error, operation_state) outcome \<times> 'w" where
  "prepare_operation env inventory_stream operation w =
     bind_step (claim_operation env inventory_stream operation w) (\<lambda>state w1.
       case state of
         StRequested q \<Rightarrow> decide_requested env q w1
       | _ \<Rightarrow> (Ok state, w1))"

end
