(* ===== verification/Spec2Isabelle.thy ===== *)
theory Spec2Isabelle
  imports Positions Metadata Batch Subscription Management Projection Stats Operations Facade Reservation
begin

text \<open>
  A verification development of the Rust client of TrogonEventStore: the crate
  \<open>trogon-eventstore\<close> (sources under \<open>src/trogon-eventstore/src\<close>), its options macro and its extras.

  \<^bold>\<open>The program.\<close> A client owns one actor (\<open>grpc.rs\<close>, \<open>connection_state_machine\<close>) that holds the
  current connection to a node. A command asks it for a handle (\<open>current_selected_node\<close>), builds a
  request from its options and the settings of the connection string (\<open>request.rs\<close>, \<open>options/\<close>),
  makes a gRPC call, converts the answer (\<open>event_store/generated.rs\<close>), and reports an error back to
  the actor (\<open>handle_error\<close>), which may choose another node (\<open>operations/gossip.rs\<close>). Subscriptions
  and batch appends are long-lived: a loop that subscribes again after a failure, and a second
  actor that pairs answers with requests (\<open>batch.rs\<close>). Every public call runs in an OpenTelemetry
  span (\<open>observability.rs\<close>).

  \<^bold>\<open>The theories.\<close> Each models the file or part it names, one definition per operation, with the
  source's branches and early returns; a struct is a record with prefixed fields, an enum a
  datatype, a \<open>Result\<close> the type \<open>outcome\<close>, whose \<open>Panic\<close> is an \<open>unwrap\<close>, \<open>expect\<close> or
  \<open>unreachable!\<close> that fails, and a machine integer a word.

  \<^item> \<open>Prelude\<close>: results, integers, strings and durations of the standard library, integer parsing
    and printing, actors over a mailbox, loops, and the interfaces \<open>actor_invariant\<close>,
    \<open>actor_account\<close>, \<open>actor_stop\<close> and \<open>codec\<close>.
  \<^item> \<open>Types\<close>, \<open>PersistentTypes\<close> (\<open>types.rs\<close>): credentials, positions, events, errors and the reading of
    a gRPC status; settings, statistics and filters of persistent subscriptions.
  \<^item> \<open>Serde\<close>, \<open>Metadata\<close>, \<open>Positions\<close>: what a serializer writes and a deserializer shows its visitor;
    stream metadata and access lists; positions and start points as text.
  \<^item> \<open>Json\<close>: \<open>serde_json\<close> values and their ordered maps, with the interface \<open>retaining_map\<close>.
  \<^item> \<open>Messages\<close>, \<open>Wire\<close>: the protobuf messages and every conversion of \<open>event_store/generated.rs\<close>.
  \<^item> \<open>Features\<close> (\<open>server_features.rs\<close>), \<open>NodeSelection\<close> (\<open>gossip.rs\<close> and the selection of \<open>grpc.rs\<close>),
    \<open>Settings\<close> (the connection string), \<open>Connection\<close> (the connection loops and the actor).
  \<^item> \<open>Options\<close> (\<open>options/\<close> and the macro), \<open>Request\<close> (\<open>request.rs\<close>, \<open>new_request\<close>).
  \<^item> \<open>Observability\<close> (\<open>observability.rs\<close>): spans and the trace context kept in event metadata.
  \<^item> \<open>Command\<close>: the shape of a command and the interface \<open>node_command\<close>, what a command does to the
    connection; \<open>StreamCommands\<close>: append, read, delete, tombstone, and the reader's loop.
  \<^item> \<open>Batch\<close> (\<open>batch.rs\<close>, \<open>batch_append\<close>): the batch actor, its client and its session.
  \<^item> \<open>Subscription\<close>: catch-up subscriptions with their retries.
  \<^item> \<open>Http\<close> (\<open>http/\<close>), \<open>PersistentSub\<close>, \<open>Management\<close> (\<open>commands.rs\<close>): the groups of persistent
    subscriptions: what an older server is asked over HTTP; making, changing and consuming a group;
    listing, reading and replaying groups over either transport.
  \<^item> \<open>Projection\<close> (\<open>projection_client.rs\<close>): the commands, the stream of statistics, and the
    conversion of protobuf values to JSON.
  \<^item> \<open>Operations\<close> (\<open>operations/mod.rs\<close>): scavenging and the administration of nodes and users.
  \<^item> \<open>Stats\<close> (\<open>trogon-eventstore-extras\<close>): server statistics parsed into records.
  \<^item> \<open>Facade\<close> (\<open>client.rs\<close>): the methods of the client, each a command in its span, and the metadata
    of streams.
  \<^item> \<open>Reservation\<close> (\<open>examples/idempotent_reservation.rs\<close>): inventories and the operations on them.

  \<^bold>\<open>The environment.\<close> What is not under \<open>src/\<close> is a parameter: parsing of URLs, UUIDs and URIs, the
  nom combinators, base64, JSON text (\<open>json_lib\<close>), dates, the rounding of decimals to floats, header
  validity, trace propagation (\<open>request_env\<close>, \<open>trace_env\<close>), the HTTP client and what it reads from a
  body (\<open>http_env\<close>), and the network, the clock and random numbers, whose world is threaded through
  (\<open>net_env\<close>, \<open>sub_env\<close>). A gRPC call of a command is a function of the handle and the request; a
  response stream is the list of the outcomes of \<open>try_next\<close>, and its end means that nothing has
  arrived yet. Hypotheses on a parameter state what its documentation says and are discharged on
  concrete environments by the witnesses.

  \<^bold>\<open>What is proved.\<close> The properties C1 to C40 stand beside the components they are about: the
  connection actor (consistency of what it holds, when it keeps its node, moves, or stops for good,
  how many requests connecting takes), the choice of nodes, the connection string, headers and
  timeouts of every request, round trips of positions, metadata, settings and events, the
  commands and what their failures do to the connection, exactly-once delivery of subscriptions
  across failures, conservation and routing of batch appends, the persistence of trace contexts,
  metadata set and read through the client, acknowledgements and the agreement of the two transports
  of persistent subscriptions, the conversion of projection values against its recursive
  definition, the independence of parsed statistics from the order of a hash map, and the panics
  and divergences that the model exhibits.

  \<^bold>\<open>Bounds.\<close> No fuel is used. The connection loop ends by a measure on the attempts left, readers
  shorten the list of polls, the conversion of a value lowers the weight of its stack. A
  subscription may be kept going for ever by its server, so its loop is \<open>repeat\<close>, where \<open>None\<close> is a
  loop that does not return, and returning is proved where it is claimed.

  \<^bold>\<open>Not modelled.\<close> Logging; the generated gRPC stubs, which only encode a message and forward it, and
  the messages nobody uses; the build-time generator and the tests; channels of tokio beyond their
  order and the dropping of senders; TLS and the HTTP client behind a handle; the text of errors
  derived by serde; the other example programs, which print what a few calls return.
\<close>

end
